(* ===== verification/Hsm_Prelude.thy ===== *)
theory Hsm_Prelude
  imports "HOL-Library.Word" "HOL-Library.AList"
begin

text \<open>
  Shared vocabulary of the development: names for the machine types of the source, the result
  type of fallible functions, little-endian byte encodings of fixed-width integers, and generic
  facts on lists, association lists and words that the component theories use.

  Concurrent hash maps of the source (\<open>DashMap\<close>) are association lists with distinct keys: the
  position of an entry plays the role of the unspecified iteration order of the map, so a fact
  proved for every such list holds for every iteration order.
\<close>

section \<open>Machine types\<close>

type_synonym byte = "8 word"
type_synonym u16 = "16 word"
type_synonym u32 = "32 word"
type_synonym u64 = "64 word"
type_synonym ck_ulong = "64 word"
type_synonym ck_rv = "64 word"
type_synonym bytes = "8 word list"

text \<open>The address of an object that is shared by reference.\<close>

type_synonym obj_ref = nat

unbundle bit_operations_syntax

named_theorems hsm_defs \<open>unfolding rules of small helper definitions\<close>
named_theorems al_simps \<open>lookup after update and delete in association lists\<close>
named_theorems pres_intros \<open>preservation of invariants by operations\<close>

section \<open>Results\<close>

text \<open>A fallible function returns \<open>Inl e\<close> for \<open>Err(e)\<close> and \<open>Inr x\<close> for \<open>Ok(x)\<close>;
  \<open>res_bind\<close> is the question-mark operator.\<close>

definition res_bind :: "'e + 'a \<Rightarrow> ('a \<Rightarrow> 'e + 'b) \<Rightarrow> 'e + 'b" where
  "res_bind r f = (case r of Inl e \<Rightarrow> Inl e | Inr x \<Rightarrow> f x)"

definition res_map :: "('a \<Rightarrow> 'b) \<Rightarrow> 'e + 'a \<Rightarrow> 'e + 'b" where
  "res_map f r = (case r of Inl e \<Rightarrow> Inl e | Inr x \<Rightarrow> Inr (f x))"

definition is_ok :: "'e + 'a \<Rightarrow> bool" where
  "is_ok r = (case r of Inl _ \<Rightarrow> False | Inr _ \<Rightarrow> True)"

definition ok_or :: "'e \<Rightarrow> 'a option \<Rightarrow> 'e + 'a" where
  "ok_or e x = (case x of None \<Rightarrow> Inl e | Some y \<Rightarrow> Inr y)"

lemma res_bind_simps [simp]:
  "res_bind (Inl e) f = Inl e"
  "res_bind (Inr x) f = f x"
  by (simp_all add: res_bind_def)

lemma res_bind_eq_Inr:
  "res_bind r f = Inr y \<longleftrightarrow> (\<exists>x. r = Inr x \<and> f x = Inr y)"
  by (cases r) simp_all

lemma res_bind_eq_Inl:
  "res_bind r f = Inl e \<longleftrightarrow> r = Inl e \<or> (\<exists>x. r = Inr x \<and> f x = Inl e)"
  by (cases r) simp_all

lemma res_map_simps [simp]:
  "res_map f (Inl e) = Inl e"
  "res_map f (Inr x) = Inr (f x)"
  by (simp_all add: res_map_def)

lemma is_ok_simps [simp]:
  "\<not> is_ok (Inl e)"
  "is_ok (Inr x)"
  by (simp_all add: is_ok_def)

lemma ok_or_simps [simp]:
  "ok_or e None = Inl e"
  "ok_or e (Some x) = Inr x"
  by (simp_all add: ok_or_def)

section \<open>Association lists\<close>

lemma al_update_lookup [simp, al_simps]:
  "map_of (AList.update k v al) k' = (if k = k' then Some v else map_of al k')"
  by (auto simp: update_conv')

lemma al_delete_lookup [simp, al_simps]:
  "map_of (AList.delete k al) k' = (if k = k' then None else map_of al k')"
  by (auto simp: delete_conv')

lemma al_delete_set:
  "set (AList.delete k al) = {p \<in> set al. fst p \<noteq> k}"
  by (auto simp: AList.delete_eq)

lemma al_update_new:
  "k \<notin> fst ` set al \<Longrightarrow> AList.update k v al = al @ [(k, v)]"
  by (induction al) auto

lemma al_update_length:
  "length (AList.update k v al) = (if k \<in> fst ` set al then length al else Suc (length al))"
  by (induction al) auto

lemma al_delete_length_le:
  "length (AList.delete k al) \<le> length al"
  by (simp add: AList.delete_eq)

lemma al_Ball_update:
  assumes "\<forall>(k', w) \<in> set al. P k' w" "P k v"
  shows "\<forall>(k', w) \<in> set (AList.update k v al). P k' w"
  using assms by (induction al) auto

lemma al_Ball_delete:
  "\<forall>(k', w) \<in> set al. P k' w \<Longrightarrow> \<forall>(k', w) \<in> set (AList.delete k al). P k' w"
  by (auto simp: AList.delete_eq)

lemma map_of_in_set:
  "map_of al k = Some v \<Longrightarrow> (k, v) \<in> set al"
  by (rule map_of_SomeD)

lemma distinct_map_fst_map [simp]:
  "map fst (map (\<lambda>(k, v). (k, f k v)) al) = map fst al"
  by (induction al) auto

lemma count_delete:
  "distinct (map fst xs) \<Longrightarrow> map_of xs k = Some v \<Longrightarrow>
   length (filter P xs) = length (filter P (AList.delete k xs)) + of_bool (P (k, v))"
proof (induction xs)
  case (Cons p xs)
  show ?case
  proof (cases "fst p = k")
    case True
    then have "AList.delete k xs = xs" using Cons.prems by (auto simp: delete_id)
    then show ?thesis using True Cons.prems by (cases p) (auto simp: AList.delete_eq)
  next
    case False
    then show ?thesis using Cons by (cases p) (auto simp: AList.delete_eq)
  qed
qed simp

lemma count_update_new:
  "map_of xs k = None \<Longrightarrow> length (filter P (AList.update k v xs)) = length (filter P xs) + of_bool (P (k, v))"
  by (induction xs) auto

lemma count_update_same:
  "map_of xs k = Some v \<Longrightarrow> distinct (map fst xs) \<Longrightarrow> P (k, v') = P (k, v) \<Longrightarrow>
   length (filter P (AList.update k v' xs)) = length (filter P xs)"
  by (induction xs) auto

lemma al_update_memD: "p \<in> set (AList.update k v al) \<Longrightarrow> p = (k, v) \<or> p \<in> set al"
  by (induction al) (auto split: if_splits)

lemma distinct_snd_update:
  "distinct (map snd al) \<Longrightarrow> v \<notin> snd ` set al \<Longrightarrow> distinct (map snd (AList.update k v al))"
proof (induction al)
  case (Cons p al)
  have "snd q \<noteq> snd p" if "q \<in> set (AList.update k v al)" for q
    using al_update_memD [OF that] Cons.prems by (cases q) (auto simp: image_iff)
  then have "snd p \<notin> snd ` set (AList.update k v al)" by (metis imageE)
  then show ?case using Cons by (cases p) auto
qed simp

lemma map_of_map_val:
  "map_of (map (\<lambda>(k, v). (k, f k v)) al) k = map_option (f k) (map_of al k)"
  by (induction al) auto

section \<open>Little-endian encodings\<close>

text \<open>\<open>le_bytes n x\<close> lists the \<open>n\<close> low bytes of a word, least significant first, as
  \<open>to_le_bytes\<close> does for a word of \<open>8 * n\<close> bits; \<open>le_word\<close> is \<open>from_le_bytes\<close>.\<close>

fun le_bytes :: "nat \<Rightarrow> 'a::len word \<Rightarrow> bytes" where
  "le_bytes 0 x = []"
| "le_bytes (Suc n) x = ucast x # le_bytes n (drop_bit 8 x)"

fun le_word :: "bytes \<Rightarrow> 'a::len word" where
  "le_word [] = 0"
| "le_word (b # bs) = ucast b OR push_bit 8 (le_word bs)"

definition u64_le :: "u64 \<Rightarrow> bytes" where
  "u64_le x = le_bytes 8 x"

definition u32_le :: "u32 \<Rightarrow> bytes" where
  "u32_le x = le_bytes 4 x"

lemma le_bytes_length [simp]: "length (le_bytes n x) = n"
  by (induction n arbitrary: x) auto

lemma u64_le_length [simp]: "length (u64_le x) = 8"
  by (simp add: u64_le_def)

lemma u32_le_length [simp]: "length (u32_le x) = 4"
  by (simp add: u32_le_def)

lemma bit_le_word_le_bytes:
  fixes x :: "'a::len word"
  shows "bit (le_word (le_bytes n x) :: 'a word) i \<longleftrightarrow> i < 8 * n \<and> bit x i"
proof (induction n arbitrary: x i)
  case (Suc n)
  show ?case
  proof (cases "i < 8")
    case True
    then show ?thesis
      by (auto simp: bit_or_iff bit_ucast_iff bit_push_bit_iff dest: bit_imp_le_length)
  next
    case False
    then show ?thesis
      using Suc.IH [of "drop_bit 8 x" "i - 8"]
      by (auto simp: bit_or_iff bit_ucast_iff bit_push_bit_iff bit_drop_bit_eq bit_simps
          dest: bit_imp_le_length)
  qed
qed simp

lemma le_word_le_bytes:
  fixes x :: "'a::len word"
  assumes "LENGTH('a) \<le> 8 * n"
  shows "le_word (le_bytes n x) = x"
  using assms
  by (intro bit_eqI) (auto simp: bit_le_word_le_bytes dest: bit_imp_le_length)

lemma le_word_u64_le [simp]: "le_word (u64_le x) = x"
  unfolding u64_le_def by (rule le_word_le_bytes) simp

lemma le_word_u32_le [simp]: "le_word (u32_le x) = x"
  unfolding u32_le_def by (rule le_word_le_bytes) simp

lemma u64_le_inject [simp]: "u64_le x = u64_le y \<longleftrightarrow> x = y"
  by (metis le_word_u64_le)

lemma u32_le_inject [simp]: "u32_le x = u32_le y \<longleftrightarrow> x = y"
  by (metis le_word_u32_le)

section \<open>Lists and counting\<close>

lemma length_alist_update:
  "length (AList.update k v m) = (if k \<in> fst ` set m then length m else Suc (length m))"
  by (induction m) auto

lemma take_append_exact [simp]: "length xs = n \<Longrightarrow> take n (xs @ ys) = xs"
  by simp

lemma drop_append_exact [simp]: "length xs = n \<Longrightarrow> drop n (xs @ ys) = ys"
  by simp

lemma mod_add_left_inj:
  fixes a i j N :: nat
  assumes "i < N" "j < N" "(a + i) mod N = (a + j) mod N"
  shows "i = j"
proof -
  have *: "i = j" if "i \<le> j" "j < N" "(a + i) mod N = (a + j) mod N" for i j
  proof -
    have "N dvd (a + j) - (a + i)"
      using that by (metis add_left_mono mod_eq_dvd_iff_nat)
    then show ?thesis
      using that by (auto dest!: dvd_imp_le)
  qed
  show ?thesis
    using * [of i j] * [of j i] assms by (cases "i \<le> j") auto
qed

lemma unat_Suc_less:
  fixes x y :: "'a::len word"
  assumes "x < y"
  shows "unat (x + 1) = Suc (unat x)"
proof -
  have "Suc (unat x) \<le> unat y"
    using assms by (simp add: word_less_nat_alt)
  also have "\<dots> < 2 ^ LENGTH('a)"
    by (rule unsigned_less)
  finally show ?thesis
    by (simp add: unat_word_ariths)
qed

lemma length_filter_le_Suc:
  "length (filter P (xs @ [x])) = length (filter P xs) + (if P x then 1 else 0)"
  by simp

end
