(* ===== verification/Pkcs11_Constants.thy ===== *)
theory Pkcs11_Constants
  imports Hsm_Prelude
begin

text \<open>
  The numeric constants of \<open>src/src/pkcs11_abi/constants.rs\<close> for a target whose
  \<open>c_ulong\<close> has 64 bits. They are abbreviations, so the simplifier compares the numerals.
\<close>

section \<open>Return values (constants.rs, CKR)\<close>

abbreviation (input) CKR_OK :: ck_ulong where "CKR_OK \<equiv> 0"
abbreviation (input) CKR_CANCEL :: ck_ulong where "CKR_CANCEL \<equiv> 0x1"
abbreviation (input) CKR_HOST_MEMORY :: ck_ulong where "CKR_HOST_MEMORY \<equiv> 0x2"
abbreviation (input) CKR_SLOT_ID_INVALID :: ck_ulong where "CKR_SLOT_ID_INVALID \<equiv> 0x3"
abbreviation (input) CKR_GENERAL_ERROR :: ck_ulong where "CKR_GENERAL_ERROR \<equiv> 0x5"
abbreviation (input) CKR_FUNCTION_FAILED :: ck_ulong where "CKR_FUNCTION_FAILED \<equiv> 0x6"
abbreviation (input) CKR_NO_EVENT :: ck_ulong where "CKR_NO_EVENT \<equiv> 0x8"
abbreviation (input) CKR_ARGUMENTS_BAD :: ck_ulong where "CKR_ARGUMENTS_BAD \<equiv> 0x7"
abbreviation (input) CKR_ATTRIBUTE_READ_ONLY :: ck_ulong where "CKR_ATTRIBUTE_READ_ONLY \<equiv> 0x10"
abbreviation (input) CKR_ATTRIBUTE_SENSITIVE :: ck_ulong where "CKR_ATTRIBUTE_SENSITIVE \<equiv> 0x11"
abbreviation (input) CKR_ATTRIBUTE_TYPE_INVALID :: ck_ulong where "CKR_ATTRIBUTE_TYPE_INVALID \<equiv> 0x12"
abbreviation (input) CKR_ATTRIBUTE_VALUE_INVALID :: ck_ulong where "CKR_ATTRIBUTE_VALUE_INVALID \<equiv> 0x13"
abbreviation (input) CKR_DATA_INVALID :: ck_ulong where "CKR_DATA_INVALID \<equiv> 0x20"
abbreviation (input) CKR_DATA_LEN_RANGE :: ck_ulong where "CKR_DATA_LEN_RANGE \<equiv> 0x21"
abbreviation (input) CKR_DEVICE_ERROR :: ck_ulong where "CKR_DEVICE_ERROR \<equiv> 0x30"
abbreviation (input) CKR_DEVICE_MEMORY :: ck_ulong where "CKR_DEVICE_MEMORY \<equiv> 0x31"
abbreviation (input) CKR_DEVICE_REMOVED :: ck_ulong where "CKR_DEVICE_REMOVED \<equiv> 0x32"
abbreviation (input) CKR_ENCRYPTED_DATA_INVALID :: ck_ulong where "CKR_ENCRYPTED_DATA_INVALID \<equiv> 0x40"
abbreviation (input) CKR_ENCRYPTED_DATA_LEN_RANGE :: ck_ulong where "CKR_ENCRYPTED_DATA_LEN_RANGE \<equiv> 0x41"
abbreviation (input) CKR_FUNCTION_CANCELED :: ck_ulong where "CKR_FUNCTION_CANCELED \<equiv> 0x50"
abbreviation (input) CKR_FUNCTION_NOT_PARALLEL :: ck_ulong where "CKR_FUNCTION_NOT_PARALLEL \<equiv> 0x51"
abbreviation (input) CKR_FUNCTION_NOT_SUPPORTED :: ck_ulong where "CKR_FUNCTION_NOT_SUPPORTED \<equiv> 0x54"
abbreviation (input) CKR_KEY_HANDLE_INVALID :: ck_ulong where "CKR_KEY_HANDLE_INVALID \<equiv> 0x60"
abbreviation (input) CKR_KEY_SIZE_RANGE :: ck_ulong where "CKR_KEY_SIZE_RANGE \<equiv> 0x62"
abbreviation (input) CKR_KEY_TYPE_INCONSISTENT :: ck_ulong where "CKR_KEY_TYPE_INCONSISTENT \<equiv> 0x63"
abbreviation (input) CKR_KEY_NOT_NEEDED :: ck_ulong where "CKR_KEY_NOT_NEEDED \<equiv> 0x64"
abbreviation (input) CKR_KEY_CHANGED :: ck_ulong where "CKR_KEY_CHANGED \<equiv> 0x65"
abbreviation (input) CKR_KEY_NEEDED :: ck_ulong where "CKR_KEY_NEEDED \<equiv> 0x66"
abbreviation (input) CKR_KEY_INDIGESTIBLE :: ck_ulong where "CKR_KEY_INDIGESTIBLE \<equiv> 0x67"
abbreviation (input) CKR_KEY_FUNCTION_NOT_PERMITTED :: ck_ulong where "CKR_KEY_FUNCTION_NOT_PERMITTED \<equiv> 0x68"
abbreviation (input) CKR_KEY_NOT_WRAPPABLE :: ck_ulong where "CKR_KEY_NOT_WRAPPABLE \<equiv> 0x69"
abbreviation (input) CKR_KEY_UNEXTRACTABLE :: ck_ulong where "CKR_KEY_UNEXTRACTABLE \<equiv> 0x6A"
abbreviation (input) CKR_MECHANISM_INVALID :: ck_ulong where "CKR_MECHANISM_INVALID \<equiv> 0x70"
abbreviation (input) CKR_MECHANISM_PARAM_INVALID :: ck_ulong where "CKR_MECHANISM_PARAM_INVALID \<equiv> 0x71"
abbreviation (input) CKR_OBJECT_HANDLE_INVALID :: ck_ulong where "CKR_OBJECT_HANDLE_INVALID \<equiv> 0x82"
abbreviation (input) CKR_OPERATION_ACTIVE :: ck_ulong where "CKR_OPERATION_ACTIVE \<equiv> 0x90"
abbreviation (input) CKR_OPERATION_NOT_INITIALIZED :: ck_ulong where "CKR_OPERATION_NOT_INITIALIZED \<equiv> 0x91"
abbreviation (input) CKR_PIN_INCORRECT :: ck_ulong where "CKR_PIN_INCORRECT \<equiv> 0xA0"
abbreviation (input) CKR_PIN_INVALID :: ck_ulong where "CKR_PIN_INVALID \<equiv> 0xA1"
abbreviation (input) CKR_PIN_LEN_RANGE :: ck_ulong where "CKR_PIN_LEN_RANGE \<equiv> 0xA2"
abbreviation (input) CKR_PIN_EXPIRED :: ck_ulong where "CKR_PIN_EXPIRED \<equiv> 0xA3"
abbreviation (input) CKR_PIN_LOCKED :: ck_ulong where "CKR_PIN_LOCKED \<equiv> 0xA4"
abbreviation (input) CKR_SESSION_CLOSED :: ck_ulong where "CKR_SESSION_CLOSED \<equiv> 0xB0"
abbreviation (input) CKR_SESSION_COUNT :: ck_ulong where "CKR_SESSION_COUNT \<equiv> 0xB1"
abbreviation (input) CKR_SESSION_HANDLE_INVALID :: ck_ulong where "CKR_SESSION_HANDLE_INVALID \<equiv> 0xB3"
abbreviation (input) CKR_SESSION_PARALLEL_NOT_SUPPORTED :: ck_ulong where "CKR_SESSION_PARALLEL_NOT_SUPPORTED \<equiv> 0xB4"
abbreviation (input) CKR_SESSION_READ_ONLY :: ck_ulong where "CKR_SESSION_READ_ONLY \<equiv> 0xB5"
abbreviation (input) CKR_SESSION_EXISTS :: ck_ulong where "CKR_SESSION_EXISTS \<equiv> 0xB6"
abbreviation (input) CKR_SESSION_READ_ONLY_EXISTS :: ck_ulong where "CKR_SESSION_READ_ONLY_EXISTS \<equiv> 0xB7"
abbreviation (input) CKR_SESSION_READ_WRITE_SO_EXISTS :: ck_ulong where "CKR_SESSION_READ_WRITE_SO_EXISTS \<equiv> 0xB8"
abbreviation (input) CKR_SIGNATURE_INVALID :: ck_ulong where "CKR_SIGNATURE_INVALID \<equiv> 0xC0"
abbreviation (input) CKR_SIGNATURE_LEN_RANGE :: ck_ulong where "CKR_SIGNATURE_LEN_RANGE \<equiv> 0xC1"
abbreviation (input) CKR_TEMPLATE_INCOMPLETE :: ck_ulong where "CKR_TEMPLATE_INCOMPLETE \<equiv> 0xD0"
abbreviation (input) CKR_TEMPLATE_INCONSISTENT :: ck_ulong where "CKR_TEMPLATE_INCONSISTENT \<equiv> 0xD1"
abbreviation (input) CKR_TOKEN_NOT_PRESENT :: ck_ulong where "CKR_TOKEN_NOT_PRESENT \<equiv> 0xE0"
abbreviation (input) CKR_TOKEN_NOT_RECOGNIZED :: ck_ulong where "CKR_TOKEN_NOT_RECOGNIZED \<equiv> 0xE1"
abbreviation (input) CKR_TOKEN_WRITE_PROTECTED :: ck_ulong where "CKR_TOKEN_WRITE_PROTECTED \<equiv> 0xE2"
abbreviation (input) CKR_UNWRAPPING_KEY_HANDLE_INVALID :: ck_ulong where "CKR_UNWRAPPING_KEY_HANDLE_INVALID \<equiv> 0xF0"
abbreviation (input) CKR_UNWRAPPING_KEY_SIZE_RANGE :: ck_ulong where "CKR_UNWRAPPING_KEY_SIZE_RANGE \<equiv> 0xF1"
abbreviation (input) CKR_UNWRAPPING_KEY_TYPE_INCONSISTENT :: ck_ulong where "CKR_UNWRAPPING_KEY_TYPE_INCONSISTENT \<equiv> 0xF2"
abbreviation (input) CKR_USER_ALREADY_LOGGED_IN :: ck_ulong where "CKR_USER_ALREADY_LOGGED_IN \<equiv> 0x100"
abbreviation (input) CKR_USER_NOT_LOGGED_IN :: ck_ulong where "CKR_USER_NOT_LOGGED_IN \<equiv> 0x101"
abbreviation (input) CKR_USER_PIN_NOT_INITIALIZED :: ck_ulong where "CKR_USER_PIN_NOT_INITIALIZED \<equiv> 0x102"
abbreviation (input) CKR_USER_TYPE_INVALID :: ck_ulong where "CKR_USER_TYPE_INVALID \<equiv> 0x103"
abbreviation (input) CKR_USER_ANOTHER_ALREADY_LOGGED_IN :: ck_ulong where "CKR_USER_ANOTHER_ALREADY_LOGGED_IN \<equiv> 0x104"
abbreviation (input) CKR_USER_TOO_MANY_TYPES :: ck_ulong where "CKR_USER_TOO_MANY_TYPES \<equiv> 0x105"
abbreviation (input) CKR_WRAPPED_KEY_INVALID :: ck_ulong where "CKR_WRAPPED_KEY_INVALID \<equiv> 0x110"
abbreviation (input) CKR_WRAPPED_KEY_LEN_RANGE :: ck_ulong where "CKR_WRAPPED_KEY_LEN_RANGE \<equiv> 0x112"
abbreviation (input) CKR_WRAPPING_KEY_HANDLE_INVALID :: ck_ulong where "CKR_WRAPPING_KEY_HANDLE_INVALID \<equiv> 0x113"
abbreviation (input) CKR_WRAPPING_KEY_SIZE_RANGE :: ck_ulong where "CKR_WRAPPING_KEY_SIZE_RANGE \<equiv> 0x114"
abbreviation (input) CKR_WRAPPING_KEY_TYPE_INCONSISTENT :: ck_ulong where "CKR_WRAPPING_KEY_TYPE_INCONSISTENT \<equiv> 0x115"
abbreviation (input) CKR_RANDOM_SEED_NOT_SUPPORTED :: ck_ulong where "CKR_RANDOM_SEED_NOT_SUPPORTED \<equiv> 0x120"
abbreviation (input) CKR_RANDOM_NO_RNG :: ck_ulong where "CKR_RANDOM_NO_RNG \<equiv> 0x121"
abbreviation (input) CKR_BUFFER_TOO_SMALL :: ck_ulong where "CKR_BUFFER_TOO_SMALL \<equiv> 0x150"
abbreviation (input) CKR_SAVED_STATE_INVALID :: ck_ulong where "CKR_SAVED_STATE_INVALID \<equiv> 0x160"
abbreviation (input) CKR_INFORMATION_SENSITIVE :: ck_ulong where "CKR_INFORMATION_SENSITIVE \<equiv> 0x170"
abbreviation (input) CKR_STATE_UNSAVEABLE :: ck_ulong where "CKR_STATE_UNSAVEABLE \<equiv> 0x180"
abbreviation (input) CKR_CRYPTOKI_NOT_INITIALIZED :: ck_ulong where "CKR_CRYPTOKI_NOT_INITIALIZED \<equiv> 0x190"
abbreviation (input) CKR_CRYPTOKI_ALREADY_INITIALIZED :: ck_ulong where "CKR_CRYPTOKI_ALREADY_INITIALIZED \<equiv> 0x191"
abbreviation (input) CKR_MUTEX_BAD :: ck_ulong where "CKR_MUTEX_BAD \<equiv> 0x1A0"
abbreviation (input) CKR_MUTEX_NOT_LOCKED :: ck_ulong where "CKR_MUTEX_NOT_LOCKED \<equiv> 0x1A1"
abbreviation (input) CKR_VENDOR_DEFINED :: ck_ulong where "CKR_VENDOR_DEFINED \<equiv> 0x80000000"

section \<open>Mechanisms (constants.rs, CKM)\<close>

abbreviation (input) CKM_RSA_PKCS_KEY_PAIR_GEN :: ck_ulong where "CKM_RSA_PKCS_KEY_PAIR_GEN \<equiv> 0"
abbreviation (input) CKM_RSA_PKCS :: ck_ulong where "CKM_RSA_PKCS \<equiv> 0x1"
abbreviation (input) CKM_RSA_PKCS_OAEP :: ck_ulong where "CKM_RSA_PKCS_OAEP \<equiv> 0x9"
abbreviation (input) CKM_RSA_PKCS_PSS :: ck_ulong where "CKM_RSA_PKCS_PSS \<equiv> 0xD"
abbreviation (input) CKM_SHA1_RSA_PKCS :: ck_ulong where "CKM_SHA1_RSA_PKCS \<equiv> 0x6"
abbreviation (input) CKM_SHA256_RSA_PKCS :: ck_ulong where "CKM_SHA256_RSA_PKCS \<equiv> 0x40"
abbreviation (input) CKM_SHA384_RSA_PKCS :: ck_ulong where "CKM_SHA384_RSA_PKCS \<equiv> 0x41"
abbreviation (input) CKM_SHA512_RSA_PKCS :: ck_ulong where "CKM_SHA512_RSA_PKCS \<equiv> 0x42"
abbreviation (input) CKM_SHA256_RSA_PKCS_PSS :: ck_ulong where "CKM_SHA256_RSA_PKCS_PSS \<equiv> 0x43"
abbreviation (input) CKM_SHA384_RSA_PKCS_PSS :: ck_ulong where "CKM_SHA384_RSA_PKCS_PSS \<equiv> 0x44"
abbreviation (input) CKM_SHA512_RSA_PKCS_PSS :: ck_ulong where "CKM_SHA512_RSA_PKCS_PSS \<equiv> 0x45"
abbreviation (input) CKM_DSA_KEY_PAIR_GEN :: ck_ulong where "CKM_DSA_KEY_PAIR_GEN \<equiv> 0x10"
abbreviation (input) CKM_DSA :: ck_ulong where "CKM_DSA \<equiv> 0x11"
abbreviation (input) CKM_ECDSA_KEY_PAIR_GEN :: ck_ulong where "CKM_ECDSA_KEY_PAIR_GEN \<equiv> 0x1040"
abbreviation (input) CKM_EC_KEY_PAIR_GEN :: ck_ulong where "CKM_EC_KEY_PAIR_GEN \<equiv> 0x1040"
abbreviation (input) CKM_ECDSA :: ck_ulong where "CKM_ECDSA \<equiv> 0x1041"
abbreviation (input) CKM_ECDSA_SHA256 :: ck_ulong where "CKM_ECDSA_SHA256 \<equiv> 0x1044"
abbreviation (input) CKM_ECDSA_SHA384 :: ck_ulong where "CKM_ECDSA_SHA384 \<equiv> 0x1045"
abbreviation (input) CKM_ECDSA_SHA512 :: ck_ulong where "CKM_ECDSA_SHA512 \<equiv> 0x1046"
abbreviation (input) CKM_ECDH1_DERIVE :: ck_ulong where "CKM_ECDH1_DERIVE \<equiv> 0x1050"
abbreviation (input) CKM_ECDH1_COFACTOR_DERIVE :: ck_ulong where "CKM_ECDH1_COFACTOR_DERIVE \<equiv> 0x1051"
abbreviation (input) CKM_EDDSA :: ck_ulong where "CKM_EDDSA \<equiv> 0x1057"
abbreviation (input) CKM_AES_KEY_GEN :: ck_ulong where "CKM_AES_KEY_GEN \<equiv> 0x1080"
abbreviation (input) CKM_AES_CBC :: ck_ulong where "CKM_AES_CBC \<equiv> 0x1082"
abbreviation (input) CKM_AES_CBC_PAD :: ck_ulong where "CKM_AES_CBC_PAD \<equiv> 0x1085"
abbreviation (input) CKM_AES_CTR :: ck_ulong where "CKM_AES_CTR \<equiv> 0x1086"
abbreviation (input) CKM_AES_GCM :: ck_ulong where "CKM_AES_GCM \<equiv> 0x1087"
abbreviation (input) CKM_AES_KEY_WRAP :: ck_ulong where "CKM_AES_KEY_WRAP \<equiv> 0x2109"
abbreviation (input) CKM_AES_KEY_WRAP_KWP :: ck_ulong where "CKM_AES_KEY_WRAP_KWP \<equiv> 0x210B"
abbreviation (input) CKM_SHA_1 :: ck_ulong where "CKM_SHA_1 \<equiv> 0x220"
abbreviation (input) CKM_SHA256 :: ck_ulong where "CKM_SHA256 \<equiv> 0x250"
abbreviation (input) CKM_SHA384 :: ck_ulong where "CKM_SHA384 \<equiv> 0x260"
abbreviation (input) CKM_SHA512 :: ck_ulong where "CKM_SHA512 \<equiv> 0x270"
abbreviation (input) CKM_SHA3_256 :: ck_ulong where "CKM_SHA3_256 \<equiv> 0x2B0"
abbreviation (input) CKM_SHA3_384 :: ck_ulong where "CKM_SHA3_384 \<equiv> 0x2C0"
abbreviation (input) CKM_SHA3_512 :: ck_ulong where "CKM_SHA3_512 \<equiv> 0x2D0"
abbreviation (input) CKM_ML_KEM_512 :: ck_ulong where "CKM_ML_KEM_512 \<equiv> 0x80000001"
abbreviation (input) CKM_ML_KEM_768 :: ck_ulong where "CKM_ML_KEM_768 \<equiv> 0x80000002"
abbreviation (input) CKM_ML_KEM_1024 :: ck_ulong where "CKM_ML_KEM_1024 \<equiv> 0x80000003"
abbreviation (input) CKM_ML_DSA_44 :: ck_ulong where "CKM_ML_DSA_44 \<equiv> 0x80000010"
abbreviation (input) CKM_ML_DSA_65 :: ck_ulong where "CKM_ML_DSA_65 \<equiv> 0x80000011"
abbreviation (input) CKM_ML_DSA_87 :: ck_ulong where "CKM_ML_DSA_87 \<equiv> 0x80000012"
abbreviation (input) CKM_SLH_DSA_SHA2_128S :: ck_ulong where "CKM_SLH_DSA_SHA2_128S \<equiv> 0x80000020"
abbreviation (input) CKM_SLH_DSA_SHA2_256S :: ck_ulong where "CKM_SLH_DSA_SHA2_256S \<equiv> 0x80000021"
abbreviation (input) CKM_HYBRID_ML_DSA_ECDSA :: ck_ulong where "CKM_HYBRID_ML_DSA_ECDSA \<equiv> 0x80000030"
abbreviation (input) CKM_HYBRID_X25519_ML_KEM_768 :: ck_ulong where "CKM_HYBRID_X25519_ML_KEM_768 \<equiv> 0x80000040"
abbreviation (input) CKM_HYBRID_X25519_ML_KEM_1024 :: ck_ulong where "CKM_HYBRID_X25519_ML_KEM_1024 \<equiv> 0x80000041"

section \<open>Object classes (constants.rs, CKO)\<close>

abbreviation (input) CKO_DATA :: ck_ulong where "CKO_DATA \<equiv> 0"
abbreviation (input) CKO_CERTIFICATE :: ck_ulong where "CKO_CERTIFICATE \<equiv> 0x1"
abbreviation (input) CKO_PUBLIC_KEY :: ck_ulong where "CKO_PUBLIC_KEY \<equiv> 0x2"
abbreviation (input) CKO_PRIVATE_KEY :: ck_ulong where "CKO_PRIVATE_KEY \<equiv> 0x3"
abbreviation (input) CKO_SECRET_KEY :: ck_ulong where "CKO_SECRET_KEY \<equiv> 0x4"
abbreviation (input) CKO_VENDOR_DEFINED :: ck_ulong where "CKO_VENDOR_DEFINED \<equiv> 0x80000000"

section \<open>Key types (constants.rs, CKK)\<close>

abbreviation (input) CKK_RSA :: ck_ulong where "CKK_RSA \<equiv> 0"
abbreviation (input) CKK_DSA :: ck_ulong where "CKK_DSA \<equiv> 0x1"
abbreviation (input) CKK_DH :: ck_ulong where "CKK_DH \<equiv> 0x2"
abbreviation (input) CKK_EC :: ck_ulong where "CKK_EC \<equiv> 0x3"
abbreviation (input) CKK_GENERIC_SECRET :: ck_ulong where "CKK_GENERIC_SECRET \<equiv> 0x10"
abbreviation (input) CKK_AES :: ck_ulong where "CKK_AES \<equiv> 0x1F"
abbreviation (input) CKK_SHA256_HMAC :: ck_ulong where "CKK_SHA256_HMAC \<equiv> 0x2B"
abbreviation (input) CKK_EC_EDWARDS :: ck_ulong where "CKK_EC_EDWARDS \<equiv> 0x40"
abbreviation (input) CKK_EC_MONTGOMERY :: ck_ulong where "CKK_EC_MONTGOMERY \<equiv> 0x41"
abbreviation (input) CKK_VENDOR_DEFINED :: ck_ulong where "CKK_VENDOR_DEFINED \<equiv> 0x80000000"
abbreviation (input) CKK_ML_KEM :: ck_ulong where "CKK_ML_KEM \<equiv> 0x80000001"
abbreviation (input) CKK_ML_DSA :: ck_ulong where "CKK_ML_DSA \<equiv> 0x80000002"
abbreviation (input) CKK_SLH_DSA :: ck_ulong where "CKK_SLH_DSA \<equiv> 0x80000003"

section \<open>Attribute types (constants.rs, CKA)\<close>

abbreviation (input) CKA_CLASS :: ck_ulong where "CKA_CLASS \<equiv> 0"
abbreviation (input) CKA_TOKEN :: ck_ulong where "CKA_TOKEN \<equiv> 0x1"
abbreviation (input) CKA_PRIVATE :: ck_ulong where "CKA_PRIVATE \<equiv> 0x2"
abbreviation (input) CKA_LABEL :: ck_ulong where "CKA_LABEL \<equiv> 0x3"
abbreviation (input) CKA_APPLICATION :: ck_ulong where "CKA_APPLICATION \<equiv> 0x10"
abbreviation (input) CKA_VALUE :: ck_ulong where "CKA_VALUE \<equiv> 0x11"
abbreviation (input) CKA_OBJECT_ID :: ck_ulong where "CKA_OBJECT_ID \<equiv> 0x12"
abbreviation (input) CKA_CERTIFICATE_TYPE :: ck_ulong where "CKA_CERTIFICATE_TYPE \<equiv> 0x80"
abbreviation (input) CKA_ISSUER :: ck_ulong where "CKA_ISSUER \<equiv> 0x81"
abbreviation (input) CKA_SERIAL_NUMBER :: ck_ulong where "CKA_SERIAL_NUMBER \<equiv> 0x82"
abbreviation (input) CKA_KEY_TYPE :: ck_ulong where "CKA_KEY_TYPE \<equiv> 0x100"
abbreviation (input) CKA_SUBJECT :: ck_ulong where "CKA_SUBJECT \<equiv> 0x101"
abbreviation (input) CKA_ID :: ck_ulong where "CKA_ID \<equiv> 0x102"
abbreviation (input) CKA_SENSITIVE :: ck_ulong where "CKA_SENSITIVE \<equiv> 0x103"
abbreviation (input) CKA_ENCRYPT :: ck_ulong where "CKA_ENCRYPT \<equiv> 0x104"
abbreviation (input) CKA_DECRYPT :: ck_ulong where "CKA_DECRYPT \<equiv> 0x105"
abbreviation (input) CKA_WRAP :: ck_ulong where "CKA_WRAP \<equiv> 0x106"
abbreviation (input) CKA_UNWRAP :: ck_ulong where "CKA_UNWRAP \<equiv> 0x107"
abbreviation (input) CKA_SIGN :: ck_ulong where "CKA_SIGN \<equiv> 0x108"
abbreviation (input) CKA_SIGN_RECOVER :: ck_ulong where "CKA_SIGN_RECOVER \<equiv> 0x109"
abbreviation (input) CKA_VERIFY :: ck_ulong where "CKA_VERIFY \<equiv> 0x10A"
abbreviation (input) CKA_VERIFY_RECOVER :: ck_ulong where "CKA_VERIFY_RECOVER \<equiv> 0x10B"
abbreviation (input) CKA_DERIVE :: ck_ulong where "CKA_DERIVE \<equiv> 0x10C"
abbreviation (input) CKA_START_DATE :: ck_ulong where "CKA_START_DATE \<equiv> 0x110"
abbreviation (input) CKA_END_DATE :: ck_ulong where "CKA_END_DATE \<equiv> 0x111"
abbreviation (input) CKA_MODULUS :: ck_ulong where "CKA_MODULUS \<equiv> 0x120"
abbreviation (input) CKA_MODULUS_BITS :: ck_ulong where "CKA_MODULUS_BITS \<equiv> 0x121"
abbreviation (input) CKA_PUBLIC_EXPONENT :: ck_ulong where "CKA_PUBLIC_EXPONENT \<equiv> 0x122"
abbreviation (input) CKA_PRIVATE_EXPONENT :: ck_ulong where "CKA_PRIVATE_EXPONENT \<equiv> 0x123"
abbreviation (input) CKA_PRIME_1 :: ck_ulong where "CKA_PRIME_1 \<equiv> 0x124"
abbreviation (input) CKA_PRIME_2 :: ck_ulong where "CKA_PRIME_2 \<equiv> 0x125"
abbreviation (input) CKA_EXPONENT_1 :: ck_ulong where "CKA_EXPONENT_1 \<equiv> 0x126"
abbreviation (input) CKA_EXPONENT_2 :: ck_ulong where "CKA_EXPONENT_2 \<equiv> 0x127"
abbreviation (input) CKA_COEFFICIENT :: ck_ulong where "CKA_COEFFICIENT \<equiv> 0x128"
abbreviation (input) CKA_EC_PARAMS :: ck_ulong where "CKA_EC_PARAMS \<equiv> 0x180"
abbreviation (input) CKA_EC_POINT :: ck_ulong where "CKA_EC_POINT \<equiv> 0x181"
abbreviation (input) CKA_VALUE_LEN :: ck_ulong where "CKA_VALUE_LEN \<equiv> 0x161"
abbreviation (input) CKA_EXTRACTABLE :: ck_ulong where "CKA_EXTRACTABLE \<equiv> 0x162"
abbreviation (input) CKA_LOCAL :: ck_ulong where "CKA_LOCAL \<equiv> 0x163"
abbreviation (input) CKA_NEVER_EXTRACTABLE :: ck_ulong where "CKA_NEVER_EXTRACTABLE \<equiv> 0x164"
abbreviation (input) CKA_ALWAYS_SENSITIVE :: ck_ulong where "CKA_ALWAYS_SENSITIVE \<equiv> 0x165"
abbreviation (input) CKA_KEY_GEN_MECHANISM :: ck_ulong where "CKA_KEY_GEN_MECHANISM \<equiv> 0x166"
abbreviation (input) CKA_MODIFIABLE :: ck_ulong where "CKA_MODIFIABLE \<equiv> 0x170"
abbreviation (input) CKA_COPYABLE :: ck_ulong where "CKA_COPYABLE \<equiv> 0x171"
abbreviation (input) CKA_DESTROYABLE :: ck_ulong where "CKA_DESTROYABLE \<equiv> 0x172"
abbreviation (input) CKA_WRAP_WITH_TRUSTED :: ck_ulong where "CKA_WRAP_WITH_TRUSTED \<equiv> 0x210"
abbreviation (input) CKA_TRUSTED :: ck_ulong where "CKA_TRUSTED \<equiv> 0x86"
abbreviation (input) CKA_VENDOR_DEFINED :: ck_ulong where "CKA_VENDOR_DEFINED \<equiv> 0x80000000"
abbreviation (input) CKA_VENDOR_FIPS_APPROVED :: ck_ulong where "CKA_VENDOR_FIPS_APPROVED \<equiv> 0x80000001"

section \<open>Flags (constants.rs, CKF)\<close>

abbreviation (input) CKF_RW_SESSION :: ck_ulong where "CKF_RW_SESSION \<equiv> 0x2"
abbreviation (input) CKF_SERIAL_SESSION :: ck_ulong where "CKF_SERIAL_SESSION \<equiv> 0x4"
abbreviation (input) CKF_TOKEN_PRESENT :: ck_ulong where "CKF_TOKEN_PRESENT \<equiv> 0x1"
abbreviation (input) CKF_REMOVABLE_DEVICE :: ck_ulong where "CKF_REMOVABLE_DEVICE \<equiv> 0x2"
abbreviation (input) CKF_HW_SLOT :: ck_ulong where "CKF_HW_SLOT \<equiv> 0x4"
abbreviation (input) CKF_RNG :: ck_ulong where "CKF_RNG \<equiv> 0x1"
abbreviation (input) CKF_WRITE_PROTECTED :: ck_ulong where "CKF_WRITE_PROTECTED \<equiv> 0x2"
abbreviation (input) CKF_LOGIN_REQUIRED :: ck_ulong where "CKF_LOGIN_REQUIRED \<equiv> 0x4"
abbreviation (input) CKF_USER_PIN_INITIALIZED :: ck_ulong where "CKF_USER_PIN_INITIALIZED \<equiv> 0x8"
abbreviation (input) CKF_TOKEN_INITIALIZED :: ck_ulong where "CKF_TOKEN_INITIALIZED \<equiv> 0x400"
abbreviation (input) CKF_USER_PIN_COUNT_LOW :: ck_ulong where "CKF_USER_PIN_COUNT_LOW \<equiv> 0x10000"
abbreviation (input) CKF_USER_PIN_FINAL_TRY :: ck_ulong where "CKF_USER_PIN_FINAL_TRY \<equiv> 0x20000"
abbreviation (input) CKF_USER_PIN_LOCKED :: ck_ulong where "CKF_USER_PIN_LOCKED \<equiv> 0x40000"
abbreviation (input) CKF_SO_PIN_COUNT_LOW :: ck_ulong where "CKF_SO_PIN_COUNT_LOW \<equiv> 0x100000"
abbreviation (input) CKF_SO_PIN_FINAL_TRY :: ck_ulong where "CKF_SO_PIN_FINAL_TRY \<equiv> 0x200000"
abbreviation (input) CKF_SO_PIN_LOCKED :: ck_ulong where "CKF_SO_PIN_LOCKED \<equiv> 0x400000"
abbreviation (input) CKF_SLOT_TOKEN_PRESENT :: ck_ulong where "CKF_SLOT_TOKEN_PRESENT \<equiv> 0x1"
abbreviation (input) CKF_SLOT_REMOVABLE_DEVICE :: ck_ulong where "CKF_SLOT_REMOVABLE_DEVICE \<equiv> 0x2"
abbreviation (input) CKF_SLOT_HW_SLOT :: ck_ulong where "CKF_SLOT_HW_SLOT \<equiv> 0x4"
abbreviation (input) CKF_DONT_BLOCK :: ck_ulong where "CKF_DONT_BLOCK \<equiv> 0x1"
abbreviation (input) CKF_LIBRARY_CANT_CREATE_OS_THREADS :: ck_ulong where "CKF_LIBRARY_CANT_CREATE_OS_THREADS \<equiv> 0x1"
abbreviation (input) CKF_OS_LOCKING_OK :: ck_ulong where "CKF_OS_LOCKING_OK \<equiv> 0x2"
abbreviation (input) CKF_HW :: ck_ulong where "CKF_HW \<equiv> 0x1"
abbreviation (input) CKF_ENCRYPT_FLAG :: ck_ulong where "CKF_ENCRYPT_FLAG \<equiv> 0x100"
abbreviation (input) CKF_DECRYPT_FLAG :: ck_ulong where "CKF_DECRYPT_FLAG \<equiv> 0x200"
abbreviation (input) CKF_DIGEST_FLAG :: ck_ulong where "CKF_DIGEST_FLAG \<equiv> 0x400"
abbreviation (input) CKF_SIGN_FLAG :: ck_ulong where "CKF_SIGN_FLAG \<equiv> 0x800"
abbreviation (input) CKF_SIGN_RECOVER_FLAG :: ck_ulong where "CKF_SIGN_RECOVER_FLAG \<equiv> 0x1000"
abbreviation (input) CKF_VERIFY_FLAG :: ck_ulong where "CKF_VERIFY_FLAG \<equiv> 0x2000"
abbreviation (input) CKF_VERIFY_RECOVER_FLAG :: ck_ulong where "CKF_VERIFY_RECOVER_FLAG \<equiv> 0x4000"
abbreviation (input) CKF_GENERATE_FLAG :: ck_ulong where "CKF_GENERATE_FLAG \<equiv> 0x8000"
abbreviation (input) CKF_GENERATE_KEY_PAIR_FLAG :: ck_ulong where "CKF_GENERATE_KEY_PAIR_FLAG \<equiv> 0x10000"
abbreviation (input) CKF_WRAP_FLAG :: ck_ulong where "CKF_WRAP_FLAG \<equiv> 0x20000"
abbreviation (input) CKF_UNWRAP_FLAG :: ck_ulong where "CKF_UNWRAP_FLAG \<equiv> 0x40000"
abbreviation (input) CKF_DERIVE_FLAG :: ck_ulong where "CKF_DERIVE_FLAG \<equiv> 0x80000"

section \<open>Session states (constants.rs, CKS)\<close>

abbreviation (input) CKS_RO_PUBLIC_SESSION :: ck_ulong where "CKS_RO_PUBLIC_SESSION \<equiv> 0"
abbreviation (input) CKS_RO_USER_FUNCTIONS :: ck_ulong where "CKS_RO_USER_FUNCTIONS \<equiv> 1"
abbreviation (input) CKS_RW_PUBLIC_SESSION :: ck_ulong where "CKS_RW_PUBLIC_SESSION \<equiv> 2"
abbreviation (input) CKS_RW_USER_FUNCTIONS :: ck_ulong where "CKS_RW_USER_FUNCTIONS \<equiv> 3"
abbreviation (input) CKS_RW_SO_FUNCTIONS :: ck_ulong where "CKS_RW_SO_FUNCTIONS \<equiv> 4"

section \<open>User types (constants.rs, CKU)\<close>

abbreviation (input) CKU_SO :: ck_ulong where "CKU_SO \<equiv> 0"
abbreviation (input) CKU_USER :: ck_ulong where "CKU_USER \<equiv> 1"
abbreviation (input) CKU_CONTEXT_SPECIFIC :: ck_ulong where "CKU_CONTEXT_SPECIFIC \<equiv> 2"

abbreviation (input) CK_UNAVAILABLE_INFORMATION :: ck_ulong where "CK_UNAVAILABLE_INFORMATION \<equiv> - 1"

end
