(* ===== verification/Hsm_Error.thy ===== *)
theory Hsm_Error
  imports Pkcs11_Constants
begin

text \<open>
  The error type of the library and its translation into PKCS#11 return values
  (\<open>src/src/error.rs\<close>).
\<close>

datatype (plugins only: code) hsm_error =
    NotInitialized
  | AlreadyInitialized
  | ArgumentsBad
  | SlotIdInvalid
  | TokenNotPresent
  | TokenNotInitialized
  | SessionHandleInvalid
  | SessionCount
  | SessionReadOnly
  | SessionParallelNotSupported
  | SessionExists
  | SessionReadOnlyExists
  | SessionReadWriteSoExists
  | UserAlreadyLoggedIn
  | UserNotLoggedIn
  | UserTypeInvalid
  | UserAnotherAlreadyLoggedIn
  | UserPinNotInitialized
  | PinIncorrect
  | PinInvalid
  | PinLenRange
  | PinLocked
  | PinRateLimited
  | ObjectHandleInvalid
  | AttributeTypeInvalid
  | AttributeValueInvalid
  | AttributeReadOnly
  | AttributeSensitive
  | TemplateIncomplete
  | TemplateInconsistent
  | MechanismInvalid
  | MechanismParamInvalid
  | KeyHandleInvalid
  | KeyTypeInconsistent
  | KeySizeRange
  | KeyFunctionNotPermitted
  | OperationActive
  | OperationNotInitialized
  | DataInvalid
  | DataLenRange
  | EncryptedDataInvalid
  | EncryptedDataLenRange
  | SignatureInvalid
  | SignatureLenRange
  | BufferTooSmall
  | FunctionNotSupported
  | GeneralError
  | HostMemory
  | DeviceMemory
  | TokenWriteProtected
  | RandomSeedNotSupported
  | ConfigError string
  | AuditChainBroken string
  | SessionClosed

type_synonym 'a hsm_result = "hsm_error + 'a"

primrec err_code :: "hsm_error \<Rightarrow> ck_rv" where
    "err_code NotInitialized = CKR_CRYPTOKI_NOT_INITIALIZED"
  | "err_code AlreadyInitialized = CKR_CRYPTOKI_ALREADY_INITIALIZED"
  | "err_code ArgumentsBad = CKR_ARGUMENTS_BAD"
  | "err_code SlotIdInvalid = CKR_SLOT_ID_INVALID"
  | "err_code TokenNotPresent = CKR_TOKEN_NOT_PRESENT"
  | "err_code TokenNotInitialized = CKR_TOKEN_NOT_RECOGNIZED"
  | "err_code SessionHandleInvalid = CKR_SESSION_HANDLE_INVALID"
  | "err_code SessionCount = CKR_SESSION_COUNT"
  | "err_code SessionReadOnly = CKR_SESSION_READ_ONLY"
  | "err_code SessionParallelNotSupported = CKR_SESSION_PARALLEL_NOT_SUPPORTED"
  | "err_code SessionExists = CKR_SESSION_EXISTS"
  | "err_code SessionReadOnlyExists = CKR_SESSION_READ_ONLY_EXISTS"
  | "err_code SessionReadWriteSoExists = CKR_SESSION_READ_WRITE_SO_EXISTS"
  | "err_code UserAlreadyLoggedIn = CKR_USER_ALREADY_LOGGED_IN"
  | "err_code UserNotLoggedIn = CKR_USER_NOT_LOGGED_IN"
  | "err_code UserTypeInvalid = CKR_USER_TYPE_INVALID"
  | "err_code UserAnotherAlreadyLoggedIn = CKR_USER_ANOTHER_ALREADY_LOGGED_IN"
  | "err_code UserPinNotInitialized = CKR_USER_PIN_NOT_INITIALIZED"
  | "err_code PinIncorrect = CKR_PIN_INCORRECT"
  | "err_code PinInvalid = CKR_PIN_INVALID"
  | "err_code PinLenRange = CKR_PIN_LEN_RANGE"
  | "err_code PinLocked = CKR_PIN_LOCKED"
  | "err_code PinRateLimited = CKR_PIN_LOCKED"
  | "err_code ObjectHandleInvalid = CKR_OBJECT_HANDLE_INVALID"
  | "err_code AttributeTypeInvalid = CKR_ATTRIBUTE_TYPE_INVALID"
  | "err_code AttributeValueInvalid = CKR_ATTRIBUTE_VALUE_INVALID"
  | "err_code AttributeReadOnly = CKR_ATTRIBUTE_READ_ONLY"
  | "err_code AttributeSensitive = CKR_ATTRIBUTE_SENSITIVE"
  | "err_code TemplateIncomplete = CKR_TEMPLATE_INCOMPLETE"
  | "err_code TemplateInconsistent = CKR_TEMPLATE_INCONSISTENT"
  | "err_code MechanismInvalid = CKR_MECHANISM_INVALID"
  | "err_code MechanismParamInvalid = CKR_MECHANISM_PARAM_INVALID"
  | "err_code KeyHandleInvalid = CKR_KEY_HANDLE_INVALID"
  | "err_code KeyTypeInconsistent = CKR_KEY_TYPE_INCONSISTENT"
  | "err_code KeySizeRange = CKR_KEY_SIZE_RANGE"
  | "err_code KeyFunctionNotPermitted = CKR_KEY_FUNCTION_NOT_PERMITTED"
  | "err_code OperationActive = CKR_OPERATION_ACTIVE"
  | "err_code OperationNotInitialized = CKR_OPERATION_NOT_INITIALIZED"
  | "err_code DataInvalid = CKR_DATA_INVALID"
  | "err_code DataLenRange = CKR_DATA_LEN_RANGE"
  | "err_code EncryptedDataInvalid = CKR_ENCRYPTED_DATA_INVALID"
  | "err_code EncryptedDataLenRange = CKR_ENCRYPTED_DATA_LEN_RANGE"
  | "err_code SignatureInvalid = CKR_SIGNATURE_INVALID"
  | "err_code SignatureLenRange = CKR_SIGNATURE_LEN_RANGE"
  | "err_code BufferTooSmall = CKR_BUFFER_TOO_SMALL"
  | "err_code FunctionNotSupported = CKR_FUNCTION_NOT_SUPPORTED"
  | "err_code GeneralError = CKR_GENERAL_ERROR"
  | "err_code HostMemory = CKR_HOST_MEMORY"
  | "err_code DeviceMemory = CKR_DEVICE_MEMORY"
  | "err_code TokenWriteProtected = CKR_TOKEN_WRITE_PROTECTED"
  | "err_code RandomSeedNotSupported = CKR_RANDOM_SEED_NOT_SUPPORTED"
  | "err_code (ConfigError msg) = CKR_GENERAL_ERROR"
  | "err_code (AuditChainBroken msg) = CKR_GENERAL_ERROR"
  | "err_code SessionClosed = CKR_SESSION_CLOSED"

definition err_to_rv :: "hsm_error \<Rightarrow> ck_rv" where
  "err_to_rv e = err_code e"

text \<open>No error is reported to the caller as success.\<close>

lemma err_code_not_ok [simp]: "err_code e \<noteq> CKR_OK"
  by (cases e) simp_all

lemma err_to_rv_not_ok [simp]: "err_to_rv e \<noteq> CKR_OK"
  by (simp add: err_to_rv_def)

end
