(* ===== verification/Pin_Crypto.thy ===== *)
theory Pin_Crypto
  imports Hsm_Error
begin

text \<open>
  PIN hashing and key wrapping (\<open>src/src/store/encrypted_store.rs\<close>, the key functions).
  PBKDF2, AES-256-GCM and hexadecimal text are third-party code and enter as fields of a record; bytes drawn from
  the random generator are arguments, a failing generator is an error value.
\<close>

abbreviation (input) KEY_LEN :: nat where "KEY_LEN \<equiv> 32"
abbreviation (input) NONCE_LEN :: nat where "NONCE_LEN \<equiv> 12"
abbreviation (input) SALT_LEN :: nat where "SALT_LEN \<equiv> 32"

record pin_crypto =
  pbkdf2_hmac :: "bytes \<Rightarrow> bytes \<Rightarrow> u32 \<Rightarrow> bytes"
  gcm_encrypt :: "bytes \<Rightarrow> bytes \<Rightarrow> bytes \<Rightarrow> bytes option"
  gcm_decrypt :: "bytes \<Rightarrow> bytes \<Rightarrow> bytes \<Rightarrow> bytes option"
  hex_encode :: "bytes \<Rightarrow> string"
  hex_decode :: "string \<Rightarrow> bytes option"

definition derive_key_from_pin :: "pin_crypto \<Rightarrow> bytes \<Rightarrow> bytes \<Rightarrow> bytes option \<Rightarrow> u32 \<Rightarrow> bytes \<times> bytes" where
  "derive_key_from_pin C random_salt pin salt iterations =
    (let salt_bytes = (case salt of Some s \<Rightarrow> s | None \<Rightarrow> random_salt)
     in (pbkdf2_hmac C pin salt_bytes iterations, salt_bytes))"

definition hash_pin_pbkdf2 :: "pin_crypto \<Rightarrow> bytes \<Rightarrow> bytes \<Rightarrow> u32 \<Rightarrow> bytes" where
  "hash_pin_pbkdf2 C random_salt pin iterations =
    (let (derived_key, salt) = derive_key_from_pin C random_salt pin None iterations
     in salt @ derived_key)"

definition verify_pin_pbkdf2 :: "pin_crypto \<Rightarrow> bytes \<Rightarrow> bytes \<Rightarrow> u32 \<Rightarrow> bool" where
  "verify_pin_pbkdf2 C stored_hash pin iterations =
    (if length stored_hash \<noteq> SALT_LEN + KEY_LEN then False
     else let salt = take SALT_LEN stored_hash; stored_key = drop SALT_LEN stored_hash;
              (derived_key, _) = derive_key_from_pin C [] pin (Some salt) iterations
          in stored_key = derived_key)"

definition wrap_key :: "pin_crypto \<Rightarrow> bytes hsm_result \<Rightarrow> bytes \<Rightarrow> bytes \<Rightarrow> bytes hsm_result" where
  "wrap_key C drbg_nonce kek key =
    res_bind drbg_nonce (\<lambda>nonce.
      case gcm_encrypt C kek nonce key of
        None \<Rightarrow> Inl GeneralError
      | Some ciphertext \<Rightarrow> Inr (nonce @ ciphertext))"

definition unwrap_key :: "pin_crypto \<Rightarrow> bytes \<Rightarrow> bytes \<Rightarrow> bytes hsm_result" where
  "unwrap_key C kek wrapped =
    (if length wrapped < NONCE_LEN then Inl EncryptedDataInvalid
     else case gcm_decrypt C kek (take NONCE_LEN wrapped) (drop NONCE_LEN wrapped) of
            None \<Rightarrow> Inl EncryptedDataInvalid
          | Some plaintext \<Rightarrow>
              if length plaintext \<noteq> KEY_LEN then Inl EncryptedDataInvalid else Inr plaintext)"

section \<open>What the primitives promise\<close>

text \<open>The documented behaviour of the crates: PBKDF2 fills the 32-byte output buffer, GCM
  decryption under the key and nonce of an encryption returns the plaintext, and decoding the
  hexadecimal text of some bytes returns the bytes.\<close>

definition pbkdf2_fills :: "pin_crypto \<Rightarrow> bool" where
  "pbkdf2_fills C \<longleftrightarrow> (\<forall>pin salt iterations. length (pbkdf2_hmac C pin salt iterations) = KEY_LEN)"

definition gcm_roundtrips :: "pin_crypto \<Rightarrow> bool" where
  "gcm_roundtrips C \<longleftrightarrow>
    (\<forall>key nonce p c. gcm_encrypt C key nonce p = Some c \<longrightarrow> gcm_decrypt C key nonce c = Some p)"

definition hex_roundtrips :: "pin_crypto \<Rightarrow> bool" where
  "hex_roundtrips C \<longleftrightarrow> (\<forall>bs. hex_decode C (hex_encode C bs) = Some bs)"

lemma verify_hash_pin:
  assumes "pbkdf2_fills C" "length random_salt = SALT_LEN"
  shows "verify_pin_pbkdf2 C (hash_pin_pbkdf2 C random_salt pin iterations) pin' iterations
    \<longleftrightarrow> pbkdf2_hmac C pin random_salt iterations = pbkdf2_hmac C pin' random_salt iterations"
  using assms
  by (simp add: verify_pin_pbkdf2_def hash_pin_pbkdf2_def derive_key_from_pin_def pbkdf2_fills_def)

lemma verify_own_pin:
  assumes "pbkdf2_fills C" "length random_salt = SALT_LEN"
  shows "verify_pin_pbkdf2 C (hash_pin_pbkdf2 C random_salt pin iterations) pin iterations"
  using assms by (simp add: verify_hash_pin)

lemma unwrap_wrap:
  assumes "gcm_roundtrips C" "wrap_key C (Inr nonce) kek key = Inr w"
    and "length nonce = NONCE_LEN" "length key = KEY_LEN"
  shows "unwrap_key C kek w = Inr key"
  using assms unfolding gcm_roundtrips_def
  by (auto simp: wrap_key_def unwrap_key_def split: option.splits)

text \<open>A transparent instance, on which the two hypotheses hold and concrete runs evaluate.\<close>

definition plain_crypto :: pin_crypto where
  "plain_crypto =
    \<lparr>pbkdf2_hmac = (\<lambda>pin salt iterations. take KEY_LEN (pin @ replicate KEY_LEN 0)),
     gcm_encrypt = (\<lambda>key nonce p. Some (key @ nonce @ p)),
     gcm_decrypt = (\<lambda>key nonce c.
       if take (length key + length nonce) c = key @ nonce
       then Some (drop (length key + length nonce) c) else None),
     hex_encode = map (\<lambda>b. char_of (unat b)),
     hex_decode = (\<lambda>s. Some (map (\<lambda>c. word_of_nat (of_char c)) s))\<rparr>"

lemma byte_of_unat_mod: "word_of_nat (unat b mod 256) = (b :: byte)"
proof -
  have "unat b < 256"
    using unsigned_less [of b] by simp
  then show ?thesis
    by simp
qed

lemma plain_crypto_laws:
  "pbkdf2_fills plain_crypto" "gcm_roundtrips plain_crypto" "hex_roundtrips plain_crypto"
  by (auto simp: plain_crypto_def pbkdf2_fills_def gcm_roundtrips_def hex_roundtrips_def comp_def
      byte_of_unat_mod map_idI)

end
