(* ===== verification/Hsm_Config.thy ===== *)
theory Hsm_Config
  imports Hsm_Error
begin

text \<open>
  The configuration structures of \<open>src/src/config/config.rs\<close> that the rest of the library
  reads, and the FIPS-hardened defaults. Strings are their UTF-8 bytes where the library uses
  them as bytes (labels, serial numbers).
\<close>

record token_config =
  cfg_label :: bytes
  cfg_max_sessions :: u64
  cfg_max_rw_sessions :: u64
  cfg_persist_objects :: bool
  cfg_slot_count :: nat
  cfg_serial_number :: bytes

record security_config =
  cfg_pin_min_length :: nat
  cfg_pin_max_length :: nat
  cfg_max_failed_logins :: u32
  cfg_pbkdf2_iterations :: u32

record audit_config =
  cfg_audit_enabled :: bool
  cfg_log_level :: string

record algorithm_config =
  allow_weak_rsa :: bool
  allow_sha1_signing :: bool
  enable_pqc :: bool
  cfg_crypto_backend :: string
  fips_approved_only :: bool

record hsm_config =
  cfg_token :: token_config
  cfg_security :: security_config
  cfg_audit :: audit_config
  cfg_algorithms :: algorithm_config

text \<open>ASCII bytes of a string literal of the source.\<close>

definition ascii :: "string \<Rightarrow> bytes" where
  "ascii s = map (\<lambda>c. of_char c) s"

definition default_token_config :: token_config where
  "default_token_config =
    \<lparr>cfg_label = ascii ''Craton HSM Token 0'', cfg_max_sessions = 100, cfg_max_rw_sessions = 10,
     cfg_persist_objects = False, cfg_slot_count = 1, cfg_serial_number = ascii ''0000000000000001''\<rparr>"

definition default_security_config :: security_config where
  "default_security_config =
    \<lparr>cfg_pin_min_length = 8, cfg_pin_max_length = 64, cfg_max_failed_logins = 10,
     cfg_pbkdf2_iterations = 600000\<rparr>"

definition default_audit_config :: audit_config where
  "default_audit_config = \<lparr>cfg_audit_enabled = True, cfg_log_level = ''all''\<rparr>"

definition default_algorithm_config :: algorithm_config where
  "default_algorithm_config =
    \<lparr>allow_weak_rsa = False, allow_sha1_signing = False, enable_pqc = True,
     cfg_crypto_backend = ''rustcrypto'', fips_approved_only = False\<rparr>"

definition default_config :: hsm_config where
  "default_config =
    \<lparr>cfg_token = default_token_config, cfg_security = default_security_config,
     cfg_audit = default_audit_config, cfg_algorithms = default_algorithm_config\<rparr>"

definition fips_defaults :: hsm_config where
  "fips_defaults =
    default_config
      \<lparr>cfg_algorithms := (cfg_algorithms default_config)
        \<lparr>fips_approved_only := True, allow_weak_rsa := False, allow_sha1_signing := False,
         enable_pqc := False\<rparr>,
       cfg_audit := (cfg_audit default_config)\<lparr>cfg_audit_enabled := True\<rparr>\<rparr>"

end
