(* ===== verification/Token.thy ===== *)
theory Token
  imports Pin_Crypto Hsm_Config
begin

text \<open>
  The token: PIN authentication, lockout and rate limiting, initialisation, session counting and
  the object master key (\<open>src/src/token/token.rs\<close>), with the two small state files it keeps
  (\<open>src/src/store/lockout_store.rs\<close>, \<open>src/src/token/token_state_store.rs\<close>).

  Every public operation of the source holds the \<open>auth\<close> mutex throughout, so one operation is one
  atomic step on the token. An \<open>Instant\<close> is a number of milliseconds; the readings of the clock,
  the random bytes and the outcome of file operations during one call are the fields of
  \<open>tok_env\<close>. Counters are \<open>u32\<close> words, so they wrap as in a release build.
\<close>

section \<open>State\<close>

datatype login_state = Public | UserLoggedIn | SoLoggedIn

record auth_state =
  au_login :: login_state
  au_initialized :: bool
  au_user_pin_initialized :: bool
  au_failed_user_logins :: u32
  au_failed_so_logins :: u32
  au_failed_init_token_logins :: u32
  au_user_pin_locked :: bool
  au_so_pin_locked :: bool
  au_user_next_allowed :: "int option"
  au_so_next_allowed :: "int option"
  au_init_token_next_allowed :: "int option"

definition auth_state_new :: auth_state where
  "auth_state_new =
    \<lparr>au_login = Public, au_initialized = False, au_user_pin_initialized = False,
     au_failed_user_logins = 0, au_failed_so_logins = 0, au_failed_init_token_logins = 0,
     au_user_pin_locked = False, au_so_pin_locked = False, au_user_next_allowed = None,
     au_so_next_allowed = None, au_init_token_next_allowed = None\<rparr>"

definition reset_for_init :: "auth_state \<Rightarrow> auth_state" where
  "reset_for_init auth =
    auth\<lparr>au_login := Public, au_user_pin_initialized := False, au_failed_user_logins := 0,
      au_failed_so_logins := 0, au_failed_init_token_logins := 0, au_user_pin_locked := False,
      au_so_pin_locked := False, au_user_next_allowed := None, au_so_next_allowed := None,
      au_init_token_next_allowed := None\<rparr>"

record lockout_data =
  ld_failed_user_logins :: u32
  ld_failed_so_logins :: u32
  ld_failed_init_token_logins :: u32
  ld_user_pin_locked :: bool
  ld_so_pin_locked :: bool

text \<open>What reading the lockout file finds.\<close>

datatype lockout_file = LockoutAbsent | LockoutUnreadable | LockoutCorrupt | LockoutFile lockout_data

record token_state_data =
  ts_initialized :: bool
  ts_user_pin_initialized :: bool
  ts_label_hex :: string
  ts_so_pin_hash_hex :: "string option"
  ts_user_pin_hash_hex :: "string option"
  ts_object_key_salt_hex :: "string option"
  ts_object_master_key_wrapped_hex :: "string option"

datatype token_state_file = StateAbsent | StateUnreadable | StateCorrupt | StateFile token_state_data

record restored_token_state =
  rs_initialized :: bool
  rs_user_pin_initialized :: bool
  rs_label :: "bytes option"
  rs_so_pin_hash :: "bytes option"
  rs_user_pin_hash :: "bytes option"
  rs_object_key_salt :: "bytes option"
  rs_object_master_key_wrapped :: "bytes option"

text \<open>A configured store is the content of its file.\<close>

record token =
  tk_label :: bytes
  tk_so_pin_hash :: "bytes option"
  tk_user_pin_hash :: "bytes option"
  tk_auth :: auth_state
  tk_session_count :: u64
  tk_rw_session_count :: u64
  tk_max_sessions :: u64
  tk_max_rw_sessions :: u64
  tk_pin_min_len :: nat
  tk_pin_max_len :: nat
  tk_max_failed_logins :: u32
  tk_pbkdf2_iterations :: u32
  tk_lockout_store :: "lockout_file option"
  tk_token_state_store :: "token_state_file option"
  tk_object_key_salt :: "bytes option"
  tk_object_master_key_wrapped :: "bytes option"

text \<open>The write-to-temporary-and-rename protocol of the two files either fails before the rename
  (the old file stays), fails after it (the new file is in place) or succeeds.\<close>

datatype save_outcome = Saved | FailedBeforeRename hsm_error | FailedAfterRename hsm_error

record tok_env =
  te_check_time :: int
  te_fail_time :: int
  te_hash_salt :: bytes
  te_object_salt :: "bytes hsm_result"
  te_object_master_key :: "bytes hsm_result"
  te_wrap_nonce :: "bytes hsm_result"
  te_lockout_save :: save_outcome
  te_state_save :: save_outcome
  te_lockout_clear_ok :: bool

section \<open>The state files\<close>

definition lockout_default :: lockout_data where
  "lockout_default =
    \<lparr>ld_failed_user_logins = 0, ld_failed_so_logins = 0, ld_failed_init_token_logins = 0,
     ld_user_pin_locked = False, ld_so_pin_locked = False\<rparr>"

definition lockout_fail_closed :: lockout_data where
  "lockout_fail_closed =
    \<lparr>ld_failed_user_logins = - 1, ld_failed_so_logins = - 1, ld_failed_init_token_logins = - 1,
     ld_user_pin_locked = True, ld_so_pin_locked = True\<rparr>"

fun lockout_load :: "lockout_file \<Rightarrow> lockout_data" where
  "lockout_load (LockoutFile data) = data"
| "lockout_load LockoutCorrupt = lockout_fail_closed"
| "lockout_load LockoutAbsent = lockout_default"
| "lockout_load LockoutUnreadable = lockout_fail_closed"

fun lockout_save :: "save_outcome \<Rightarrow> lockout_data \<Rightarrow> lockout_file \<Rightarrow> unit hsm_result \<times> lockout_file" where
  "lockout_save Saved data file = (Inr (), LockoutFile data)"
| "lockout_save (FailedBeforeRename e) data file = (Inl e, file)"
| "lockout_save (FailedAfterRename e) data file = (Inl e, LockoutFile data)"

definition lockout_clear :: "bool \<Rightarrow> lockout_file \<Rightarrow> lockout_file" where
  "lockout_clear ok file = (if ok then LockoutAbsent else file)"

fun token_state_load :: "pin_crypto \<Rightarrow> token_state_file \<Rightarrow> restored_token_state option" where
  "token_state_load C StateAbsent = None"
| "token_state_load C StateUnreadable = None"
| "token_state_load C StateCorrupt = None"
| "token_state_load C (StateFile data) =
    (let decode_hash = (\<lambda>field. Option.bind field (hex_decode C));
         so_pin_hash = decode_hash (ts_so_pin_hash_hex data);
         user_pin_hash = decode_hash (ts_user_pin_hash_hex data);
         label = (case hex_decode C (ts_label_hex data) of
                    Some bytes \<Rightarrow> if length bytes = 32 then Some bytes else None
                  | None \<Rightarrow> None);
         object_key_salt = (case decode_hash (ts_object_key_salt_hex data) of
                    Some s \<Rightarrow> if length s = 32 then Some s else None
                  | None \<Rightarrow> None)
     in Some
       \<lparr>rs_initialized = (ts_initialized data \<and> so_pin_hash \<noteq> None),
        rs_user_pin_initialized = (ts_user_pin_initialized data \<and> user_pin_hash \<noteq> None),
        rs_label = label,
        rs_so_pin_hash = so_pin_hash,
        rs_user_pin_hash = user_pin_hash,
        rs_object_key_salt = object_key_salt,
        rs_object_master_key_wrapped = decode_hash (ts_object_master_key_wrapped_hex data)\<rparr>)"

fun token_state_save ::
  "save_outcome \<Rightarrow> token_state_data \<Rightarrow> token_state_file \<Rightarrow> unit hsm_result \<times> token_state_file" where
  "token_state_save Saved data file = (Inr (), StateFile data)"
| "token_state_save (FailedBeforeRename e) data file = (Inl e, file)"
| "token_state_save (FailedAfterRename e) data file = (Inl e, StateFile data)"

section \<open>Construction\<close>

definition pad_label :: "bytes \<Rightarrow> bytes" where
  "pad_label bs = take 32 bs @ replicate (32 - length (take 32 bs)) 0x20"

definition restore_lockout :: "lockout_data \<Rightarrow> auth_state \<Rightarrow> auth_state" where
  "restore_lockout data auth =
    auth\<lparr>au_failed_user_logins := ld_failed_user_logins data,
      au_failed_so_logins := ld_failed_so_logins data,
      au_failed_init_token_logins := ld_failed_init_token_logins data,
      au_user_pin_locked := ld_user_pin_locked data,
      au_so_pin_locked := ld_so_pin_locked data\<rparr>"

definition token_of_auth :: "hsm_config option \<Rightarrow> auth_state \<Rightarrow> lockout_file option \<Rightarrow> token_state_file option \<Rightarrow> token" where
  "token_of_auth config auth lockout_store token_state_store =
    \<lparr>tk_label = pad_label (case config of Some c \<Rightarrow> cfg_label (cfg_token c) | None \<Rightarrow> ascii ''Craton HSM Token 0''),
     tk_so_pin_hash = None,
     tk_user_pin_hash = None,
     tk_auth = auth,
     tk_session_count = 0,
     tk_rw_session_count = 0,
     tk_max_sessions = (case config of Some c \<Rightarrow> cfg_max_sessions (cfg_token c) | None \<Rightarrow> 100),
     tk_max_rw_sessions = (case config of Some c \<Rightarrow> cfg_max_rw_sessions (cfg_token c) | None \<Rightarrow> 10),
     tk_pin_min_len = (case config of Some c \<Rightarrow> cfg_pin_min_length (cfg_security c) | None \<Rightarrow> 8),
     tk_pin_max_len = (case config of Some c \<Rightarrow> cfg_pin_max_length (cfg_security c) | None \<Rightarrow> 64),
     tk_max_failed_logins = (case config of Some c \<Rightarrow> cfg_max_failed_logins (cfg_security c) | None \<Rightarrow> 5),
     tk_pbkdf2_iterations = (case config of Some c \<Rightarrow> cfg_pbkdf2_iterations (cfg_security c) | None \<Rightarrow> 600000),
     tk_lockout_store = lockout_store,
     tk_token_state_store = token_state_store,
     tk_object_key_salt = None,
     tk_object_master_key_wrapped = None\<rparr>"

definition restore_token_state :: "restored_token_state \<Rightarrow> token \<Rightarrow> token" where
  "restore_token_state restored t =
    t\<lparr>tk_auth := (tk_auth t)\<lparr>au_initialized := rs_initialized restored,
        au_user_pin_initialized := rs_user_pin_initialized restored\<rparr>,
      tk_label := (case rs_label restored of Some l \<Rightarrow> l | None \<Rightarrow> tk_label t),
      tk_so_pin_hash := rs_so_pin_hash restored,
      tk_user_pin_hash := rs_user_pin_hash restored,
      tk_object_key_salt := rs_object_key_salt restored,
      tk_object_master_key_wrapped := rs_object_master_key_wrapped restored\<rparr>"

definition new_with_config_for_slot ::
  "pin_crypto \<Rightarrow> hsm_config option \<Rightarrow> lockout_file \<Rightarrow> token_state_file \<Rightarrow> token" where
  "new_with_config_for_slot C config lockout_on_disk state_on_disk =
    (let lockout_store = map_option (\<lambda>_. lockout_on_disk) config;
         auth = (case lockout_store of
                   Some f \<Rightarrow> restore_lockout (lockout_load f) auth_state_new
                 | None \<Rightarrow> auth_state_new);
         token_state_store = (case config of
                   Some c \<Rightarrow> if cfg_persist_objects (cfg_token c) then Some state_on_disk else None
                 | None \<Rightarrow> None);
         t = token_of_auth config auth lockout_store token_state_store
     in case token_state_store of
          None \<Rightarrow> t
        | Some f \<Rightarrow> (case token_state_load C f of
                       None \<Rightarrow> t
                     | Some restored \<Rightarrow> restore_token_state restored t))"

section \<open>Persistence helpers\<close>

definition lockout_data_of :: "auth_state \<Rightarrow> lockout_data" where
  "lockout_data_of auth =
    \<lparr>ld_failed_user_logins = au_failed_user_logins auth,
     ld_failed_so_logins = au_failed_so_logins auth,
     ld_failed_init_token_logins = au_failed_init_token_logins auth,
     ld_user_pin_locked = au_user_pin_locked auth,
     ld_so_pin_locked = au_so_pin_locked auth\<rparr>"

definition persist_lockout :: "tok_env \<Rightarrow> token \<Rightarrow> token" where
  "persist_lockout env t =
    (case tk_lockout_store t of
       None \<Rightarrow> t
     | Some file \<Rightarrow>
         t\<lparr>tk_lockout_store := Some (snd (lockout_save (te_lockout_save env) (lockout_data_of (tk_auth t)) file))\<rparr>)"

definition token_state_data_of :: "pin_crypto \<Rightarrow> token \<Rightarrow> token_state_data" where
  "token_state_data_of C t =
    \<lparr>ts_initialized = au_initialized (tk_auth t),
     ts_user_pin_initialized = au_user_pin_initialized (tk_auth t),
     ts_label_hex = hex_encode C (tk_label t),
     ts_so_pin_hash_hex = map_option (hex_encode C) (tk_so_pin_hash t),
     ts_user_pin_hash_hex = map_option (hex_encode C) (tk_user_pin_hash t),
     ts_object_key_salt_hex = map_option (hex_encode C) (tk_object_key_salt t),
     ts_object_master_key_wrapped_hex = map_option (hex_encode C) (tk_object_master_key_wrapped t)\<rparr>"

definition persist_token_state :: "pin_crypto \<Rightarrow> tok_env \<Rightarrow> token \<Rightarrow> token" where
  "persist_token_state C env t =
    (case tk_token_state_store t of
       None \<Rightarrow> t
     | Some file \<Rightarrow>
         t\<lparr>tk_token_state_store := Some (snd (token_state_save (te_state_save env) (token_state_data_of C t) file))\<rparr>)"

section \<open>PINs\<close>

definition hash_pin :: "pin_crypto \<Rightarrow> tok_env \<Rightarrow> token \<Rightarrow> bytes \<Rightarrow> bytes" where
  "hash_pin C env t pin = hash_pin_pbkdf2 C (te_hash_salt env) pin (tk_pbkdf2_iterations t)"

definition verify_pin :: "pin_crypto \<Rightarrow> token \<Rightarrow> bytes \<Rightarrow> bytes \<Rightarrow> bool" where
  "verify_pin C t stored_hash provided_pin =
    verify_pin_pbkdf2 C stored_hash provided_pin (tk_pbkdf2_iterations t)"

text \<open>The loop of \<open>validate_pin\<close>: one pass over the PIN with the \<open>seen\<close> table, the number of
  distinct bytes and the character classes met.\<close>

record pin_scan =
  ps_seen :: "bool list"
  ps_distinct :: nat
  ps_lower :: bool
  ps_upper :: bool
  ps_digit :: bool
  ps_other :: bool
  ps_non_ascii :: bool

definition pin_scan_init :: pin_scan where
  "pin_scan_init =
    \<lparr>ps_seen = replicate 256 False, ps_distinct = 0, ps_lower = False, ps_upper = False,
     ps_digit = False, ps_other = False, ps_non_ascii = False\<rparr>"

definition pin_scan_byte :: "byte \<Rightarrow> pin_scan \<Rightarrow> pin_scan" where
  "pin_scan_byte b s =
    (let s1 = (if \<not> ps_seen s ! unat b
               then s\<lparr>ps_seen := (ps_seen s)[unat b := True], ps_distinct := ps_distinct s + 1\<rparr>
               else s)
     in if 0x61 \<le> b \<and> b \<le> 0x7A then s1\<lparr>ps_lower := True\<rparr>
        else if 0x41 \<le> b \<and> b \<le> 0x5A then s1\<lparr>ps_upper := True\<rparr>
        else if 0x30 \<le> b \<and> b \<le> 0x39 then s1\<lparr>ps_digit := True\<rparr>
        else if 0x20 \<le> b \<and> b \<le> 0x7E then s1\<lparr>ps_other := True\<rparr>
        else s1\<lparr>ps_non_ascii := True\<rparr>)"

definition validate_pin :: "token \<Rightarrow> bytes \<Rightarrow> unit hsm_result" where
  "validate_pin t pin =
    (if length pin < tk_pin_min_len t \<or> length pin > tk_pin_max_len t then Inl PinLenRange
     else let s = fold pin_scan_byte pin pin_scan_init
          in if ps_distinct s < 3 then Inl PinInvalid
             else if \<not> ps_non_ascii s \<and>
                     length (filter id [ps_lower s, ps_upper s, ps_digit s, ps_other s]) < 2
             then Inl PinInvalid
             else Inr ())"

definition saturating_mul64 :: "u64 \<Rightarrow> u64 \<Rightarrow> u64" where
  "saturating_mul64 a b = (if uint a * uint b < 2 ^ 64 then a * b else - 1)"

definition backoff_duration :: "u32 \<Rightarrow> u64" where
  "backoff_duration failures =
    (if failures = 0 then 0
     else let shift = min (unat failures - 1) 31;
              delay_ms = saturating_mul64 100 (push_bit shift 1)
          in min delay_ms 5000)"

fun check_rate_limit :: "int \<Rightarrow> int option \<Rightarrow> unit hsm_result" where
  "check_rate_limit now (Some deadline) = (if now < deadline then Inl PinRateLimited else Inr ())"
| "check_rate_limit now None = Inr ()"

definition require_login :: "login_state \<Rightarrow> token \<Rightarrow> unit hsm_result" where
  "require_login expected t =
    (if au_login (tk_auth t) = expected then Inr ()
     else if au_login (tk_auth t) = Public then Inl UserNotLoggedIn
     else Inl UserAnotherAlreadyLoggedIn)"

definition token_flags :: "token \<Rightarrow> ck_ulong" where
  "token_flags t =
    (let f0 = CKF_RNG OR CKF_LOGIN_REQUIRED;
         f1 = (if au_initialized (tk_auth t) then f0 OR CKF_TOKEN_INITIALIZED else f0);
         f2 = (if au_user_pin_initialized (tk_auth t) then f1 OR CKF_USER_PIN_INITIALIZED else f1);
         f3 = (if au_user_pin_locked (tk_auth t) then f2 OR CKF_USER_PIN_LOCKED else f2)
     in if au_so_pin_locked (tk_auth t) then f3 OR CKF_SO_PIN_LOCKED else f3)"

section \<open>The object master key\<close>

definition unwrap_object_key :: "pin_crypto \<Rightarrow> token \<Rightarrow> bytes \<Rightarrow> bytes option" where
  "unwrap_object_key C t user_pin =
    (case tk_object_key_salt t of
       None \<Rightarrow> None
     | Some salt \<Rightarrow>
        (case tk_object_master_key_wrapped t of
           None \<Rightarrow> None
         | Some wrapped \<Rightarrow>
            (let (kek, _) = derive_key_from_pin C [] user_pin (Some salt) (tk_pbkdf2_iterations t)
             in case unwrap_key C kek wrapped of Inr omk \<Rightarrow> Some omk | Inl e \<Rightarrow> None)))"

definition provision_object_key :: "pin_crypto \<Rightarrow> tok_env \<Rightarrow> bytes \<Rightarrow> token \<Rightarrow> unit hsm_result \<times> token" where
  "provision_object_key C env user_pin t =
    (case te_object_salt env of
       Inl e \<Rightarrow> (Inl e, t)
     | Inr salt \<Rightarrow>
        (case te_object_master_key env of
           Inl e \<Rightarrow> (Inl e, t)
         | Inr omk \<Rightarrow>
            (let (kek, _) = derive_key_from_pin C [] user_pin (Some salt) (tk_pbkdf2_iterations t)
             in case wrap_key C (te_wrap_nonce env) kek omk of
                  Inl e \<Rightarrow> (Inl e, t)
                | Inr wrapped \<Rightarrow>
                    (Inr (), t\<lparr>tk_object_key_salt := Some salt, tk_object_master_key_wrapped := Some wrapped\<rparr>))))"

definition rewrap_object_key :: "pin_crypto \<Rightarrow> tok_env \<Rightarrow> bytes \<Rightarrow> bytes \<Rightarrow> token \<Rightarrow> unit hsm_result \<times> token" where
  "rewrap_object_key C env old_pin new_pin t =
    (case (tk_object_key_salt t, tk_object_master_key_wrapped t) of
       (Some salt, Some wrapped) \<Rightarrow>
         (let (old_kek, _) = derive_key_from_pin C [] old_pin (Some salt) (tk_pbkdf2_iterations t)
          in case unwrap_key C old_kek wrapped of
               Inl e \<Rightarrow> (Inl e, t)
             | Inr omk \<Rightarrow>
                 (let (new_kek, _) = derive_key_from_pin C [] new_pin (Some salt) (tk_pbkdf2_iterations t)
                  in case wrap_key C (te_wrap_nonce env) new_kek omk of
                       Inl e \<Rightarrow> (Inl e, t)
                     | Inr rewrapped \<Rightarrow> (Inr (), t\<lparr>tk_object_master_key_wrapped := Some rewrapped\<rparr>)))
     | _ \<Rightarrow> (Inr (), t))"

section \<open>Operations\<close>

text \<open>The bookkeeping after a wrong PIN, shared by \<open>login\<close> and \<open>set_pin\<close>: count the failure, open
  the backoff window, lock at the limit, persist, and report.\<close>

definition user_pin_failure :: "tok_env \<Rightarrow> token \<Rightarrow> unit hsm_result \<times> token" where
  "user_pin_failure env t =
    (let auth = tk_auth t;
         failures = au_failed_user_logins auth + 1;
         auth1 = auth\<lparr>au_failed_user_logins := failures,
                   au_user_next_allowed := Some (te_fail_time env + uint (backoff_duration failures))\<rparr>;
         auth2 = (if tk_max_failed_logins t \<le> failures then auth1\<lparr>au_user_pin_locked := True\<rparr> else auth1);
         t' = persist_lockout env (t\<lparr>tk_auth := auth2\<rparr>)
     in (Inl (if au_user_pin_locked auth2 then PinLocked else PinIncorrect), t'))"

definition so_pin_failure :: "tok_env \<Rightarrow> token \<Rightarrow> unit hsm_result \<times> token" where
  "so_pin_failure env t =
    (let auth = tk_auth t;
         failures = au_failed_so_logins auth + 1;
         auth1 = auth\<lparr>au_failed_so_logins := failures,
                   au_so_next_allowed := Some (te_fail_time env + uint (backoff_duration failures))\<rparr>;
         auth2 = (if tk_max_failed_logins t \<le> failures then auth1\<lparr>au_so_pin_locked := True\<rparr> else auth1);
         t' = persist_lockout env (t\<lparr>tk_auth := auth2\<rparr>)
     in (Inl (if au_so_pin_locked auth2 then PinLocked else PinIncorrect), t'))"

definition login_user :: "pin_crypto \<Rightarrow> tok_env \<Rightarrow> bytes \<Rightarrow> token \<Rightarrow> unit hsm_result \<times> token" where
  "login_user C env pin t =
    (let auth = tk_auth t in
     if au_login auth = UserLoggedIn then (Inl UserAlreadyLoggedIn, t)
     else if au_login auth = SoLoggedIn then (Inl UserAnotherAlreadyLoggedIn, t)
     else if \<not> au_user_pin_initialized auth then (Inl UserPinNotInitialized, t)
     else case check_rate_limit (te_check_time env) (au_user_next_allowed auth) of
       Inl e \<Rightarrow> (Inl e, t)
     | Inr _ \<Rightarrow>
        (case tk_user_pin_hash t of
           None \<Rightarrow> (Inl UserPinNotInitialized, t)
         | Some stored \<Rightarrow>
            (let pin_correct = verify_pin C t stored pin in
             if au_user_pin_locked auth then (Inl PinLocked, t)
             else if \<not> pin_correct then user_pin_failure env t
             else
              (let t1 = persist_lockout env
                     (t\<lparr>tk_auth := auth\<lparr>au_failed_user_logins := 0, au_user_next_allowed := None\<rparr>\<rparr>)
               in (Inr (), t1\<lparr>tk_auth := (tk_auth t1)\<lparr>au_login := UserLoggedIn\<rparr>\<rparr>)))))"

definition login_so :: "pin_crypto \<Rightarrow> tok_env \<Rightarrow> bytes \<Rightarrow> token \<Rightarrow> unit hsm_result \<times> token" where
  "login_so C env pin t =
    (let auth = tk_auth t in
     if au_login auth = SoLoggedIn then (Inl UserAlreadyLoggedIn, t)
     else if au_login auth = UserLoggedIn then (Inl UserAnotherAlreadyLoggedIn, t)
     else case check_rate_limit (te_check_time env) (au_so_next_allowed auth) of
       Inl e \<Rightarrow> (Inl e, t)
     | Inr _ \<Rightarrow>
        (case tk_so_pin_hash t of
           None \<Rightarrow> (Inl PinIncorrect, t)
         | Some stored \<Rightarrow>
            (let pin_correct = verify_pin C t stored pin in
             if au_so_pin_locked auth then (Inl PinLocked, t)
             else if \<not> pin_correct then so_pin_failure env t
             else
              (let t1 = persist_lockout env
                     (t\<lparr>tk_auth := auth\<lparr>au_failed_so_logins := 0, au_so_next_allowed := None\<rparr>\<rparr>)
               in (Inr (), t1\<lparr>tk_auth := (tk_auth t1)\<lparr>au_login := SoLoggedIn\<rparr>\<rparr>)))))"

definition login :: "pin_crypto \<Rightarrow> tok_env \<Rightarrow> ck_ulong \<Rightarrow> bytes \<Rightarrow> token \<Rightarrow> unit hsm_result \<times> token" where
  "login C env user_type pin t =
    (if \<not> au_initialized (tk_auth t) then (Inl TokenNotInitialized, t)
     else if user_type = CKU_USER then login_user C env pin t
     else if user_type = CKU_SO then login_so C env pin t
     else (Inl UserTypeInvalid, t))"

definition logout :: "tok_env \<Rightarrow> token \<Rightarrow> unit hsm_result \<times> token" where
  "logout env t =
    (if au_login (tk_auth t) = Public then (Inl UserNotLoggedIn, t)
     else (Inr (), persist_lockout env
       (t\<lparr>tk_auth := (tk_auth t)\<lparr>au_login := Public, au_failed_user_logins := 0, au_failed_so_logins := 0,
          au_user_next_allowed := None, au_so_next_allowed := None\<rparr>\<rparr>)))"

definition init_token_failure :: "tok_env \<Rightarrow> token \<Rightarrow> unit hsm_result \<times> token" where
  "init_token_failure env t =
    (let failures = au_failed_init_token_logins (tk_auth t) + 1
     in (Inl PinIncorrect, persist_lockout env
          (t\<lparr>tk_auth := (tk_auth t)\<lparr>au_failed_init_token_logins := failures,
             au_init_token_next_allowed := Some (te_fail_time env + uint (backoff_duration failures))\<rparr>\<rparr>)))"

definition init_token_commit :: "pin_crypto \<Rightarrow> tok_env \<Rightarrow> bytes \<Rightarrow> bytes \<Rightarrow> token \<Rightarrow> token" where
  "init_token_commit C env so_pin label t =
    (let t1 = t\<lparr>tk_so_pin_hash := Some (hash_pin C env t so_pin), tk_label := label,
           tk_user_pin_hash := None, tk_object_key_salt := None, tk_object_master_key_wrapped := None,
           tk_auth := (reset_for_init (tk_auth t))\<lparr>au_initialized := True\<rparr>\<rparr>;
         t2 = persist_lockout env t1;
         t3 = t2\<lparr>tk_lockout_store := map_option (lockout_clear (te_lockout_clear_ok env)) (tk_lockout_store t2)\<rparr>;
         t4 = persist_token_state C env t3
     in t4\<lparr>tk_session_count := 0, tk_rw_session_count := 0\<rparr>)"

definition init_token :: "pin_crypto \<Rightarrow> tok_env \<Rightarrow> bytes \<Rightarrow> bytes \<Rightarrow> token \<Rightarrow> unit hsm_result \<times> token" where
  "init_token C env so_pin label t =
    (case validate_pin t so_pin of
       Inl e \<Rightarrow> (Inl e, t)
     | Inr _ \<Rightarrow>
        if au_initialized (tk_auth t) then
          (case check_rate_limit (te_check_time env) (au_init_token_next_allowed (tk_auth t)) of
             Inl e \<Rightarrow> (Inl e, t)
           | Inr _ \<Rightarrow>
              (case tk_so_pin_hash t of
                 Some stored \<Rightarrow>
                   if \<not> verify_pin C t stored so_pin then init_token_failure env t
                   else (Inr (), init_token_commit C env so_pin label t)
               | None \<Rightarrow> (Inr (), init_token_commit C env so_pin label t)))
        else (Inr (), init_token_commit C env so_pin label t))"

definition init_pin :: "pin_crypto \<Rightarrow> tok_env \<Rightarrow> bytes \<Rightarrow> token \<Rightarrow> unit hsm_result \<times> token" where
  "init_pin C env pin t =
    (if au_login (tk_auth t) \<noteq> SoLoggedIn then (Inl UserNotLoggedIn, t)
     else case validate_pin t pin of
       Inl e \<Rightarrow> (Inl e, t)
     | Inr _ \<Rightarrow>
        (let t1 = t\<lparr>tk_user_pin_hash := Some (hash_pin C env t pin)\<rparr>;
             t2 = (if tk_token_state_store t1 \<noteq> None \<and> tk_object_key_salt t1 = None
                   then snd (provision_object_key C env pin t1) else t1);
             t3 = t2\<lparr>tk_auth := (tk_auth t2)\<lparr>au_user_pin_initialized := True, au_failed_user_logins := 0,
                      au_user_pin_locked := False, au_user_next_allowed := None\<rparr>\<rparr>
         in (Inr (), persist_token_state C env (persist_lockout env t3))))"

definition set_pin_user :: "pin_crypto \<Rightarrow> tok_env \<Rightarrow> bytes \<Rightarrow> bytes \<Rightarrow> token \<Rightarrow> unit hsm_result \<times> token" where
  "set_pin_user C env old_pin new_pin t =
    (if au_user_pin_locked (tk_auth t) then (Inl PinLocked, t)
     else case check_rate_limit (te_check_time env) (au_user_next_allowed (tk_auth t)) of
       Inl e \<Rightarrow> (Inl e, t)
     | Inr _ \<Rightarrow>
        (case tk_user_pin_hash t of
           None \<Rightarrow> (Inl UserPinNotInitialized, t)
         | Some stored \<Rightarrow>
             if \<not> verify_pin C t stored old_pin then user_pin_failure env t
             else
               (let t1 = persist_lockout env
                      (t\<lparr>tk_auth := (tk_auth t)\<lparr>au_failed_user_logins := 0, au_user_next_allowed := None\<rparr>\<rparr>);
                    t2 = t1\<lparr>tk_user_pin_hash := Some (hash_pin C env t1 new_pin)\<rparr>;
                    t3 = snd (rewrap_object_key C env old_pin new_pin t2)
                in (Inr (), persist_token_state C env t3))))"

definition set_pin_so :: "pin_crypto \<Rightarrow> tok_env \<Rightarrow> bytes \<Rightarrow> bytes \<Rightarrow> token \<Rightarrow> unit hsm_result \<times> token" where
  "set_pin_so C env old_pin new_pin t =
    (if au_so_pin_locked (tk_auth t) then (Inl PinLocked, t)
     else case check_rate_limit (te_check_time env) (au_so_next_allowed (tk_auth t)) of
       Inl e \<Rightarrow> (Inl e, t)
     | Inr _ \<Rightarrow>
        (case tk_so_pin_hash t of
           None \<Rightarrow> (Inl PinIncorrect, t)
         | Some stored \<Rightarrow>
             if \<not> verify_pin C t stored old_pin then so_pin_failure env t
             else
               (let t1 = persist_lockout env
                      (t\<lparr>tk_auth := (tk_auth t)\<lparr>au_failed_so_logins := 0, au_so_next_allowed := None\<rparr>\<rparr>);
                    t2 = t1\<lparr>tk_so_pin_hash := Some (hash_pin C env t1 new_pin)\<rparr>
                in (Inr (), persist_token_state C env t2))))"

definition set_pin :: "pin_crypto \<Rightarrow> tok_env \<Rightarrow> bytes \<Rightarrow> bytes \<Rightarrow> token \<Rightarrow> unit hsm_result \<times> token" where
  "set_pin C env old_pin new_pin t =
    (case validate_pin t new_pin of
       Inl e \<Rightarrow> (Inl e, t)
     | Inr _ \<Rightarrow>
        (case au_login (tk_auth t) of
           UserLoggedIn \<Rightarrow> set_pin_user C env old_pin new_pin t
         | SoLoggedIn \<Rightarrow> set_pin_so C env old_pin new_pin t
         | Public \<Rightarrow> (Inl UserNotLoggedIn, t)))"

definition increment_session_count :: "bool \<Rightarrow> token \<Rightarrow> unit hsm_result \<times> token" where
  "increment_session_count rw t =
    (let current = tk_session_count t in
     if tk_max_sessions t \<le> current then (Inl SessionCount, t)
     else
       (let t1 = t\<lparr>tk_session_count := current + 1\<rparr> in
        if rw then
          (let rw_current = tk_rw_session_count t1 in
           if tk_max_rw_sessions t1 \<le> rw_current
           then (Inl SessionCount, t1\<lparr>tk_session_count := current\<rparr>)
           else (Inr (), t1\<lparr>tk_rw_session_count := rw_current + 1\<rparr>))
        else (Inr (), t1)))"

definition decrement_session_count :: "bool \<Rightarrow> token \<Rightarrow> unit hsm_result \<times> token" where
  "decrement_session_count rw t =
    (let current = tk_session_count t in
     if current = 0 then (Inl GeneralError, t)
     else
       (let t1 = t\<lparr>tk_session_count := current - 1\<rparr> in
        if rw then
          (let rw_current = tk_rw_session_count t1 in
           if rw_current = 0 then (Inl GeneralError, t1)
           else (Inr (), t1\<lparr>tk_rw_session_count := rw_current - 1\<rparr>))
        else (Inr (), t1)))"

definition reset_session_counts :: "token \<Rightarrow> token" where
  "reset_session_counts t = t\<lparr>tk_rw_session_count := 0, tk_session_count := 0\<rparr>"

end
