(* ===== verification/Token_Persistence.thy ===== *)
theory Token_Persistence
  imports Token_Properties
begin

text \<open>
  What of a token survives a restart: the PIN change keeps the object master key reachable, and
  with working file operations a fresh process that reads the two state files sees the same
  PINs, flags, label, key material and lockout counters.
\<close>

section \<open>Changing the user PIN\<close>

text \<open>\<^bold>\<open>C21\<close>. A successful change of the user PIN makes the new PIN the one that verifies and keeps
  the object master key: the new PIN unwraps the very key the old PIN unwrapped, so no stored
  object has to be re-encrypted. (Needs the two documented laws of the crates, and the key wrap
  itself to succeed: a working generator and cipher.)\<close>

theorem set_pin_keeps_object_key:
  assumes "pbkdf2_fills C" "gcm_roundtrips C"
    and "au_login (tk_auth t) = UserLoggedIn" "set_pin C env old_pin new_pin t = (Inr (), t')"
    and "length (te_hash_salt env) = SALT_LEN"
    and "te_wrap_nonce env = Inr nonce" "length nonce = NONCE_LEN"
    and "\<forall>key p. gcm_encrypt C key nonce p \<noteq> None"
    and "unwrap_object_key C t old_pin = Some omk"
  shows "(\<exists>h. tk_user_pin_hash t' = Some h \<and> verify_pin C t' h new_pin) \<and>
    unwrap_object_key C t' new_pin = Some omk"
proof -
  obtain salt wrapped where sw: "tk_object_key_salt t = Some salt" "tk_object_master_key_wrapped t = Some wrapped"
    and omk: "unwrap_key C (pbkdf2_hmac C old_pin salt (tk_pbkdf2_iterations t)) wrapped = Inr omk"
    using assms(9) by (auto simp: unwrap_object_key_def derive_key_from_pin_def split: option.splits sum.splits)
  have len: "length omk = KEY_LEN"
    using omk by (auto simp: unwrap_key_def split: if_splits option.splits)
  let ?kek = "pbkdf2_hmac C new_pin salt (tk_pbkdf2_iterations t)"
  obtain c where "gcm_encrypt C ?kek nonce omk = Some c"
    using assms(8) by blast
  then obtain w where w: "wrap_key C (Inr nonce) ?kek omk = Inr w"
    by (simp add: wrap_key_def)
  have "unwrap_key C ?kek w = Inr omk"
    using assms(2) w assms(7) len by (rule unwrap_wrap)
  moreover have "tk_user_pin_hash t' = Some (hash_pin_pbkdf2 C (te_hash_salt env) new_pin (tk_pbkdf2_iterations t))"
    "tk_object_key_salt t' = Some salt" "tk_object_master_key_wrapped t' = Some w"
    "tk_pbkdf2_iterations t' = tk_pbkdf2_iterations t"
    using assms(3,4,6) sw omk w
    by (auto simp: set_pin_def set_pin_user_def user_pin_failure_def rewrap_object_key_def hash_pin_def
        derive_key_from_pin_def Let_def split: sum.splits option.splits if_splits)
  ultimately show ?thesis
    using verify_own_pin [OF assms(1,5)]
    by (simp add: unwrap_object_key_def derive_key_from_pin_def verify_pin_def)
qed


text \<open>A token that keeps its objects on disk, with user PIN \<open>userpin-1\<close> and the given role logged in.\<close>

definition provisioned_token :: "login_state \<Rightarrow> token" where
  "provisioned_token role =
    (let salt = replicate 32 9 in
     ready_token\<lparr>
       tk_auth := (tk_auth ready_token)\<lparr>au_login := role\<rparr>,
       tk_token_state_store := Some StateAbsent,
       tk_object_key_salt := Some salt,
       tk_object_master_key_wrapped :=
         Some (replicate 12 3 @ pbkdf2_hmac plain_crypto (ascii ''userpin-1'') salt 600000 @
           replicate 12 3 @ replicate 32 5)\<rparr>)"

theorem set_pin_keeps_object_key_witness:
  "unwrap_object_key plain_crypto
     (snd (set_pin plain_crypto sample_env (ascii ''userpin-1'') (ascii ''changed-2'') (provisioned_token UserLoggedIn)))
     (ascii ''changed-2'') = Some (replicate 32 5)"
proof -
  let ?r = "set_pin plain_crypto sample_env (ascii ''userpin-1'') (ascii ''changed-2'') (provisioned_token UserLoggedIn)"
  have "au_login (tk_auth (provisioned_token UserLoggedIn)) = UserLoggedIn"
    "unwrap_object_key plain_crypto (provisioned_token UserLoggedIn) (ascii ''userpin-1'') = Some (replicate 32 5)"
    "fst ?r = Inr ()"
    by code_simp+
  then show ?thesis
    using set_pin_keeps_object_key [OF plain_crypto_laws(1,2), of "provisioned_token UserLoggedIn" sample_env
        "ascii ''userpin-1''" "ascii ''changed-2''" "snd ?r" "replicate 12 3" "replicate 32 5"]
    by (simp add: sample_env_def plain_crypto_def prod_eq_iff)
qed

section \<open>Resetting the user PIN by the security officer\<close>

text \<open>The authenticity of GCM: a ciphertext does not open under another key.\<close>

definition gcm_rejects_other_keys :: "pin_crypto \<Rightarrow> bool" where
  "gcm_rejects_other_keys C \<longleftrightarrow>
    (\<forall>key key' nonce p c. length key = KEY_LEN \<and> length key' = KEY_LEN \<and> key \<noteq> key' \<and>
       gcm_encrypt C key nonce p = Some c \<longrightarrow> gcm_decrypt C key' nonce c = None)"

text \<open>\<^bold>\<open>C36\<close>. When the security officer sets the user PIN of a token that already has an object
  master key, the wrapped key is left as it is, still wrapped under the old PIN: with the new
  PIN the master key, and every object encrypted under it, can no longer be unwrapped.\<close>

theorem init_pin_strands_object_key:
  assumes "pbkdf2_fills C" "gcm_rejects_other_keys C"
    and "tk_object_key_salt t = Some salt" "tk_object_master_key_wrapped t = Some (nonce @ c)"
    and "length nonce = NONCE_LEN"
    and "gcm_encrypt C (pbkdf2_hmac C old_pin salt (tk_pbkdf2_iterations t)) nonce omk = Some c"
    and "pbkdf2_hmac C new_pin salt (tk_pbkdf2_iterations t) \<noteq> pbkdf2_hmac C old_pin salt (tk_pbkdf2_iterations t)"
    and "init_pin C env new_pin t = (Inr (), t')"
  shows "unwrap_object_key C t' new_pin = None"
proof -
  have "gcm_decrypt C (pbkdf2_hmac C new_pin salt (tk_pbkdf2_iterations t)) nonce c = None"
    using assms(1,2,6,7) unfolding gcm_rejects_other_keys_def pbkdf2_fills_def by metis
  moreover have "tk_object_key_salt t' = Some salt" "tk_object_master_key_wrapped t' = Some (nonce @ c)"
    "tk_pbkdf2_iterations t' = tk_pbkdf2_iterations t"
    using assms(3,4,8) by (auto simp: init_pin_def Let_def split: sum.splits if_splits)
  ultimately show ?thesis
    using assms(5) by (simp add: unwrap_object_key_def derive_key_from_pin_def unwrap_key_def)
qed

lemma plain_crypto_rejects: "gcm_rejects_other_keys plain_crypto"
  by (auto simp: gcm_rejects_other_keys_def plain_crypto_def)

theorem init_pin_strands_object_key_witness:
  "unwrap_object_key plain_crypto
     (snd (init_pin plain_crypto sample_env (ascii ''changed-2'') (provisioned_token SoLoggedIn))) (ascii ''changed-2'') = None"
proof -
  let ?r = "init_pin plain_crypto sample_env (ascii ''changed-2'') (provisioned_token SoLoggedIn)"
  have "tk_object_key_salt (provisioned_token SoLoggedIn) = Some (replicate 32 9)"
    "tk_object_master_key_wrapped (provisioned_token SoLoggedIn) = Some (replicate 12 3 @
       (pbkdf2_hmac plain_crypto (ascii ''userpin-1'') (replicate 32 9) (tk_pbkdf2_iterations (provisioned_token SoLoggedIn))
         @ replicate 12 3 @ replicate 32 5))"
    "pbkdf2_hmac plain_crypto (ascii ''changed-2'') (replicate 32 9) (tk_pbkdf2_iterations (provisioned_token SoLoggedIn))
      \<noteq> pbkdf2_hmac plain_crypto (ascii ''userpin-1'') (replicate 32 9) (tk_pbkdf2_iterations (provisioned_token SoLoggedIn))"
    "fst ?r = Inr ()"
    by code_simp+
  then show ?thesis
    by (intro init_pin_strands_object_key [OF plain_crypto_laws(1) plain_crypto_rejects,
        where t = "provisioned_token SoLoggedIn" and env = sample_env and omk = "replicate 32 5"])
      (assumption | simp add: plain_crypto_def prod_eq_iff)+
qed

section \<open>Restart\<close>

text \<open>The part of a token that is meant to survive, and the token a new process builds from the
  files the old one left.\<close>

definition durable_state ::
  "token \<Rightarrow> bytes \<times> bytes option \<times> bytes option \<times> bytes option \<times> bytes option \<times> bool \<times> bool" where
  "durable_state t =
    (tk_label t, tk_so_pin_hash t, tk_user_pin_hash t, tk_object_key_salt t, tk_object_master_key_wrapped t,
     au_initialized (tk_auth t), au_user_pin_initialized (tk_auth t))"

definition restart :: "pin_crypto \<Rightarrow> hsm_config \<Rightarrow> token \<Rightarrow> token" where
  "restart C cfg t =
    new_with_config_for_slot C (Some cfg)
      (case tk_lockout_store t of Some f \<Rightarrow> f | None \<Rightarrow> LockoutAbsent)
      (case tk_token_state_store t of Some f \<Rightarrow> f | None \<Rightarrow> StateAbsent)"

text \<open>A call during which the files can be written and the generator works.\<close>

definition env_ok :: "tok_env \<Rightarrow> bool" where
  "env_ok env \<longleftrightarrow> te_lockout_save env = Saved \<and> te_state_save env = Saved \<and> te_lockout_clear_ok env \<and>
    (case te_object_salt env of Inr salt \<Rightarrow> length salt = 32 | Inl _ \<Rightarrow> True)"

inductive durable_reach :: "pin_crypto \<Rightarrow> hsm_config \<Rightarrow> token \<Rightarrow> bool" for C cfg where
  dur_new: "durable_reach C cfg (new_with_config_for_slot C (Some cfg) lockout_file state_file)"
| dur_login: "durable_reach C cfg t \<Longrightarrow> env_ok env \<Longrightarrow> durable_reach C cfg (snd (login C env user_type pin t))"
| dur_logout: "durable_reach C cfg t \<Longrightarrow> env_ok env \<Longrightarrow> durable_reach C cfg (snd (logout env t))"
| dur_init_token: "durable_reach C cfg t \<Longrightarrow> env_ok env \<Longrightarrow> length label = 32 \<Longrightarrow>
    durable_reach C cfg (snd (init_token C env so_pin label t))"
| dur_init_pin: "durable_reach C cfg t \<Longrightarrow> env_ok env \<Longrightarrow> durable_reach C cfg (snd (init_pin C env pin t))"
| dur_set_pin: "durable_reach C cfg t \<Longrightarrow> env_ok env \<Longrightarrow>
    durable_reach C cfg (snd (set_pin C env old_pin new_pin t))"

definition lockout_synced :: "token \<Rightarrow> bool" where
  "lockout_synced t \<longleftrightarrow> (\<exists>f. tk_lockout_store t = Some f \<and> lockout_load f = lockout_data_of (tk_auth t))"

definition state_synced :: "pin_crypto \<Rightarrow> hsm_config \<Rightarrow> token \<Rightarrow> bool" where
  "state_synced C cfg t \<longleftrightarrow> (\<exists>f. tk_token_state_store t = Some f \<and>
    durable_state (new_with_config_for_slot C (Some cfg) LockoutAbsent f) = durable_state t)"

definition sizes_ok :: "token \<Rightarrow> bool" where
  "sizes_ok t \<longleftrightarrow> length (tk_label t) = 32 \<and> (\<forall>s. tk_object_key_salt t = Some s \<longrightarrow> length s = 32)"

lemmas new_token_defs =
  new_with_config_for_slot_def token_of_auth_def restore_token_state_def restore_lockout_def Let_def

lemma durable_state_new_lockout:
  "durable_state (new_with_config_for_slot C (Some cfg) lockout_file f) =
   durable_state (new_with_config_for_slot C (Some cfg) LockoutAbsent f)"
  by (simp add: durable_state_def new_token_defs auth_state_new_def split: option.split)

lemma lockout_new:
  "lockout_data_of (tk_auth (new_with_config_for_slot C (Some cfg) lockout_file f)) = lockout_load lockout_file"
  by (simp add: new_token_defs lockout_data_of_def split: option.split)

lemma pad_label_length [simp]: "length (pad_label bs) = 32"
  by (simp add: pad_label_def)

lemma sizes_ok_new: "sizes_ok (new_with_config_for_slot C config lockout_file f)"
  by (cases f) (auto simp: sizes_ok_def new_token_defs split: option.splits if_splits)

lemma lockout_synced_persist:
  assumes "env_ok env" "tk_lockout_store t \<noteq> None"
  shows "lockout_synced (persist_lockout env t)"
  using assms by (auto simp: lockout_synced_def persist_lockout_def env_ok_def)

lemma state_synced_persist:
  assumes "hex_roundtrips C" "env_ok env" "token_wf t" "sizes_ok t" "tk_token_state_store t \<noteq> None"
    and "cfg_persist_objects (cfg_token cfg)"
  shows "state_synced C cfg (persist_token_state C env t)"
proof -
  obtain f where f: "tk_token_state_store t = Some f"
    using assms(5) by blast
  have dec: "Option.bind (map_option (hex_encode C) x) (hex_decode C) = x" for x
    using assms(1) by (cases x) (simp_all add: hex_roundtrips_def)
  have "durable_state (new_with_config_for_slot C (Some cfg) LockoutAbsent (StateFile (token_state_data_of C t)))
      = durable_state t"
    using assms(1,3,4,6)
    by (auto simp: durable_state_def new_token_defs auth_state_new_def token_state_data_of_def dec
        hex_roundtrips_def token_wf_def sizes_ok_def split: option.splits)
  then show ?thesis
    using f assms(2) by (simp add: state_synced_def persist_token_state_def env_ok_def durable_state_def)
qed

definition durable_inv :: "pin_crypto \<Rightarrow> hsm_config \<Rightarrow> token \<Rightarrow> bool" where
  "durable_inv C cfg t \<longleftrightarrow> lockout_synced t \<and> state_synced C cfg t \<and> token_wf t \<and> sizes_ok t"

lemma state_synced_cong:
  assumes "tk_token_state_store t' = tk_token_state_store t" "durable_state t' = durable_state t"
  shows "state_synced C cfg t' \<longleftrightarrow> state_synced C cfg t"
  using assms by (simp add: state_synced_def)

lemma lockout_synced_login [simp]:
  "lockout_synced (t\<lparr>tk_auth := (tk_auth t)\<lparr>au_login := l\<rparr>\<rparr>) = lockout_synced t"
  by (simp add: lockout_synced_def lockout_data_of_def)

text \<open>Operations that write only the lockout file.\<close>

lemma durable_inv_auth_only:
  assumes "durable_inv C cfg t" "env_ok env" "token_wf t'"
    and "t' = persist_lockout env (t\<lparr>tk_auth := auth\<rparr>)"
    and "au_initialized auth = au_initialized (tk_auth t)"
    and "au_user_pin_initialized auth = au_user_pin_initialized (tk_auth t)"
  shows "durable_inv C cfg t'"
proof -
  have "tk_lockout_store t \<noteq> None"
    using assms(1) by (auto simp: durable_inv_def lockout_synced_def)
  then have "lockout_synced t'"
    unfolding assms(4) by (intro lockout_synced_persist assms(2)) simp
  moreover have "state_synced C cfg t' \<longleftrightarrow> state_synced C cfg t"
    unfolding assms(4) by (rule state_synced_cong) (simp_all add: durable_state_def assms(5,6))
  ultimately show ?thesis
    using assms(1,3) by (simp add: durable_inv_def sizes_ok_def assms(4))
qed

lemma durable_inv_relogin:
  assumes "durable_inv C cfg t" "token_wf (t\<lparr>tk_auth := (tk_auth t)\<lparr>au_login := l\<rparr>\<rparr>)"
  shows "durable_inv C cfg (t\<lparr>tk_auth := (tk_auth t)\<lparr>au_login := l\<rparr>\<rparr>)"
proof -
  have "state_synced C cfg (t\<lparr>tk_auth := (tk_auth t)\<lparr>au_login := l\<rparr>\<rparr>) \<longleftrightarrow> state_synced C cfg t"
    by (rule state_synced_cong) (simp_all add: durable_state_def)
  then show ?thesis
    using assms by (simp add: durable_inv_def sizes_ok_def)
qed

lemma durable_inv_auth_update:
  assumes "durable_inv C cfg t" "env_ok env"
    and "au_initialized auth = au_initialized (tk_auth t)"
    and "au_user_pin_initialized auth = au_user_pin_initialized (tk_auth t)"
    and "au_login auth = au_login (tk_auth t) \<or> au_login auth = Public"
  shows "durable_inv C cfg (persist_lockout env (t\<lparr>tk_auth := auth\<rparr>))"
  using assms by (intro durable_inv_auth_only [OF assms(1,2) _ refl]) (auto simp: durable_inv_def token_wf_def)

lemma durable_inv_pin_failure [pres_intros]:
  assumes "durable_inv C cfg t" "env_ok env"
  shows "durable_inv C cfg (snd (user_pin_failure env t))"
    and "durable_inv C cfg (snd (so_pin_failure env t))"
    and "durable_inv C cfg (snd (init_token_failure env t))"
  by (auto simp: user_pin_failure_def so_pin_failure_def init_token_failure_def Let_def
      intro!: durable_inv_auth_update [OF assms])

lemma durable_inv_login [pres_intros]:
  assumes "durable_inv C cfg t" "env_ok env"
  shows "durable_inv C cfg (snd (login C env user_type pin t))"
proof -
  have wf: "token_wf (snd (login C env user_type pin t))"
    using assms(1) by (intro token_wf_login) (simp add: durable_inv_def)
  have ok: "durable_inv C cfg (persist_lockout env (t\<lparr>tk_auth := (tk_auth t)
        \<lparr>au_failed_user_logins := 0, au_user_next_allowed := None\<rparr>\<rparr>))"
      "durable_inv C cfg (persist_lockout env (t\<lparr>tk_auth := (tk_auth t)
        \<lparr>au_failed_so_logins := 0, au_so_next_allowed := None\<rparr>\<rparr>))"
    by (rule durable_inv_auth_update [OF assms]; simp)+
  show ?thesis
    using assms wf durable_inv_relogin [OF ok(1)] durable_inv_relogin [OF ok(2)] durable_inv_pin_failure [OF assms]
    by (auto simp: login_def login_user_def login_so_def Let_def split: option.splits sum.splits if_splits)
qed

lemma durable_inv_logout [pres_intros]:
  "durable_inv C cfg t \<Longrightarrow> env_ok env \<Longrightarrow> durable_inv C cfg (snd (logout env t))"
  by (auto simp: logout_def intro!: durable_inv_auth_update)

text \<open>Operations that write the state file: they end with a successful save of the whole state.\<close>

lemma durable_inv_saved:
  assumes "hex_roundtrips C" "cfg_persist_objects (cfg_token cfg)" "env_ok env"
    and "lockout_synced t" "token_wf t" "sizes_ok t" "tk_token_state_store t \<noteq> None"
  shows "durable_inv C cfg (persist_token_state C env t)"
  using state_synced_persist [OF assms(1,3,5,6,7,2)] assms(4-6)
  by (simp add: durable_inv_def lockout_synced_def token_wf_def sizes_ok_def)

lemma durable_inv_stores:
  "durable_inv C cfg t \<Longrightarrow> tk_token_state_store t \<noteq> None \<and> tk_lockout_store t \<noteq> None"
  by (auto simp: durable_inv_def state_synced_def lockout_synced_def)

lemma durable_inv_counts [simp]:
  "durable_inv C cfg (t\<lparr>tk_session_count := a, tk_rw_session_count := b\<rparr>) = durable_inv C cfg t"
  by (simp add: durable_inv_def lockout_synced_def state_synced_def durable_state_def token_wf_def sizes_ok_def)

lemma durable_inv_init_token_commit [pres_intros]:
  assumes "hex_roundtrips C" "cfg_persist_objects (cfg_token cfg)" "env_ok env" "durable_inv C cfg t"
    and "length label = 32"
  shows "durable_inv C cfg (init_token_commit C env so_pin label t)"
proof -
  let ?t1 = "t\<lparr>tk_so_pin_hash := Some (hash_pin C env t so_pin), tk_label := label,
    tk_user_pin_hash := None, tk_object_key_salt := None, tk_object_master_key_wrapped := None,
    tk_auth := (reset_for_init (tk_auth t))\<lparr>au_initialized := True\<rparr>\<rparr>"
  let ?t2 = "persist_lockout env ?t1"
  let ?t3 = "?t2\<lparr>tk_lockout_store := map_option (lockout_clear (te_lockout_clear_ok env)) (tk_lockout_store ?t2)\<rparr>"
  have stores: "tk_token_state_store t \<noteq> None" "tk_lockout_store t \<noteq> None"
    using durable_inv_stores [OF assms(4)] by simp_all
  have "lockout_synced ?t3"
    using assms(3) stores(2)
    by (auto simp: lockout_synced_def lockout_clear_def env_ok_def persist_lockout_def lockout_data_of_def
        reset_for_init_def lockout_default_def)
  moreover have "token_wf ?t3" "sizes_ok ?t3"
    using assms(5) by (simp_all add: token_wf_def sizes_ok_def reset_for_init_def)
  ultimately have "durable_inv C cfg (persist_token_state C env ?t3)"
    using stores by (intro durable_inv_saved assms(1-3)) simp_all
  then show ?thesis
    by (simp add: init_token_commit_def Let_def)
qed

lemma durable_inv_init_token [pres_intros]:
  assumes "hex_roundtrips C" "cfg_persist_objects (cfg_token cfg)" "env_ok env" "durable_inv C cfg t"
    and "length label = 32"
  shows "durable_inv C cfg (snd (init_token C env so_pin label t))"
  using durable_inv_init_token_commit [OF assms, of so_pin] durable_inv_pin_failure(3) [OF assms(4,3)] assms(4)
  by (auto simp: init_token_def split: option.splits sum.splits)

lemma sizes_ok_provision:
  "sizes_ok t \<Longrightarrow> env_ok env \<Longrightarrow> sizes_ok (snd (provision_object_key C env pin t))"
  by (auto simp: sizes_ok_def env_ok_def provision_object_key_def Let_def split: sum.splits prod.splits)

lemma store_provision [simp]:
  "tk_token_state_store (snd (provision_object_key C env pin t)) = tk_token_state_store t"
  "tk_lockout_store (snd (provision_object_key C env pin t)) = tk_lockout_store t"
  "tk_label (snd (provision_object_key C env pin t)) = tk_label t"
  by (simp_all add: provision_object_key_def Let_def split: sum.split prod.split)

lemma store_rewrap [simp]:
  "tk_token_state_store (snd (rewrap_object_key C env old_pin new_pin t)) = tk_token_state_store t"
  "tk_lockout_store (snd (rewrap_object_key C env old_pin new_pin t)) = tk_lockout_store t"
  "tk_label (snd (rewrap_object_key C env old_pin new_pin t)) = tk_label t"
  by (simp_all add: rewrap_object_key_def Let_def split: sum.split prod.split option.split)

lemma durable_inv_init_pin [pres_intros]:
  assumes "hex_roundtrips C" "cfg_persist_objects (cfg_token cfg)" "env_ok env" "durable_inv C cfg t"
  shows "durable_inv C cfg (snd (init_pin C env pin t))"
proof -
  let ?t1 = "t\<lparr>tk_user_pin_hash := Some (hash_pin C env t pin)\<rparr>"
  let ?t2 = "if tk_token_state_store ?t1 \<noteq> None \<and> tk_object_key_salt ?t1 = None
    then snd (provision_object_key C env pin ?t1) else ?t1"
  let ?t3 = "?t2\<lparr>tk_auth := (tk_auth ?t2)\<lparr>au_user_pin_initialized := True, au_failed_user_logins := 0,
    au_user_pin_locked := False, au_user_next_allowed := None\<rparr>\<rparr>"
  have t: "token_wf t" "sizes_ok t" "tk_token_state_store t \<noteq> None" "tk_lockout_store t \<noteq> None"
    using assms(4) durable_inv_stores [OF assms(4)] by (simp_all add: durable_inv_def)
  have "sizes_ok ?t1"
    using t(2) by (simp add: sizes_ok_def)
  then have "sizes_ok ?t2"
    using sizes_ok_provision [OF _ assms(3), of ?t1 C pin] by simp
  then have "sizes_ok (persist_lockout env ?t3)"
    by (simp add: sizes_ok_def)
  moreover have "token_wf (persist_lockout env ?t3)"
    using t(1) by (simp add: token_wf_def)
  moreover have "lockout_synced (persist_lockout env ?t3)"
    using t(4) by (intro lockout_synced_persist assms(3)) simp
  ultimately have "durable_inv C cfg (persist_token_state C env (persist_lockout env ?t3))"
    using t(3) by (intro durable_inv_saved assms(1-3)) simp_all
  then show ?thesis
    using assms(4) by (simp add: init_pin_def Let_def split: sum.split)
qed

lemma durable_inv_set_pin_user:
  assumes "hex_roundtrips C" "cfg_persist_objects (cfg_token cfg)" "env_ok env" "durable_inv C cfg t"
  shows "durable_inv C cfg (snd (set_pin_user C env old_pin new_pin t))"
proof -
  let ?t1 = "persist_lockout env
    (t\<lparr>tk_auth := (tk_auth t)\<lparr>au_failed_user_logins := 0, au_user_next_allowed := None\<rparr>\<rparr>)"
  let ?t2 = "?t1\<lparr>tk_user_pin_hash := Some (hash_pin C env ?t1 new_pin)\<rparr>"
  let ?t3 = "snd (rewrap_object_key C env old_pin new_pin ?t2)"
  have t1: "durable_inv C cfg ?t1"
    by (rule durable_inv_auth_update [OF assms(4,3)]) simp_all
  then have "lockout_synced ?t1" "token_wf ?t1" "sizes_ok ?t1" "tk_token_state_store ?t1 \<noteq> None"
    using durable_inv_stores [OF t1] by (simp_all add: durable_inv_def)
  then have "lockout_synced ?t3" "token_wf ?t3" "sizes_ok ?t3" "tk_token_state_store ?t3 \<noteq> None"
    by (simp_all add: lockout_synced_def token_wf_def sizes_ok_def)
  then have "durable_inv C cfg (persist_token_state C env ?t3)"
    by (intro durable_inv_saved assms(1-3))
  then show ?thesis
    using assms(4) durable_inv_pin_failure(1) [OF assms(4,3)]
    by (simp add: set_pin_user_def Let_def split: sum.split option.split)
qed

lemma durable_inv_set_pin_so:
  assumes "hex_roundtrips C" "cfg_persist_objects (cfg_token cfg)" "env_ok env" "durable_inv C cfg t"
  shows "durable_inv C cfg (snd (set_pin_so C env old_pin new_pin t))"
proof -
  let ?t1 = "persist_lockout env
    (t\<lparr>tk_auth := (tk_auth t)\<lparr>au_failed_so_logins := 0, au_so_next_allowed := None\<rparr>\<rparr>)"
  let ?t2 = "?t1\<lparr>tk_so_pin_hash := Some (hash_pin C env ?t1 new_pin)\<rparr>"
  have t1: "durable_inv C cfg ?t1"
    by (rule durable_inv_auth_update [OF assms(4,3)]) simp_all
  then have "lockout_synced ?t2" "token_wf ?t2" "sizes_ok ?t2" "tk_token_state_store ?t2 \<noteq> None"
    using durable_inv_stores [OF t1] by (auto simp: durable_inv_def lockout_synced_def token_wf_def sizes_ok_def)
  then have "durable_inv C cfg (persist_token_state C env ?t2)"
    by (intro durable_inv_saved assms(1-3))
  then show ?thesis
    using assms(4) durable_inv_pin_failure(2) [OF assms(4,3)]
    by (simp add: set_pin_so_def Let_def split: sum.split option.split)
qed

lemma durable_inv_new:
  assumes "cfg_persist_objects (cfg_token cfg)"
  shows "durable_inv C cfg (new_with_config_for_slot C (Some cfg) lockout_file state_file)"
proof -
  let ?t = "new_with_config_for_slot C (Some cfg) lockout_file state_file"
  have "tk_lockout_store ?t = Some lockout_file" "tk_token_state_store ?t = Some state_file"
    using assms by (simp_all add: new_token_defs split: option.split)
  then show ?thesis
    using durable_state_new_lockout [of C cfg lockout_file state_file]
    by (simp add: durable_inv_def lockout_synced_def state_synced_def lockout_new token_wf_new sizes_ok_new)
qed

lemma durable_reach_inv:
  assumes "hex_roundtrips C" "cfg_persist_objects (cfg_token cfg)" "durable_reach C cfg t"
  shows "durable_inv C cfg t"
  using assms(3)
proof induction
  case (dur_set_pin t env old_pin new_pin)
  then show ?case
    using durable_inv_set_pin_user [OF assms(1,2)] durable_inv_set_pin_so [OF assms(1,2)]
    by (auto simp: set_pin_def split: sum.split login_state.split)
qed (auto intro: durable_inv_new [OF assms(2)] durable_inv_login durable_inv_logout
    durable_inv_init_token [OF assms(1,2)] durable_inv_init_pin [OF assms(1,2)])


definition persistent_config :: hsm_config where
  "persistent_config = default_config\<lparr>cfg_token := default_token_config\<lparr>cfg_persist_objects := True\<rparr>\<rparr>"


section \<open>A corrupted lockout file\<close>

lemma check_rate_limit_error: "check_rate_limit now next_allowed = Inl e \<Longrightarrow> e = PinRateLimited"
  by (cases next_allowed) (auto split: if_splits)

text \<open>\<^bold>\<open>C39\<close>. A corrupt or unreadable lockout file puts every failure counter at its maximum. In a
  release build the next failed re-initialisation then wraps the counter of \<open>init_token\<close> around
  to zero, and the backoff window it opens is empty: the attempts that should be the most
  throttled are not throttled at all.\<close>

theorem corrupt_lockout_disables_init_backoff:
  assumes "file \<in> {LockoutCorrupt, LockoutUnreadable}"
    and "au_failed_init_token_logins (tk_auth t) = ld_failed_init_token_logins (lockout_load file)"
    and "init_token C env so_pin label t = (Inl PinIncorrect, t')" "validate_pin t so_pin = Inr ()"
  shows "au_failed_init_token_logins (tk_auth t') = 0 \<and>
    au_init_token_next_allowed (tk_auth t') = Some (te_fail_time env)"
  using assms
  by (auto simp: init_token_def init_token_failure_def lockout_fail_closed_def backoff_duration_def Let_def
      dest: check_rate_limit_error split: sum.splits option.splits if_splits)

theorem corrupt_lockout_disables_init_backoff_witness:
  "au_init_token_next_allowed (tk_auth (snd (init_token plain_crypto sample_env (ascii ''wrong-pin'') []
     (ready_token\<lparr>tk_auth := restore_lockout (lockout_load LockoutCorrupt) (tk_auth ready_token)\<rparr>)))) = Some 0"
proof -
  let ?t = "ready_token\<lparr>tk_auth := restore_lockout (lockout_load LockoutCorrupt) (tk_auth ready_token)\<rparr>"
  let ?r = "init_token plain_crypto sample_env (ascii ''wrong-pin'') [] ?t"
  have "fst ?r = Inl PinIncorrect" "validate_pin ?t (ascii ''wrong-pin'') = Inr ()"
    by code_simp+
  then show ?thesis
    using corrupt_lockout_disables_init_backoff [of LockoutCorrupt ?t plain_crypto sample_env
        "ascii ''wrong-pin''" "[]" "snd ?r"]
    by (simp add: restore_lockout_def prod_eq_iff sample_env_def)
qed

end
