(* ===== verification/Calendar.thy ===== *)
theory Calendar
  imports Hsm_Prelude
begin

text \<open>
  Calendar arithmetic of two components: the conversion of a PKCS#11 \<open>CK_DATE\<close> to a UNIX time stamp
  (\<open>ck_date_to_epoch\<close>, \<open>src/src/store/object.rs\<close>) and the inverse direction used for the time stamps
  of the audit log (\<open>days_to_ymd\<close>, \<open>src/src/audit/log.rs\<close>). Both are closed formulas; they are
  compared with a reference calendar that counts the days year by year and month by month.

  Calendar numbers are integers: every intermediate value of the source is non-negative and far
  below \<open>2 ^ 64\<close>. A call that panics (slicing a string inside a character) is \<open>None\<close>.
\<close>

section \<open>Text of a date\<close>

definition utf8_cont :: "byte \<Rightarrow> bool" where
  "utf8_cont b \<longleftrightarrow> 0x80 \<le> b \<and> b \<le> 0xBF"

fun utf8_valid :: "bytes \<Rightarrow> bool" where
  "utf8_valid [] = True"
| "utf8_valid (b # bs) =
    (if b < 0x80 then utf8_valid bs
     else if 0xC2 \<le> b \<and> b \<le> 0xDF then
       (case bs of c1 # r \<Rightarrow> utf8_cont c1 \<and> utf8_valid r | _ \<Rightarrow> False)
     else if 0xE0 \<le> b \<and> b \<le> 0xEF then
       (case bs of
          c1 # c2 # r \<Rightarrow> utf8_cont c1 \<and> (b = 0xE0 \<longrightarrow> 0xA0 \<le> c1) \<and> (b = 0xED \<longrightarrow> c1 \<le> 0x9F) \<and>
            utf8_cont c2 \<and> utf8_valid r
        | _ \<Rightarrow> False)
     else if 0xF0 \<le> b \<and> b \<le> 0xF4 then
       (case bs of
          c1 # c2 # c3 # r \<Rightarrow> utf8_cont c1 \<and> (b = 0xF0 \<longrightarrow> 0x90 \<le> c1) \<and> (b = 0xF4 \<longrightarrow> c1 \<le> 0x8F) \<and>
            utf8_cont c2 \<and> utf8_cont c3 \<and> utf8_valid r
        | _ \<Rightarrow> False)
     else False)"

text \<open>A sub-slice of a string: it panics when a bound is not a character boundary.\<close>

definition char_boundary :: "bytes \<Rightarrow> nat \<Rightarrow> bool" where
  "char_boundary s i \<longleftrightarrow> i = length s \<or> (i < length s \<and> \<not> utf8_cont (s ! i))"

definition str_slice :: "bytes \<Rightarrow> nat \<Rightarrow> nat \<Rightarrow> bytes option" where
  "str_slice s i j = (if char_boundary s i \<and> char_boundary s j then Some (drop i (take j s)) else None)"

text \<open>\<open>str::parse::<u64>\<close> on at most four characters: an optional plus sign and decimal digits.\<close>

definition is_digit :: "byte \<Rightarrow> bool" where
  "is_digit b \<longleftrightarrow> 0x30 \<le> b \<and> b \<le> 0x39"

definition parse_u64 :: "bytes \<Rightarrow> int option" where
  "parse_u64 s =
    (let ds = (case s of b # r \<Rightarrow> if b = 0x2B then r else s | [] \<Rightarrow> [])
     in if ds = [] \<or> \<not> list_all is_digit ds then None
        else Some (foldl (\<lambda>n b. 10 * n + (uint b - 48)) 0 ds))"

section \<open>Dates to time stamps\<close>

definition is_leap_year :: "int \<Rightarrow> bool" where
  "is_leap_year year \<longleftrightarrow> (year mod 4 = 0 \<and> year mod 100 \<noteq> 0) \<or> year mod 400 = 0"

definition leap_years_before :: "int \<Rightarrow> int" where
  "leap_years_before y = (if y = 0 then 0 else let y = y - 1 in y div 4 - y div 100 + y div 400)"

definition CUMULATIVE_DAYS :: "int list" where
  "CUMULATIVE_DAYS = [0, 0, 31, 59, 90, 120, 151, 181, 212, 243, 273, 304, 334]"

definition days_of_date :: "int \<Rightarrow> int \<Rightarrow> int \<Rightarrow> int" where
  "days_of_date year month day =
    (let leaps = leap_years_before year - leap_years_before 1970;
         years_elapsed = year - 1970;
         days = years_elapsed * 365 + leaps;
         days = days + CUMULATIVE_DAYS ! nat month;
         days = (if month > 2 \<and> is_leap_year year then days + 1 else days)
     in days + (day - 1))"

definition ck_date_to_epoch :: "bytes \<Rightarrow> int option option" where
  "ck_date_to_epoch date =
    (if \<not> utf8_valid date then Some None
     else
       (case str_slice date 0 4 of None \<Rightarrow> None | Some ys \<Rightarrow>
        case parse_u64 ys of None \<Rightarrow> Some None | Some year \<Rightarrow>
        case str_slice date 4 6 of None \<Rightarrow> None | Some ms \<Rightarrow>
        case parse_u64 ms of None \<Rightarrow> Some None | Some month \<Rightarrow>
        case str_slice date 6 8 of None \<Rightarrow> None | Some ds \<Rightarrow>
        case parse_u64 ds of None \<Rightarrow> Some None | Some day \<Rightarrow>
          if \<not> (1970 \<le> year \<and> year \<le> 2200) \<or> \<not> (1 \<le> month \<and> month \<le> 12) \<or> \<not> (1 \<le> day \<and> day \<le> 31)
          then Some None
          else Some (Some (days_of_date year month day * 86400))))"

section \<open>Time stamps to dates\<close>

definition days_to_ymd :: "int \<Rightarrow> int \<times> int \<times> int" where
  "days_to_ymd days =
    (let z = days + 719468;
         era = z div 146097;
         doe = z - era * 146097;
         yoe = (doe - doe div 1460 + doe div 36524 - doe div 146096) div 365;
         y = yoe + era * 400;
         doy = doe - (365 * yoe + yoe div 4 - yoe div 100);
         mp = (5 * doy + 2) div 153;
         d = doy - (153 * mp + 2) div 5 + 1;
         m = (if mp < 10 then mp + 3 else mp - 9);
         y = (if m \<le> 2 then y + 1 else y)
     in (y, m, d))"

section \<open>The reference calendar\<close>

definition month_length :: "int \<Rightarrow> int \<Rightarrow> int" where
  "month_length y m =
    (if m = 2 then (if is_leap_year y then 29 else 28)
     else if m = 4 \<or> m = 6 \<or> m = 9 \<or> m = 11 then 30 else 31)"

text \<open>The days before January 1st of the year \<open>1970 + k\<close>, and before the \<open>(k + 1)\<close>-th month of a year.\<close>

primrec year_start :: "nat \<Rightarrow> int" where
  "year_start 0 = 0"
| "year_start (Suc k) = year_start k + (if is_leap_year (1970 + int k) then 366 else 365)"

primrec month_start :: "int \<Rightarrow> nat \<Rightarrow> int" where
  "month_start y 0 = 0"
| "month_start y (Suc k) = month_start y k + month_length y (int k + 1)"

definition valid_date :: "int \<Rightarrow> int \<Rightarrow> int \<Rightarrow> bool" where
  "valid_date y m d \<longleftrightarrow> 1970 \<le> y \<and> 1 \<le> m \<and> m \<le> 12 \<and> 1 \<le> d \<and> d \<le> month_length y m"

definition civil_day :: "int \<Rightarrow> int \<Rightarrow> int \<Rightarrow> int" where
  "civil_day y m d = year_start (nat (y - 1970)) + month_start y (nat (m - 1)) + (d - 1)"

lemma div_step: "0 < (k :: int) \<Longrightarrow> n div k = (n - 1) div k + of_bool (k dvd n)"
proof -
  assume k: "0 < k"
  have n: "n = k * (n div k) + n mod k" "0 \<le> n mod k" "n mod k < k" using k by auto
  show ?thesis
  proof (cases "n mod k = 0")
    case True
    then have "n - 1 = k * (n div k - 1) + (k - 1)" using n(1) by (simp add: algebra_simps)
    then have "(n - 1) div k = n div k - 1"
      using k by (intro int_div_pos_eq [where r = "k - 1"]) (auto simp: algebra_simps)
    then show ?thesis using True by (simp add: dvd_eq_mod_eq_0)
  next
    case False
    then have "n - 1 = k * (n div k) + (n mod k - 1)" using n(1) by simp
    then have "(n - 1) div k = n div k"
      using k n False by (intro int_div_pos_eq [where r = "n mod k - 1"]) auto
    then show ?thesis using False by (simp add: dvd_eq_mod_eq_0)
  qed
qed

definition leaps_upto :: "int \<Rightarrow> int" where
  "leaps_upto t = t div 4 - t div 100 + t div 400"

lemma is_leap_year_dvd: "is_leap_year y \<longleftrightarrow> (4 dvd y \<and> \<not> 100 dvd y) \<or> 400 dvd y"
  by (simp add: is_leap_year_def dvd_eq_mod_eq_0)

lemma sum_of_steps:
  "a = A + p \<Longrightarrow> b = B + q \<Longrightarrow> c = C + r \<Longrightarrow> p - q + r = s \<Longrightarrow> a - b + c = A - B + C + (s :: int)"
  by simp

lemma leaps_upto_step: "leaps_upto y = leaps_upto (y - 1) + of_bool (is_leap_year y)"
  unfolding leaps_upto_def
proof (rule sum_of_steps)
  have "400 dvd y \<Longrightarrow> 100 dvd y" "100 dvd y \<Longrightarrow> 4 dvd y"
    using dvd_trans [of 100 400 y] dvd_trans [of 4 100 y] by simp_all
  then show "of_bool (4 dvd y) - of_bool (100 dvd y) + of_bool (400 dvd y) = (of_bool (is_leap_year y) :: int)"
    by (auto simp: is_leap_year_dvd)
qed (rule div_step, simp)+

lemma year_start_closed: "year_start k = 365 * int k + leaps_upto (1969 + int k) - leaps_upto 1969"
proof (induction k)
  case (Suc k)
  have "leaps_upto (1970 + int k) = leaps_upto (1969 + int k) + of_bool (is_leap_year (1970 + int k))"
    using leaps_upto_step [of "1970 + int k"] by (simp add: add.commute)
  then show ?case using Suc by (simp add: algebra_simps)
qed simp

lemma month_cases:
  "1 \<le> m \<Longrightarrow> m \<le> (12 :: int) \<Longrightarrow> m = 1 \<or> m = 2 \<or> m = 3 \<or> m = 4 \<or> m = 5 \<or> m = 6 \<or> m = 7 \<or> m = 8 \<or> m = 9 \<or>
    m = 10 \<or> m = 11 \<or> m = 12"
  by presburger

lemma month_start_closed:
  assumes "1 \<le> m" "m \<le> 12"
  shows "month_start y (nat (m - 1)) = CUMULATIVE_DAYS ! nat m + of_bool (2 < m \<and> is_leap_year y)"
  using month_cases [OF assms]
  by (elim disjE) (simp_all add: CUMULATIVE_DAYS_def month_length_def eval_nat_numeral)

lemma leaps_1969: "leaps_upto 1969 = 477"
  by (simp add: leaps_upto_def)

lemma leaps_upto_mono: "a \<le> b \<Longrightarrow> leaps_upto a \<le> leaps_upto b"
proof (induction b rule: int_ge_induct)
  case (step b)
  then show ?case using leaps_upto_step [of "b + 1"] by simp
qed simp

lemma days_of_date_leaps:
  assumes "1970 \<le> y"
  shows "days_of_date y m d = (y - 1970) * 365 + (leaps_upto (y - 1) - leaps_upto 1969) + CUMULATIVE_DAYS ! nat m
    + of_bool (2 < m \<and> is_leap_year y) + (d - 1)"
proof -
  have "leap_years_before y = leaps_upto (y - 1)" "leap_years_before 1970 = leaps_upto 1969"
    using assms by (simp_all add: leap_years_before_def leaps_upto_def Let_def)
  then show ?thesis by (simp add: days_of_date_def Let_def)
qed

lemma days_of_date_civil:
  assumes "1970 \<le> y" "1 \<le> m" "m \<le> 12"
  shows "days_of_date y m d = civil_day y m d"
proof -
  have "year_start (nat (y - 1970)) = 365 * (y - 1970) + leaps_upto (y - 1) - leaps_upto 1969"
    using assms(1) by (simp add: year_start_closed)
  then show ?thesis
    using month_start_closed [OF assms(2,3), of y] by (simp add: days_of_date_leaps [OF assms(1)] civil_day_def)
qed

section \<open>Years and months that start in March\<close>

text \<open>The days before year \<open>y\<close> of a 400-year era that starts on March 1st, and the formula that
  recovers the year from the day of the era.\<close>

definition era_year_start :: "int \<Rightarrow> int" where
  "era_year_start y = 365 * y + y div 4 - y div 100"

definition era_year_scale :: "int \<Rightarrow> int" where
  "era_year_scale doe = doe - doe div 1460 + doe div 36524 - doe div 146096"

definition era_year_ok :: "int \<Rightarrow> bool" where
  "era_year_ok y \<longleftrightarrow> era_year_scale (era_year_start y) div 365 = y \<and>
     era_year_scale (era_year_start (y + 1) - 1) div 365 = y \<and>
     0 \<le> era_year_start y \<and> era_year_start (y + 1) \<le> 146096"

lemma era_years_checked: "list_all era_year_ok [0..399]"
  by code_simp

lemma era_year_scale_mono:
  assumes "0 \<le> a" "a \<le> b" "b < 146096"
  shows "era_year_scale a \<le> era_year_scale b"
proof -
  have "b \<le> a + (b - a) * 1460" using assms by (simp add: algebra_simps)
  then have "b div 1460 \<le> (a + (b - a) * 1460) div 1460" by (rule zdiv_mono1) simp
  then have "b div 1460 \<le> a div 1460 + (b - a)" by simp
  moreover have "a div 36524 \<le> b div 36524" using assms by (intro zdiv_mono1) simp_all
  moreover have "a div 146096 = 0" "b div 146096 = 0" using assms by simp_all
  ultimately show ?thesis unfolding era_year_scale_def by linarith
qed

lemma era_year_exists:
  "0 \<le> doe \<Longrightarrow> doe < era_year_start (int n) \<Longrightarrow> \<exists>y. 0 \<le> y \<and> y < int n \<and> era_year_start y \<le> doe \<and> doe < era_year_start (y + 1)"
proof (induction n)
  case 0
  then show ?case by (simp add: era_year_start_def)
next
  case (Suc n)
  show ?case
  proof (cases "doe < era_year_start (int n)")
    case True
    then show ?thesis using Suc by force
  next
    case False
    then show ?thesis using Suc.prems by (intro exI [of _ "int n"]) (simp add: add.commute)
  qed
qed

lemma era_year_found:
  assumes "0 \<le> doe" "doe < 146097"
  shows "\<exists>y. era_year_scale doe div 365 = y \<and> 0 \<le> y \<and> y < 400 \<and> era_year_start y \<le> doe \<and>
    (doe < era_year_start (y + 1) \<or> y = 399 \<and> doe = 146096)"
proof (cases "doe = 146096")
  case True
  then show ?thesis by (simp add: era_year_scale_def era_year_start_def)
next
  case False
  then have "doe < era_year_start (int 400)" using assms by (simp add: era_year_start_def)
  then obtain y where y: "0 \<le> y" "y < 400" "era_year_start y \<le> doe" "doe < era_year_start (y + 1)"
    using era_year_exists [OF assms(1), of 400] by auto
  have ok: "era_year_ok y" using era_years_checked y(1,2) by (simp add: list_all_iff)
  have "era_year_scale (era_year_start y) \<le> era_year_scale doe"
    using ok y False assms by (intro era_year_scale_mono) (simp_all add: era_year_ok_def)
  moreover have "era_year_scale doe \<le> era_year_scale (era_year_start (y + 1) - 1)"
    using ok y assms by (intro era_year_scale_mono) (simp_all add: era_year_ok_def)
  ultimately have "era_year_scale doe div 365 = y"
    using ok zdiv_mono1 [of _ _ 365] unfolding era_year_ok_def by (metis order_antisym zero_less_numeral)
  then show ?thesis using y by auto
qed

text \<open>The month and the day from the day of a year that starts in March: after March 1st every
  month starts at the same day of the year, leap year or not.\<close>

definition march_month :: "int \<Rightarrow> int" where
  "march_month doy = (let mp = (5 * doy + 2) div 153 in if mp < 10 then mp + 3 else mp - 9)"

definition march_day :: "int \<Rightarrow> int" where
  "march_day doy = (let mp = (5 * doy + 2) div 153 in doy - (153 * mp + 2) div 5 + 1)"

definition march_ok :: "int \<Rightarrow> bool" where
  "march_ok doy \<longleftrightarrow>
     (let m = march_month doy; d = march_day doy in
      1 \<le> m \<and> m \<le> 12 \<and> 1 \<le> d \<and> d \<le> (if m = 2 then (if doy = 365 then 29 else 28) else month_length 1970 m) \<and>
      doy = (if m \<le> 2 then 306 else - 59) + CUMULATIVE_DAYS ! nat m + (d - 1) \<and> (2 < m \<longrightarrow> doy \<le> 305))"

lemma march_days_checked: "list_all march_ok [0..365]"
  by code_simp

lemma days_to_ymd_eq:
  "days_to_ymd n =
    (let era = (n + 719468) div 146097; doe = (n + 719468) mod 146097; yoe = era_year_scale doe div 365;
         doy = doe - era_year_start yoe; m = march_month doy
     in (if m \<le> 2 then yoe + era * 400 + 1 else yoe + era * 400, m, march_day doy))"
  unfolding days_to_ymd_def era_year_scale_def era_year_start_def march_month_def march_day_def Let_def
    minus_div_mult_eq_mod
  by (rule refl)

lemma era_sum:
  "p = a + e * 100 \<Longrightarrow> q = b + e * 4 \<Longrightarrow> r = e \<Longrightarrow>
   365 * (y + e * 400) + (p - q + r) = 365 * y + a - b + e * (146097 :: int)"
  by simp

lemma era_leaps:
  assumes "0 \<le> yoe" "yoe < 400"
  shows "365 * (yoe + era * 400) + leaps_upto (yoe + era * 400) = era_year_start yoe + era * 146097"
proof -
  have split: "yoe + era * 400 = yoe + (era * 100) * 4" "yoe + era * 400 = yoe + (era * 4) * 100" by simp_all
  have "(yoe + era * 400) div 4 = yoe div 4 + era * 100"
    unfolding split(1) by (subst div_mult_self1) simp_all
  moreover have "(yoe + era * 400) div 100 = yoe div 100 + era * 4"
    unfolding split(2) by (subst div_mult_self1) simp_all
  moreover have "(yoe + era * 400) div 400 = era" using assms by (subst div_mult_self1) simp_all
  ultimately show ?thesis unfolding leaps_upto_def era_year_start_def by (rule era_sum)
qed

lemma era_step:
  "p = a + u \<Longrightarrow> q = b + v \<Longrightarrow> 365 * (y + 1) + p - q = 365 * y + a - b + 365 + u - (v :: int)"
  by simp

lemma era_excess:
  "s = t + 365 + of_bool p - of_bool q \<Longrightarrow> t + 365 \<le> d \<Longrightarrow> d < s \<Longrightarrow> p \<and> \<not> q \<and> d = t + (365 :: int)"
  by (cases p; cases q) auto

lemma era_leap_day:
  assumes "0 \<le> yoe" "yoe < 400" "era_year_start yoe + 365 \<le> doe"
    "doe < era_year_start (yoe + 1) \<or> yoe = 399 \<and> doe = 146096"
  shows "doe = era_year_start yoe + 365 \<and> is_leap_year (yoe + era * 400 + 1)"
proof (cases "yoe = 399")
  case True
  have "is_leap_year (400 * (era + 1))" by (simp add: is_leap_year_def)
  then show ?thesis using True assms by (auto simp: era_year_start_def algebra_simps)
next
  case False
  have step: "era_year_start (yoe + 1) = era_year_start yoe + 365 + of_bool (4 dvd yoe + 1) - of_bool (100 dvd yoe + 1)"
    unfolding era_year_start_def using div_step [of 4 "yoe + 1"] div_step [of 100 "yoe + 1"]
    by (intro era_step) simp_all
  have "doe < era_year_start (yoe + 1)" using assms(4) False by blast
  then have "4 dvd yoe + 1 \<and> \<not> 100 dvd yoe + 1 \<and> doe = era_year_start yoe + 365"
    by (rule era_excess [OF step assms(3)])
  moreover have "k dvd yoe + era * 400 + 1 \<longleftrightarrow> k dvd yoe + 1" if "k dvd 400" for k
    using dvd_add_left_iff [of k "era * 400" "yoe + 1"] that by (simp add: ac_simps)
  ultimately show ?thesis by (simp add: is_leap_year_dvd)
qed

text \<open>\<^bold>\<open>C32\<close>. The closed formula that turns a day number into a date for the audit log is right for
  every day from January 1st, 1970 on: the result is a date of the calendar, and counting year by
  year and month by month gives the day number back.\<close>

theorem days_to_ymd_correct:
  assumes "0 \<le> n" "days_to_ymd n = (y, m, d)"
  shows "valid_date y m d \<and> civil_day y m d = n"
proof -
  define era doe where "era = (n + 719468) div 146097" and "doe = (n + 719468) mod 146097"
  have n: "n = era * 146097 + doe - 719468" "0 \<le> doe" "doe < 146097"
    by (simp_all add: era_def doe_def)
  obtain yoe where yoe: "era_year_scale doe div 365 = yoe" "0 \<le> yoe" "yoe < 400" "era_year_start yoe \<le> doe"
      "doe < era_year_start (yoe + 1) \<or> yoe = 399 \<and> doe = 146096"
    using era_year_found [OF n(2,3)] by auto
  define doy Y where "doy = doe - era_year_start yoe" and "Y = yoe + era * 400"
  have date: "y = Y + of_bool (m \<le> 2)" "m = march_month doy" "d = march_day doy"
    using assms(2) yoe(1)
    by (auto simp: days_to_ymd_eq Let_def era_def [symmetric] doe_def [symmetric] doy_def Y_def)
  have leap: "365 \<le> doy \<Longrightarrow> doy = 365 \<and> is_leap_year (Y + 1)"
    using era_leap_day [OF yoe(2,3) _ yoe(5), of era] by (auto simp: doy_def Y_def)
  then have "march_ok doy" using march_days_checked yoe(4) by (force simp: list_all_iff doy_def)
  then have ok: "1 \<le> m" "m \<le> 12" "1 \<le> d" "d \<le> (if m = 2 then (if doy = 365 then 29 else 28) else month_length 1970 m)"
      "doy = (if m \<le> 2 then 306 else - 59) + CUMULATIVE_DAYS ! nat m + (d - 1)" "2 < m \<Longrightarrow> doy \<le> 305"
    unfolding march_ok_def Let_def date(2,3) [symmetric] by blast+
  have total: "n = 365 * Y + leaps_upto Y + doy - 719468"
    using era_leaps [OF yoe(2,3), of era] n(1) unfolding doy_def Y_def by linarith
  have y: "1970 \<le> y"
  proof (rule ccontr)
    assume "\<not> 1970 \<le> y"
    then have "Y \<le> 1969" "m \<le> 2 \<Longrightarrow> Y \<le> 1968"
      using date(1) by (auto simp: of_bool_def split: if_splits)
    then have "leaps_upto Y \<le> 477" using leaps_upto_mono [of Y 1969] by (simp add: leaps_1969)
    then show False
      using total assms(1) ok(6) leap \<open>Y \<le> 1969\<close> \<open>m \<le> 2 \<Longrightarrow> Y \<le> 1968\<close> by (cases "m \<le> 2") linarith+
  qed
  have "d \<le> month_length y m"
    using ok(4) leap date(1) by (auto simp: month_length_def split: if_splits)
  moreover have "days_of_date y m d = n"
    using y ok(5) total date(1) leaps_upto_step [of Y]
    by (cases "m \<le> 2") (simp_all add: days_of_date_leaps leaps_1969)
  ultimately show ?thesis
    using y ok days_of_date_civil [OF y ok(1,2), of d] by (simp add: valid_date_def)
qed

theorem days_to_ymd_correct_witness: "valid_date 2024 2 29 \<and> civil_day 2024 2 29 = 19782"
proof -
  have "days_to_ymd 19782 = (2024, 2, 29)" by code_simp
  then show ?thesis using days_to_ymd_correct [of 19782 2024 2 29] by simp
qed

section \<open>The text of a date and back\<close>

definition digit :: "int \<Rightarrow> byte" where
  "digit k = word_of_int (48 + k)"

definition date_text :: "int \<Rightarrow> int \<Rightarrow> int \<Rightarrow> bytes" where
  "date_text y m d =
    [digit (y div 1000), digit (y div 100 mod 10), digit (y div 10 mod 10), digit (y mod 10),
     digit (m div 10), digit (m mod 10), digit (d div 10), digit (d mod 10)]"

lemma uint_digit: "0 \<le> k \<Longrightarrow> k \<le> 9 \<Longrightarrow> uint (digit k) = 48 + k"
  by (simp only: digit_def unsigned_of_int take_bit_eq_mod) simp

lemma digit_facts:
  assumes "0 \<le> k" "k \<le> 9"
  shows "is_digit (digit k)" "digit k < 0x80" "\<not> utf8_cont (digit k)" "digit k \<noteq> 0x2B"
  using uint_digit [OF assms] assms
  by (auto simp: is_digit_def utf8_cont_def word_le_def word_less_def)

lemma mod10_range: "0 \<le> (n :: int) mod 10" "n mod 10 \<le> 9"
  using pos_mod_bound [of 10 n] by simp_all

lemma join_digits: "y = 10 * p + e \<Longrightarrow> p = 10 * q + c \<Longrightarrow> q = 10 * a + b \<Longrightarrow> 1000 * a + 100 * b + 10 * c + e = (y :: int)"
  by simp

lemma digits_in_range:
  fixes y :: int
  assumes "0 \<le> y" "y < 10000"
  shows "0 \<le> y div 1000" "y div 1000 \<le> 9"
    "1000 * (y div 1000) + 100 * (y div 100 mod 10) + 10 * (y div 10 mod 10) + y mod 10 = y"
proof -
  have "y div 10 div 10 = y div 100" "y div 100 div 10 = y div 1000"
    using zdiv_zmult2_eq [of 10 y 10] zdiv_zmult2_eq [of 10 y 100] by simp_all
  then show "1000 * (y div 1000) + 100 * (y div 100 mod 10) + 10 * (y div 10 mod 10) + y mod 10 = y"
    using mult_div_mod_eq [of 10 y] mult_div_mod_eq [of 10 "y div 10"] mult_div_mod_eq [of 10 "y div 100"]
    by (intro join_digits [of _ "y div 10" _ "y div 100"]) simp_all
  show "y div 1000 \<le> 9" using assms zdiv_mono1 [of y 9999 1000] by simp
  show "0 \<le> y div 1000" using assms by (simp add: pos_imp_zdiv_nonneg_iff)
qed

lemma parse_four:
  assumes "0 \<le> a" "a \<le> 9" "0 \<le> b" "b \<le> 9" "0 \<le> c" "c \<le> 9" "0 \<le> e" "e \<le> 9"
  shows "parse_u64 [digit a, digit b, digit c, digit e] = Some (1000 * a + 100 * b + 10 * c + e)"
  using assms by (simp add: parse_u64_def digit_facts uint_digit)

lemma parse_two:
  assumes "0 \<le> a" "a \<le> 9" "0 \<le> b" "b \<le> 9"
  shows "parse_u64 [digit a, digit b] = Some (10 * a + b)"
  using assms by (simp add: parse_u64_def digit_facts uint_digit)

lemma two_digits:
  fixes m :: int
  assumes "0 \<le> m" "m < 100"
  shows "0 \<le> m div 10" "m div 10 \<le> 9" "10 * (m div 10) + m mod 10 = m"
  using assms zdiv_mono1 [of m 99 10] by (simp_all add: pos_imp_zdiv_nonneg_iff)

text \<open>The conversion of a \<open>CK_DATE\<close> is right for every calendar date of the supported years:
  the eight digits of a date give the time stamp of its midnight, which is 86400 times the number
  of days counted year by year and month by month.\<close>

lemma ck_date_to_epoch_correct:
  assumes "valid_date y m d" "y \<le> 2200"
  shows "ck_date_to_epoch (date_text y m d) = Some (Some (86400 * civil_day y m d))"
proof -
  have r: "1970 \<le> y" "1 \<le> m" "m \<le> 12" "1 \<le> d" "d \<le> 31"
    using assms(1) by (auto simp: valid_date_def month_length_def split: if_splits)
  note y = digits_in_range [of y] and m = two_digits [of m] and d = two_digits [of d]
  have rs: "0 \<le> y" "y < 10000" "0 \<le> m" "m < 100" "0 \<le> d" "d < 100" using r assms(2) by simp_all
  note ranges = y(1,2) [OF rs(1,2)] m(1,2) [OF rs(3,4)] d(1,2) [OF rs(5,6)] mod10_range
  have "utf8_valid (date_text y m d)" by (simp add: date_text_def digit_facts ranges)
  moreover have "str_slice (date_text y m d) 0 4 =
      Some [digit (y div 1000), digit (y div 100 mod 10), digit (y div 10 mod 10), digit (y mod 10)]"
    "str_slice (date_text y m d) 4 6 = Some [digit (m div 10), digit (m mod 10)]"
    "str_slice (date_text y m d) 6 8 = Some [digit (d div 10), digit (d mod 10)]"
    by (simp_all add: str_slice_def char_boundary_def date_text_def digit_facts ranges eval_nat_numeral)
  ultimately show ?thesis
    using r assms(2) days_of_date_civil [OF r(1-3), of d]
    by (simp add: ck_date_to_epoch_def parse_four parse_two ranges y(3) [OF rs(1,2)] m(3) [OF rs(3,4)] d(3) [OF rs(5,6)])
qed

theorem ck_date_to_epoch_correct_witness:
  "ck_date_to_epoch (date_text 2024 2 29) = Some (Some (86400 * civil_day 2024 2 29))"
  using ck_date_to_epoch_correct [of 2024 2 29]
  by (simp add: valid_date_def month_length_def is_leap_year_def)

end
