(* ===== verification/Objects.thy ===== *)
theory Objects
  imports Calendar Hsm_Error
begin

text \<open>
  Stored objects (\<open>src/src/store/object.rs\<close>): the object structure with its key lifecycle, template
  matching, the size estimate, and the attribute functions of \<open>src/src/store/attributes.rs\<close>.

  The current time is an argument, in seconds since the epoch. A lifecycle check slices the text
  of the dates and so can panic; its value is then \<open>None\<close>.
\<close>

datatype key_lifecycle_state = PreActivation | Active | Deactivated | Compromised | Destroyed

record stored_object =
  ob_handle :: u64
  ob_slot_id :: ck_ulong
  ob_class :: ck_ulong
  ob_key_type :: "ck_ulong option"
  ob_label :: bytes
  ob_id :: bytes
  ob_token_object :: bool
  ob_private :: bool
  ob_sensitive :: bool
  ob_extractable :: bool
  ob_modifiable :: bool
  ob_destroyable :: bool
  ob_copyable :: bool
  ob_can_encrypt :: bool
  ob_can_decrypt :: bool
  ob_can_sign :: bool
  ob_can_verify :: bool
  ob_can_wrap :: bool
  ob_can_unwrap :: bool
  ob_can_derive :: bool
  ob_key_material :: "bytes option"
  ob_public_key_data :: "bytes option"
  ob_modulus :: "bytes option"
  ob_modulus_bits :: "ck_ulong option"
  ob_public_exponent :: "bytes option"
  ob_ec_params :: "bytes option"
  ob_ec_point :: "bytes option"
  ob_value_len :: "ck_ulong option"
  ob_extra_attributes :: "(ck_ulong \<times> bytes) list"
  ob_start_date :: "bytes option"
  ob_end_date :: "bytes option"
  ob_lifecycle_state :: key_lifecycle_state
  ob_creation_time :: int

type_synonym template = "(ck_ulong \<times> bytes) list"

definition stored_object_new :: "int \<Rightarrow> u64 \<Rightarrow> ck_ulong \<Rightarrow> stored_object" where
  "stored_object_new now handle class =
    \<lparr>ob_handle = handle, ob_slot_id = 0, ob_class = class, ob_key_type = None, ob_label = [], ob_id = [],
     ob_token_object = False, ob_private = True, ob_sensitive = True, ob_extractable = False,
     ob_modifiable = True, ob_destroyable = True, ob_copyable = True,
     ob_can_encrypt = False, ob_can_decrypt = False, ob_can_sign = False, ob_can_verify = False,
     ob_can_wrap = False, ob_can_unwrap = False, ob_can_derive = False,
     ob_key_material = None, ob_public_key_data = None, ob_modulus = None, ob_modulus_bits = None,
     ob_public_exponent = None, ob_ec_params = None, ob_ec_point = None, ob_value_len = None,
     ob_extra_attributes = [], ob_start_date = None, ob_end_date = None,
     ob_lifecycle_state = Active, ob_creation_time = now\<rparr>"

section \<open>Template matching\<close>

definition ct_bytes_eq :: "bytes \<Rightarrow> bytes \<Rightarrow> byte" where
  "ct_bytes_eq a b = (if length a \<noteq> length b then 0 else if a = b then 1 else 0)"

text \<open>Two readers of a \<open>CK_ULONG\<close>: template matching wants exactly eight bytes, the attribute
  functions at least eight.\<close>

definition read_ck_ulong_exact :: "bytes \<Rightarrow> ck_ulong option" where
  "read_ck_ulong_exact bs = (if length bs \<noteq> 8 then None else Some (le_word bs))"

definition read_ck_ulong :: "bytes \<Rightarrow> ck_ulong option" where
  "read_ck_ulong bs = (if length bs < 8 then None else Some (le_word (take 8 bs)))"

definition match_flag :: "bytes \<Rightarrow> bool \<Rightarrow> byte" where
  "match_flag value flag = (if value \<noteq> [] then of_bool ((hd value \<noteq> 0) = flag) else 1)"

definition match_attribute :: "stored_object \<Rightarrow> ck_ulong \<Rightarrow> bytes \<Rightarrow> byte" where
  "match_attribute obj attr_type value =
    (if attr_type = CKA_CLASS then
       (case read_ck_ulong_exact value of Some class \<Rightarrow> of_bool (class = ob_class obj) | None \<Rightarrow> 0)
     else if attr_type = CKA_KEY_TYPE then
       (case (ob_key_type obj, read_ck_ulong_exact value) of
          (Some kt, Some v) \<Rightarrow> of_bool (v = kt)
        | _ \<Rightarrow> 0)
     else if attr_type = CKA_LABEL then ct_bytes_eq value (ob_label obj)
     else if attr_type = CKA_ID then ct_bytes_eq value (ob_id obj)
     else if attr_type = CKA_TOKEN then match_flag value (ob_token_object obj)
     else if attr_type = CKA_PRIVATE then match_flag value (ob_private obj)
     else if attr_type = CKA_SENSITIVE then match_flag value (ob_sensitive obj)
     else if attr_type = CKA_SIGN then match_flag value (ob_can_sign obj)
     else if attr_type = CKA_VERIFY then match_flag value (ob_can_verify obj)
     else if attr_type = CKA_ENCRYPT then match_flag value (ob_can_encrypt obj)
     else if attr_type = CKA_DECRYPT then match_flag value (ob_can_decrypt obj)
     else
       (case map_of (ob_extra_attributes obj) attr_type of
          Some stored \<Rightarrow> ct_bytes_eq stored value
        | None \<Rightarrow> 0))"

definition matches_template :: "stored_object \<Rightarrow> template \<Rightarrow> bool" where
  "matches_template obj tmpl =
    (foldl (\<lambda>matched (attr_type, value). matched AND match_attribute obj attr_type value) 1 tmpl = 1)"

text \<open>The size of the structure itself is the argument \<open>size_of\<close>; sums saturate at the largest
  \<open>usize\<close>.\<close>

definition saturating_add :: "int \<Rightarrow> int \<Rightarrow> int" where
  "saturating_add a b = min (a + b) (2 ^ 64 - 1)"

definition opt_len :: "bytes option \<Rightarrow> int \<Rightarrow> int" where
  "opt_len x sz = (case x of Some bs \<Rightarrow> saturating_add sz (int (length bs)) | None \<Rightarrow> sz)"

definition approximate_size :: "int \<Rightarrow> stored_object \<Rightarrow> ck_ulong" where
  "approximate_size size_of obj =
    (let sz = size_of;
         sz = opt_len (ob_key_material obj) sz;
         sz = opt_len (ob_public_key_data obj) sz;
         sz = opt_len (ob_modulus obj) sz;
         sz = saturating_add sz (int (length (ob_label obj)));
         sz = saturating_add sz (int (length (ob_id obj)))
     in if sz < 2 ^ 64 then word_of_int sz else - 1)"

section \<open>Key lifecycle\<close>

definition date_epoch :: "bytes option \<Rightarrow> int option option" where
  "date_epoch date = (case date of Some d \<Rightarrow> ck_date_to_epoch d | None \<Rightarrow> Some None)"

definition compute_date_based_state :: "int \<Rightarrow> stored_object \<Rightarrow> key_lifecycle_state option" where
  "compute_date_based_state now obj =
    (case date_epoch (ob_start_date obj) of
       None \<Rightarrow> None
     | Some start_epoch \<Rightarrow>
        if (case start_epoch of Some e \<Rightarrow> now < e | None \<Rightarrow> False) then Some PreActivation
        else
          (case date_epoch (ob_end_date obj) of
             None \<Rightarrow> None
           | Some end_epoch \<Rightarrow>
              if (case end_epoch of Some e \<Rightarrow> now > e | None \<Rightarrow> False) then Some Deactivated
              else Some Active))"

definition effective_lifecycle_state :: "int \<Rightarrow> stored_object \<Rightarrow> key_lifecycle_state option" where
  "effective_lifecycle_state now obj =
    (if ob_lifecycle_state obj \<noteq> Active then Some (ob_lifecycle_state obj)
     else compute_date_based_state now obj)"

definition check_lifecycle :: "int \<Rightarrow> string \<Rightarrow> stored_object \<Rightarrow> unit hsm_result option" where
  "check_lifecycle now operation obj =
    (case effective_lifecycle_state now obj of
       None \<Rightarrow> None
     | Some Active \<Rightarrow> Some (Inr ())
     | Some PreActivation \<Rightarrow> Some (Inl KeyFunctionNotPermitted)
     | Some Deactivated \<Rightarrow>
         Some (if operation = ''verify'' \<or> operation = ''decrypt'' \<or> operation = ''unwrap''
               then Inr () else Inl KeyFunctionNotPermitted)
     | Some Compromised \<Rightarrow> Some (Inl KeyFunctionNotPermitted)
     | Some Destroyed \<Rightarrow> Some (Inl ObjectHandleInvalid))"

definition transition_lifecycle_if_needed ::
  "int \<Rightarrow> stored_object \<Rightarrow> ((key_lifecycle_state \<times> key_lifecycle_state) option \<times> stored_object) option" where
  "transition_lifecycle_if_needed now obj =
    (if ob_lifecycle_state obj = Compromised \<or> ob_lifecycle_state obj = Destroyed then Some (None, obj)
     else
       (case compute_date_based_state now obj of
          None \<Rightarrow> None
        | Some new_state \<Rightarrow>
            if new_state \<noteq> ob_lifecycle_state obj
            then Some (Some (ob_lifecycle_state obj, new_state), obj\<lparr>ob_lifecycle_state := new_state\<rparr>)
            else Some (None, obj)))"

definition set_compromised :: "stored_object \<Rightarrow> key_lifecycle_state option \<times> stored_object" where
  "set_compromised obj =
    (case ob_lifecycle_state obj of
       Compromised \<Rightarrow> (None, obj)
     | Destroyed \<Rightarrow> (None, obj)
     | other \<Rightarrow> (Some other, obj\<lparr>ob_lifecycle_state := Compromised\<rparr>))"

definition set_destroyed :: "stored_object \<Rightarrow> key_lifecycle_state option \<times> stored_object" where
  "set_destroyed obj =
    (if ob_lifecycle_state obj = Destroyed then (None, obj)
     else (Some (ob_lifecycle_state obj), obj\<lparr>ob_lifecycle_state := Destroyed\<rparr>))"

section \<open>Attributes\<close>

abbreviation (input) MAX_KEY_MATERIAL_LEN :: nat where "MAX_KEY_MATERIAL_LEN \<equiv> 8192"

definition flag_value :: "bytes \<Rightarrow> bool" where
  "flag_value value \<longleftrightarrow> value \<noteq> [] \<and> hd value \<noteq> 0"

definition apply_date :: "bytes \<Rightarrow> bytes option hsm_result" where
  "apply_date value =
    (if length value = 8 then Inr (Some value)
     else if value = [] then Inr None
     else Inl GeneralError)"

definition apply_attribute :: "stored_object \<Rightarrow> ck_ulong \<Rightarrow> bytes \<Rightarrow> stored_object hsm_result" where
  "apply_attribute obj attr_type value =
    (if attr_type = CKA_CLASS then
       res_map (\<lambda>v. obj\<lparr>ob_class := v\<rparr>) (ok_or AttributeValueInvalid (read_ck_ulong value))
     else if attr_type = CKA_KEY_TYPE then
       res_map (\<lambda>v. obj\<lparr>ob_key_type := Some v\<rparr>) (ok_or AttributeValueInvalid (read_ck_ulong value))
     else if attr_type = CKA_LABEL then Inr (obj\<lparr>ob_label := value\<rparr>)
     else if attr_type = CKA_ID then Inr (obj\<lparr>ob_id := value\<rparr>)
     else if attr_type = CKA_TOKEN then Inr (obj\<lparr>ob_token_object := flag_value value\<rparr>)
     else if attr_type = CKA_PRIVATE then Inr (obj\<lparr>ob_private := flag_value value\<rparr>)
     else if attr_type = CKA_SENSITIVE then
       (if ob_sensitive obj \<and> \<not> flag_value value then Inl AttributeReadOnly
        else Inr (obj\<lparr>ob_sensitive := flag_value value\<rparr>))
     else if attr_type = CKA_EXTRACTABLE then
       (if \<not> ob_extractable obj \<and> flag_value value then Inl AttributeReadOnly
        else Inr (obj\<lparr>ob_extractable := flag_value value\<rparr>))
     else if attr_type = CKA_MODIFIABLE then Inr (obj\<lparr>ob_modifiable := flag_value value\<rparr>)
     else if attr_type = CKA_DESTROYABLE then Inr (obj\<lparr>ob_destroyable := flag_value value\<rparr>)
     else if attr_type = CKA_ENCRYPT then Inr (obj\<lparr>ob_can_encrypt := flag_value value\<rparr>)
     else if attr_type = CKA_DECRYPT then Inr (obj\<lparr>ob_can_decrypt := flag_value value\<rparr>)
     else if attr_type = CKA_SIGN then Inr (obj\<lparr>ob_can_sign := flag_value value\<rparr>)
     else if attr_type = CKA_VERIFY then Inr (obj\<lparr>ob_can_verify := flag_value value\<rparr>)
     else if attr_type = CKA_WRAP then Inr (obj\<lparr>ob_can_wrap := flag_value value\<rparr>)
     else if attr_type = CKA_UNWRAP then Inr (obj\<lparr>ob_can_unwrap := flag_value value\<rparr>)
     else if attr_type = CKA_DERIVE then Inr (obj\<lparr>ob_can_derive := flag_value value\<rparr>)
     else if attr_type = CKA_VALUE then
       (if length value > MAX_KEY_MATERIAL_LEN then Inl AttributeValueInvalid
        else Inr (obj\<lparr>ob_key_material := Some value\<rparr>))
     else if attr_type = CKA_MODULUS then Inr (obj\<lparr>ob_modulus := Some value\<rparr>)
     else if attr_type = CKA_MODULUS_BITS then
       res_map (\<lambda>v. obj\<lparr>ob_modulus_bits := Some v\<rparr>) (ok_or AttributeValueInvalid (read_ck_ulong value))
     else if attr_type = CKA_PUBLIC_EXPONENT then Inr (obj\<lparr>ob_public_exponent := Some value\<rparr>)
     else if attr_type = CKA_EC_PARAMS then Inr (obj\<lparr>ob_ec_params := Some value\<rparr>)
     else if attr_type = CKA_EC_POINT then Inr (obj\<lparr>ob_ec_point := Some value\<rparr>)
     else if attr_type = CKA_VALUE_LEN then
       res_map (\<lambda>v. obj\<lparr>ob_value_len := Some v\<rparr>) (ok_or AttributeValueInvalid (read_ck_ulong value))
     else if attr_type = CKA_START_DATE then res_map (\<lambda>d. obj\<lparr>ob_start_date := d\<rparr>) (apply_date value)
     else if attr_type = CKA_END_DATE then res_map (\<lambda>d. obj\<lparr>ob_end_date := d\<rparr>) (apply_date value)
     else if length value > 8192 then Inl ArgumentsBad
     else if 64 \<le> length (ob_extra_attributes obj) \<and> map_of (ob_extra_attributes obj) attr_type = None
       then Inl ArgumentsBad
     else Inr (obj\<lparr>ob_extra_attributes := AList.update attr_type value (ob_extra_attributes obj)\<rparr>))"

fun apply_attributes :: "template \<Rightarrow> stored_object \<Rightarrow> stored_object hsm_result" where
  "apply_attributes [] obj = Inr obj"
| "apply_attributes ((attr_type, value) # tmpl) obj =
    res_bind (apply_attribute obj attr_type value) (apply_attributes tmpl)"

definition ck_ulong_to_bytes :: "ck_ulong \<Rightarrow> bytes" where
  "ck_ulong_to_bytes val = u64_le val"

definition flag_bytes :: "bool \<Rightarrow> bytes" where
  "flag_bytes b = [if b then 1 else 0]"

definition read_attribute :: "stored_object \<Rightarrow> ck_ulong \<Rightarrow> bool \<Rightarrow> bytes option hsm_result" where
  "read_attribute obj attr_type is_logged_in =
    (if ob_private obj \<and> \<not> is_logged_in then Inl ObjectHandleInvalid
     else if attr_type = CKA_CLASS then Inr (Some (ck_ulong_to_bytes (ob_class obj)))
     else if attr_type = CKA_KEY_TYPE then Inr (map_option ck_ulong_to_bytes (ob_key_type obj))
     else if attr_type = CKA_LABEL then Inr (Some (ob_label obj))
     else if attr_type = CKA_ID then Inr (Some (ob_id obj))
     else if attr_type = CKA_TOKEN then Inr (Some (flag_bytes (ob_token_object obj)))
     else if attr_type = CKA_PRIVATE then Inr (Some (flag_bytes (ob_private obj)))
     else if attr_type = CKA_SENSITIVE then Inr (Some (flag_bytes (ob_sensitive obj)))
     else if attr_type = CKA_EXTRACTABLE then Inr (Some (flag_bytes (ob_extractable obj)))
     else if attr_type = CKA_MODIFIABLE then Inr (Some (flag_bytes (ob_modifiable obj)))
     else if attr_type = CKA_DESTROYABLE then Inr (Some (flag_bytes (ob_destroyable obj)))
     else if attr_type = CKA_ENCRYPT then Inr (Some (flag_bytes (ob_can_encrypt obj)))
     else if attr_type = CKA_DECRYPT then Inr (Some (flag_bytes (ob_can_decrypt obj)))
     else if attr_type = CKA_SIGN then Inr (Some (flag_bytes (ob_can_sign obj)))
     else if attr_type = CKA_VERIFY then Inr (Some (flag_bytes (ob_can_verify obj)))
     else if attr_type = CKA_WRAP then Inr (Some (flag_bytes (ob_can_wrap obj)))
     else if attr_type = CKA_UNWRAP then Inr (Some (flag_bytes (ob_can_unwrap obj)))
     else if attr_type = CKA_DERIVE then Inr (Some (flag_bytes (ob_can_derive obj)))
     else if attr_type = CKA_VALUE then
       (if ob_sensitive obj \<and> \<not> ob_extractable obj then Inl AttributeSensitive
        else Inr (ob_key_material obj))
     else if attr_type = CKA_MODULUS then Inr (ob_modulus obj)
     else if attr_type = CKA_MODULUS_BITS then Inr (map_option ck_ulong_to_bytes (ob_modulus_bits obj))
     else if attr_type = CKA_PUBLIC_EXPONENT then Inr (ob_public_exponent obj)
     else if attr_type = CKA_EC_PARAMS then Inr (ob_ec_params obj)
     else if attr_type = CKA_EC_POINT then Inr (ob_ec_point obj)
     else if attr_type = CKA_VALUE_LEN then Inr (map_option ck_ulong_to_bytes (ob_value_len obj))
     else if attr_type = CKA_START_DATE then Inr (ob_start_date obj)
     else if attr_type = CKA_END_DATE then Inr (ob_end_date obj)
     else Inr (map_of (ob_extra_attributes obj) attr_type))"

definition validate_deserialized_object :: "stored_object \<Rightarrow> string + unit" where
  "validate_deserialized_object obj =
    (if ob_handle obj = 0 then Inl ''handle is CK_INVALID_HANDLE (0)''
     else if ob_key_material obj \<noteq> None \<and> \<not> ob_sensitive obj \<and> \<not> ob_extractable obj
       then Inl ''key object is both non-sensitive and non-extractable''
     else if ob_lifecycle_state obj = Destroyed then Inl ''persisted object has Destroyed lifecycle state''
     else Inr ())"

section \<open>Template matching is a conjunction\<close>

lemma match_parts_bit:
  "ct_bytes_eq a b = 0 \<or> ct_bytes_eq a b = 1" "match_flag v f = 0 \<or> match_flag v f = 1"
  "(of_bool P :: byte) = 0 \<or> (of_bool P :: byte) = 1"
  by (auto simp: ct_bytes_eq_def match_flag_def)

lemma if_bit: "(x = 0 \<or> x = (1 :: byte)) \<Longrightarrow> (y = 0 \<or> y = 1) \<Longrightarrow> (if c then x else y) = 0 \<or> (if c then x else y) = 1"
  by simp

lemma match_attribute_bit: "match_attribute obj t v = 0 \<or> match_attribute obj t v = 1"
  unfolding match_attribute_def
  by (intro if_bit match_parts_bit) (auto simp: match_parts_bit split: option.split)

lemma and_bits:
  "(a = 0 \<or> a = (1 :: byte)) \<Longrightarrow> (b = 0 \<or> b = 1) \<Longrightarrow> (a AND b = 0 \<or> a AND b = 1) \<and> (a AND b = 1 \<longleftrightarrow> a = 1 \<and> b = 1)"
  by auto

lemma match_fold:
  "acc = 0 \<or> acc = 1 \<Longrightarrow>
   foldl (\<lambda>matched (t, v). matched AND match_attribute obj t v) acc tmpl = 1 \<longleftrightarrow>
   acc = 1 \<and> (\<forall>(t, v) \<in> set tmpl. match_attribute obj t v = 1)"
proof (induction tmpl arbitrary: acc)
  case (Cons p tmpl)
  obtain t v where p: "p = (t, v)" by force
  show ?case
    using Cons.IH [of "acc AND match_attribute obj t v"] and_bits [OF Cons.prems match_attribute_bit [of obj t v]]
    by (auto simp: p)
qed simp

lemma matches_template_iff:
  "matches_template obj tmpl \<longleftrightarrow> (\<forall>(t, v) \<in> set tmpl. match_attribute obj t v = 1)"
  by (simp add: matches_template_def match_fold)

section \<open>Attributes are read back as they were written\<close>

text \<open>What reading an attribute returns after it was written with \<open>value\<close>: a number is its first eight
  bytes, a flag one byte, an emptied date is absent, everything else the bytes themselves.\<close>

definition flag_attributes :: "ck_ulong list" where
  "flag_attributes =
    [CKA_TOKEN, CKA_PRIVATE, CKA_SENSITIVE, CKA_EXTRACTABLE, CKA_MODIFIABLE, CKA_DESTROYABLE, CKA_ENCRYPT,
     CKA_DECRYPT, CKA_SIGN, CKA_VERIFY, CKA_WRAP, CKA_UNWRAP, CKA_DERIVE]"

definition number_attributes :: "ck_ulong list" where
  "number_attributes = [CKA_CLASS, CKA_KEY_TYPE, CKA_MODULUS_BITS, CKA_VALUE_LEN]"

definition canonical_value :: "ck_ulong \<Rightarrow> bytes \<Rightarrow> bytes option" where
  "canonical_value t value =
    (if t \<in> set number_attributes then Some (take 8 value)
     else if t \<in> set flag_attributes then Some (flag_bytes (flag_value value))
     else if (t = CKA_START_DATE \<or> t = CKA_END_DATE) \<and> value = [] then None
     else Some value)"

lemma bit_le_word:
  "bit (le_word bs :: 'a::len word) i \<longleftrightarrow> i < LENGTH('a) \<and> i < 8 * length bs \<and> bit (bs ! (i div 8)) (i mod 8)"
proof (induction bs arbitrary: i)
  case (Cons b bs)
  show ?case
  proof (cases "i < 8")
    case True
    then show ?thesis by (auto simp: bit_or_iff bit_ucast_iff bit_push_bit_iff)
  next
    case False
    then have "i div 8 = Suc ((i - 8) div 8)" "i mod 8 = (i - 8) mod 8"
      by (simp_all add: le_div_geq le_mod_geq)
    then show ?thesis
      using False Cons.IH [of "i - 8"] by (auto simp: bit_or_iff bit_ucast_iff bit_push_bit_iff dest: bit_imp_le_length)
  qed
qed simp

lemma le_bytes_nth: "k < n \<Longrightarrow> le_bytes n x ! k = ucast (drop_bit (8 * k) x)"
proof (induction n arbitrary: k x)
  case (Suc n)
  then show ?case by (cases k) (simp_all add: add.commute)
qed simp

lemma u64_le_le_word: "length bs = 8 \<Longrightarrow> u64_le (le_word bs) = bs"
proof (rule nth_equalityI)
  fix k
  assume "length bs = 8" "k < length (u64_le (le_word bs))"
  then show "u64_le (le_word bs) ! k = bs ! k"
    by (intro bit_eqI) (auto simp: u64_le_def le_bytes_nth bit_ucast_iff bit_drop_bit_eq bit_le_word)
qed simp

definition known_attributes :: "ck_ulong list" where
  "known_attributes =
    flag_attributes @ number_attributes @
    [CKA_LABEL, CKA_ID, CKA_VALUE, CKA_MODULUS, CKA_PUBLIC_EXPONENT, CKA_EC_PARAMS, CKA_EC_POINT,
     CKA_START_DATE, CKA_END_DATE]"

lemma read_number: "read_ck_ulong v = Some w \<Longrightarrow> ck_ulong_to_bytes w = take 8 v"
  using u64_le_le_word [of "take 8 v"] by (auto simp: read_ck_ulong_def ck_ulong_to_bytes_def split: if_splits)

lemma res_map_ok_or: "res_map f (ok_or e x) = Inr y \<longleftrightarrow> (\<exists>v. x = Some v \<and> y = f v)"
  by (cases x) auto

lemma apply_date_ok: "res_map f (apply_date v) = Inr y \<longleftrightarrow> (v = [] \<and> y = f None \<or> length v = 8 \<and> y = f (Some v))"
  by (auto simp: apply_date_def)

lemma attribute_roundtrip_known:
  assumes "t \<in> set known_attributes" "apply_attribute obj t v = Inr obj'" "ob_private obj' \<longrightarrow> logged"
    "t = CKA_VALUE \<longrightarrow> \<not> ob_sensitive obj' \<or> ob_extractable obj'"
  shows "read_attribute obj' t logged = Inr (canonical_value t v)"
  using assms(1) unfolding known_attributes_def flag_attributes_def number_attributes_def
  apply (simp only: append.simps list.set insert_iff empty_iff simp_thms)
  apply (elim disjE)
  using assms(2-4)
  by (simp_all add: apply_attribute_def read_attribute_def canonical_value_def number_attributes_def
      flag_attributes_def res_map_ok_or apply_date_ok)
    (auto simp: read_number split: if_splits)

lemma attribute_roundtrip_extra:
  assumes "t \<notin> set known_attributes" "apply_attribute obj t v = Inr obj'" "ob_private obj' \<longrightarrow> logged"
  shows "read_attribute obj' t logged = Inr (canonical_value t v)"
proof -
  have "obj' = obj\<lparr>ob_extra_attributes := AList.update t v (ob_extra_attributes obj)\<rparr>"
    using assms(1,2)
    by (simp add: known_attributes_def flag_attributes_def number_attributes_def apply_attribute_def split: if_splits)
  then have "map_of (ob_extra_attributes obj') t = Some v" by simp
  then show ?thesis
    using assms(1,3)
    by (simp add: known_attributes_def flag_attributes_def number_attributes_def read_attribute_def canonical_value_def)
qed

text \<open>\<^bold>\<open>C26\<close>. An attribute reads back as it was written: whenever a template attribute is accepted,
  reading it from the object returns the value in canonical form, for each of the attributes the
  store knows and for all others, unless the object is private and the caller not logged in or
  the attribute is the value of a protected key.\<close>

theorem attribute_roundtrip:
  assumes "apply_attribute obj t v = Inr obj'" "ob_private obj' \<longrightarrow> logged"
    "t = CKA_VALUE \<longrightarrow> \<not> ob_sensitive obj' \<or> ob_extractable obj'"
  shows "read_attribute obj' t logged = Inr (canonical_value t v)"
  using attribute_roundtrip_known [OF _ assms] attribute_roundtrip_extra [OF _ assms(1,2)] by blast

theorem attribute_roundtrip_witness:
  "read_attribute ((stored_object_new 0 5 CKO_SECRET_KEY)\<lparr>ob_key_type := Some CKK_AES\<rparr>) CKA_KEY_TYPE True
     = Inr (canonical_value CKA_KEY_TYPE (u64_le CKK_AES))"
proof (rule attribute_roundtrip)
  show "apply_attribute (stored_object_new 0 5 CKO_SECRET_KEY) CKA_KEY_TYPE (u64_le CKK_AES) =
      Inr ((stored_object_new 0 5 CKO_SECRET_KEY)\<lparr>ob_key_type := Some CKK_AES\<rparr>)"
    by (simp add: apply_attribute_def read_ck_ulong_def)
qed simp_all

section \<open>Objects created from a template are sealed\<close>

lemma apply_attribute_sealed:
  assumes "apply_attribute obj t v = Inr obj'" "ob_sensitive obj" "\<not> ob_extractable obj"
  shows "ob_sensitive obj' \<and> \<not> ob_extractable obj'"
  using assms unfolding apply_attribute_def
  by (auto simp: res_map_ok_or apply_date_ok split: if_split_asm)

lemma apply_attributes_sealed:
  "apply_attributes tmpl obj = Inr obj' \<Longrightarrow> ob_sensitive obj \<Longrightarrow> \<not> ob_extractable obj \<Longrightarrow>
   ob_sensitive obj' \<and> \<not> ob_extractable obj'"
  by (induction tmpl obj rule: apply_attributes.induct) (auto simp: res_bind_eq_Inr dest: apply_attribute_sealed)

lemma sealed_value: "ob_sensitive obj \<Longrightarrow> \<not> ob_extractable obj \<Longrightarrow> \<not> is_ok (read_attribute obj CKA_VALUE logged)"
  by (simp add: read_attribute_def)

section \<open>Lifecycle\<close>

text \<open>Everything that changes the lifecycle state of an object after its creation: the sweep at any
  time, and the two manual transitions.\<close>

inductive lifecycle_step :: "stored_object \<Rightarrow> stored_object \<Rightarrow> bool" where
  step_sweep: "transition_lifecycle_if_needed now obj = Some (r, obj') \<Longrightarrow> lifecycle_step obj obj'"
| step_compromise: "lifecycle_step obj (snd (set_compromised obj))"
| step_destroy: "lifecycle_step obj (snd (set_destroyed obj))"

lemma lifecycle_step_terminal:
  "lifecycle_step obj obj' \<Longrightarrow> ob_lifecycle_state obj \<in> {Compromised, Destroyed} \<Longrightarrow>
   ob_lifecycle_state obj' \<in> {Compromised, Destroyed} \<and>
   (ob_lifecycle_state obj = Destroyed \<longrightarrow> ob_lifecycle_state obj' = Destroyed)"
  by (induction rule: lifecycle_step.induct)
    (auto simp: transition_lifecycle_if_needed_def set_compromised_def set_destroyed_def)



end
