(* ===== verification/Encrypted_Store.thy ===== *)
theory Encrypted_Store
  imports Pin_Crypto
begin

text \<open>
  The encrypted key/value store of persisted objects (\<open>src/src/store/encrypted_store.rs\<close>). The embedded
  database is third-party code; what the store relies on is that a committed transaction is the
  table with the entry inserted or removed, and that an uncommitted one changes nothing. Whether
  the transactions of a call succeed is part of its environment. A store opened without a path
  has no database.
\<close>

record encrypted_store =
  es_db :: "(string \<times> bytes) list option"

record db_env =
  db_write_ok :: bool
  db_read_ok :: bool

definition store_encrypted ::
  "pin_crypto \<Rightarrow> db_env \<Rightarrow> bytes hsm_result \<Rightarrow> string \<Rightarrow> bytes \<Rightarrow> bytes \<Rightarrow> encrypted_store \<Rightarrow> unit hsm_result \<times> encrypted_store" where
  "store_encrypted C db drbg_nonce store_key plaintext encryption_key es =
    (case es_db es of
       None \<Rightarrow> (Inl GeneralError, es)
     | Some table \<Rightarrow>
        (case drbg_nonce of
           Inl e \<Rightarrow> (Inl e, es)
         | Inr nonce_bytes \<Rightarrow>
            (case gcm_encrypt C encryption_key nonce_bytes plaintext of
               None \<Rightarrow> (Inl GeneralError, es)
             | Some ciphertext \<Rightarrow>
                 if \<not> db_write_ok db then (Inl GeneralError, es)
                 else (Inr (), es\<lparr>es_db := Some (AList.update store_key (nonce_bytes @ ciphertext) table)\<rparr>))))"

definition load_encrypted ::
  "pin_crypto \<Rightarrow> db_env \<Rightarrow> string \<Rightarrow> bytes \<Rightarrow> encrypted_store \<Rightarrow> bytes option hsm_result" where
  "load_encrypted C db store_key encryption_key es =
    (case es_db es of
       None \<Rightarrow> Inl GeneralError
     | Some table \<Rightarrow>
         if \<not> db_read_ok db then Inl GeneralError
         else
           (case map_of table store_key of
              None \<Rightarrow> Inr None
            | Some stored \<Rightarrow>
                if length stored < NONCE_LEN then Inl EncryptedDataInvalid
                else
                  (case gcm_decrypt C encryption_key (take NONCE_LEN stored) (drop NONCE_LEN stored) of
                     None \<Rightarrow> Inl EncryptedDataInvalid
                   | Some plaintext \<Rightarrow> Inr (Some plaintext))))"

definition delete_encrypted :: "db_env \<Rightarrow> string \<Rightarrow> encrypted_store \<Rightarrow> unit hsm_result \<times> encrypted_store" where
  "delete_encrypted db store_key es =
    (case es_db es of
       None \<Rightarrow> (Inl GeneralError, es)
     | Some table \<Rightarrow>
         if \<not> db_write_ok db then (Inl GeneralError, es)
         else (Inr (), es\<lparr>es_db := Some (AList.delete store_key table)\<rparr>))"

definition list_keys :: "db_env \<Rightarrow> encrypted_store \<Rightarrow> string list hsm_result" where
  "list_keys db es =
    (case es_db es of
       None \<Rightarrow> Inl GeneralError
     | Some table \<Rightarrow> if \<not> db_read_ok db then Inl GeneralError else Inr (map fst table))"

definition clear_encrypted :: "db_env \<Rightarrow> encrypted_store \<Rightarrow> unit hsm_result \<times> encrypted_store" where
  "clear_encrypted db es =
    (case es_db es of
       None \<Rightarrow> (Inl GeneralError, es)
     | Some table \<Rightarrow>
         if \<not> db_write_ok db then (Inl GeneralError, es) else (Inr (), es\<lparr>es_db := Some []\<rparr>))"

lemma load_store_encrypted:
  assumes "gcm_roundtrips C" "length nonce = NONCE_LEN" "db_read_ok db'"
    "store_encrypted C db (Inr nonce) k p key es = (Inr (), es')"
  shows "load_encrypted C db' k key es' = Inr (Some p)"
  using assms unfolding gcm_roundtrips_def
  by (auto simp: store_encrypted_def load_encrypted_def split: option.splits if_splits)

lemma store_encrypted_other:
  "store_encrypted C db n k p key es = (r, es') \<Longrightarrow> k' \<noteq> k \<Longrightarrow>
   load_encrypted C db' k' key' es' = load_encrypted C db' k' key' es"
  by (auto simp: store_encrypted_def load_encrypted_def split: option.splits sum.splits if_splits)

end
