(* ===== verification/Handles.thy ===== *)
theory Handles
  imports Hsm_Error
begin

text \<open>
  Session and object handles (\<open>src/src/session/handle.rs\<close>): the keyed four-round Feistel
  permutation that turns a counter into an unpredictable handle, and the two allocators built
  on it. The width of \<open>CK_ULONG\<close> selects the 32-bit or the 64-bit network, so both are
  modelled. A successful compare-and-exchange of the source is one atomic claim of a counter
  value; a failed or spurious one changes nothing and repeats the iteration, so the recursion
  below has one step per successful claim.
\<close>

section \<open>The Feistel permutation\<close>

datatype ulong_width = ULong32 | ULong64

fun MAX_HANDLE :: "ulong_width \<Rightarrow> u64" where
  "MAX_HANDLE ULong32 = 0xFFFFFFFF"
| "MAX_HANDLE ULong64 = 0xFFFFFFFFFFFFFFFF"

definition round_fn_16 :: "u16 \<Rightarrow> u64 \<Rightarrow> u16" where
  "round_fn_16 half key = (let x = ucast half * (key OR 1) in ucast (drop_bit 16 x XOR x))"

definition round_fn_32 :: "u32 \<Rightarrow> u64 \<Rightarrow> u32" where
  "round_fn_32 half key = (let x = ucast half * (key OR 1) in ucast (drop_bit 32 x XOR x))"

record handle_scrambler =
  round_keys :: "u64 list"

definition feistel32_forward :: "handle_scrambler \<Rightarrow> u32 \<Rightarrow> u32" where
  "feistel32_forward s input =
    (let (left, right) = foldl (\<lambda>(left, right) key. (right, left XOR round_fn_16 right key))
           (ucast (drop_bit 16 input), ucast input) (round_keys s)
     in push_bit 16 (ucast left) OR ucast right)"

definition feistel32_inverse :: "handle_scrambler \<Rightarrow> u32 \<Rightarrow> u32" where
  "feistel32_inverse s input =
    (let (left, right) = foldl (\<lambda>(left, right) key. (right XOR round_fn_16 left key, left))
           (ucast (drop_bit 16 input), ucast input) (rev (round_keys s))
     in push_bit 16 (ucast left) OR ucast right)"

definition feistel64_forward :: "handle_scrambler \<Rightarrow> u64 \<Rightarrow> u64" where
  "feistel64_forward s input =
    (let (left, right) = foldl (\<lambda>(left, right) key. (right, left XOR round_fn_32 right key))
           (ucast (drop_bit 32 input), ucast input) (round_keys s)
     in push_bit 32 (ucast left) OR ucast right)"

definition feistel64_inverse :: "handle_scrambler \<Rightarrow> u64 \<Rightarrow> u64" where
  "feistel64_inverse s input =
    (let (left, right) = foldl (\<lambda>(left, right) key. (right XOR round_fn_32 left key, left))
           (ucast (drop_bit 32 input), ucast input) (rev (round_keys s))
     in push_bit 32 (ucast left) OR ucast right)"

definition scramble :: "ulong_width \<Rightarrow> handle_scrambler \<Rightarrow> u64 \<Rightarrow> u64" where
  "scramble w s counter =
    (if MAX_HANDLE w = 0xFFFFFFFF then ucast (feistel32_forward s (ucast counter))
     else feistel64_forward s counter)"

definition unscramble :: "ulong_width \<Rightarrow> handle_scrambler \<Rightarrow> u64 \<Rightarrow> u64" where
  "unscramble w s handle =
    (if MAX_HANDLE w = 0xFFFFFFFF then ucast (feistel32_inverse s (ucast handle))
     else feistel64_inverse s handle)"

text \<open>One round is undone by the corresponding inverse round, whatever the round function;
  hence a run of rounds by the run over the reversed keys.\<close>

lemma feistel_rounds_inverse:
  fixes f :: "'h::len word \<Rightarrow> u64 \<Rightarrow> 'h word"
  shows "foldl (\<lambda>(l, r) k. (r XOR f l k, l)) (foldl (\<lambda>(l, r) k. (r, l XOR f r k)) p ks) (rev ks) = p"
proof (induction ks rule: rev_induct)
  case (snoc k ks)
  obtain l r where lr: "foldl (\<lambda>(l, r) k. (r, l XOR f r k)) p ks = (l, r)"
    by (cases "foldl (\<lambda>(l, r) k. (r, l XOR f r k)) p ks")
  with snoc show ?case
    by (simp add: xor.assoc)
qed simp

lemma feistel_rounds_forward:
  fixes f :: "'h::len word \<Rightarrow> u64 \<Rightarrow> 'h word"
  shows "foldl (\<lambda>(l, r) k. (r, l XOR f r k)) (foldl (\<lambda>(l, r) k. (r XOR f l k, l)) p (rev ks)) ks = p"
proof (induction ks arbitrary: p)
  case (Cons k ks)
  obtain l r where lr: "foldl (\<lambda>(l, r) k. (r XOR f l k, l)) p (rev ks) = (l, r)"
    by (cases "foldl (\<lambda>(l, r) k. (r XOR f l k, l)) p (rev ks)")
  then have "p = foldl (\<lambda>(l, r) k. (r, l XOR f r k)) (l, r) ks"
    using Cons.IH [of p] by simp
  with lr show ?case
    by (simp add: xor.assoc)
qed simp

lemma feistel_split_join:
  fixes f :: "'h::len word \<Rightarrow> u64 \<Rightarrow> 'h word" and ks :: "u64 list"
  assumes "\<And>l r. hi (join l r) = l" "\<And>l r. lo (join l r) = r" "\<And>x. join (hi x) (lo x) = x"
  defines "fwd \<equiv> \<lambda>x. let (l, r) = foldl (\<lambda>(l, r) k. (r, l XOR f r k)) (hi x, lo x) ks in join l r"
    and "bwd \<equiv> \<lambda>x. let (l, r) = foldl (\<lambda>(l, r) k. (r XOR f l k, l)) (hi x, lo x) (rev ks) in join l r"
  shows "bwd (fwd x) = x" and "fwd (bwd x) = x"
proof -
  obtain l r where lr: "foldl (\<lambda>(l, r) k. (r, l XOR f r k)) (hi x, lo x) ks = (l, r)"
    by (cases "foldl (\<lambda>(l, r) k. (r, l XOR f r k)) (hi x, lo x) ks")
  then show "bwd (fwd x) = x"
    using feistel_rounds_inverse [of f "(hi x, lo x)" ks] assms(1-3)
    by (simp add: fwd_def bwd_def)
  obtain l' r' where lr': "foldl (\<lambda>(l, r) k. (r XOR f l k, l)) (hi x, lo x) (rev ks) = (l', r')"
    by (cases "foldl (\<lambda>(l, r) k. (r XOR f l k, l)) (hi x, lo x) (rev ks)")
  then show "fwd (bwd x) = x"
    using feistel_rounds_forward [of f "(hi x, lo x)" ks] assms(1-3)
    by (simp add: fwd_def bwd_def)
qed

text \<open>Splitting a word into halves and joining halves are inverse to each other.\<close>

lemma split_join32:
  fixes l r :: u16
  shows "ucast (drop_bit 16 (push_bit 16 (ucast l) OR ucast r :: u32)) = l"
    and "ucast (push_bit 16 (ucast l) OR ucast r :: u32) = r"
  by (auto intro!: bit_eqI simp: bit_simps) (auto dest: bit_imp_le_length)

lemma join_split32:
  fixes x :: u32
  shows "push_bit 16 (ucast (ucast (drop_bit 16 x) :: u16)) OR ucast (ucast x :: u16) = x"
  by (rule bit_eqI) (auto simp: bit_simps)

lemma split_join64:
  fixes l r :: u32
  shows "ucast (drop_bit 32 (push_bit 32 (ucast l) OR ucast r :: u64)) = l"
    and "ucast (push_bit 32 (ucast l) OR ucast r :: u64) = r"
  by (auto intro!: bit_eqI simp: bit_simps) (auto dest: bit_imp_le_length)

lemma join_split64:
  fixes x :: u64
  shows "push_bit 32 (ucast (ucast (drop_bit 32 x) :: u32)) OR ucast (ucast x :: u32) = x"
  by (rule bit_eqI) (auto simp: bit_simps)

lemmas feistel32_rounds = feistel_split_join
  [where hi = "\<lambda>x. ucast (drop_bit 16 x)" and lo = ucast and join = "\<lambda>l r. push_bit 16 (ucast l) OR ucast r"
     and f = round_fn_16, OF split_join32 join_split32]

lemmas feistel64_rounds = feistel_split_join
  [where hi = "\<lambda>x. ucast (drop_bit 32 x)" and lo = ucast and join = "\<lambda>l r. push_bit 32 (ucast l) OR ucast r"
     and f = round_fn_32, OF split_join64 join_split64]

lemma feistel32_inverse_forward: "feistel32_inverse s (feistel32_forward s x) = x"
  unfolding feistel32_inverse_def feistel32_forward_def by (rule feistel32_rounds)

lemma feistel32_forward_inverse: "feistel32_forward s (feistel32_inverse s x) = x"
  unfolding feistel32_inverse_def feistel32_forward_def by (rule feistel32_rounds)

lemma feistel64_inverse_forward: "feistel64_inverse s (feistel64_forward s x) = x"
  unfolding feistel64_inverse_def feistel64_forward_def by (rule feistel64_rounds)

lemma feistel64_forward_inverse: "feistel64_forward s (feistel64_inverse s x) = x"
  unfolding feistel64_inverse_def feistel64_forward_def by (rule feistel64_rounds)


lemma ucast_u32_u64 [simp]: "ucast (ucast x :: u64) = (x :: u32)"
  by (rule bit_eqI) (simp add: bit_simps)

lemma ucast_u64_u32:
  fixes x :: u64
  assumes "x \<le> 0xFFFFFFFF"
  shows "ucast (ucast x :: u32) = x"
proof -
  have "uint x \<le> uint (0xFFFFFFFF :: u64)"
    using assms by (simp add: word_le_def)
  then have "uint x mod 2 ^ 32 = uint x"
    by (intro mod_pos_pos_trivial) simp_all
  then show ?thesis
    by (intro word_uint_eqI) (simp add: unsigned_ucast_eq take_bit_eq_mod uint_mod_distrib)
qed

lemma ucast_u32_le: "(ucast (x :: u32) :: u64) \<le> 0xFFFFFFFF"
proof -
  have "uint x < 2 ^ 32"
    using uint_bounded [of x] by simp
  then have "take_bit 64 (uint x) = uint x"
    unfolding take_bit_eq_mod by (intro mod_pos_pos_trivial) simp_all
  with \<open>uint x < 2 ^ 32\<close> show ?thesis
    by (simp add: word_le_def unsigned_ucast_eq)
qed

lemma u64_le_max: "(x :: u64) \<le> 0xFFFFFFFFFFFFFFFF"
  using uint_bounded [of x] by (simp add: word_le_def)

lemma card_atMost_word: "card {..M :: 'a::len word} = Suc (unat M)"
proof -
  have "unat ` {..M} = {..unat M}"
  proof
    show "unat ` {..M} \<subseteq> {..unat M}"
      by (auto simp: word_le_nat_alt)
    show "{..unat M} \<subseteq> unat ` {..M}"
    proof
      fix n assume "n \<in> {..unat M}"
      then have "n < 2 ^ LENGTH('a)"
        using unsigned_less by (simp only: atMost_iff) (rule le_less_trans)
      then have "unat (word_of_nat n :: 'a word) = n"
        by (simp add: unsigned_of_nat take_bit_nat_eq_self)
      with \<open>n \<in> {..unat M}\<close> show "n \<in> unat ` {..M}"
        by (intro image_eqI [of _ _ "word_of_nat n"]) (simp_all add: word_le_nat_alt)
    qed
  qed
  moreover have "inj_on unat {..M}"
    by (rule inj_onI) (simp add: word_unat_eq_iff)
  ultimately show ?thesis
    by (metis card_atMost card_image)
qed

section \<open>The counter cycle\<close>

text \<open>\<open>next_counter\<close> is the wrapping increment of the allocation loops.\<close>

definition next_counter :: "ulong_width \<Rightarrow> u64 \<Rightarrow> u64" where
  "next_counter w current = (if current = MAX_HANDLE w then 0 else current + 1)"

lemma next_counter_unat:
  assumes "c \<le> MAX_HANDLE w"
  shows "next_counter w c \<le> MAX_HANDLE w"
    and "unat (next_counter w c) = Suc (unat c) mod Suc (unat (MAX_HANDLE w))"
proof -
  have "unat (next_counter w c) = Suc (unat c) mod Suc (unat (MAX_HANDLE w))"
  proof (cases "c = MAX_HANDLE w")
    case False
    with assms have "unat c < unat (MAX_HANDLE w)"
      by (simp add: word_le_nat_alt le_neq_implies_less word_unat_eq_iff)
    moreover from this have "unat (c + 1) = Suc (unat c)"
      by (cases w) (simp_all add: unat_word_ariths)
    ultimately show ?thesis
      using False by (simp add: next_counter_def)
  qed (simp add: next_counter_def)
  then show "unat (next_counter w c) = Suc (unat c) mod Suc (unat (MAX_HANDLE w))" .
  then show "next_counter w c \<le> MAX_HANDLE w"
    by (metis le_simps(2) mod_less_divisor word_le_nat_alt zero_less_Suc)
qed

lemma next_counter_iter:
  assumes "c \<le> MAX_HANDLE w"
  shows "(next_counter w ^^ k) c \<le> MAX_HANDLE w"
    and "unat ((next_counter w ^^ k) c) = (unat c + k) mod Suc (unat (MAX_HANDLE w))"
proof (induction k)
  case 0
  {
    case 1 show ?case using assms by simp
  next
    case 2 show ?case using assms by (simp add: word_le_nat_alt)
  }
next
  case (Suc k)
  {
    case 1 show ?case using Suc by (simp add: next_counter_unat)
  next
    case 2 show ?case using Suc by (simp add: next_counter_unat mod_Suc_eq)
  }
qed

lemma next_counter_iter_inj:
  assumes "c \<le> MAX_HANDLE w" "i \<le> unat (MAX_HANDLE w)" "j \<le> unat (MAX_HANDLE w)"
    and "(next_counter w ^^ i) c = (next_counter w ^^ j) c"
  shows "i = j"
proof -
  let ?N = "Suc (unat (MAX_HANDLE w))"
  have "(unat c + i) mod ?N = (unat c + j) mod ?N"
    using assms(1,4) next_counter_iter(2) [OF assms(1)] by metis
  then show ?thesis
    using assms(2,3) by (intro mod_add_left_inj [of i ?N j "unat c"]) simp_all
qed

section \<open>The interface of the permutation\<close>

text \<open>What the allocators rely on: the scrambler permutes the handle range.\<close>

locale handle_permutation =
  fixes w :: ulong_width and scr unscr :: "u64 \<Rightarrow> u64"
  assumes unscr_scr: "c \<le> MAX_HANDLE w \<Longrightarrow> unscr (scr c) = c"
    and scr_unscr: "h \<le> MAX_HANDLE w \<Longrightarrow> scr (unscr h) = h"
    and scr_range: "c \<le> MAX_HANDLE w \<Longrightarrow> scr c \<le> MAX_HANDLE w"
    and unscr_range: "h \<le> MAX_HANDLE w \<Longrightarrow> unscr h \<le> MAX_HANDLE w"
begin

lemma scr_inj: "c \<le> MAX_HANDLE w \<Longrightarrow> d \<le> MAX_HANDLE w \<Longrightarrow> scr c = scr d \<longleftrightarrow> c = d"
  using unscr_scr by metis

lemma scr_bij: "bij_betw scr {..MAX_HANDLE w} {..MAX_HANDLE w}"
  by (rule bij_betw_byWitness [where f' = unscr])
    (auto simp: unscr_scr scr_unscr scr_range unscr_range)

text \<open>Within one full cycle of the counter no handle repeats.\<close>

lemma cycle_inj:
  assumes "c \<le> MAX_HANDLE w"
  shows "inj_on (\<lambda>k. scr ((next_counter w ^^ k) c)) {..unat (MAX_HANDLE w)}"
  using assms by (auto intro!: inj_onI simp: scr_inj next_counter_iter dest: next_counter_iter_inj)

lemma cycle_distinct:
  assumes "c \<le> MAX_HANDLE w" "m \<le> Suc (unat (MAX_HANDLE w))"
  shows "distinct (filter P (map (\<lambda>k. scr ((next_counter w ^^ k) c)) [0..<m]))"
proof -
  have "inj_on (\<lambda>k. scr ((next_counter w ^^ k) c)) (set [0..<m])"
    using assms by (intro inj_on_subset [OF cycle_inj]) auto
  then show ?thesis
    by (intro distinct_filter) (simp add: distinct_map)
qed

text \<open>The claimed counter after an unusable one gives a usable handle.\<close>

lemma zero_skip:
  assumes "c \<le> MAX_HANDLE w" "scr c = 0"
  shows "scr (next_counter w c) \<noteq> 0"
proof
  assume "scr (next_counter w c) = 0"
  then have "next_counter w c = c"
    using assms scr_inj [of "next_counter w c" c] by (simp add: next_counter_unat)
  then show False
    by (cases w) (auto simp: next_counter_def split: if_splits)
qed

text \<open>Every handle of the range is reached from every counter position.\<close>

lemma cycle_reaches:
  assumes "c \<le> MAX_HANDLE w" "h \<le> MAX_HANDLE w"
  shows "\<exists>k. k \<le> unat (MAX_HANDLE w) \<and> scr ((next_counter w ^^ k) c) = h"
proof -
  let ?f = "\<lambda>k. scr ((next_counter w ^^ k) c)"
  have "?f ` {..unat (MAX_HANDLE w)} = {..MAX_HANDLE w}"
  proof (rule card_subset_eq)
    show "?f ` {..unat (MAX_HANDLE w)} \<subseteq> {..MAX_HANDLE w}"
      using assms(1) by (auto simp: next_counter_iter scr_range)
    have "card {..MAX_HANDLE w} = card {..unat (MAX_HANDLE w)}"
      by (simp only: card_atMost_word card_atMost)
    then show "card (?f ` {..unat (MAX_HANDLE w)}) = card {..MAX_HANDLE w}"
      by (simp only: card_image [OF cycle_inj [OF assms(1)]])
  qed simp
  then have "h \<in> ?f ` {..unat (MAX_HANDLE w)}"
    using assms(2) by simp
  then show ?thesis
    by auto
qed

end

lemma scramble32_permutation:
  "handle_permutation ULong32 (scramble ULong32 s) (unscramble ULong32 s)"
  by unfold_locales
    (simp_all add: scramble_def unscramble_def feistel32_inverse_forward feistel32_forward_inverse
      ucast_u64_u32 ucast_u32_le)

lemma scramble64_permutation:
  "handle_permutation ULong64 (scramble ULong64 s) (unscramble ULong64 s)"
  by unfold_locales
    (simp_all add: scramble_def unscramble_def feistel64_inverse_forward feistel64_forward_inverse
      u64_le_max del: word_le_nat_alt)

interpretation scrambler: handle_permutation w "scramble w s" "unscramble w s" for w s
  by (cases w) (simp_all only: scramble32_permutation scramble64_permutation)

section \<open>The allocators\<close>

record session_handle_allocator =
  sha_next :: u64
  sha_scrambler :: handle_scrambler

definition session_allocator_new :: "u64 list \<Rightarrow> session_handle_allocator" where
  "session_allocator_new keys = \<lparr>sha_next = 0, sha_scrambler = \<lparr>round_keys = keys\<rparr>\<rparr>"

function session_next :: "ulong_width \<Rightarrow> session_handle_allocator \<Rightarrow> u64 \<times> session_handle_allocator" where
  "session_next w a =
    (let current = sha_next a;
         a' = a\<lparr>sha_next := next_counter w current\<rparr>;
         handle = scramble w (sha_scrambler a) current
     in if handle \<noteq> 0 then (handle, a') else session_next w a')"
  by pat_completeness auto

lemma ucast_add_one: "(ucast (c + 1 :: u64) :: u32) = ucast c + 1"
  by (intro word_uint_eqI)
    (simp add: unsigned_ucast_eq take_bit_eq_mod uint_word_ariths mod_mod_cancel mod_simps)

lemma scramble_zero_skip:
  assumes "scramble w s c = 0"
  shows "scramble w s (next_counter w c) \<noteq> 0"
proof (cases w)
  case ULong64
  then show ?thesis
    using assms scrambler.zero_skip [of c w s] by (simp add: u64_le_max)
next
  case ULong32
  let ?f = "\<lambda>x. ucast (feistel32_forward s x) :: u64"
  have inj: "x = y" if "?f x = ?f y" for x y
    using that by (metis feistel32_inverse_forward ucast_u32_u64)
  have "(ucast (next_counter w c) :: u32) = ucast c + 1"
    using ULong32 by (simp add: next_counter_def ucast_add_one)
  with ULong32 assms inj [of "ucast c + 1" "ucast c"] show ?thesis
    by (auto simp: scramble_def)
qed

termination session_next
  by (relation "measure (\<lambda>(w, a). if scramble w (sha_scrambler a) (sha_next a) = 0 then 1 else 0)")
    (auto simp: scramble_zero_skip)

declare session_next.simps [simp del]

record object_handle_allocator =
  oha_next :: u64
  oha_scrambler :: handle_scrambler
  oha_reserved :: "u64 set"

definition object_allocator_new :: "u64 list \<Rightarrow> object_handle_allocator" where
  "object_allocator_new keys =
    \<lparr>oha_next = 0, oha_scrambler = \<lparr>round_keys = keys\<rparr>, oha_reserved = {}\<rparr>"

text \<open>With every handle reserved the loop of the source never returns; the result of the loop is
  therefore optional and its termination is a theorem.\<close>

partial_function (option) object_next ::
  "ulong_width \<Rightarrow> object_handle_allocator \<Rightarrow> (u64 \<times> object_handle_allocator) option" where
  "object_next w a =
    (let current = oha_next a;
         a' = a\<lparr>oha_next := next_counter w current\<rparr>;
         handle = scramble w (oha_scrambler a) current
     in if handle = 0 \<or> handle \<in> oha_reserved a then object_next w a' else Some (handle, a'))"

definition ensure_past :: "u64 \<Rightarrow> object_handle_allocator \<Rightarrow> object_handle_allocator" where
  "ensure_past handle a = a\<lparr>oha_reserved := insert handle (oha_reserved a)\<rparr>"


section \<open>Properties of the allocators\<close>

lemma session_next_eq:
  "session_next w a =
    (let s = sha_scrambler a; c = sha_next a; c1 = next_counter w c
     in if scramble w s c \<noteq> 0 then (scramble w s c, a\<lparr>sha_next := c1\<rparr>)
        else (scramble w s c1, a\<lparr>sha_next := next_counter w c1\<rparr>))"
  by (subst session_next.simps, subst session_next.simps) (simp add: Let_def scramble_zero_skip)

text \<open>The handles of \<open>n\<close> consecutive allocations, oldest first.\<close>

primrec session_nexts :: "nat \<Rightarrow> ulong_width \<Rightarrow> session_handle_allocator \<Rightarrow> u64 list \<times> session_handle_allocator" where
  "session_nexts 0 w a = ([], a)"
| "session_nexts (Suc n) w a =
    (let (hs, a1) = session_nexts n w a; (h, a2) = session_next w a1 in (hs @ [h], a2))"

lemma filter_nonzero_length:
  assumes "inj_on f {..<m}" "k < m" "f k = (0 :: u64)"
  shows "filter (\<lambda>h. h \<noteq> 0) (map f [0..<k]) = map f [0..<k]"
proof -
  have "f i \<noteq> 0" if "i < k" for i
    using assms that inj_onD [OF assms(1), of i k] by auto
  then show ?thesis
    by (auto simp: filter_id_conv)
qed

lemma session_nexts_filter:
  assumes "sha_next a \<le> MAX_HANDLE w" "n \<le> unat (MAX_HANDLE w)"
  defines "f \<equiv> \<lambda>k. scramble w (sha_scrambler a) ((next_counter w ^^ k) (sha_next a))"
  shows "\<exists>m \<le> Suc (unat (MAX_HANDLE w)). m \<le> Suc n \<and>
    session_nexts n w a =
      (filter (\<lambda>h. h \<noteq> 0) (map f [0..<m]), a\<lparr>sha_next := (next_counter w ^^ m) (sha_next a)\<rparr>) \<and>
    length (filter (\<lambda>h. h \<noteq> 0) (map f [0..<m])) = n"
  using assms(2)
proof (induction n)
  case 0
  then show ?case by (intro exI [of _ 0]) simp
next
  case (Suc n)
  let ?F = "\<lambda>m. filter (\<lambda>h. h \<noteq> 0) (map f [0..<m])"
  let ?A = "\<lambda>m. a\<lparr>sha_next := (next_counter w ^^ m) (sha_next a)\<rparr>"
  obtain m where m: "m \<le> Suc n" "session_nexts n w a = (?F m, ?A m)" "length (?F m) = n"
    using Suc by auto
  have inj: "inj_on f {..unat (MAX_HANDLE w)}"
    unfolding f_def by (rule scrambler.cycle_inj) fact
  show ?case
  proof (cases "f m = 0")
    case False
    then have "session_nexts (Suc n) w a = (?F (Suc m), ?A (Suc m))"
      using m by (simp add: session_next_eq f_def Let_def)
    moreover have "length (?F (Suc m)) = Suc n"
      using False m by simp
    ultimately show ?thesis
      using m Suc.prems by (intro exI [of _ "Suc m"]) simp
  next
    case True
    have "inj_on f {..<Suc m}"
      using m Suc.prems by (intro inj_on_subset [OF inj]) auto
    then have F: "?F m = map f [0..<m]"
      using True by (intro filter_nonzero_length) auto
    then have mn: "m = n"
      using m(3) by simp
    have "f (Suc m) \<noteq> 0"
      using True scramble_zero_skip by (simp add: f_def)
    then have "session_nexts (Suc n) w a = (?F (Suc (Suc m)), ?A (Suc (Suc m)))"
      "length (?F (Suc (Suc m))) = Suc n"
      using True m by (simp_all add: session_next_eq f_def Let_def)
    then show ?thesis
      using mn Suc.prems by (intro exI [of _ "Suc (Suc m)"]) simp
  qed
qed

lemma session_nexts_distinct:
  assumes "sha_next a \<le> MAX_HANDLE w" "n \<le> unat (MAX_HANDLE w)"
  shows "distinct (fst (session_nexts n w a))"
proof -
  obtain m where "m \<le> Suc (unat (MAX_HANDLE w))"
    and "fst (session_nexts n w a) = filter (\<lambda>h. h \<noteq> 0)
      (map (\<lambda>k. scramble w (sha_scrambler a) ((next_counter w ^^ k) (sha_next a))) [0..<m])"
    using session_nexts_filter [OF assms] by auto
  then show ?thesis using assms(1) by (simp add: scrambler.cycle_distinct)
qed

text \<open>\<^bold>\<open>C18\<close>. Session handles are unique and never \<open>CK_INVALID_HANDLE\<close>: any run of at most
  \<open>MAX_HANDLE\<close> consecutive allocations (the number of non-zero handles) returns pairwise
  distinct, non-zero handles of the range, on both widths and for every choice of round keys,
  also when the counter wraps around during the run.\<close>

theorem session_handles_unique:
  assumes "sha_next a \<le> MAX_HANDLE w" "n \<le> unat (MAX_HANDLE w)"
  shows "distinct (fst (session_nexts n w a)) \<and> length (fst (session_nexts n w a)) = n \<and>
    (\<forall>h \<in> set (fst (session_nexts n w a)). h \<noteq> 0 \<and> h \<le> MAX_HANDLE w)"
proof -
  obtain m where "m \<le> Suc (unat (MAX_HANDLE w))"
    and "fst (session_nexts n w a) = filter (\<lambda>h. h \<noteq> 0)
      (map (\<lambda>k. scramble w (sha_scrambler a) ((next_counter w ^^ k) (sha_next a))) [0..<m])"
    and "length (fst (session_nexts n w a)) = n"
    using session_nexts_filter [OF assms] by auto
  then show ?thesis
    using assms(1) by (auto simp: scrambler.cycle_distinct scrambler.scr_range next_counter_iter)
qed

theorem session_handles_unique_witness:
  "distinct (fst (session_nexts 3 ULong64 (session_allocator_new [1, 2, 3, 4])))"
  using session_handles_unique [of "session_allocator_new [1, 2, 3, 4]" ULong64 3]
  by (simp add: session_allocator_new_def)

lemma object_next_reaches:
  assumes "\<forall>k < n. h k = 0 \<or> h k \<in> oha_reserved a" "h n \<noteq> 0" "h n \<notin> oha_reserved a"
    and "\<And>k. h k = scramble w (oha_scrambler a) ((next_counter w ^^ k) (oha_next a))"
  shows "object_next w a = Some (h n, a\<lparr>oha_next := (next_counter w ^^ Suc n) (oha_next a)\<rparr>)"
  using assms
proof (induction n arbitrary: a h)
  case 0
  then show ?case by (subst object_next.simps) (simp add: Let_def)
next
  case (Suc n)
  let ?a = "a\<lparr>oha_next := next_counter w (oha_next a)\<rparr>"
  have "object_next w a = object_next w ?a"
    using Suc.prems(1) Suc.prems(4) [of 0] by (subst object_next.simps) (auto simp: Let_def)
  also have "\<dots> = Some (h (Suc n), ?a\<lparr>oha_next := (next_counter w ^^ Suc n) (oha_next ?a)\<rparr>)"
    using Suc.prems by (intro Suc.IH [where h = "\<lambda>k. h (Suc k)"]) (auto simp: funpow_swap1)
  finally show ?case
    by (simp add: funpow_swap1)
qed

text \<open>\<^bold>\<open>C28\<close>. The object allocator terminates whenever some handle of the range is still free,
  and the handle it returns is non-zero, in range and not reserved, so it cannot collide with an
  object loaded from persistent storage.\<close>

theorem object_next_returns:
  assumes "oha_next a \<le> MAX_HANDLE w"
    and "free \<le> MAX_HANDLE w" "free \<noteq> 0" "free \<notin> oha_reserved a"
  shows "\<exists>h a'. object_next w a = Some (h, a') \<and> h \<noteq> 0 \<and> h \<le> MAX_HANDLE w \<and>
    h \<notin> oha_reserved a \<and> oha_reserved a' = oha_reserved a \<and> oha_next a' \<le> MAX_HANDLE w"
proof -
  define h where "h k = scramble w (oha_scrambler a) ((next_counter w ^^ k) (oha_next a))" for k
  let ?good = "\<lambda>k. h k \<noteq> 0 \<and> h k \<notin> oha_reserved a"
  obtain k where "?good k"
    using scrambler.cycle_reaches [OF assms(1,2)] assms(3,4) unfolding h_def by metis
  then have good: "?good (LEAST k. ?good k)"
    by (rule LeastI)
  moreover have "\<forall>j < (LEAST k. ?good k). \<not> ?good j"
    by (blast dest: not_less_Least)
  ultimately have "object_next w a = Some (h (LEAST k. ?good k),
      a\<lparr>oha_next := (next_counter w ^^ Suc (LEAST k. ?good k)) (oha_next a)\<rparr>)"
    by (intro object_next_reaches [where h = h]) (auto simp: h_def)
  with good show ?thesis
    using assms(1) next_counter_iter(1) [OF assms(1)]
    by (auto simp: h_def scrambler.scr_range simp del: funpow.simps)
qed

theorem object_next_returns_witness:
  "\<exists>h a'. object_next ULong64 (ensure_past 7 (object_allocator_new [1, 2, 3, 4])) = Some (h, a') \<and> h \<noteq> 7"
  using object_next_returns [of "ensure_past 7 (object_allocator_new [1, 2, 3, 4])" ULong64 5]
  by (auto simp: ensure_past_def object_allocator_new_def)

end
