(* ===== verification/Object_Store.thy ===== *)
theory Object_Store
  imports Objects Encrypted_Store Handles
begin

text \<open>
  The object store (\<open>src/src/store/attributes.rs\<close>). The source maps handles to shared references of
  objects, and a session keeps such a reference in its operation in progress; a reference outlives
  the removal or the replacement of its map entry. The model therefore has a heap of objects, the
  map takes handles to addresses, and addresses are never reused.

  Serialisation of objects is third-party code: a record of an encoder and a decoder. Time, random
  bytes and the outcome of database transactions are the environment of a call. Allocating a
  handle is the loop of \<open>Handles\<close>, whose value is optional; it always returns while a handle is free,
  and the branch for a loop that does not return is there only to make the definitions total.
\<close>

record object_store =
  os_objects :: "(u64 \<times> obj_ref) list"
  os_heap :: "(obj_ref \<times> stored_object) list"
  os_next_addr :: obj_ref
  os_handle_alloc :: object_handle_allocator
  os_persist_store :: "encrypted_store option"
  os_persist_key :: "bytes option"
  os_store_keys :: "(u64 \<times> string) list"

record object_codec =
  to_json :: "stored_object \<Rightarrow> bytes option"
  from_json :: "bytes \<Rightarrow> stored_object option"

record store_env =
  se_now :: int
  se_store_key :: "u64 \<Rightarrow> bytes"
  se_nonce :: "u64 \<Rightarrow> bytes hsm_result"
  se_db :: db_env

abbreviation (input) MAX_OBJECTS :: nat where "MAX_OBJECTS \<equiv> 10000"

section \<open>References\<close>

definition obj_at :: "obj_ref \<Rightarrow> object_store \<Rightarrow> stored_object option" where
  "obj_at addr os = map_of (os_heap os) addr"

definition write_obj :: "obj_ref \<Rightarrow> stored_object \<Rightarrow> object_store \<Rightarrow> object_store" where
  "write_obj addr obj os = os\<lparr>os_heap := AList.update addr obj (os_heap os)\<rparr>"

definition map_insert :: "u64 \<Rightarrow> stored_object \<Rightarrow> object_store \<Rightarrow> object_store" where
  "map_insert handle obj os =
    os\<lparr>os_objects := AList.update handle (os_next_addr os) (os_objects os),
      os_heap := AList.update (os_next_addr os) obj (os_heap os),
      os_next_addr := os_next_addr os + 1\<rparr>"

definition map_remove :: "u64 \<Rightarrow> object_store \<Rightarrow> object_store" where
  "map_remove handle os = os\<lparr>os_objects := AList.delete handle (os_objects os)\<rparr>"

text \<open>The object a handle denotes, through its reference.\<close>

definition os_lookup :: "object_store \<Rightarrow> u64 \<Rightarrow> stored_object option" where
  "os_lookup os handle = Option.bind (map_of (os_objects os) handle) (\<lambda>addr. obj_at addr os)"

section \<open>Construction and store keys\<close>

definition object_store_new :: "u64 list \<Rightarrow> object_store" where
  "object_store_new keys =
    \<lparr>os_objects = [], os_heap = [], os_next_addr = 0, os_handle_alloc = object_allocator_new keys,
     os_persist_store = None, os_persist_key = None, os_store_keys = []\<rparr>"

definition with_persistence :: "u64 list \<Rightarrow> encrypted_store \<Rightarrow> object_store" where
  "with_persistence keys store = (object_store_new keys)\<lparr>os_persist_store := Some store\<rparr>"

definition generate_store_key :: "pin_crypto \<Rightarrow> store_env \<Rightarrow> u64 \<Rightarrow> object_store \<Rightarrow> string \<times> object_store" where
  "generate_store_key C env handle os =
    (let key = ''obj_'' @ hex_encode C (se_store_key env handle)
     in (key, os\<lparr>os_store_keys := AList.update handle key (os_store_keys os)\<rparr>))"

definition get_store_key :: "pin_crypto \<Rightarrow> store_env \<Rightarrow> u64 \<Rightarrow> object_store \<Rightarrow> string \<times> object_store" where
  "get_store_key C env handle os =
    (case map_of (os_store_keys os) handle of
       Some key \<Rightarrow> (key, os)
     | None \<Rightarrow> generate_store_key C env handle os)"

definition set_persist_key :: "bytes \<Rightarrow> object_store \<Rightarrow> object_store" where
  "set_persist_key key os = os\<lparr>os_persist_key := Some key\<rparr>"

definition clear_persist_key :: "object_store \<Rightarrow> object_store" where
  "clear_persist_key os = os\<lparr>os_persist_key := None\<rparr>"

section \<open>Persistence\<close>

definition load_object :: "string \<Rightarrow> stored_object \<Rightarrow> object_store \<Rightarrow> object_store" where
  "load_object store_key obj os =
    map_insert (ob_handle obj) obj
      (os\<lparr>os_store_keys := AList.update (ob_handle obj) store_key (os_store_keys os),
         os_handle_alloc := ensure_past (ob_handle obj) (os_handle_alloc os)\<rparr>)"

text \<open>A decryption failure ends the load with the error; the objects loaded before it stay.\<close>

fun load_entries ::
  "pin_crypto \<Rightarrow> object_codec \<Rightarrow> store_env \<Rightarrow> encrypted_store \<Rightarrow> bytes \<Rightarrow> string list \<Rightarrow> nat \<Rightarrow> object_store
    \<Rightarrow> nat hsm_result \<times> object_store" where
  "load_entries C J env store key [] loaded os = (Inr loaded, os)"
| "load_entries C J env store key (store_key # keys) loaded os =
    (case load_encrypted C (se_db env) store_key key store of
       Inl e \<Rightarrow> (Inl e, os)
     | Inr None \<Rightarrow> load_entries C J env store key keys loaded os
     | Inr (Some data) \<Rightarrow>
        (case from_json J data of
           None \<Rightarrow> load_entries C J env store key keys loaded os
         | Some obj \<Rightarrow>
             if \<not> is_ok (validate_deserialized_object obj)
             then load_entries C J env store key keys loaded os
             else load_entries C J env store key keys (loaded + 1) (load_object store_key obj os)))"

definition load_from_store ::
  "pin_crypto \<Rightarrow> object_codec \<Rightarrow> store_env \<Rightarrow> object_store \<Rightarrow> nat hsm_result \<times> object_store" where
  "load_from_store C J env os =
    (case os_persist_store os of
       None \<Rightarrow> (Inr 0, os)
     | Some store \<Rightarrow>
        (case os_persist_key os of
           None \<Rightarrow> (Inr 0, os)
         | Some key \<Rightarrow>
            (case list_keys (se_db env) store of
               Inl e \<Rightarrow> (Inl e, os)
             | Inr keys \<Rightarrow> load_entries C J env store key keys 0 os)))"

definition persist_object :: "pin_crypto \<Rightarrow> object_codec \<Rightarrow> store_env \<Rightarrow> stored_object \<Rightarrow> object_store \<Rightarrow> object_store" where
  "persist_object C J env obj os =
    (if \<not> ob_token_object obj then os
     else
       (case os_persist_store os of
          None \<Rightarrow> os
        | Some store \<Rightarrow>
           (case os_persist_key os of
              None \<Rightarrow> os
            | Some key \<Rightarrow>
               (let (store_key, os1) = get_store_key C env (ob_handle obj) os in
                case to_json J obj of
                  None \<Rightarrow> os1
                | Some data \<Rightarrow>
                    os1\<lparr>os_persist_store := Some (snd (store_encrypted C (se_db env) (se_nonce env (ob_handle obj))
                      store_key data key store))\<rparr>))))"

definition unpersist_object :: "pin_crypto \<Rightarrow> store_env \<Rightarrow> u64 \<Rightarrow> object_store \<Rightarrow> object_store" where
  "unpersist_object C env handle os =
    (case os_persist_store os of
       None \<Rightarrow> os
     | Some store \<Rightarrow>
        (let (store_key, os1) = get_store_key C env handle os
         in os1\<lparr>os_persist_store := Some (snd (delete_encrypted (se_db env) store_key store)),
              os_store_keys := AList.delete handle (os_store_keys os1)\<rparr>))"

section \<open>Objects\<close>

definition next_handle :: "object_store \<Rightarrow> u64 hsm_result \<times> object_store" where
  "next_handle os =
    (case object_next ULong64 (os_handle_alloc os) of
       Some (handle, alloc) \<Rightarrow> (Inr handle, os\<lparr>os_handle_alloc := alloc\<rparr>)
     | None \<Rightarrow> (Inl GeneralError, os))"

definition create_object ::
  "pin_crypto \<Rightarrow> object_codec \<Rightarrow> store_env \<Rightarrow> template \<Rightarrow> object_store \<Rightarrow> u64 hsm_result \<times> object_store" where
  "create_object C J env tmpl os =
    (if MAX_OBJECTS \<le> length (os_objects os) then (Inl DeviceMemory, os)
     else
       (case Option.bind (map_of tmpl CKA_CLASS) read_ck_ulong of
          None \<Rightarrow> (Inl TemplateIncomplete, os)
        | Some class \<Rightarrow>
           (case next_handle os of
              (Inl e, os1) \<Rightarrow> (Inl e, os1)
            | (Inr handle, os1) \<Rightarrow>
               (case apply_attributes tmpl (stored_object_new (se_now env) handle class) of
                  Inl e \<Rightarrow> (Inl e, os1)
                | Inr obj \<Rightarrow> (Inr handle, map_insert handle obj (persist_object C J env obj os1))))))"

definition insert_object ::
  "pin_crypto \<Rightarrow> object_codec \<Rightarrow> store_env \<Rightarrow> stored_object \<Rightarrow> object_store \<Rightarrow> u64 hsm_result \<times> object_store" where
  "insert_object C J env obj os =
    (if MAX_OBJECTS \<le> length (os_objects os) then (Inl DeviceMemory, os)
     else (Inr (ob_handle obj), map_insert (ob_handle obj) obj (persist_object C J env obj os)))"

definition destroy_object :: "pin_crypto \<Rightarrow> store_env \<Rightarrow> u64 \<Rightarrow> object_store \<Rightarrow> unit hsm_result \<times> object_store" where
  "destroy_object C env handle os =
    (case os_lookup os handle of
       None \<Rightarrow> (Inl ObjectHandleInvalid, os)
     | Some obj \<Rightarrow>
         if ob_destroyable obj then (Inr (), unpersist_object C env handle (map_remove handle os))
         else (Inl GeneralError, os))"

text \<open>Looking an object up returns the reference.\<close>

definition get_object :: "u64 \<Rightarrow> object_store \<Rightarrow> obj_ref hsm_result" where
  "get_object handle os = ok_or ObjectHandleInvalid (map_of (os_objects os) handle)"

definition get_object_size :: "int \<Rightarrow> u64 \<Rightarrow> object_store \<Rightarrow> ck_ulong hsm_result" where
  "get_object_size size_of handle os = res_map (approximate_size size_of) (ok_or ObjectHandleInvalid (os_lookup os handle))"

definition clear_objects :: "store_env \<Rightarrow> object_store \<Rightarrow> object_store" where
  "clear_objects env os =
    os\<lparr>os_objects := [], os_store_keys := [],
      os_persist_store := map_option (\<lambda>store. snd (clear_encrypted (se_db env) store)) (os_persist_store os)\<rparr>"

definition clear_and_rotate :: "store_env \<Rightarrow> bytes hsm_result \<Rightarrow> object_store \<Rightarrow> unit hsm_result \<times> object_store" where
  "clear_and_rotate env drbg_key os =
    (let os1 = clear_objects env os in
     if os_persist_key os1 = None then (Inr (), os1)
     else
       (case drbg_key of
          Inl _ \<Rightarrow> (Inl GeneralError, os1)
        | Inr new_key \<Rightarrow> (Inr (), os1\<lparr>os_persist_key := Some new_key\<rparr>)))"

definition find_objects_for_slot :: "template \<Rightarrow> bool \<Rightarrow> ck_ulong option \<Rightarrow> object_store \<Rightarrow> u64 list" where
  "find_objects_for_slot tmpl is_logged_in slot_id os =
    map fst (filter (\<lambda>(handle, addr).
      case obj_at addr os of
        None \<Rightarrow> False
      | Some obj \<Rightarrow>
          matches_template obj tmpl \<and> (\<not> ob_private obj \<or> is_logged_in) \<and>
          (case slot_id of None \<Rightarrow> True | Some sid \<Rightarrow> ob_slot_id obj = sid)) (os_objects os))"

definition find_objects :: "template \<Rightarrow> bool \<Rightarrow> object_store \<Rightarrow> u64 list" where
  "find_objects tmpl is_logged_in os = find_objects_for_slot tmpl is_logged_in None os"

section \<open>Lifecycle sweep and export\<close>

record lifecycle_transition =
  lt_handle :: u64
  lt_old_state :: key_lifecycle_state
  lt_new_state :: key_lifecycle_state

text \<open>The first pass over the map: the transitions, the objects to persist and the heap. A panic ends
  it with \<open>None\<close>; the objects visited before keep their new state.\<close>

fun sweep_pass ::
  "int \<Rightarrow> (u64 \<times> obj_ref) list \<Rightarrow> lifecycle_transition list \<times> stored_object list \<Rightarrow> object_store
    \<Rightarrow> (lifecycle_transition list \<times> stored_object list) option \<times> object_store" where
  "sweep_pass now [] acc os = (Some acc, os)"
| "sweep_pass now ((handle, addr) # entries) (transitions, to_persist) os =
    (case obj_at addr os of
       None \<Rightarrow> sweep_pass now entries (transitions, to_persist) os
     | Some obj \<Rightarrow>
        (case transition_lifecycle_if_needed now obj of
           None \<Rightarrow> (None, os)
         | Some (None, _) \<Rightarrow> sweep_pass now entries (transitions, to_persist) os
         | Some (Some (old_state, new_state), obj') \<Rightarrow>
             sweep_pass now entries
               (transitions @ [\<lparr>lt_handle = ob_handle obj', lt_old_state = old_state, lt_new_state = new_state\<rparr>],
                if ob_token_object obj' then to_persist @ [obj'] else to_persist)
               (write_obj addr obj' os)))"

definition sweep_lifecycle ::
  "pin_crypto \<Rightarrow> object_codec \<Rightarrow> store_env \<Rightarrow> object_store \<Rightarrow> lifecycle_transition list option \<times> object_store" where
  "sweep_lifecycle C J env os =
    (case sweep_pass (se_now env) (os_objects os) ([], []) os of
       (None, os1) \<Rightarrow> (None, os1)
     | (Some (transitions, to_persist), os1) \<Rightarrow> (Some transitions, fold (persist_object C J env) to_persist os1))"

definition export_all_objects :: "object_store \<Rightarrow> stored_object list" where
  "export_all_objects os = List.map_filter (\<lambda>(handle, addr). obj_at addr os) (os_objects os)"

section \<open>The store is a table of objects\<close>

text \<open>The interface the operations are built on: a table from handles to objects with insertion and
  removal. A client fact for every such table: inserting a list of objects one after the other, with
  any preparation before each that leaves the table alone, overwrites their handles and nothing else.\<close>

locale object_table =
  fixes invar :: "'s \<Rightarrow> bool"
    and lookup :: "'s \<Rightarrow> u64 \<Rightarrow> stored_object option"
    and ins :: "u64 \<Rightarrow> stored_object \<Rightarrow> 's \<Rightarrow> 's"
    and del :: "u64 \<Rightarrow> 's \<Rightarrow> 's"
  assumes lookup_ins: "invar s \<Longrightarrow> lookup (ins h obj s) = (lookup s)(h \<mapsto> obj)"
    and lookup_del: "invar s \<Longrightarrow> lookup (del h s) = (lookup s)(h := None)"
    and invar_ins: "invar s \<Longrightarrow> ob_handle obj = h \<Longrightarrow> invar (ins h obj s)"
    and invar_del: "invar s \<Longrightarrow> invar (del h s)"
begin

lemma lookup_ins_list:
  assumes "\<And>x s. invar s \<Longrightarrow> invar (prep x s) \<and> lookup (prep x s) = lookup s" "invar s"
  shows "invar (fold (\<lambda>x s. ins (ob_handle (f x)) (f x) (prep x s)) xs s) \<and>
    lookup (fold (\<lambda>x s. ins (ob_handle (f x)) (f x) (prep x s)) xs s) =
      lookup s ++ map_of (rev (map (\<lambda>x. (ob_handle (f x), f x)) xs))"
  using assms(2)
proof (induction xs arbitrary: s)
  case (Cons x xs)
  have eq: "lookup s ++ map_of (rev (map (\<lambda>x. (ob_handle (f x), f x)) (x # xs))) =
      (lookup s)(ob_handle (f x) \<mapsto> f x) ++ map_of (rev (map (\<lambda>x. (ob_handle (f x), f x)) xs))"
    by simp
  have p: "invar (prep x s)" "lookup (prep x s) = lookup s" using assms(1) [OF Cons.prems] by auto
  show ?case
    using Cons.IH [OF invar_ins [OF p(1) refl, of "f x"]]
    by (simp only: fold_Cons comp_apply eq lookup_ins [OF p(1)] p(2))
qed simp

end

definition os_wf :: "object_store \<Rightarrow> bool" where
  "os_wf os \<longleftrightarrow>
     distinct (map fst (os_objects os)) \<and> distinct (map snd (os_objects os)) \<and>
     (\<forall>(a, obj) \<in> set (os_heap os). a < os_next_addr os) \<and>
     (\<forall>(h, a) \<in> set (os_objects os). \<exists>obj. obj_at a os = Some obj \<and> ob_handle obj = h)"

lemma os_wf_addr: "os_wf os \<Longrightarrow> (h, a) \<in> set (os_objects os) \<Longrightarrow> a < os_next_addr os"
  unfolding os_wf_def obj_at_def using map_of_SomeD by fastforce

lemma os_lookup_Some: "os_lookup os h = Some obj \<longleftrightarrow> (\<exists>a. map_of (os_objects os) h = Some a \<and> obj_at a os = Some obj)"
  by (auto simp: os_lookup_def Option.bind_eq_Some_conv)

lemma os_wf_lookup: "os_wf os \<Longrightarrow> os_lookup os h = None \<longleftrightarrow> map_of (os_objects os) h = None"
  unfolding os_wf_def os_lookup_def using map_of_SomeD by (fastforce split: bind_splits)

lemma os_lookup_insert:
  assumes "os_wf os"
  shows "os_lookup (map_insert h obj os) = (os_lookup os)(h \<mapsto> obj)"
proof
  fix h'
  have "a \<noteq> os_next_addr os" if "map_of (os_objects os) h' = Some a" for a
    using os_wf_addr [OF assms map_of_SomeD [OF that]] by simp
  then show "os_lookup (map_insert h obj os) h' = ((os_lookup os)(h \<mapsto> obj)) h'"
    by (auto simp: os_lookup_def map_insert_def obj_at_def split: bind_splits)
qed

lemma os_wf_insert:
  assumes "os_wf os" "ob_handle obj = h"
  shows "os_wf (map_insert h obj os)"
proof -
  let ?n = "os_next_addr os"
  have fresh: "?n \<notin> snd ` set (os_objects os)" using os_wf_addr [OF assms(1)] by fastforce
  have eqs: "os_objects (map_insert h obj os) = AList.update h ?n (os_objects os)"
    "os_heap (map_insert h obj os) = AList.update ?n obj (os_heap os)"
    "os_next_addr (map_insert h obj os) = Suc ?n"
    by (simp_all add: map_insert_def)
  have "distinct (map snd (AList.update h ?n (os_objects os)))"
    using assms(1) fresh by (auto simp: os_wf_def distinct_snd_update)
  moreover have "distinct (map fst (AList.update h ?n (os_objects os)))"
    using assms(1) by (simp add: os_wf_def distinct_update)
  moreover have "\<exists>o'. map_of (AList.update ?n obj (os_heap os)) a = Some o' \<and> ob_handle o' = h'"
    if "(h', a) \<in> set (AList.update h ?n (os_objects os))" for h' a
  proof (cases "(h', a) = (h, ?n)")
    case True
    then show ?thesis using assms(2) by simp
  next
    case False
    then have "(h', a) \<in> set (os_objects os)" using al_update_memD [OF that] by blast
    then show ?thesis using assms(1) os_wf_addr [OF assms(1)] by (force simp: os_wf_def obj_at_def)
  qed
  moreover have "\<forall>(a, o') \<in> set (AList.update ?n obj (os_heap os)). a < Suc ?n"
    using assms(1) by (fastforce simp: os_wf_def dest!: al_update_memD)
  ultimately show ?thesis
    unfolding os_wf_def obj_at_def eqs by blast
qed

lemma os_wf_remove: "os_wf os \<Longrightarrow> os_wf (map_remove h os)"
  unfolding os_wf_def map_remove_def
  by (auto simp: distinct_delete al_delete_set obj_at_def AList.delete_eq distinct_map_filter)

lemma os_lookup_remove: "os_wf os \<Longrightarrow> os_lookup (map_remove h os) = (os_lookup os)(h := None)"
  by (rule ext) (auto simp: os_lookup_def map_remove_def obj_at_def)

interpretation os_table: object_table os_wf os_lookup map_insert map_remove
  by unfold_locales (simp_all add: os_lookup_insert os_lookup_remove os_wf_insert os_wf_remove)

end
