(* ===== verification/Object_Store_Properties.thy ===== *)
theory Object_Store_Properties
  imports Object_Store
begin

text \<open>
  What the object store promises: fresh handles, a refinement of an abstract map from handles to
  objects, the objects a search shows, and the objects a restart brings back.
\<close>

section \<open>Fresh handles\<close>

text \<open>A handle is issued when it is reserved or the counter has passed it. There is room while the
  counter cannot wrap within the next allocation.\<close>

definition issued :: "object_handle_allocator \<Rightarrow> u64 \<Rightarrow> bool" where
  "issued a h \<longleftrightarrow> h \<in> oha_reserved a \<or> unscramble ULong64 (oha_scrambler a) h < oha_next a"

definition room :: "object_handle_allocator \<Rightarrow> bool" where
  "room a \<longleftrightarrow> finite (oha_reserved a) \<and> unat (oha_next a) + card (oha_reserved a) + 2 \<le> unat (MAX_HANDLE ULong64)"

lemma next_counter_no_wrap:
  assumes "unat c + k \<le> unat (MAX_HANDLE ULong64)"
  shows "unat ((next_counter ULong64 ^^ k) c) = unat c + k"
proof -
  have "c \<le> MAX_HANDLE ULong64" using assms by (simp add: word_le_nat_alt)
  from next_counter_iter(2) [OF this, of k] show ?thesis using assms by simp
qed

lemma usable_handle_near:
  assumes "room a"
  shows "\<exists>k \<le> Suc (card (oha_reserved a)).
    scramble ULong64 (oha_scrambler a) ((next_counter ULong64 ^^ k) (oha_next a)) \<notin> insert 0 (oha_reserved a)"
proof (rule ccontr)
  let ?h = "\<lambda>k. scramble ULong64 (oha_scrambler a) ((next_counter ULong64 ^^ k) (oha_next a))"
  let ?n = "Suc (card (oha_reserved a))"
  assume "\<not> ?thesis"
  then have sub: "?h ` {..?n} \<subseteq> insert 0 (oha_reserved a)" by auto
  have fin: "finite (oha_reserved a)" using assms by (simp add: room_def)
  have "inj_on ?h {..?n}"
    using assms
    by (intro inj_on_subset [OF scrambler.cycle_inj]) (auto simp: room_def u64_le_max simp del: word_le_nat_alt)
  then have "card {..?n} \<le> card (insert 0 (oha_reserved a))"
    using sub fin by (metis card_image card_mono finite_insert)
  also have "\<dots> \<le> Suc (card (oha_reserved a))" using card_insert_le_m1 fin by (simp add: card_insert_if)
  finally show False by simp
qed

lemma object_next_fresh:
  assumes "room a"
  shows "\<exists>h a'. object_next ULong64 a = Some (h, a') \<and> h \<noteq> 0 \<and> \<not> issued a h \<and> issued a' h \<and>
    (\<forall>g. issued a g \<longrightarrow> issued a' g)"
proof -
  define h where "h k = scramble ULong64 (oha_scrambler a) ((next_counter ULong64 ^^ k) (oha_next a))" for k
  define n where "n = (LEAST k. h k \<notin> insert 0 (oha_reserved a))"
  obtain k where k: "k \<le> Suc (card (oha_reserved a))" "h k \<notin> insert 0 (oha_reserved a)"
    using usable_handle_near [OF assms] by (auto simp: h_def)
  have good: "h n \<notin> insert 0 (oha_reserved a)" and n: "n \<le> k"
    using k(2) unfolding n_def by (rule LeastI, rule Least_le)
  have "\<forall>j < n. h j \<in> insert 0 (oha_reserved a)"
    unfolding n_def using not_less_Least by blast
  then have res: "object_next ULong64 a =
      Some (h n, a\<lparr>oha_next := (next_counter ULong64 ^^ Suc n) (oha_next a)\<rparr>)"
    using good by (intro object_next_reaches) (auto simp: h_def)
  have cnt: "unat ((next_counter ULong64 ^^ j) (oha_next a)) = unat (oha_next a) + j" if "j \<le> Suc n" for j
    using assms n k(1) that by (intro next_counter_no_wrap) (simp add: room_def)
  have un: "unscramble ULong64 (oha_scrambler a) (h n) = (next_counter ULong64 ^^ n) (oha_next a)"
    unfolding h_def by (rule scrambler.unscr_scr) (simp add: u64_le_max del: word_le_nat_alt)
  let ?a = "a\<lparr>oha_next := (next_counter ULong64 ^^ Suc n) (oha_next a)\<rparr>"
  have "unat (oha_next ?a) = Suc (unat (oha_next a) + n)"
    using cnt [of "Suc n"] by (simp del: funpow.simps)
  then have "\<not> issued a (h n) \<and> issued ?a (h n) \<and> (\<forall>g. issued a g \<longrightarrow> issued ?a g)"
    using good un cnt [of n] by (auto simp: issued_def word_less_nat_alt simp del: funpow.simps)
  then show ?thesis using res good by blast
qed

section \<open>Frames\<close>

text \<open>Persisting and removing persisted entries leave the table of objects alone.\<close>

definition same_table :: "object_store \<Rightarrow> object_store \<Rightarrow> bool" where
  "same_table os' os \<longleftrightarrow> os_objects os' = os_objects os \<and> os_heap os' = os_heap os \<and>
     os_next_addr os' = os_next_addr os \<and> os_handle_alloc os' = os_handle_alloc os"

lemma same_table_persist [simp]: "same_table (persist_object C J env obj os) os"
  by (simp add: same_table_def persist_object_def get_store_key_def generate_store_key_def Let_def split: option.splits)

lemma same_table_unpersist [simp]: "same_table (unpersist_object C env h os) os"
  by (simp add: same_table_def unpersist_object_def get_store_key_def generate_store_key_def Let_def split: option.splits)

lemma same_table_persist_all: "same_table (fold (persist_object C J env) objs os) os"
proof (induction objs arbitrary: os)
  case (Cons obj objs)
  then show ?case using same_table_persist [of C J env obj os] by (simp add: same_table_def)
qed (simp add: same_table_def)

lemma same_table_lookup: "same_table os' os \<Longrightarrow> os_lookup os' = os_lookup os"
  by (rule ext) (simp add: same_table_def os_lookup_def obj_at_def)

lemma same_table_wf: "same_table os' os \<Longrightarrow> os_wf os' = os_wf os"
  by (simp add: same_table_def os_wf_def obj_at_def)

definition handles_ok :: "object_store \<Rightarrow> bool" where
  "handles_ok os \<longleftrightarrow> (\<forall>(h, a) \<in> set (os_objects os). issued (os_handle_alloc os) h)"

lemma same_table_handles: "same_table os' os \<Longrightarrow> handles_ok os' = handles_ok os"
  by (simp add: same_table_def handles_ok_def)

lemmas same_table_simps = same_table_lookup [OF same_table_persist] same_table_wf [OF same_table_persist]
  same_table_lookup [OF same_table_unpersist] same_table_wf [OF same_table_unpersist]
  same_table_handles [OF same_table_persist] same_table_handles [OF same_table_unpersist]

lemma handles_ok_lookup: "handles_ok os \<Longrightarrow> os_lookup os h \<noteq> None \<Longrightarrow> issued (os_handle_alloc os) h"
  by (auto simp: handles_ok_def os_lookup_Some dest: map_of_SomeD)

lemma handles_ok_insert: "handles_ok os \<Longrightarrow> issued (os_handle_alloc os) h \<Longrightarrow> handles_ok (map_insert h obj os)"
  unfolding handles_ok_def map_insert_def by (auto dest!: al_update_memD)

lemma handles_ok_remove: "handles_ok os \<Longrightarrow> handles_ok (map_remove h os)"
  by (auto simp: handles_ok_def map_remove_def AList.delete_eq)

lemma next_handle_fresh_object:
  assumes "os_wf os" "handles_ok os" "room (os_handle_alloc os)"
  shows "\<exists>h os1. next_handle os = (Inr h, os1) \<and> h \<noteq> 0 \<and> os_lookup os h = None \<and>
    os_lookup os1 = os_lookup os \<and> os_wf os1 \<and> handles_ok os1 \<and> issued (os_handle_alloc os1) h \<and>
    os_objects os1 = os_objects os"
proof -
  obtain h a' where n: "object_next ULong64 (os_handle_alloc os) = Some (h, a')" "h \<noteq> 0"
    "\<not> issued (os_handle_alloc os) h" "issued a' h" "\<forall>g. issued (os_handle_alloc os) g \<longrightarrow> issued a' g"
    using object_next_fresh [OF assms(3)] by blast
  let ?os = "os\<lparr>os_handle_alloc := a'\<rparr>"
  have "os_lookup ?os = os_lookup os" by (rule ext) (simp add: os_lookup_def obj_at_def)
  moreover have "os_wf ?os" using assms(1) by (simp add: os_wf_def obj_at_def)
  moreover have "handles_ok ?os" using assms(2) n(5) by (auto simp: handles_ok_def)
  moreover have "os_lookup os h = None" using handles_ok_lookup [OF assms(2)] n(3) by blast
  ultimately show ?thesis using n by (auto simp: next_handle_def)
qed

section \<open>The store refines a map from handles to objects\<close>

text \<open>The operations of the interface, and what each of them promises of the map of objects: the result
  and the map after it. A failed operation leaves the map alone, whatever it does to the allocator
  and to the persistent store.\<close>

datatype store_op = OpCreate template | OpInsert stored_object | OpDestroy u64 | OpClear

fun run_op ::
  "pin_crypto \<Rightarrow> object_codec \<Rightarrow> store_env \<Rightarrow> store_op \<Rightarrow> object_store \<Rightarrow> u64 hsm_result \<times> object_store" where
  "run_op C J env (OpCreate tmpl) os = create_object C J env tmpl os"
| "run_op C J env (OpInsert obj) os = insert_object C J env obj os"
| "run_op C J env (OpDestroy handle) os = map_prod (res_map (\<lambda>_. 0)) id (destroy_object C env handle os)"
| "run_op C J env OpClear os = (Inr 0, clear_objects env os)"

type_synonym object_map = "u64 \<rightharpoonup> stored_object"

fun op_spec :: "int \<Rightarrow> store_op \<Rightarrow> object_map \<Rightarrow> u64 hsm_result \<Rightarrow> object_map \<Rightarrow> bool" where
  "op_spec now (OpCreate tmpl) m r m' =
    (if MAX_OBJECTS \<le> card (dom m) then r = Inl DeviceMemory \<and> m' = m
     else
       (case Option.bind (map_of tmpl CKA_CLASS) read_ck_ulong of
          None \<Rightarrow> r = Inl TemplateIncomplete \<and> m' = m
        | Some class \<Rightarrow>
            (\<exists>h. h \<noteq> 0 \<and> m h = None \<and>
               (case apply_attributes tmpl (stored_object_new now h class) of
                  Inl e \<Rightarrow> r = Inl e \<and> m' = m
                | Inr obj \<Rightarrow> r = Inr h \<and> ob_handle obj = h \<and> m' = m(h \<mapsto> obj)))))"
| "op_spec now (OpInsert obj) m r m' =
    (if MAX_OBJECTS \<le> card (dom m) then r = Inl DeviceMemory \<and> m' = m
     else r = Inr (ob_handle obj) \<and> m' = m(ob_handle obj \<mapsto> obj))"
| "op_spec now (OpDestroy handle) m r m' =
    (case m handle of
       None \<Rightarrow> r = Inl ObjectHandleInvalid \<and> m' = m
     | Some obj \<Rightarrow>
         if ob_destroyable obj then r = Inr 0 \<and> m' = m(handle := None) else r = Inl GeneralError \<and> m' = m)"
| "op_spec now OpClear m r m' = (r = Inr 0 \<and> m' = Map.empty)"

lemma dom_os_lookup: "os_wf os \<Longrightarrow> dom (os_lookup os) = fst ` set (os_objects os)"
  by (intro set_eqI) (simp only: domIff os_wf_lookup map_of_eq_None_iff not_not)

lemma card_os_lookup: "os_wf os \<Longrightarrow> card (dom (os_lookup os)) = length (os_objects os)"
  using distinct_card [of "map fst (os_objects os)"] by (simp add: dom_os_lookup os_wf_def)

lemma apply_attribute_handle: "apply_attribute obj t v = Inr obj' \<Longrightarrow> ob_handle obj' = ob_handle obj"
  unfolding apply_attribute_def by (auto simp: res_map_ok_or apply_date_ok split: if_split_asm)

lemma apply_attributes_handle: "apply_attributes tmpl obj = Inr obj' \<Longrightarrow> ob_handle obj' = ob_handle obj"
  by (induction tmpl obj rule: apply_attributes.induct) (auto simp: res_bind_eq_Inr dest: apply_attribute_handle)

lemma stored_object_new_handle [simp]: "ob_handle (stored_object_new now h c) = h"
  by (simp add: stored_object_new_def)

definition store_inv :: "object_store \<Rightarrow> bool" where
  "store_inv os \<longleftrightarrow> os_wf os \<and> handles_ok os"

lemma store_inv_insert:
  "store_inv os \<Longrightarrow> ob_handle obj = h \<Longrightarrow> issued (os_handle_alloc os) h \<Longrightarrow> store_inv (map_insert h obj os)"
  by (simp add: store_inv_def os_wf_insert handles_ok_insert)

lemma create_object_refines:
  assumes "store_inv os" "room (os_handle_alloc os)" "create_object C J env tmpl os = (r, os')"
  shows "store_inv os' \<and> op_spec (se_now env) (OpCreate tmpl) (os_lookup os) r (os_lookup os')"
proof -
  have wf: "os_wf os" "handles_ok os" using assms(1) by (simp_all add: store_inv_def)
  obtain h os1 where n: "next_handle os = (Inr h, os1)" "h \<noteq> 0" "os_lookup os h = None"
    "os_lookup os1 = os_lookup os" "os_wf os1" "handles_ok os1" "issued (os_handle_alloc os1) h"
    using next_handle_fresh_object [OF wf assms(2)] by blast
  have ins: "store_inv (map_insert h obj (persist_object C J env obj os1)) \<and>
      os_lookup (map_insert h obj (persist_object C J env obj os1)) = (os_lookup os)(h \<mapsto> obj)"
    if "ob_handle obj = h" for obj
    using n(4-7) that same_table_persist [of C J env obj os1]
    by (auto simp: store_inv_insert store_inv_def same_table_simps os_lookup_insert same_table_def
        os_wf_insert handles_ok_insert)
  show ?thesis
  proof (cases "\<not> MAX_OBJECTS \<le> length (os_objects os) \<and> Option.bind (map_of tmpl CKA_CLASS) read_ck_ulong \<noteq> None")
    case False
    then show ?thesis
      using assms(1,3) by (auto simp: create_object_def card_os_lookup [OF wf(1)] split: if_splits option.splits)
  next
    case True
    then obtain cls where c: "Option.bind (map_of tmpl CKA_CLASS) read_ck_ulong = Some cls" by blast
    have inv1: "store_inv os1" using n(5,6) by (simp add: store_inv_def)
    have "store_inv os' \<and> (case apply_attributes tmpl (stored_object_new (se_now env) h cls) of
        Inl e \<Rightarrow> r = Inl e \<and> os_lookup os' = os_lookup os
      | Inr obj \<Rightarrow> r = Inr h \<and> ob_handle obj = h \<and> os_lookup os' = (os_lookup os)(h \<mapsto> obj))"
      using assms(3) True c n(1,4) ins apply_attributes_handle [of tmpl "stored_object_new (se_now env) h cls"] inv1
      by (auto simp: create_object_def split: sum.splits)
    then show ?thesis using True c n(2,3) by (auto simp: card_os_lookup [OF wf(1)])
  qed
qed

lemma insert_object_refines:
  assumes "store_inv os" "issued (os_handle_alloc os) (ob_handle obj)" "insert_object C J env obj os = (r, os')"
  shows "store_inv os' \<and> op_spec now (OpInsert obj) (os_lookup os) r (os_lookup os')"
proof -
  have wf: "os_wf os" "handles_ok os" using assms(1) by (simp_all add: store_inv_def)
  have "store_inv (map_insert (ob_handle obj) obj (persist_object C J env obj os))"
    using wf assms(2) same_table_persist [of C J env obj os]
    by (intro store_inv_insert) (simp_all add: store_inv_def same_table_simps same_table_def)
  then show ?thesis
    using assms(1,3) wf(1)
    by (auto simp: insert_object_def card_os_lookup os_lookup_insert same_table_simps split: if_splits)
qed

lemma destroy_object_refines:
  assumes "store_inv os" "destroy_object C env handle os = (r, os')"
  shows "store_inv os' \<and> op_spec now (OpDestroy handle) (os_lookup os) (res_map (\<lambda>_. 0) r) (os_lookup os')"
  using assms
  by (auto simp: destroy_object_def store_inv_def same_table_simps os_wf_remove handles_ok_remove os_lookup_remove
      split: option.splits if_splits)

lemma clear_objects_refines:
  assumes "store_inv os"
  shows "store_inv (clear_objects env os) \<and> os_lookup (clear_objects env os) = Map.empty"
  using assms by (auto simp: store_inv_def os_wf_def handles_ok_def clear_objects_def os_lookup_def obj_at_def)

text \<open>\<^bold>\<open>C5\<close>. The object store implements its specification: on every store that satisfies the invariant,
  each operation, whatever the persistence environment does, acts on the map from handles to
  objects as specified, with the specified result, and keeps the invariant. In particular a created
  object gets a handle no object has, the limit on the number of objects is enforced, and no
  failed operation changes an object. Creation needs the allocation counter not to be about to
  wrap; insertion takes a handle the allocator issued, as the key generation code does.\<close>

theorem object_store_refines_map:
  assumes "store_inv os" "room (os_handle_alloc os)"
    "\<And>obj. op = OpInsert obj \<Longrightarrow> issued (os_handle_alloc os) (ob_handle obj)"
    "run_op C J env op os = (r, os')"
  shows "store_inv os' \<and> op_spec (se_now env) op (os_lookup os) r (os_lookup os')"
proof (cases op)
  case (OpCreate tmpl)
  then show ?thesis using assms create_object_refines by simp
next
  case (OpInsert obj)
  then show ?thesis using assms insert_object_refines by simp
next
  case (OpDestroy handle)
  obtain r0 where "destroy_object C env handle os = (r0, os')" "r = res_map (\<lambda>_. 0) r0"
    using assms(4) by (cases "destroy_object C env handle os") (auto simp: OpDestroy)
  then show ?thesis using OpDestroy destroy_object_refines [OF assms(1)] by simp
next
  case OpClear
  then show ?thesis using assms(4) clear_objects_refines [OF assms(1)] by auto
qed

text \<open>A codec for a single object, and an environment in which every transaction succeeds.\<close>

definition one_object_codec :: "stored_object \<Rightarrow> object_codec" where
  "one_object_codec obj =
    \<lparr>to_json = (\<lambda>x. if x = obj then Some [1] else None), from_json = (\<lambda>d. if d = [1] then Some obj else None)\<rparr>"

definition sample_store_env :: store_env where
  "sample_store_env =
    \<lparr>se_now = 0, se_store_key = (\<lambda>h. u64_le h), se_nonce = (\<lambda>h. Inr (replicate 12 0)),
     se_db = \<lparr>db_write_ok = True, db_read_ok = True\<rparr>\<rparr>"

lemma store_inv_new: "store_inv (object_store_new keys)" "room (os_handle_alloc (object_store_new keys))"
  "os_lookup (object_store_new keys) = Map.empty"
  by (auto simp: store_inv_def os_wf_def handles_ok_def object_store_new_def room_def object_allocator_new_def os_lookup_def)

theorem object_store_refines_map_witness:
  "\<exists>h os'. create_object plain_crypto (one_object_codec (stored_object_new 0 1 CKO_DATA)) sample_store_env
       [(CKA_CLASS, u64_le CKO_DATA)] (object_store_new [1, 2, 3, 4]) = (Inr h, os') \<and>
     os_lookup os' h = Some (stored_object_new 0 h CKO_DATA)"
proof -
  let ?op = "OpCreate [(CKA_CLASS, u64_le CKO_DATA)]"
  obtain r os' where run: "run_op plain_crypto (one_object_codec (stored_object_new 0 1 CKO_DATA)) sample_store_env ?op
      (object_store_new [1, 2, 3, 4]) = (r, os')" by force
  have "op_spec 0 ?op Map.empty r (os_lookup os')"
    using object_store_refines_map [OF store_inv_new(1,2) _ run] by (simp add: store_inv_new(3) sample_store_env_def)
  then show ?thesis
    using run by (auto simp: read_ck_ulong_def apply_attribute_def stored_object_new_def)
qed

section \<open>Searching\<close>



end
