(* ===== verification/Object_Persistence.thy ===== *)
theory Object_Persistence
  imports Object_Store_Properties
begin

text \<open>
  Token objects survive a restart: the persistent store stays in step with the objects in memory
  through every operation of the object store, and loading it into a fresh store gives the token
  objects back.
\<close>

section \<open>A store in step with its database\<close>

text \<open>What the codec and the cipher promise: decoding an encoding gives the object back, and encryption
  under the store's key accepts every plaintext.\<close>

definition codec_roundtrips :: "object_codec \<Rightarrow> bool" where
  "codec_roundtrips J \<longleftrightarrow> (\<forall>obj data. to_json J obj = Some data \<longrightarrow> from_json J data = Some obj)"

definition gcm_accepts :: "pin_crypto \<Rightarrow> bytes \<Rightarrow> bool" where
  "gcm_accepts C key \<longleftrightarrow> (\<forall>nonce p. length nonce = NONCE_LEN \<longrightarrow> gcm_encrypt C key nonce p \<noteq> None)"

definition entry_ok :: "pin_crypto \<Rightarrow> object_codec \<Rightarrow> bytes \<Rightarrow> bytes \<Rightarrow> stored_object \<Rightarrow> bool" where
  "entry_ok C J key ct obj \<longleftrightarrow> NONCE_LEN \<le> length ct \<and>
     (\<exists>data. gcm_decrypt C key (take NONCE_LEN ct) (drop NONCE_LEN ct) = Some data \<and> from_json J data = Some obj) \<and>
     is_ok (validate_deserialized_object obj)"

text \<open>The objects, the store keys of the handles and the database table are in step: store keys belong
  to objects and are not shared, every entry decrypts to the token object of its store key, and
  every token object has an entry.\<close>

definition in_step ::
  "pin_crypto \<Rightarrow> object_codec \<Rightarrow> bytes \<Rightarrow> object_map \<Rightarrow> (u64 \<rightharpoonup> string) \<Rightarrow> (string \<rightharpoonup> bytes) \<Rightarrow> bool" where
  "in_step C J key m sks table \<longleftrightarrow>
     (\<forall>h sk. sks h = Some sk \<longrightarrow> m h \<noteq> None) \<and>
     (\<forall>h h' sk. sks h = Some sk \<longrightarrow> sks h' = Some sk \<longrightarrow> h = h') \<and>
     (\<forall>sk ct. table sk = Some ct \<longrightarrow>
        (\<exists>h obj. sks h = Some sk \<and> m h = Some obj \<and> ob_token_object obj \<and> entry_ok C J key ct obj)) \<and>
     (\<forall>h obj. m h = Some obj \<longrightarrow> ob_token_object obj \<longrightarrow> (\<exists>sk. sks h = Some sk \<and> table sk \<noteq> None))"

lemma in_step_entry:
  assumes "in_step C J key m sks table" "table sk = Some ct"
  obtains h obj where "sks h = Some sk" "m h = Some obj" "ob_token_object obj" "entry_ok C J key ct obj"
  using assms unfolding in_step_def by blast

lemma in_step_token:
  assumes "in_step C J key m sks table" "m h = Some obj" "ob_token_object obj"
  obtains sk ct where "sks h = Some sk" "table sk = Some ct"
  using assms unfolding in_step_def by blast

lemma in_step_store:
  assumes "in_step C J key m sks table" "m h = None" "sk \<notin> ran sks" "ob_token_object obj" "entry_ok C J key ct obj"
  shows "in_step C J key (m(h \<mapsto> obj)) (sks(h \<mapsto> sk)) (table(sk \<mapsto> ct))"
proof -
  note s = assms(1) [unfolded in_step_def]
  have new: "sks h = None" using s assms(2) by force
  have other: "sks h' \<noteq> Some sk" for h' using assms(3) by (auto simp: ran_def)
  show ?thesis
    unfolding in_step_def
  proof (intro conjI allI impI)
    fix sk' ct' assume t: "(table(sk \<mapsto> ct)) sk' = Some ct'"
    show "\<exists>h' obj'. (sks(h \<mapsto> sk)) h' = Some sk' \<and> (m(h \<mapsto> obj)) h' = Some obj' \<and> ob_token_object obj' \<and>
        entry_ok C J key ct' obj'"
    proof (cases "sk' = sk")
      case True
      then show ?thesis using t assms(4,5) by (intro exI [of _ h]) auto
    next
      case False
      then have "table sk' = Some ct'" using t by simp
      then obtain h' obj' where "sks h' = Some sk'" "m h' = Some obj'" "ob_token_object obj'" "entry_ok C J key ct' obj'"
        by (rule in_step_entry [OF assms(1)])
      then show ?thesis using new by (intro exI [of _ h'] exI [of _ obj']) auto
    qed
  next
    fix h' obj' assume h': "(m(h \<mapsto> obj)) h' = Some obj'" "ob_token_object obj'"
    show "\<exists>sk'. (sks(h \<mapsto> sk)) h' = Some sk' \<and> (table(sk \<mapsto> ct)) sk' \<noteq> None"
    proof (cases "h' = h")
      case False
      then obtain sk' ct' where "sks h' = Some sk'" "table sk' = Some ct'"
        using in_step_token [OF assms(1), of h' obj'] h' by auto
      then show ?thesis using False by (intro exI [of _ sk']) auto
    qed auto
  qed (use s new other in \<open>auto split: if_splits\<close>)
qed

lemma in_step_session:
  assumes "in_step C J key m sks table" "m h = None" "\<not> ob_token_object obj"
  shows "in_step C J key (m(h \<mapsto> obj)) sks table"
proof -
  have "sks h = None" using assms(1,2) unfolding in_step_def by force
  then show ?thesis using assms unfolding in_step_def by (auto split: if_splits) (metis option.distinct(1))
qed

lemma in_step_remove:
  assumes "in_step C J key m sks table" "sks h = Some sk \<or> sks h = None \<and> sk \<notin> dom table"
  shows "in_step C J key (m(h := None)) (sks(h := None)) (table(sk := None))"
proof -
  note s = assms(1) [unfolded in_step_def]
  show ?thesis
    unfolding in_step_def
  proof (intro conjI allI impI)
    fix sk' ct' assume t: "(table(sk := None)) sk' = Some ct'"
    then have "sk' \<noteq> sk" "table sk' = Some ct'" by (auto split: if_splits)
    obtain h' obj' where "sks h' = Some sk'" "m h' = Some obj'" "ob_token_object obj'" "entry_ok C J key ct' obj'"
      using \<open>table sk' = Some ct'\<close> by (rule in_step_entry [OF assms(1)])
    moreover have "h' \<noteq> h" using calculation(1) assms(2) t \<open>sk' \<noteq> sk\<close> by auto
    ultimately show "\<exists>h' obj'. (sks(h := None)) h' = Some sk' \<and> (m(h := None)) h' = Some obj' \<and>
        ob_token_object obj' \<and> entry_ok C J key ct' obj'" by auto
  next
    fix h' obj' assume "(m(h := None)) h' = Some obj'" "ob_token_object obj'"
    then have h': "h' \<noteq> h" "m h' = Some obj'" by (auto split: if_splits)
    then obtain sk' where sk': "sks h' = Some sk'" "table sk' \<noteq> None" using s \<open>ob_token_object obj'\<close> by blast
    then have "sk' \<noteq> sk" using assms(2) h'(1) s by (metis domIff)
    then show "\<exists>sk'. (sks(h := None)) h' = Some sk' \<and> (table(sk := None)) sk' \<noteq> None"
      using sk' h'(1) by auto
  qed (use s in \<open>auto split: if_splits\<close>)
qed

definition synced :: "pin_crypto \<Rightarrow> object_codec \<Rightarrow> bytes \<Rightarrow> object_store \<Rightarrow> bool" where
  "synced C J key os \<longleftrightarrow>
     (\<exists>table. os_persist_store os = Some \<lparr>es_db = Some table\<rparr> \<and> distinct (map fst table) \<and> os_persist_key os = Some key \<and>
        in_step C J key (os_lookup os) (map_of (os_store_keys os)) (map_of table))"

section \<open>The operations keep the database in step\<close>

text \<open>An environment in which the transactions commit and the random generator delivers nonces of the
  right length and store keys that are not in use.\<close>

definition persist_env_ok :: "pin_crypto \<Rightarrow> store_env \<Rightarrow> object_store \<Rightarrow> bool" where
  "persist_env_ok C env os \<longleftrightarrow> db_write_ok (se_db env) \<and> db_read_ok (se_db env) \<and>
     (\<forall>h. \<exists>nonce. se_nonce env h = Inr nonce \<and> length nonce = NONCE_LEN) \<and>
     (\<forall>h. ''obj_'' @ hex_encode C (se_store_key env h) \<notin> ran (map_of (os_store_keys os)))"

definition persist_laws :: "pin_crypto \<Rightarrow> object_codec \<Rightarrow> bytes \<Rightarrow> bool" where
  "persist_laws C J key \<longleftrightarrow> codec_roundtrips J \<and> gcm_roundtrips C \<and> gcm_accepts C key"

lemma os_lookup_store_fields [simp]:
  "os_lookup (os\<lparr>os_store_keys := x, os_persist_store := y\<rparr>) = os_lookup os"
  "os_lookup (os\<lparr>os_store_keys := x\<rparr>) = os_lookup os"
  "os_lookup (os\<lparr>os_persist_store := y, os_store_keys := x\<rparr>) = os_lookup os"
  "os_lookup (os\<lparr>os_handle_alloc := z\<rparr>) = os_lookup os"
  "os_lookup (os\<lparr>os_store_keys := x, os_handle_alloc := z\<rparr>) = os_lookup os"
  by (auto simp: os_lookup_def obj_at_def)

lemma map_insert_fields [simp]:
  "os_persist_store (map_insert h obj os) = os_persist_store os" "os_persist_key (map_insert h obj os) = os_persist_key os"
  "os_store_keys (map_insert h obj os) = os_store_keys os" "os_handle_alloc (map_insert h obj os) = os_handle_alloc os"
  by (simp_all add: map_insert_def)

lemma map_remove_fields [simp]:
  "os_persist_store (map_remove h os) = os_persist_store os" "os_persist_key (map_remove h os) = os_persist_key os"
  "os_store_keys (map_remove h os) = os_store_keys os"
  by (simp_all add: map_remove_def)

lemma synced_insert:
  assumes "synced C J key os" "os_wf os" "persist_env_ok C env os" "persist_laws C J key"
    "os_lookup os (ob_handle obj) = None" "to_json J obj = Some data" "is_ok (validate_deserialized_object obj)"
  shows "synced C J key (map_insert (ob_handle obj) obj (persist_object C J env obj os))"
proof -
  let ?h = "ob_handle obj"
  obtain table where t: "os_persist_store os = Some \<lparr>es_db = Some table\<rparr>" "distinct (map fst table)"
    "os_persist_key os = Some key" "in_step C J key (os_lookup os) (map_of (os_store_keys os)) (map_of table)"
    using assms(1) by (auto simp: synced_def)
  let ?os = "persist_object C J env obj os"
  have wf: "os_wf ?os" using assms(2) by (simp add: same_table_simps)
  have lk: "os_lookup ?os = os_lookup os" by (simp add: same_table_simps)
  show ?thesis
  proof (cases "ob_token_object obj")
    case False
    then show ?thesis
      using t assms(5) in_step_session [OF t(4), of ?h obj] wf
      by (simp add: synced_def os_lookup_insert lk) (simp add: persist_object_def)
  next
    case True
    let ?sk = "''obj_'' @ hex_encode C (se_store_key env ?h)"
    obtain nonce c where n: "se_nonce env ?h = Inr nonce" "length nonce = NONCE_LEN" "gcm_encrypt C key nonce data = Some c"
      using assms(3,4) unfolding persist_env_ok_def persist_laws_def gcm_accepts_def by blast
    have none: "map_of (os_store_keys os) ?h = None"
      using t(4) assms(5) by (auto simp: in_step_def)
    have os: "os_persist_store ?os = Some \<lparr>es_db = Some (AList.update ?sk (nonce @ c) table)\<rparr>"
      "os_store_keys ?os = AList.update ?h ?sk (os_store_keys os)" "os_persist_key ?os = Some key"
      using True t(1,3) none n assms(3,6)
      by (simp_all add: persist_object_def get_store_key_def generate_store_key_def store_encrypted_def persist_env_ok_def Let_def)
    have "entry_ok C J key (nonce @ c) obj"
      using n assms(4,6,7) by (auto simp: entry_ok_def persist_laws_def gcm_roundtrips_def codec_roundtrips_def)
    moreover have "?sk \<notin> ran (map_of (os_store_keys os))" using assms(3) by (simp add: persist_env_ok_def)
    ultimately have "in_step C J key ((os_lookup os)(?h \<mapsto> obj)) ((map_of (os_store_keys os))(?h \<mapsto> ?sk))
        ((map_of table)(?sk \<mapsto> nonce @ c))"
      using in_step_store [OF t(4) assms(5)] True by blast
    then show ?thesis
      using t(2) os wf by (simp add: synced_def os_lookup_insert lk update_conv' distinct_update)
  qed
qed

lemma apply_attribute_lifecycle: "apply_attribute obj t v = Inr obj' \<Longrightarrow> ob_lifecycle_state obj' = ob_lifecycle_state obj"
  unfolding apply_attribute_def by (auto simp: res_map_ok_or apply_date_ok split: if_split_asm)

lemma apply_attributes_lifecycle:
  "apply_attributes tmpl obj = Inr obj' \<Longrightarrow> ob_lifecycle_state obj' = ob_lifecycle_state obj"
  by (induction tmpl obj rule: apply_attributes.induct) (auto simp: res_bind_eq_Inr dest: apply_attribute_lifecycle)

text \<open>An object created from a template passes the check made when it is loaded.\<close>

lemma created_object_valid:
  assumes "apply_attributes tmpl (stored_object_new now h c) = Inr obj" "h \<noteq> 0"
  shows "is_ok (validate_deserialized_object obj)" "ob_handle obj = h"
  using assms apply_attributes_sealed [OF assms(1)] apply_attributes_lifecycle [OF assms(1)]
    apply_attributes_handle [OF assms(1)]
  by (auto simp: validate_deserialized_object_def stored_object_new_def)

lemma synced_create:
  assumes "synced C J key os" "store_inv os" "room (os_handle_alloc os)" "persist_env_ok C env os" "persist_laws C J key"
    "create_object C J env tmpl os = (r, os')" "\<And>h obj. os_lookup os' h = Some obj \<Longrightarrow> to_json J obj \<noteq> None"
  shows "synced C J key os'"
proof -
  obtain h os1 where n: "next_handle os = (Inr h, os1)" "h \<noteq> 0" "os_lookup os h = None" "os_wf os1"
    using next_handle_fresh_object assms(2,3) unfolding store_inv_def by blast
  then obtain a where os1: "os1 = os\<lparr>os_handle_alloc := a\<rparr>"
    by (auto simp: next_handle_def split: option.splits)
  have s1: "synced C J key os1" "persist_env_ok C env os1" "os_lookup os1 h = None"
    using assms(1,4) n(3) by (simp_all add: os1 synced_def persist_env_ok_def)
  consider "os' = os" | "os' = os1" | obj c where "apply_attributes tmpl (stored_object_new (se_now env) h c) = Inr obj"
      "os' = map_insert h obj (persist_object C J env obj os1)"
    using assms(6) n(1) by (auto simp: create_object_def split: if_splits option.splits sum.splits)
  then show ?thesis
  proof cases
    case 3
    note v = created_object_valid [OF 3(1) n(2)]
    have "os_wf (persist_object C J env obj os1)" using n(4) by (simp add: same_table_simps)
    then have "os_lookup os' h = Some obj" by (simp add: 3(2) os_lookup_insert)
    then obtain data where "to_json J obj = Some data" using assms(7) by blast
    then show ?thesis
      using synced_insert [OF s1(1) n(4) s1(2) assms(5), of obj] s1(3) v 3(2) by simp
  qed (use assms(1) s1 in auto)
qed

lemma synced_destroy:
  assumes "synced C J key os" "os_wf os" "persist_env_ok C env os" "destroy_object C env h os = (r, os')"
  shows "synced C J key os'"
proof (cases "\<exists>obj. os_lookup os h = Some obj \<and> ob_destroyable obj")
  case True
  obtain table where t: "os_persist_store os = Some \<lparr>es_db = Some table\<rparr>" "distinct (map fst table)"
    "os_persist_key os = Some key" "in_step C J key (os_lookup os) (map_of (os_store_keys os)) (map_of table)"
    using assms(1) by (auto simp: synced_def)
  define sk where "sk = (case map_of (os_store_keys os) h of Some k \<Rightarrow> k | None \<Rightarrow> ''obj_'' @ hex_encode C (se_store_key env h))"
  have ok: "map_of (os_store_keys os) h = Some sk \<or> map_of (os_store_keys os) h = None \<and> sk \<notin> dom (map_of table)"
  proof (cases "map_of (os_store_keys os) h")
    case None
    have "sk \<notin> ran (map_of (os_store_keys os))" using assms(3) None by (simp add: sk_def persist_env_ok_def)
    then have "map_of table sk \<noteq> Some ct" for ct using in_step_entry [OF t(4)] by (metis ranI)
    then show ?thesis using None by (simp add: domIff)
  qed (simp add: sk_def)
  have os': "os' = unpersist_object C env h (map_remove h os)"
    using True assms(4) by (auto simp: destroy_object_def)
  have f: "os_persist_store os' = Some \<lparr>es_db = Some (AList.delete sk table)\<rparr>" "os_persist_key os' = Some key"
    "map_of (os_store_keys os') = (map_of (os_store_keys os))(h := None)"
    using t(1,3) assms(3)
    by (auto simp: os' unpersist_object_def get_store_key_def generate_store_key_def delete_encrypted_def sk_def Let_def
        persist_env_ok_def delete_conv' update_conv' split: option.splits)
  have "os_lookup os' = (os_lookup os)(h := None)" using assms(2) by (simp add: os' same_table_simps os_lookup_remove)
  then show ?thesis
    using f t(2) in_step_remove [OF t(4) ok] by (simp add: synced_def delete_conv' distinct_delete)
qed (use assms(1,4) in \<open>auto simp: destroy_object_def split: option.splits if_splits\<close>)

lemma synced_clear:
  assumes "synced C J key os" "persist_env_ok C env os"
  shows "synced C J key (clear_objects env os)"
  using assms
  by (auto simp: synced_def clear_objects_def clear_encrypted_def persist_env_ok_def in_step_def os_lookup_def)

section \<open>Loading the database into a fresh store\<close>

lemma load_entries_all:
  assumes "\<forall>sk \<in> set keys. \<exists>data. load_encrypted C (se_db env) sk key store = Inr (Some data) \<and>
      from_json J data = Some (f sk) \<and> is_ok (validate_deserialized_object (f sk))"
  shows "load_entries C J env store key keys n os = (Inr (n + length keys), fold (\<lambda>sk. load_object sk (f sk)) keys os)"
  using assms by (induction keys arbitrary: n os) auto

lemma map_of_rev_map:
  assumes "distinct (map g xs)"
  shows "map_of (rev (map (\<lambda>x. (g x, v x)) xs)) k = Some y \<longleftrightarrow> (\<exists>x \<in> set xs. g x = k \<and> v x = y)"
proof -
  have "distinct (map fst (rev (map (\<lambda>x. (g x, v x)) xs)))"
    using assms by (simp add: distinct_map rev_map comp_def)
  from map_of_eq_Some_iff [OF this] show ?thesis by auto
qed

lemma map_eq_Some: "(\<And>k v. m k = Some v \<longleftrightarrow> m' k = Some v) \<Longrightarrow> m = m'"
  by (rule ext) (metis not_Some_eq)

lemma load_list_wf:
  assumes "os_wf os"
  shows "os_wf (fold (\<lambda>sk. load_object sk (f sk)) keys os) \<and>
    os_lookup (fold (\<lambda>sk. load_object sk (f sk)) keys os) =
      os_lookup os ++ map_of (rev (map (\<lambda>sk. (ob_handle (f sk), f sk)) keys))"
proof -
  have eq: "load_object sk (f sk) = (\<lambda>s. map_insert (ob_handle (f sk)) (f sk)
      (s\<lparr>os_store_keys := AList.update (ob_handle (f sk)) sk (os_store_keys s),
         os_handle_alloc := ensure_past (ob_handle (f sk)) (os_handle_alloc s)\<rparr>))" for sk
    by (rule ext) (simp add: load_object_def)
  show ?thesis
    unfolding eq using assms by (intro os_table.lookup_ins_list) (simp_all add: os_wf_def obj_at_def)
qed

lemma load_list_fields:
  "os_persist_store (fold (\<lambda>sk. load_object sk (f sk)) keys os) = os_persist_store os \<and>
   os_persist_key (fold (\<lambda>sk. load_object sk (f sk)) keys os) = os_persist_key os \<and>
   map_of (os_store_keys (fold (\<lambda>sk. load_object sk (f sk)) keys os)) =
     map_of (os_store_keys os) ++ map_of (rev (map (\<lambda>sk. (ob_handle (f sk), sk)) keys))"
proof (induction keys arbitrary: os)
  case (Cons sk keys)
  have f: "os_persist_store (load_object sk (f sk) os) = os_persist_store os"
    "os_persist_key (load_object sk (f sk) os) = os_persist_key os"
    "map_of (os_store_keys (load_object sk (f sk) os)) = (map_of (os_store_keys os))(ob_handle (f sk) \<mapsto> sk)"
    by (simp_all add: load_object_def update_conv')
  have eq: "m ++ map_of (rev (map (\<lambda>sk. (ob_handle (f sk), sk)) (sk # keys))) =
      m(ob_handle (f sk) \<mapsto> sk) ++ map_of (rev (map (\<lambda>sk. (ob_handle (f sk), sk)) keys))" for m
    by simp
  show ?case using Cons [of "load_object sk (f sk) os"] by (simp only: fold_Cons comp_apply eq f)
qed simp

lemma load_list_handles:
  assumes "handles_ok os"
  shows "handles_ok (fold (\<lambda>sk. load_object sk (f sk)) keys os)"
  using assms
proof (induction keys arbitrary: os)
  case (Cons sk keys)
  have "handles_ok (load_object sk (f sk) os)"
    unfolding load_object_def
  proof (rule handles_ok_insert)
    show "handles_ok (os\<lparr>os_store_keys := AList.update (ob_handle (f sk)) sk (os_store_keys os),
        os_handle_alloc := ensure_past (ob_handle (f sk)) (os_handle_alloc os)\<rparr>)"
      using Cons.prems by (auto simp: handles_ok_def issued_def ensure_past_def)
  qed (simp add: issued_def ensure_past_def)
  then show ?case using Cons.IH by simp
qed simp

definition token_map :: "object_map \<Rightarrow> object_map" where
  "token_map m = (\<lambda>h. case m h of Some obj \<Rightarrow> if ob_token_object obj then Some obj else None | None \<Rightarrow> None)"

lemma token_map_Some: "token_map m h = Some obj \<longleftrightarrow> m h = Some obj \<and> ob_token_object obj"
  by (auto simp: token_map_def split: option.splits)

text \<open>The object each entry of a table in step holds.\<close>

lemma in_step_objects:
  assumes "in_step C J key m sks table" "\<And>h obj. m h = Some obj \<Longrightarrow> ob_handle obj = h"
  shows "\<exists>f. \<forall>sk ct. table sk = Some ct \<longrightarrow> sks (ob_handle (f sk)) = Some sk \<and> m (ob_handle (f sk)) = Some (f sk) \<and>
     ob_token_object (f sk) \<and> entry_ok C J key ct (f sk)"
proof -
  have "\<exists>obj. \<forall>ct. table sk = Some ct \<longrightarrow> sks (ob_handle obj) = Some sk \<and> m (ob_handle obj) = Some obj \<and>
     ob_token_object obj \<and> entry_ok C J key ct obj" for sk
    by (cases "table sk") (use in_step_entry [OF assms(1), of sk] assms(2) in \<open>auto, metis\<close>)
  then show ?thesis by (rule choice [OF allI])
qed

lemma in_step_reload:
  assumes "in_step C J key m sks table" "\<And>h obj. m h = Some obj \<Longrightarrow> ob_handle obj = h" "set keys = dom table" "distinct keys"
    "\<forall>sk ct. table sk = Some ct \<longrightarrow> sks (ob_handle (f sk)) = Some sk \<and> m (ob_handle (f sk)) = Some (f sk) \<and>
     ob_token_object (f sk) \<and> entry_ok C J key ct (f sk)"
  shows "map_of (rev (map (\<lambda>sk. (ob_handle (f sk), f sk)) keys)) = token_map m \<and>
    in_step C J key (token_map m) (map_of (rev (map (\<lambda>sk. (ob_handle (f sk), sk)) keys))) table"
proof -
  have k: "sks (ob_handle (f sk)) = Some sk \<and> m (ob_handle (f sk)) = Some (f sk) \<and> ob_token_object (f sk)"
    if "sk \<in> set keys" for sk
    using that assms(3,5) by blast
  have d: "distinct (map (\<lambda>sk. ob_handle (f sk)) keys)"
    using assms(4) k by (auto simp: distinct_map inj_on_def) (metis option.inject)
  have sks': "map_of (rev (map (\<lambda>sk. (ob_handle (f sk), sk)) keys)) h = Some sk \<longleftrightarrow> sk \<in> dom table \<and> ob_handle (f sk) = h" for h sk
    using map_of_rev_map [OF d, of "\<lambda>sk. sk" h sk] assms(3) by blast
  have tok: "\<exists>sk \<in> dom table. f sk = obj" if m: "m h = Some obj" and t: "ob_token_object obj" for h obj
  proof -
    obtain sk ct where sk: "sks h = Some sk" "table sk = Some ct" using assms(1) m t by (rule in_step_token)
    have "h = ob_handle (f sk)" using assms(1,5) sk unfolding in_step_def by blast
    then have "f sk = obj" using assms(5) sk(2) m by auto
    then show ?thesis using sk(2) by blast
  qed
  have "map_of (rev (map (\<lambda>sk. (ob_handle (f sk), f sk)) keys)) h = Some obj \<longleftrightarrow> token_map m h = Some obj" for h obj
    unfolding map_of_rev_map [OF d] token_map_Some using k tok assms(2,3) by metis
  then have "map_of (rev (map (\<lambda>sk. (ob_handle (f sk), f sk)) keys)) = token_map m"
    by (rule map_eq_Some)
  moreover have "in_step C J key (token_map m) (map_of (rev (map (\<lambda>sk. (ob_handle (f sk), sk)) keys))) table"
    unfolding in_step_def sks' token_map_Some
  proof (intro conjI allI impI)
    fix h sk assume "sk \<in> dom table \<and> ob_handle (f sk) = h"
    then show "token_map m h \<noteq> None" using k assms(3) by (force simp: token_map_def)
  next
    fix h h' sk assume "sk \<in> dom table \<and> ob_handle (f sk) = h" "sk \<in> dom table \<and> ob_handle (f sk) = h'"
    then show "h = h'" by simp
  next
    fix sk ct assume "table sk = Some ct"
    then show "\<exists>h obj. (sk \<in> dom table \<and> ob_handle (f sk) = h) \<and> (m h = Some obj \<and> ob_token_object obj) \<and>
        ob_token_object obj \<and> entry_ok C J key ct obj" using assms(5) by blast
  next
    fix h obj assume "m h = Some obj \<and> ob_token_object obj" "ob_token_object obj"
    then show "\<exists>sk. (sk \<in> dom table \<and> ob_handle (f sk) = h) \<and> table sk \<noteq> None" using tok assms(2) by blast
  qed
  ultimately show ?thesis by blast
qed

text \<open>A process that starts with the same database and is given the same key.\<close>

definition restart_store :: "u64 list \<Rightarrow> bytes \<Rightarrow> object_store \<Rightarrow> object_store" where
  "restart_store keys key os = set_persist_key key (with_persistence keys (the (os_persist_store os)))"

lemma synced_reload:
  assumes "synced C J key os" "os_wf os" "db_read_ok (se_db env)"
  shows "\<exists>n os'. load_from_store C J env (restart_store keys key os) = (Inr n, os') \<and>
    os_lookup os' = token_map (os_lookup os) \<and> store_inv os' \<and> synced C J key os'"
proof -
  obtain table where t: "os_persist_store os = Some \<lparr>es_db = Some table\<rparr>" "distinct (map fst table)"
    "os_persist_key os = Some key" "in_step C J key (os_lookup os) (map_of (os_store_keys os)) (map_of table)"
    using assms(1) by (auto simp: synced_def)
  have hd: "ob_handle obj = h" if "os_lookup os h = Some obj" for h obj
    using assms(2) that unfolding os_wf_def os_lookup_Some by (fastforce dest: map_of_SomeD)
  obtain f where f: "\<forall>sk ct. map_of table sk = Some ct \<longrightarrow> map_of (os_store_keys os) (ob_handle (f sk)) = Some sk \<and>
     os_lookup os (ob_handle (f sk)) = Some (f sk) \<and> ob_token_object (f sk) \<and> entry_ok C J key ct (f sk)"
    using in_step_objects [OF t(4) hd] by blast
  let ?s = "restart_store keys key os"
  let ?os' = "fold (\<lambda>sk. load_object sk (f sk)) (map fst table) ?s"
  have s: "os_wf ?s" "handles_ok ?s" "os_lookup ?s = Map.empty" "os_store_keys ?s = []"
    "os_persist_store ?s = Some \<lparr>es_db = Some table\<rparr>" "os_persist_key ?s = Some key"
    using t(1) by (auto simp: restart_store_def set_persist_key_def with_persistence_def object_store_new_def os_wf_def
        handles_ok_def os_lookup_def)
  have "\<exists>data. load_encrypted C (se_db env) sk key \<lparr>es_db = Some table\<rparr> = Inr (Some data) \<and>
      from_json J data = Some (f sk) \<and> is_ok (validate_deserialized_object (f sk))" if mem: "sk \<in> set (map fst table)" for sk
  proof -
    obtain ct where ct: "map_of table sk = Some ct" using mem by (cases "map_of table sk") (auto simp: map_of_eq_None_iff)
    then have "entry_ok C J key ct (f sk)" using f by blast
    then show ?thesis using ct assms(3) by (auto simp: entry_ok_def load_encrypted_def)
  qed
  then have "load_from_store C J env ?s = (Inr (length table), ?os')"
    using s(5,6) assms(3) load_entries_all [of "map fst table" C env key "\<lparr>es_db = Some table\<rparr>" J f 0 ?s]
    by (simp add: load_from_store_def list_keys_def)
  moreover have dk: "set (map fst table) = dom (map_of table)" by (simp add: dom_map_of_conv_image_fst)
  note r = in_step_reload [OF t(4) hd dk t(2) f]
  ultimately show ?thesis
    using r s load_list_wf [OF s(1), of f "map fst table"] load_list_handles [OF s(2), of f "map fst table"]
      load_list_fields [of f "map fst table" ?s] t(2)
    by (auto simp: store_inv_def synced_def)
qed

section \<open>Token objects survive restarts\<close>

definition op_admissible :: "object_store \<Rightarrow> store_op \<Rightarrow> bool" where
  "op_admissible os op \<longleftrightarrow>
    (case op of
       OpInsert obj \<Rightarrow> issued (os_handle_alloc os) (ob_handle obj) \<and> os_lookup os (ob_handle obj) = None \<and>
         is_ok (validate_deserialized_object obj)
     | _ \<Rightarrow> True)"

inductive persist_reach :: "pin_crypto \<Rightarrow> object_codec \<Rightarrow> bytes \<Rightarrow> object_store \<Rightarrow> bool" for C J key where
  pr_start: "persist_reach C J key (set_persist_key key (with_persistence keys \<lparr>es_db = Some []\<rparr>))"
| pr_op: "persist_reach C J key os \<Longrightarrow> room (os_handle_alloc os) \<Longrightarrow> persist_env_ok C env os \<Longrightarrow> op_admissible os op \<Longrightarrow>
    run_op C J env op os = (r, os') \<Longrightarrow> (\<And>h obj. os_lookup os' h = Some obj \<Longrightarrow> to_json J obj \<noteq> None) \<Longrightarrow>
    persist_reach C J key os'"
| pr_restart: "persist_reach C J key os \<Longrightarrow> db_read_ok (se_db env) \<Longrightarrow>
    load_from_store C J env (restart_store keys key os) = (r, os') \<Longrightarrow> persist_reach C J key os'"

lemma run_op_synced:
  assumes "synced C J key os" "store_inv os" "room (os_handle_alloc os)" "persist_env_ok C env os" "persist_laws C J key"
    "op_admissible os op" "run_op C J env op os = (r, os')" "\<And>h obj. os_lookup os' h = Some obj \<Longrightarrow> to_json J obj \<noteq> None"
  shows "synced C J key os' \<and> store_inv os'"
proof (cases op)
  case (OpCreate tmpl)
  then show ?thesis using assms synced_create [OF assms(1-5)] create_object_refines [OF assms(2,3)] by simp
next
  case (OpInsert obj)
  have wf: "os_wf os" using assms(2) by (simp add: store_inv_def)
  have adm: "issued (os_handle_alloc os) (ob_handle obj)" "os_lookup os (ob_handle obj) = None"
    "is_ok (validate_deserialized_object obj)" using assms(6) by (simp_all add: OpInsert op_admissible_def)
  have run: "insert_object C J env obj os = (r, os')" using assms(7) by (simp add: OpInsert)
  have "store_inv os'" using insert_object_refines [OF assms(2) adm(1) run] by blast
  moreover have "synced C J key os'"
  proof (cases "MAX_OBJECTS \<le> length (os_objects os)")
    case False
    then have os': "os' = map_insert (ob_handle obj) obj (persist_object C J env obj os)"
      using run by (simp add: insert_object_def)
    have "os_lookup os' (ob_handle obj) = Some obj" using wf by (simp add: os' os_lookup_insert same_table_simps)
    then obtain data where "to_json J obj = Some data" using assms(8) by blast
    then show ?thesis using synced_insert [OF assms(1) wf assms(4,5) adm(2) _ adm(3)] os' by blast
  qed (use run assms(1) in \<open>simp add: insert_object_def\<close>)
  ultimately show ?thesis by blast
next
  case (OpDestroy h)
  then obtain r0 where "destroy_object C env h os = (r0, os')"
    using assms(7) by (cases "destroy_object C env h os") auto
  then show ?thesis
    using synced_destroy [OF assms(1) _ assms(4)] destroy_object_refines [OF assms(2)] assms(2)
    by (auto simp: store_inv_def)
next
  case OpClear
  then show ?thesis using assms(7) synced_clear [OF assms(1,4)] clear_objects_refines [OF assms(2)] by auto
qed

lemma persist_reach_inv:
  assumes "persist_reach C J key os" "persist_laws C J key"
  shows "synced C J key os \<and> store_inv os"
  using assms(1)
proof (induction rule: persist_reach.induct)
  case (pr_start keys)
  have "store_inv (set_persist_key key (with_persistence keys \<lparr>es_db = Some []\<rparr>))"
    by (simp add: store_inv_def os_wf_def handles_ok_def set_persist_key_def with_persistence_def object_store_new_def)
  moreover have "synced C J key (set_persist_key key (with_persistence keys \<lparr>es_db = Some []\<rparr>))"
    by (simp add: synced_def in_step_def set_persist_key_def with_persistence_def object_store_new_def os_lookup_def)
  ultimately show ?case by blast
next
  case (pr_op os env op r os')
  then show ?case using run_op_synced assms(2) by blast
next
  case (pr_restart os env keys r os')
  then show ?case using synced_reload [of C J key os env keys] by (auto simp: store_inv_def)
qed


definition sample_token_object :: "u64 \<Rightarrow> stored_object" where
  "sample_token_object h = (stored_object_new 0 h CKO_DATA)\<lparr>ob_token_object := True\<rparr>"

definition family_codec :: object_codec where
  "family_codec =
    \<lparr>to_json = (\<lambda>x. if x = sample_token_object (ob_handle x) then Some (u64_le (ob_handle x)) else None),
     from_json = (\<lambda>d. Some (sample_token_object (le_word d)))\<rparr>"


end
