(* ===== verification/Audit_Log.thy ===== *)
theory Audit_Log
  imports Hsm_Error Calendar
begin

text \<open>
  The audit log (\<open>src/src/audit/log.rs\<close>): callers put commands into a queue, a worker thread takes
  them out in order, links each event to the hash of the one before it, appends it to the log file
  and publishes it. The state has the shared part, the worker's own variables, the queue and the
  files; a step of the worker handles one command.

  Text is a list of code points. SHA-256 and the JSON text of payloads and events are third-party
  code and fields of a record. The clock and the outcome of every file operation are the
  environment of a step; a failing write may leave any prefix of the line in the file.
\<close>

section \<open>Events\<close>

type_synonym rust_text = "nat list"

datatype (plugins only: code) audit_operation =
    AuInitialize
  | AuFinalize
  | AuOpenSession u64
  | AuCloseSession
  | AuLogin u64
  | AuLogout
  | AuInitToken u64
  | AuInitPIN u64
  | AuSetPIN
  | AuGenerateKey u64 u32 bool
  | AuGenerateKeyPair u64 u32 bool
  | AuSign u64 bool
  | AuVerify u64 bool
  | AuEncrypt u64 bool
  | AuDecrypt u64 bool
  | AuDigest u64 bool
  | AuCreateObject
  | AuDestroyObject
  | AuGenerateRandom u32
  | AuWrapKey u64 bool
  | AuUnwrapKey u64 bool
  | AuDeriveKey u64 bool
  | AuFindObjects u32
  | AuGetAttributeValue
  | AuZeroize u32

datatype audit_result = AuSuccess | AuFailure u64

record audit_event =
  ev_timestamp :: u64
  ev_session_handle :: u64
  ev_operation :: audit_operation
  ev_key_id :: "rust_text option"
  ev_result :: audit_result
  ev_previous_hash :: bytes

type_synonym audit_payload = "u64 \<times> u64 \<times> audit_operation \<times> rust_text option \<times> audit_result"

definition event_payload :: "audit_event \<Rightarrow> audit_payload" where
  "event_payload e = (ev_timestamp e, ev_session_handle e, ev_operation e, ev_key_id e, ev_result e)"

record audit_prims =
  ap_sha256 :: "bytes \<Rightarrow> bytes"
  ap_payload_json :: "audit_payload \<Rightarrow> bytes option"
  ap_event_json :: "audit_event \<Rightarrow> bytes option"
  ap_parse_event :: "bytes \<Rightarrow> audit_event option"

abbreviation (input) MAX_IN_MEMORY_ENTRIES :: nat where "MAX_IN_MEMORY_ENTRIES \<equiv> 100000"
abbreviation (input) MAX_LOG_FILE_BYTES :: nat where "MAX_LOG_FILE_BYTES \<equiv> 104857600"
abbreviation (input) MAX_ROTATED_FILES :: nat where "MAX_ROTATED_FILES \<equiv> 5"

definition zero_hash :: bytes where
  "zero_hash = replicate 32 0"

definition compute_chain_hash :: "audit_prims \<Rightarrow> bytes \<Rightarrow> audit_event \<Rightarrow> bytes hsm_result" where
  "compute_chain_hash P previous_hash event =
    (case ap_payload_json P (event_payload event) of
       None \<Rightarrow> Inl GeneralError
     | Some payload_bytes \<Rightarrow> Inr (ap_sha256 P (previous_hash @ payload_bytes)))"

definition is_control :: "nat \<Rightarrow> bool" where
  "is_control c \<longleftrightarrow> c < 32 \<or> 127 \<le> c \<and> c < 160"

definition sanitize_audit_field :: "rust_text \<Rightarrow> rust_text" where
  "sanitize_audit_field s = take 256 (filter (\<lambda>c. \<not> is_control c) s)"

section \<open>Files\<close>

text \<open>The log file and its rotated generations; generation 0 is the log file itself.\<close>

type_synonym audit_files = "(nat \<times> bytes) list"

record audit_io =
  ai_wall :: u64
  ai_open_ok :: bool
  ai_meta_ok :: bool
  ai_rename_ok :: "nat \<Rightarrow> bool"
  ai_reopen_ok :: bool
  ai_written :: "nat option"
  ai_sync_ok :: bool

definition open_audit_file :: "audit_files \<Rightarrow> audit_files" where
  "open_audit_file fs = (if map_of fs 0 = None then AList.update 0 [] fs else fs)"

definition file_content :: "nat \<Rightarrow> audit_files \<Rightarrow> bytes" where
  "file_content g fs = (case map_of fs g of None \<Rightarrow> [] | Some c \<Rightarrow> c)"

definition append_file :: "bytes \<Rightarrow> audit_files \<Rightarrow> audit_files" where
  "append_file data fs = AList.update 0 (file_content 0 fs @ data) fs"

definition rename_file :: "nat \<Rightarrow> nat \<Rightarrow> audit_files \<Rightarrow> audit_files" where
  "rename_file src dst fs = AList.update dst (file_content src fs) (AList.delete src fs)"

fun rotate_generations :: "(nat \<Rightarrow> bool) \<Rightarrow> nat list \<Rightarrow> audit_files \<Rightarrow> unit hsm_result \<times> audit_files" where
  "rotate_generations rename_ok [] fs = (Inr (), fs)"
| "rotate_generations rename_ok (gen # gens) fs =
    (if map_of fs gen = None then rotate_generations rename_ok gens fs
     else if rename_ok gen then rotate_generations rename_ok gens (rename_file gen (gen + 1) fs)
     else (Inl GeneralError, fs))"

definition rotate_log_files :: "audit_io \<Rightarrow> audit_files \<Rightarrow> unit hsm_result \<times> audit_files" where
  "rotate_log_files io fs =
    (case rotate_generations (ai_rename_ok io) (rev [1..<MAX_ROTATED_FILES]) fs of
       (Inl e, fs1) \<Rightarrow> (Inl e, fs1)
     | (Inr _, fs1) \<Rightarrow> if ai_rename_ok io 0 then (Inr (), rename_file 0 1 fs1) else (Inl GeneralError, fs1))"

definition write_event :: "audit_prims \<Rightarrow> audit_io \<Rightarrow> audit_event \<Rightarrow> audit_files \<Rightarrow> unit hsm_result \<times> audit_files" where
  "write_event P io event fs =
    (if \<not> ai_open_ok io then (Inl GeneralError, fs)
     else
       let fs1 = open_audit_file fs;
           file_size = (if ai_meta_ok io then length (file_content 0 fs1) else 0);
           (opened, fs2) =
             (if MAX_LOG_FILE_BYTES \<le> file_size then
                (case rotate_log_files io fs1 of
                   (Inl e, fs2) \<Rightarrow> (Inl e, fs2)
                 | (Inr _, fs2) \<Rightarrow> if ai_reopen_ok io then (Inr (), open_audit_file fs2) else (Inl GeneralError, fs2))
              else (Inr (), fs1))
       in case opened of
            Inl e \<Rightarrow> (Inl e, fs2)
          | Inr _ \<Rightarrow>
             (case ap_event_json P event of
                None \<Rightarrow> (Inl GeneralError, fs2)
              | Some line \<Rightarrow>
                 (case ai_written io of
                    Some n \<Rightarrow> (Inl GeneralError, append_file (take n (line @ [10])) fs2)
                  | None \<Rightarrow>
                      (if ai_sync_ok io then Inr () else Inl GeneralError, append_file (line @ [10]) fs2))))"

section \<open>The log and its worker\<close>

datatype (plugins only: code) audit_command =
    AuRecord u64 audit_operation audit_result "rust_text option"
  | AuFlush

record audit_log =
  al_entries :: "audit_event list"
  al_last_hash :: bytes
  al_tamper_detected :: bool
  al_last_timestamp :: u64
  al_log_path :: bool
  al_files :: audit_files
  al_tamper_flag :: bool
  al_queue :: "audit_command list"
  al_worker_hash :: bytes
  al_worker_timestamp :: u64

text \<open>The time stamp of the next event: the clock, or one more than the last when the clock has not
  advanced; none when the last one is the greatest.\<close>

definition next_timestamp :: "u64 \<Rightarrow> u64 \<Rightarrow> u64 option" where
  "next_timestamp wall last_timestamp =
    (if wall \<le> last_timestamp then (if last_timestamp = -1 then None else Some (last_timestamp + 1)) else Some wall)"

definition publish_event :: "bytes \<Rightarrow> u64 \<Rightarrow> audit_event \<Rightarrow> audit_log \<Rightarrow> audit_log" where
  "publish_event new_hash timestamp event log =
    (let entries = al_entries log @ [event] in
     log\<lparr>al_last_hash := new_hash, al_last_timestamp := timestamp,
       al_entries := (if MAX_IN_MEMORY_ENTRIES < length entries then drop (length entries - MAX_IN_MEMORY_ENTRIES) entries
                      else entries)\<rparr>)"

definition process_record ::
  "audit_prims \<Rightarrow> audit_io \<Rightarrow> u64 \<Rightarrow> audit_operation \<Rightarrow> audit_result \<Rightarrow> rust_text option \<Rightarrow> audit_log
    \<Rightarrow> unit hsm_result \<times> audit_log" where
  "process_record P io session_handle operation result key_id log =
    (if al_tamper_flag log then (Inl (AuditChainBroken ''audit chain tamper previously detected''), log)
     else
       (case next_timestamp (ai_wall io) (al_worker_timestamp log) of
          None \<Rightarrow> (Inl (AuditChainBroken ''timestamp space exhausted''), log\<lparr>al_tamper_flag := True\<rparr>)
        | Some timestamp \<Rightarrow>
           let log1 = log\<lparr>al_worker_timestamp := timestamp\<rparr>;
               event = \<lparr>ev_timestamp = timestamp, ev_session_handle = session_handle, ev_operation = operation,
                 ev_key_id = key_id, ev_result = result, ev_previous_hash = al_worker_hash log\<rparr>
           in case compute_chain_hash P (al_worker_hash log) event of
                Inl e \<Rightarrow> (Inl e, log1)
              | Inr new_hash \<Rightarrow>
                  let log2 = log1\<lparr>al_worker_hash := new_hash\<rparr> in
                  if \<not> al_log_path log then (Inr (), publish_event new_hash timestamp event log2)
                  else
                    (case write_event P io event (al_files log) of
                       (Inl e, fs) \<Rightarrow> (Inl e, log2\<lparr>al_files := fs\<rparr>)
                     | (Inr _, fs) \<Rightarrow> (Inr (), publish_event new_hash timestamp event (log2\<lparr>al_files := fs\<rparr>)))))"

definition process_command ::
  "audit_prims \<Rightarrow> audit_io \<Rightarrow> audit_command \<Rightarrow> audit_log \<Rightarrow> unit hsm_result \<times> audit_log" where
  "process_command P io cmd log =
    (case cmd of
       AuRecord session_handle operation result key_id \<Rightarrow> process_record P io session_handle operation result key_id log
     | AuFlush \<Rightarrow> (Inr (), log))"

text \<open>A list of commands one after the other, with the outcomes; the environment of the \<open>n\<close>-th is
  \<open>ios n\<close>.\<close>

fun run_commands ::
  "audit_prims \<Rightarrow> (nat \<Rightarrow> audit_io) \<Rightarrow> audit_command list \<Rightarrow> audit_log \<Rightarrow> unit hsm_result list \<times> audit_log" where
  "run_commands P ios [] log = ([], log)"
| "run_commands P ios (cmd # cmds) log =
    (let (outcome, log1) = process_command P (ios 0) cmd log;
         (outcomes, log2) = run_commands P (\<lambda>n. ios (Suc n)) cmds log1
     in (outcome # outcomes, log2))"

text \<open>One turn of the worker's loop: a record, or a flush, which drains the queue first.\<close>

definition worker_step :: "audit_prims \<Rightarrow> (nat \<Rightarrow> audit_io) \<Rightarrow> audit_log \<Rightarrow> unit hsm_result list \<times> audit_log" where
  "worker_step P ios log =
    (case al_queue log of
       [] \<Rightarrow> ([], log)
     | AuFlush # cmds \<Rightarrow> run_commands P ios cmds (log\<lparr>al_queue := []\<rparr>)
     | cmd # cmds \<Rightarrow> run_commands P ios [cmd] (log\<lparr>al_queue := cmds\<rparr>))"

section \<open>Recording\<close>

definition record_internal ::
  "u64 \<Rightarrow> audit_operation \<Rightarrow> audit_result \<Rightarrow> rust_text option \<Rightarrow> audit_log \<Rightarrow> unit hsm_result \<times> audit_log" where
  "record_internal session_handle operation result key_id log =
    (if al_tamper_flag log
     then (Inl (AuditChainBroken ''refusing to record: audit chain tamper previously detected''), log)
     else (Inr (), log\<lparr>al_queue :=
       al_queue log @ [AuRecord session_handle operation result (map_option sanitize_audit_field key_id)]\<rparr>))"

definition record_event ::
  "u64 \<Rightarrow> audit_operation \<Rightarrow> audit_result \<Rightarrow> rust_text option \<Rightarrow> audit_log \<Rightarrow> unit hsm_result \<times> audit_log" where
  "record_event session_handle operation result key_id log = record_internal session_handle operation result key_id log"

text \<open>The caller blocks until the worker has handled everything up to its own command.\<close>

definition record_sync ::
  "audit_prims \<Rightarrow> (nat \<Rightarrow> audit_io) \<Rightarrow> u64 \<Rightarrow> audit_operation \<Rightarrow> audit_result \<Rightarrow> rust_text option \<Rightarrow> audit_log
    \<Rightarrow> unit hsm_result \<times> audit_log" where
  "record_sync P ios session_handle operation result key_id log =
    (case record_internal session_handle operation result key_id log of
       (Inl e, log1) \<Rightarrow> (Inl e, log1)
     | (Inr _, log1) \<Rightarrow>
         let (outcomes, log2) = run_commands P ios (al_queue log1) (log1\<lparr>al_queue := []\<rparr>)
         in (last outcomes, log2))"

definition flush_log :: "audit_prims \<Rightarrow> (nat \<Rightarrow> audit_io) \<Rightarrow> audit_log \<Rightarrow> unit hsm_result \<times> audit_log" where
  "flush_log P ios log = (Inr (), snd (run_commands P ios (al_queue log) (log\<lparr>al_queue := []\<rparr>)))"

section \<open>Opening a log\<close>

definition ascii_ws :: "byte \<Rightarrow> bool" where
  "ascii_ws b \<longleftrightarrow> b = 32 \<or> 9 \<le> b \<and> b \<le> 13"

definition wide_ws :: "byte \<Rightarrow> byte \<Rightarrow> byte \<Rightarrow> bool" where
  "wide_ws b c d \<longleftrightarrow> b = 0xE1 \<and> c = 0x9A \<and> d = 0x80 \<or>
     b = 0xE2 \<and> c = 0x80 \<and> (0x80 \<le> d \<and> d \<le> 0x8A \<or> d = 0xA8 \<or> d = 0xA9 \<or> d = 0xAF) \<or>
     b = 0xE2 \<and> c = 0x81 \<and> d = 0x9F \<or> b = 0xE3 \<and> c = 0x80 \<and> d = 0x80"

text \<open>\<open>str::trim\<close> on valid UTF-8.\<close>

fun trim_start :: "bytes \<Rightarrow> bytes" where
  "trim_start [] = []"
| "trim_start [b] = (if ascii_ws b then [] else [b])"
| "trim_start [b, c] =
    (if ascii_ws b then trim_start [c] else if b = 0xC2 \<and> (c = 0x85 \<or> c = 0xA0) then [] else [b, c])"
| "trim_start (b # c # d # bs) =
    (if ascii_ws b then trim_start (c # d # bs)
     else if b = 0xC2 \<and> (c = 0x85 \<or> c = 0xA0) then trim_start (d # bs)
     else if wide_ws b c d then trim_start bs else b # c # d # bs)"

fun trim_rev :: "bytes \<Rightarrow> bytes" where
  "trim_rev [] = []"
| "trim_rev [b] = (if ascii_ws b then [] else [b])"
| "trim_rev [c, b] =
    (if ascii_ws c then trim_rev [b] else if b = 0xC2 \<and> (c = 0x85 \<or> c = 0xA0) then [] else [c, b])"
| "trim_rev (d # c # b # bs) =
    (if ascii_ws d then trim_rev (c # b # bs)
     else if c = 0xC2 \<and> (d = 0x85 \<or> d = 0xA0) then trim_rev (b # bs)
     else if wide_ws b c d then trim_rev bs else d # c # b # bs)"

definition str_trim :: "bytes \<Rightarrow> bytes" where
  "str_trim s = rev (trim_rev (rev (trim_start s)))"

text \<open>\<open>BufRead::lines\<close>: the pieces between line feeds, without a carriage return before the line feed;
  an unterminated rest is a line when it is not empty.\<close>

definition strip_cr :: "bytes \<Rightarrow> bytes" where
  "strip_cr l = (if l \<noteq> [] \<and> last l = 13 then butlast l else l)"

fun split_lines :: "bytes \<Rightarrow> bytes \<Rightarrow> bytes list" where
  "split_lines acc [] = (if acc = [] then [] else [acc])"
| "split_lines acc (b # bs) = (if b = 10 then strip_cr acc # split_lines [] bs else split_lines (acc @ [b]) bs)"

datatype chain_recovery_result = NoFile | Verified bytes | Broken string nat

record audit_read =
  ar_open_ok :: bool
  ar_fail_line :: "nat option"

text \<open>The loop over the lines: the running hash, or the reason and the line of the failure.\<close>

fun recover_lines :: "audit_prims \<Rightarrow> nat option \<Rightarrow> nat \<Rightarrow> bytes list \<Rightarrow> bytes \<Rightarrow> string \<times> nat + bytes" where
  "recover_lines P fail_line n [] running_hash = Inr running_hash"
| "recover_lines P fail_line n (line # lines) running_hash =
    (if fail_line = Some n \<or> \<not> utf8_valid line then Inl (''I/O error'', n + 1)
     else if str_trim line = [] then recover_lines P fail_line (n + 1) lines running_hash
     else
       (case ap_parse_event P (str_trim line) of
          None \<Rightarrow> Inl (''failed to deserialize'', n + 1)
        | Some event \<Rightarrow>
           if ev_previous_hash event \<noteq> running_hash then Inl (''TAMPER DETECTED'', n + 1)
           else
             (case compute_chain_hash P running_hash event of
                Inl _ \<Rightarrow> Inl (''serialization failed'', n + 1)
              | Inr h \<Rightarrow> recover_lines P fail_line (n + 1) lines h)))"

definition recover_chain_from_file :: "audit_prims \<Rightarrow> audit_read \<Rightarrow> audit_files \<Rightarrow> chain_recovery_result" where
  "recover_chain_from_file P rd fs =
    (case map_of fs 0 of
       None \<Rightarrow> NoFile
     | Some content \<Rightarrow>
         if \<not> ar_open_ok rd then Broken ''could not open log file'' 0
         else
           (case recover_lines P (ar_fail_line rd) 0 (split_lines [] content) zero_hash of
              Inl (reason, n) \<Rightarrow> Broken reason n
            | Inr running_hash \<Rightarrow> if running_hash = zero_hash then NoFile else Verified running_hash))"

record path_info =
  pi_exists :: bool
  pi_stat_ok :: bool
  pi_symlink :: bool
  pi_file :: bool
  pi_has_dir :: bool
  pi_canonical :: bool
  pi_file_name :: bool

definition validate_log_path :: "path_info \<Rightarrow> unit hsm_result" where
  "validate_log_path p =
    (if pi_exists p \<and> \<not> pi_stat_ok p then Inl GeneralError
     else if pi_exists p \<and> pi_symlink p then Inl (AuditChainBroken ''audit log path is a symlink'')
     else if pi_exists p \<and> \<not> pi_file p then Inl (AuditChainBroken ''audit log path is not a regular file'')
     else if pi_has_dir p \<and> \<not> pi_canonical p then Inl GeneralError
     else if pi_has_dir p \<and> \<not> pi_file_name p then Inl GeneralError
     else Inr ())"

definition log_of :: "bool \<Rightarrow> audit_files \<Rightarrow> bytes \<Rightarrow> bool \<Rightarrow> audit_log" where
  "log_of log_path fs last_hash tampered =
    \<lparr>al_entries = [], al_last_hash = last_hash, al_tamper_detected = tampered, al_last_timestamp = 0,
     al_log_path = log_path, al_files = fs, al_tamper_flag = tampered, al_queue = [],
     al_worker_hash = last_hash, al_worker_timestamp = 0\<rparr>"

definition audit_log_new :: "audit_files \<Rightarrow> audit_log" where
  "audit_log_new fs = log_of False fs zero_hash False"

definition audit_log_with_path :: "audit_prims \<Rightarrow> path_info \<Rightarrow> audit_read \<Rightarrow> audit_files \<Rightarrow> audit_log hsm_result" where
  "audit_log_with_path P p rd fs =
    res_map (\<lambda>_.
      case recover_chain_from_file P rd fs of
        NoFile \<Rightarrow> log_of True fs zero_hash False
      | Verified h \<Rightarrow> log_of True fs h False
      | Broken _ _ \<Rightarrow> log_of True fs zero_hash True) (validate_log_path p)"

section \<open>Reading the log\<close>

definition is_tamper_detected :: "audit_log \<Rightarrow> bool" where
  "is_tamper_detected log = al_tamper_flag log"

definition get_recent_entries :: "nat \<Rightarrow> audit_log \<Rightarrow> audit_event list" where
  "get_recent_entries n log = drop (length (al_entries log) - n) (al_entries log)"

text \<open>The sum of offset and limit is a machine addition. A range whose start is beyond its end panics.\<close>

definition get_entries_paginated :: "u64 \<Rightarrow> u64 \<Rightarrow> audit_log \<Rightarrow> audit_event list option" where
  "get_entries_paginated offset limit log =
    (let end_ix = min (unat (offset + limit)) (length (al_entries log))
     in if length (al_entries log) \<le> unat offset then Some []
        else if end_ix < unat offset then None
        else Some (drop (unat offset) (take end_ix (al_entries log))))"

fun verify_entries :: "audit_prims \<Rightarrow> nat \<Rightarrow> audit_event list \<Rightarrow> bytes \<Rightarrow> nat + nat" where
  "verify_entries P i [] expected_hash = Inr i"
| "verify_entries P i (e # es) expected_hash =
    (if ev_previous_hash e \<noteq> expected_hash then Inl i
     else
       (case compute_chain_hash P expected_hash e of
          Inl _ \<Rightarrow> Inl i
        | Inr h \<Rightarrow> verify_entries P (i + 1) es h))"

definition verify_chain :: "audit_prims \<Rightarrow> audit_log \<Rightarrow> nat + nat" where
  "verify_chain P log = verify_entries P 0 (al_entries log) zero_hash"

end
