(* ===== verification/Audit_Log_Properties.thy ===== *)
theory Audit_Log_Properties
  imports Audit_Log "HOL-Library.Sublist"
begin

text \<open>
  What the audit log guarantees: a bounded, strictly ordered log in memory, tamper evidence of the
  log file, a file that is accepted at the next start as long as no write fails and the file is
  not rotated, and what happens when one of the two occurs.
\<close>

section \<open>The log in memory\<close>

text \<open>Every state of a log: opened on any files, with records put into the queue by any callers at any
  time and steps of the worker in any environment.\<close>

inductive audit_reach :: "audit_prims \<Rightarrow> audit_log \<Rightarrow> bool" for P where
  reach_new: "audit_reach P (audit_log_new fs)"
| reach_open: "audit_log_with_path P p rd fs = Inr log \<Longrightarrow> audit_reach P log"
| reach_record: "audit_reach P log \<Longrightarrow> audit_reach P (snd (record_internal s op r k log))"
| reach_worker: "audit_reach P log \<Longrightarrow> audit_reach P (snd (worker_step P ios log))"

definition memory_inv :: "audit_log \<Rightarrow> bool" where
  "memory_inv log \<longleftrightarrow> length (al_entries log) \<le> MAX_IN_MEMORY_ENTRIES \<and>
     sorted_wrt (<) (map ev_timestamp (al_entries log)) \<and>
     (\<forall>e \<in> set (al_entries log). ev_timestamp e \<le> al_worker_timestamp log)"

lemma next_timestamp_greater: "next_timestamp wall prev = Some t \<Longrightarrow> prev < t"
proof (cases "wall \<le> prev")
  case True
  assume "next_timestamp wall prev = Some t"
  with True have t: "prev < -1" "t = prev + 1"
    by (auto simp: next_timestamp_def word_order.not_eq_extremum split: if_splits)
  then show ?thesis using unat_Suc_less [OF t(1)] by (simp add: word_less_nat_alt)
qed (auto simp: next_timestamp_def)

lemma sorted_wrt_drop: "sorted_wrt r xs \<Longrightarrow> sorted_wrt r (drop n xs)"
  by (metis append_take_drop_id sorted_wrt_append)

lemma memory_inv_publish:
  assumes "memory_inv log" "al_worker_timestamp log < t" "ev_timestamp event = t" "al_entries log' = al_entries log"
    "al_worker_timestamp log' = t"
  shows "memory_inv (publish_event h t event log')"
proof -
  let ?es = "al_entries log @ [event]"
  let ?k = "length ?es - MAX_IN_MEMORY_ENTRIES"
  have s: "sorted_wrt (<) (map ev_timestamp ?es)"
    using assms(1-3) by (fastforce simp: memory_inv_def sorted_wrt_append)
  have "sorted_wrt (<) (map ev_timestamp (drop ?k ?es))"
    using sorted_wrt_drop [OF s, of ?k] by (simp only: drop_map)
  moreover have "\<forall>e \<in> set ?es. ev_timestamp e \<le> t"
    using assms(1-3) by (fastforce simp: memory_inv_def)
  then have "\<forall>e \<in> set (drop ?k ?es). ev_timestamp e \<le> t" by (meson in_set_dropD)
  moreover have "al_entries (publish_event h t event log') = drop ?k ?es"
    using assms(4) by (simp add: publish_event_def Let_def)
  moreover have "al_worker_timestamp (publish_event h t event log') = t"
    using assms(5) by (simp add: publish_event_def Let_def)
  moreover have "length (drop ?k ?es) \<le> MAX_IN_MEMORY_ENTRIES" by simp
  ultimately show ?thesis by (simp only: memory_inv_def)
qed

lemma memory_inv_fields:
  assumes "memory_inv log" "al_entries log' = al_entries log" "al_worker_timestamp log \<le> al_worker_timestamp log'"
  shows "memory_inv log'"
  using assms by (fastforce simp: memory_inv_def)

lemma process_record_memory:
  assumes "memory_inv log"
  shows "memory_inv (snd (process_record P io s op r k log))"
proof (cases "al_tamper_flag log \<or> next_timestamp (ai_wall io) (al_worker_timestamp log) = None")
  case True
  then show ?thesis
    using assms memory_inv_fields [OF assms] by (cases "al_tamper_flag log") (auto simp: process_record_def)
next
  case False
  then obtain t where t: "next_timestamp (ai_wall io) (al_worker_timestamp log) = Some t" by blast
  note lt = next_timestamp_greater [OF t]
  show ?thesis
    using False t memory_inv_publish [OF assms lt] memory_inv_fields [OF assms] lt
    by (auto simp: process_record_def Let_def split: sum.splits prod.splits intro: less_imp_le)
qed

lemma run_commands_memory: "memory_inv log \<Longrightarrow> memory_inv (snd (run_commands P ios cmds log))"
proof (induction cmds arbitrary: ios log)
  case (Cons cmd cmds)
  have "memory_inv (snd (process_command P (ios 0) cmd log))"
    using Cons.prems process_record_memory by (auto simp: process_command_def split: audit_command.splits)
  then show ?case using Cons.IH by (simp add: Let_def split_beta)
qed simp

text \<open>\<^bold>\<open>C31\<close>. The log in memory is bounded and ordered: in every state that callers and the worker can reach,
  on any files, with any clock, even one that goes backwards, and with any file failures, at most
  100000 events are held and their time stamps are strictly increasing.\<close>

theorem audit_memory_bounded_ordered:
  assumes "audit_reach P log"
  shows "length (al_entries log) \<le> 100000 \<and> sorted_wrt (<) (map ev_timestamp (al_entries log))"
proof -
  have "memory_inv log"
    using assms
  proof (induction rule: audit_reach.induct)
    case (reach_open p rd fs log)
    then show ?case
      by (auto simp: audit_log_with_path_def log_of_def memory_inv_def res_map_def
          split: sum.splits chain_recovery_result.splits)
  next
    case (reach_record log s op r k)
    then show ?case by (auto simp: record_internal_def intro: memory_inv_fields)
  next
    case (reach_worker log ios)
    then have "memory_inv (log\<lparr>al_queue := q\<rparr>)" for q by (auto intro: memory_inv_fields)
    then show ?case
      using reach_worker.IH run_commands_memory
      by (auto simp: worker_step_def simp del: run_commands.simps split: list.splits audit_command.splits)
  qed (simp add: audit_log_new_def log_of_def memory_inv_def)
  then show ?thesis by (simp add: memory_inv_def)
qed

definition sample_io :: audit_io where
  "sample_io = \<lparr>ai_wall = 5, ai_open_ok = True, ai_meta_ok = True, ai_rename_ok = (\<lambda>_. True), ai_reopen_ok = True,
     ai_written = None, ai_sync_ok = True\<rparr>"

definition sample_event :: audit_event where
  "sample_event = \<lparr>ev_timestamp = 5, ev_session_handle = 1, ev_operation = AuLogout, ev_key_id = None,
     ev_result = AuSuccess, ev_previous_hash = zero_hash\<rparr>"

text \<open>Primitives that know one event.\<close>

definition sample_prims :: audit_prims where
  "sample_prims = \<lparr>ap_sha256 = (\<lambda>_. replicate 32 1), ap_payload_json = (\<lambda>_. Some []),
     ap_event_json = (\<lambda>e. if e = sample_event then Some [123, 125] else None),
     ap_parse_event = (\<lambda>l. if l = [123, 125] then Some sample_event else None)\<rparr>"

definition sample_log :: audit_log where
  "sample_log = snd (worker_step sample_prims (\<lambda>_. sample_io)
     (snd (record_internal 1 AuLogout AuSuccess None (log_of True [] zero_hash False))))"

lemma sample_log_eq:
  "sample_log = (log_of True [(0, [123, 125, 10])] (replicate 32 1) False)\<lparr>al_entries := [sample_event],
     al_last_timestamp := 5, al_worker_timestamp := 5\<rparr>"
  by (simp add: sample_log_def worker_step_def record_internal_def log_of_def process_command_def process_record_def
      next_timestamp_def sample_io_def sample_prims_def compute_chain_hash_def write_event_def open_audit_file_def
      file_content_def append_file_def publish_event_def sample_event_def)

theorem audit_memory_bounded_ordered_witness:
  "length (al_entries sample_log) = 1 \<and> sorted_wrt (<) (map ev_timestamp (al_entries sample_log))"
proof -
  have "audit_log_with_path sample_prims \<lparr>pi_exists = False, pi_stat_ok = True, pi_symlink = False, pi_file = True,
      pi_has_dir = False, pi_canonical = True, pi_file_name = True\<rparr> \<lparr>ar_open_ok = True, ar_fail_line = None\<rparr> []
      = Inr (log_of True [] zero_hash False)"
    by (simp add: audit_log_with_path_def validate_log_path_def recover_chain_from_file_def)
  then have "audit_reach sample_prims sample_log"
    unfolding sample_log_def by (intro reach_worker reach_record) (rule reach_open)
  from audit_memory_bounded_ordered [OF this] show ?thesis by (simp add: sample_log_eq)
qed

section \<open>The events of a log file\<close>

text \<open>The chain hash of a list of events that are linked to each other, and the events of a file.\<close>

fun chain_events :: "audit_prims \<Rightarrow> audit_event list \<Rightarrow> bytes \<Rightarrow> bytes option" where
  "chain_events P [] h = Some h"
| "chain_events P (e # es) h =
    (if ev_previous_hash e \<noteq> h then None
     else case compute_chain_hash P h e of Inl _ \<Rightarrow> None | Inr h' \<Rightarrow> chain_events P es h')"

fun parse_lines :: "audit_prims \<Rightarrow> bytes list \<Rightarrow> audit_event list option" where
  "parse_lines P [] = Some []"
| "parse_lines P (line # lines) =
    (if \<not> utf8_valid line then None
     else if str_trim line = [] then parse_lines P lines
     else case ap_parse_event P (str_trim line) of
            None \<Rightarrow> None
          | Some e \<Rightarrow> map_option (Cons e) (parse_lines P lines))"

definition file_events :: "audit_prims \<Rightarrow> audit_files \<Rightarrow> audit_event list option" where
  "file_events P fs = parse_lines P (split_lines [] (file_content 0 fs))"

lemma chain_events_append:
  "chain_events P (es @ es') h = Option.bind (chain_events P es h) (chain_events P es')"
  by (induction es arbitrary: h) (auto split: sum.splits)

lemma recover_lines_Inr:
  "recover_lines P None n lines h = Inr h' \<longleftrightarrow> (\<exists>evs. parse_lines P lines = Some evs \<and> chain_events P evs h = Some h')"
  by (induction lines arbitrary: n h) (auto split: option.splits sum.splits)

definition readable :: "audit_read \<Rightarrow> bool" where
  "readable rd \<longleftrightarrow> ar_open_ok rd \<and> ar_fail_line rd = None"

lemma recover_verified:
  assumes "readable rd" "recover_chain_from_file P rd fs = Verified h"
  shows "\<exists>evs. file_events P fs = Some evs \<and> chain_events P evs zero_hash = Some h"
  using assms
  by (auto simp: recover_chain_from_file_def readable_def file_events_def file_content_def recover_lines_Inr
      split: option.splits if_splits sum.splits)

section \<open>Tamper evidence\<close>

text \<open>Documented behaviour: SHA-256 returns 32 bytes, and different payloads have different texts.\<close>

definition digest_law :: "audit_prims \<Rightarrow> bool" where
  "digest_law P \<longleftrightarrow> (\<forall>x. length (ap_sha256 P x) = 32) \<and>
     (\<forall>p q t. ap_payload_json P p = Some t \<longrightarrow> ap_payload_json P q = Some t \<longrightarrow> p = q)"

definition sha_collision :: "audit_prims \<Rightarrow> bool" where
  "sha_collision P \<longleftrightarrow> (\<exists>x y. x \<noteq> y \<and> ap_sha256 P x = ap_sha256 P y)"

definition zero_preimage :: "audit_prims \<Rightarrow> bool" where
  "zero_preimage P \<longleftrightarrow> (\<exists>x. ap_sha256 P x = zero_hash)"

lemma zero_preimageI: "zero_hash = ap_sha256 P x \<Longrightarrow> zero_preimage P"
  unfolding zero_preimage_def by metis

lemma sha_collisionI: "x \<noteq> y \<Longrightarrow> ap_sha256 P x = ap_sha256 P y \<Longrightarrow> sha_collision P"
  unfolding sha_collision_def by metis

lemma chain_snoc:
  "chain_events P (es @ [e]) h = Some h' \<longleftrightarrow>
   (\<exists>t. chain_events P es h = Some (ev_previous_hash e) \<and> ap_payload_json P (event_payload e) = Some t \<and>
     h' = ap_sha256 P (ev_previous_hash e @ t))"
  by (auto simp: chain_events_append compute_chain_hash_def Option.bind_eq_Some_conv split: option.splits)

lemma chain_length:
  assumes "digest_law P" "chain_events P es zero_hash = Some h"
  shows "length h = 32"
  using assms by (cases es rule: rev_cases) (auto simp: chain_snoc digest_law_def zero_hash_def)

lemma chain_same_hash:
  assumes "digest_law P" "chain_events P es zero_hash = Some h" "chain_events P es' zero_hash = Some h"
  shows "es = es' \<or> sha_collision P \<or> zero_preimage P"
  using assms(2,3)
proof (induction es arbitrary: es' h rule: rev_induct)
  case Nil
  then show ?case by (cases es' rule: rev_cases) (auto simp: chain_snoc dest: zero_preimageI)
next
  case (snoc e es)
  then obtain t where e: "chain_events P es zero_hash = Some (ev_previous_hash e)"
    "ap_payload_json P (event_payload e) = Some t" "h = ap_sha256 P (ev_previous_hash e @ t)"
    by (auto simp: chain_snoc)
  show ?case
  proof (cases es' rule: rev_cases)
    case Nil
    then show ?thesis using e(3) snoc.prems(2) by (auto dest: zero_preimageI)
  next
    case (snoc fs f)
    then obtain u where f: "chain_events P fs zero_hash = Some (ev_previous_hash f)"
      "ap_payload_json P (event_payload f) = Some u" "h = ap_sha256 P (ev_previous_hash f @ u)"
      using snoc.prems(2) by (auto simp: chain_snoc)
    show ?thesis
    proof (cases "ev_previous_hash e @ t = ev_previous_hash f @ u")
      case True
      then have eq: "ev_previous_hash e = ev_previous_hash f" "t = u"
        using chain_length [OF assms(1) e(1)] chain_length [OF assms(1) f(1)] by auto
      then have "event_payload e = event_payload f"
        using e(2) f(2) assms(1) unfolding digest_law_def by blast
      then have "e = f" using eq(1) by (auto simp: event_payload_def intro: audit_event.equality)
      then show ?thesis using snoc.IH [OF e(1), of fs] f(1) eq(1) snoc by auto
    qed (use e(3) f(3) sha_collisionI in \<open>metis\<close>)
  qed
qed


text \<open>Primitives that separate the time stamps 1 and 2 only; the events \<open>tick n\<close> are logged as one byte.\<close>

definition tick :: "u64 \<Rightarrow> audit_event" where
  "tick n = \<lparr>ev_timestamp = n, ev_session_handle = 0, ev_operation = AuLogout, ev_key_id = None, ev_result = AuSuccess,
     ev_previous_hash = zero_hash\<rparr>"

definition tick_prims :: audit_prims where
  "tick_prims =
    \<lparr>ap_sha256 = (\<lambda>x. last x # replicate 31 0),
     ap_payload_json = (\<lambda>p. if p = event_payload (tick 1) then Some [1] else if p = event_payload (tick 2) then Some [2] else None),
     ap_event_json = (\<lambda>e. None),
     ap_parse_event = (\<lambda>l. if l = [49] then Some (tick 1) else if l = [50] then Some (tick 2) else None)\<rparr>"

lemma zero_hash_Cons: "zero_hash = 0 # replicate 31 0"
  unfolding zero_hash_def by (simp flip: replicate_Suc)

lemma tick_recover:
  "recover_chain_from_file tick_prims \<lparr>ar_open_ok = True, ar_fail_line = None\<rparr> [(0, [49, 10])] = Verified (1 # replicate 31 0)"
  "recover_chain_from_file tick_prims \<lparr>ar_open_ok = True, ar_fail_line = None\<rparr> [(0, [32, 49])] = Verified (1 # replicate 31 0)"
  by (simp_all add: recover_chain_from_file_def str_trim_def ascii_ws_def strip_cr_def tick_prims_def tick_def
      compute_chain_hash_def event_payload_def) (simp_all add: zero_hash_Cons)


section \<open>A log that is accepted at the next start\<close>

text \<open>Documented behaviour of the JSON text of an event: it is one line, starts and ends with a brace, and
  parsing it gives the event.\<close>

definition line_law :: "audit_prims \<Rightarrow> bool" where
  "line_law P \<longleftrightarrow> (\<forall>e line. ap_event_json P e = Some line \<longrightarrow> ap_parse_event P line = Some e \<and>
     utf8_valid line \<and> 10 \<notin> set line \<and> line \<noteq> [] \<and> hd line = 123 \<and> last line = 125)"

lemma trim_start_brace: "l \<noteq> [] \<Longrightarrow> hd l = 123 \<Longrightarrow> trim_start l = l"
  by (cases l rule: trim_start.cases) (auto simp: ascii_ws_def wide_ws_def)

lemma trim_rev_brace: "l \<noteq> [] \<Longrightarrow> hd l = 125 \<Longrightarrow> trim_rev l = l"
proof (cases l rule: trim_rev.cases)
  case (4 d c b bs)
  assume "hd l = 125"
  with 4 have "d = 125" by simp
  then show ?thesis using 4 by (simp add: ascii_ws_def wide_ws_def)
qed (auto simp: ascii_ws_def)

lemma str_trim_brace: "l \<noteq> [] \<Longrightarrow> hd l = 123 \<Longrightarrow> last l = 125 \<Longrightarrow> str_trim l = l"
  by (simp add: str_trim_def trim_start_brace trim_rev_brace hd_rev)

lemma split_lines_line: "10 \<notin> set l \<Longrightarrow> split_lines acc (l @ 10 # bs) = strip_cr (acc @ l) # split_lines [] bs"
  by (induction l arbitrary: acc) auto

definition holds_events :: "audit_prims \<Rightarrow> audit_files \<Rightarrow> audit_event list \<Rightarrow> bool" where
  "holds_events P fs evs \<longleftrightarrow>
     (\<exists>lines. file_content 0 fs = concat (map (\<lambda>l. l @ [10]) lines) \<and>
        list_all2 (\<lambda>l e. ap_event_json P e = Some l) lines evs)"

lemma parse_written_lines:
  assumes "line_law P" "list_all2 (\<lambda>l e. ap_event_json P e = Some l) lines evs"
  shows "parse_lines P (split_lines [] (concat (map (\<lambda>l. l @ [10]) lines))) = Some evs"
  using assms(2)
proof (induction rule: list_all2_induct)
  case (Cons l ls e es)
  have l: "ap_parse_event P l = Some e" "utf8_valid l" "10 \<notin> set l" "l \<noteq> []" "hd l = 123" "last l = 125"
    using Cons.hyps assms(1) by (auto simp: line_law_def)
  then show ?case
    using Cons.IH by (simp add: split_lines_line strip_cr_def str_trim_brace)
qed simp

lemma holds_events_parse: "line_law P \<Longrightarrow> holds_events P fs evs \<Longrightarrow> file_events P fs = Some evs"
  by (auto simp: holds_events_def file_events_def parse_written_lines)

lemma file_content_simps [simp]:
  "file_content 0 (append_file d fs) = file_content 0 fs @ d" "file_content 0 (open_audit_file fs) = file_content 0 fs"
  by (auto simp: file_content_def append_file_def open_audit_file_def)

lemma holds_events_append:
  assumes "holds_events P fs evs" "ap_event_json P e = Some l" "file_content 0 fs' = file_content 0 fs"
  shows "holds_events P (append_file (l @ [10]) fs') (evs @ [e])"
proof -
  obtain ls where ls: "file_content 0 fs = concat (map (\<lambda>l. l @ [10]) ls)"
    "list_all2 (\<lambda>l e. ap_event_json P e = Some l) ls evs"
    using assms(1) by (auto simp: holds_events_def)
  show ?thesis
    unfolding holds_events_def
  proof (intro exI conjI)
    show "list_all2 (\<lambda>l e. ap_event_json P e = Some l) (ls @ [l]) (evs @ [e])"
      using ls(2) assms(2) by (simp add: list_all2_appendI)
    show "file_content 0 (append_file (l @ [10]) fs') = concat (map (\<lambda>l. l @ [10]) (ls @ [l]))"
      using ls(1) assms(3) by simp
  qed
qed

text \<open>A rotation leaves a first generation behind and no current file.\<close>

lemma rotate_log_files_ok:
  assumes "rotate_log_files io fs = (Inr (), fs')"
  shows "map_of fs' 0 = None \<and> map_of fs' 1 \<noteq> None"
  using assms by (auto simp: rotate_log_files_def rename_file_def split: sum.splits prod.splits if_splits)

lemma write_event_ok:
  assumes "write_event P io e fs = (Inr (), fs')"
  shows "\<exists>l fs1. ap_event_json P e = Some l \<and> fs' = append_file (l @ [10]) fs1 \<and>
    (if ai_meta_ok io \<and> MAX_LOG_FILE_BYTES \<le> length (file_content 0 fs)
     then file_content 0 fs1 = [] \<and> map_of fs1 1 \<noteq> None
     else fs1 = open_audit_file fs)"
proof (cases "ai_meta_ok io \<and> MAX_LOG_FILE_BYTES \<le> length (file_content 0 fs)")
  case False
  then show ?thesis
    using assms by (auto simp: write_event_def Let_def split: if_splits option.splits prod.splits)
next
  case True
  then obtain fs2 where r: "rotate_log_files io (open_audit_file fs) = (Inr (), fs2)"
    using assms by (auto simp: write_event_def Let_def split: if_splits option.splits prod.splits sum.splits)
  note r' = rotate_log_files_ok [OF r]
  have "file_content 0 (open_audit_file fs2) = [] \<and> map_of (open_audit_file fs2) 1 \<noteq> None"
    using r' by (auto simp: file_content_def open_audit_file_def)
  then show ?thesis
    using assms True r by (auto simp: write_event_def Let_def split: if_splits option.splits)
qed

text \<open>What a successful record does to the file and to the hash of the worker.\<close>

lemma process_record_ok:
  assumes "process_record P io s op r k log = (Inr (), log')" "al_log_path log"
  shows "\<exists>e l t fs1. ev_previous_hash e = al_worker_hash log \<and> ap_event_json P e = Some l \<and>
    ap_payload_json P (event_payload e) = Some t \<and> al_worker_hash log' = ap_sha256 P (al_worker_hash log @ t) \<and>
    al_files log' = append_file (l @ [10]) fs1 \<and> al_log_path log' \<and> suffix (al_entries log') (al_entries log @ [e]) \<and>
    (if ai_meta_ok io \<and> MAX_LOG_FILE_BYTES \<le> length (file_content 0 (al_files log))
     then file_content 0 fs1 = [] \<and> map_of fs1 1 \<noteq> None
     else fs1 = open_audit_file (al_files log))"
proof -
  from assms obtain ts where ts: "next_timestamp (ai_wall io) (al_worker_timestamp log) = Some ts" "\<not> al_tamper_flag log"
    by (auto simp: process_record_def split: if_splits option.splits)
  define e where "e = \<lparr>ev_timestamp = ts, ev_session_handle = s, ev_operation = op, ev_key_id = k, ev_result = r,
    ev_previous_hash = al_worker_hash log\<rparr>"
  obtain fs' t where w: "write_event P io e (al_files log) = (Inr (), fs')" "ap_payload_json P (event_payload e) = Some t"
    and log': "log' = publish_event (ap_sha256 P (al_worker_hash log @ t)) ts e
      (log\<lparr>al_worker_timestamp := ts, al_worker_hash := ap_sha256 P (al_worker_hash log @ t), al_files := fs'\<rparr>)"
    using assms ts
    by (auto simp: process_record_def e_def compute_chain_hash_def Let_def split: option.splits prod.splits sum.splits)
  have "suffix (al_entries log') (al_entries log @ [e])"
    by (simp add: log' publish_event_def Let_def suffix_drop)
  moreover have "al_worker_hash log' = ap_sha256 P (al_worker_hash log @ t)" "al_files log' = fs'" "al_log_path log'"
    "ev_previous_hash e = al_worker_hash log"
    using assms(2) by (simp_all add: log' publish_event_def Let_def e_def)
  ultimately show ?thesis
    using write_event_ok [OF w(1)] w(2) by metis
qed

text \<open>The runs in which every record the worker handles is written and no file is rotated. The process
  may stop at any point, losing the queue, and open the file again.\<close>

inductive audit_run :: "audit_prims \<Rightarrow> audit_log \<Rightarrow> bool" for P where
  run_open: "audit_log_with_path P p rd [] = Inr log \<Longrightarrow> audit_run P log"
| run_record: "audit_run P log \<Longrightarrow> audit_run P (snd (record_internal s op r k log))"
| run_worker: "audit_run P log \<Longrightarrow> worker_step P ios log = (outcomes, log') \<Longrightarrow> set outcomes \<subseteq> {Inr ()} \<Longrightarrow>
    map_of (al_files log') 1 = None \<Longrightarrow> audit_run P log'"
| run_restart: "audit_run P log \<Longrightarrow> readable rd \<Longrightarrow> audit_log_with_path P p rd (al_files log) = Inr log' \<Longrightarrow> audit_run P log'"

definition run_inv :: "audit_prims \<Rightarrow> audit_log \<Rightarrow> bool" where
  "run_inv P log \<longleftrightarrow> al_log_path log \<and>
     (\<exists>evs. holds_events P (al_files log) evs \<and> chain_events P evs zero_hash = Some (al_worker_hash log) \<and>
        suffix (al_entries log) evs)"

lemma other_generation [simp]:
  "map_of (append_file d fs) (Suc 0) = map_of fs (Suc 0)" "map_of (open_audit_file fs) (Suc 0) = map_of fs (Suc 0)"
  by (simp_all add: append_file_def open_audit_file_def)

lemma process_record_run_inv:
  assumes "run_inv P log" "process_record P io s op r k log = (Inr (), log')" "map_of (al_files log') 1 = None"
  shows "run_inv P log' \<and> map_of (al_files log) 1 = None"
proof -
  obtain evs where evs: "holds_events P (al_files log) evs" "chain_events P evs zero_hash = Some (al_worker_hash log)"
    "suffix (al_entries log) evs" and path: "al_log_path log"
    using assms(1) by (auto simp: run_inv_def)
  obtain e l t fs1 where e: "ev_previous_hash e = al_worker_hash log" "ap_event_json P e = Some l"
    "ap_payload_json P (event_payload e) = Some t" "al_worker_hash log' = ap_sha256 P (al_worker_hash log @ t)"
    "al_files log' = append_file (l @ [10]) fs1" "al_log_path log'" "suffix (al_entries log') (al_entries log @ [e])"
    "if ai_meta_ok io \<and> MAX_LOG_FILE_BYTES \<le> length (file_content 0 (al_files log))
     then file_content 0 fs1 = [] \<and> map_of fs1 1 \<noteq> None else fs1 = open_audit_file (al_files log)"
    using process_record_ok [OF assms(2) path] by blast
  have fs1: "fs1 = open_audit_file (al_files log)" using e(5,8) assms(3) by (auto split: if_splits)
  have "holds_events P (al_files log') (evs @ [e])"
    using holds_events_append [OF evs(1) e(2), of fs1] e(5) fs1 by simp
  moreover have "chain_events P (evs @ [e]) zero_hash = Some (al_worker_hash log')"
    using evs(2) e by (simp add: chain_snoc)
  moreover have "suffix (al_entries log') (evs @ [e])"
    using e(7) evs(3) unfolding suffix_def by (metis append.assoc)
  ultimately show ?thesis using e(5,6) fs1 assms(3) unfolding run_inv_def by auto
qed

lemma process_command_run_inv:
  assumes "run_inv P log" "process_command P io cmd log = (Inr (), log')" "map_of (al_files log') 1 = None"
  shows "run_inv P log' \<and> map_of (al_files log) 1 = None"
proof (cases cmd)
  case (AuRecord s op r k)
  then have "process_record P io s op r k log = (Inr (), log')" using assms(2) by (simp add: process_command_def)
  from process_record_run_inv [OF assms(1) this assms(3)] show ?thesis .
qed (use assms in \<open>simp add: process_command_def\<close>)

text \<open>A rotation in the middle of a list of commands would still show at its end.\<close>

lemma process_command_rotated:
  assumes "al_log_path log" "process_command P io cmd log = (Inr (), log')" "map_of (al_files log') 1 = None"
  shows "map_of (al_files log) 1 = None \<and> al_log_path log'"
proof (cases cmd)
  case (AuRecord s op r k)
  then have "process_record P io s op r k log = (Inr (), log')" using assms(2) by (simp add: process_command_def)
  from process_record_ok [OF this assms(1)] show ?thesis using assms(3) by (auto split: if_splits)
qed (use assms in \<open>simp add: process_command_def\<close>)

lemma run_commands_rotated:
  assumes "al_log_path log" "run_commands P ios cmds log = (outcomes, log')" "set outcomes \<subseteq> {Inr ()}"
    "map_of (al_files log') 1 = None"
  shows "map_of (al_files log) 1 = None"
  using assms
proof (induction cmds arbitrary: ios log outcomes)
  case (Cons cmd cmds)
  obtain log1 rs where s: "process_command P (ios 0) cmd log = (Inr (), log1)"
    "run_commands P (\<lambda>n. ios (Suc n)) cmds log1 = (rs, log')" "set rs \<subseteq> {Inr ()}"
    using Cons.prems by (auto split: prod.splits)
  have "al_log_path log1"
    using s(1) Cons.prems(1) by (cases cmd) (auto simp: process_command_def dest!: process_record_ok)
  then show ?case using Cons.IH [OF _ s(2,3)] Cons.prems(1,4) process_command_rotated [OF _ s(1)] by blast
qed simp

lemma run_commands_run_inv:
  assumes "run_inv P log" "run_commands P ios cmds log = (outcomes, log')" "set outcomes \<subseteq> {Inr ()}"
    "map_of (al_files log') 1 = None"
  shows "run_inv P log'"
  using assms
proof (induction cmds arbitrary: ios log outcomes)
  case (Cons cmd cmds)
  obtain log1 rs where s: "process_command P (ios 0) cmd log = (Inr (), log1)"
    "run_commands P (\<lambda>n. ios (Suc n)) cmds log1 = (rs, log')" "set rs \<subseteq> {Inr ()}"
    using Cons.prems by (auto split: prod.splits)
  have path: "al_log_path log" using Cons.prems(1) by (simp add: run_inv_def)
  have "al_log_path log1"
    using s(1) path by (cases cmd) (auto simp: process_command_def dest!: process_record_ok)
  then have "map_of (al_files log1) 1 = None" using run_commands_rotated [OF _ s(2,3)] Cons.prems(4) by blast
  then show ?case using Cons.IH [OF _ s(2,3)] Cons.prems(1,4) process_command_run_inv [OF _ s(1)] by blast
qed simp

lemma run_inv_queue [simp]: "run_inv P (log\<lparr>al_queue := q\<rparr>) = run_inv P log"
  by (simp add: run_inv_def)

lemma run_inv_reopen:
  assumes "line_law P" "run_inv P log" "readable rd" "validate_log_path p = Inr ()"
  shows "audit_log_with_path P p rd (al_files log) = Inr (log_of True (al_files log) (al_worker_hash log) False)"
proof -
  obtain evs where evs: "holds_events P (al_files log) evs" "chain_events P evs zero_hash = Some (al_worker_hash log)"
    using assms(2) by (auto simp: run_inv_def)
  note p = holds_events_parse [OF assms(1) evs(1)]
  show ?thesis
  proof (cases "map_of (al_files log) 0")
    case None
    then have "evs = []" using p by (simp add: file_events_def file_content_def)
    then show ?thesis using None evs(2) assms(4) by (simp add: audit_log_with_path_def recover_chain_from_file_def)
  next
    case (Some c)
    then have "recover_lines P None 0 (split_lines [] c) zero_hash = Inr (al_worker_hash log)"
      using p evs(2) by (simp add: recover_lines_Inr file_events_def file_content_def)
    then show ?thesis
      using Some assms(3,4) by (simp add: audit_log_with_path_def recover_chain_from_file_def readable_def)
  qed
qed

lemma run_inv_log_of:
  "run_inv P log \<Longrightarrow> run_inv P (log_of True (al_files log) (al_worker_hash log) False)"
  by (auto simp: run_inv_def log_of_def)

lemma audit_log_with_path_valid: "audit_log_with_path P p rd fs = Inr log \<Longrightarrow> validate_log_path p = Inr ()"
  by (auto simp: audit_log_with_path_def res_map_def split: sum.splits)

lemma audit_run_inv:
  assumes "line_law P" "audit_run P log"
  shows "run_inv P log"
  using assms(2)
proof (induction rule: audit_run.induct)
  case (run_open p rd log)
  then have "log = log_of True [] zero_hash False"
    using audit_log_with_path_valid [OF run_open] by (simp add: audit_log_with_path_def recover_chain_from_file_def)
  then show ?case by (auto simp: run_inv_def log_of_def holds_events_def file_content_def)
next
  case (run_record log s op r k)
  then show ?case by (auto simp: record_internal_def)
next
  case (run_worker log ios outcomes log')
  have q: "run_inv P (log\<lparr>al_queue := q\<rparr>)" for q using run_worker.IH by simp
  show ?case
    using run_worker.hyps(2-4) run_commands_run_inv [OF q] run_worker.IH
    by (auto simp: worker_step_def simp del: run_commands.simps split: list.splits audit_command.splits)
next
  case (run_restart log rd p log')
  then show ?case
    using run_inv_reopen [OF assms(1) run_restart.IH] audit_log_with_path_valid run_inv_log_of by fastforce
qed

text \<open>\<^bold>\<open>C30\<close>. As long as every event the worker takes from the queue is written and the file is not
  rotated, the log file is accepted at every later start: opening it raises no alarm and continues
  the chain exactly where the worker stopped, and the file holds every event that is in memory, in
  order. This holds for every interleaving of callers, worker and restarts, also when a process
  ends with commands still in the queue.\<close>

theorem audit_log_accepted_at_restart:
  assumes "line_law P" "audit_run P log" "readable rd" "validate_log_path p = Inr ()"
  shows "audit_log_with_path P p rd (al_files log) = Inr (log_of True (al_files log) (al_worker_hash log) False) \<and>
    (\<exists>evs. file_events P (al_files log) = Some evs \<and> suffix (al_entries log) evs)"
  using audit_run_inv [OF assms(1,2)] run_inv_reopen [OF assms(1) _ assms(3,4)] holds_events_parse [OF assms(1)]
  by (fastforce simp: run_inv_def)

definition sample_path :: path_info where
  "sample_path = \<lparr>pi_exists = False, pi_stat_ok = True, pi_symlink = False, pi_file = True, pi_has_dir = False,
     pi_canonical = True, pi_file_name = True\<rparr>"

definition sample_read :: audit_read where
  "sample_read = \<lparr>ar_open_ok = True, ar_fail_line = None\<rparr>"

lemma sample_laws: "line_law sample_prims" "readable sample_read" "validate_log_path sample_path = Inr ()"
  by (auto simp: line_law_def sample_prims_def readable_def sample_read_def validate_log_path_def sample_path_def
      split: if_splits)

lemma sample_run: "audit_run sample_prims sample_log"
proof -
  let ?q = "snd (record_internal 1 AuLogout AuSuccess None (log_of True [] zero_hash False))"
  have "audit_log_with_path sample_prims sample_path sample_read [] = Inr (log_of True [] zero_hash False)"
    using sample_laws(3) by (simp add: audit_log_with_path_def recover_chain_from_file_def)
  then have q: "audit_run sample_prims ?q" by (intro run_record) (rule run_open)
  have "worker_step sample_prims (\<lambda>_. sample_io) ?q = ([Inr ()], sample_log)"
    unfolding sample_log_eq
    by (simp add: worker_step_def record_internal_def log_of_def process_command_def process_record_def
      next_timestamp_def sample_io_def sample_prims_def compute_chain_hash_def write_event_def open_audit_file_def
      file_content_def append_file_def publish_event_def sample_event_def)
  then show ?thesis by (rule run_worker [OF q]) (simp_all add: sample_log_eq log_of_def)
qed

theorem audit_log_accepted_at_restart_witness:
  "audit_log_with_path sample_prims sample_path sample_read [(0, [123, 125, 10])]
     = Inr (log_of True [(0, [123, 125, 10])] (replicate 32 1) False)"
  using audit_log_accepted_at_restart [OF sample_laws(1) sample_run sample_laws(2,3)]
  by (simp add: sample_log_eq log_of_def)

section \<open>A log that is refused at the next start\<close>

lemma recover_lines_tamper:
  assumes "parse_lines P lines = Some (evs @ [e])" "chain_events P evs h = Some h'" "ev_previous_hash e \<noteq> h'"
  shows "\<exists>m. recover_lines P None n lines h = Inl (''TAMPER DETECTED'', m)"
  using assms
proof (induction lines arbitrary: n evs h)
  case (Cons line lines)
  show ?case
  proof (cases "str_trim line = []")
    case True
    then show ?thesis using Cons by (auto split: if_splits)
  next
    case False
    then obtain e1 es where e1: "utf8_valid line" "ap_parse_event P (str_trim line) = Some e1"
      "parse_lines P lines = Some es" "e1 # es = evs @ [e]"
      using Cons.prems(1) by (auto split: if_splits option.splits)
    show ?thesis
    proof (cases evs)
      case Nil
      then show ?thesis using e1 False Cons.prems by auto
    next
      case (Cons e2 evs')
      then have "e2 = e1" "es = evs' @ [e]" using e1(4) by auto
      then obtain h1 where "ev_previous_hash e1 = h" "compute_chain_hash P h e1 = Inr h1" "chain_events P evs' h1 = Some h'"
        using Cons Cons.prems(2) by (auto split: if_splits sum.splits)
      then show ?thesis using e1 False Cons.IH [of evs' h1 "n + 1"] \<open>es = evs' @ [e]\<close> Cons.prems(3) by simp
    qed
  qed
qed simp

lemma recover_tamper:
  assumes "file_events P fs = Some (evs @ [e])" "map_of fs 0 \<noteq> None" "chain_events P evs zero_hash = Some h"
    "ev_previous_hash e \<noteq> h" "readable rd"
  shows "\<exists>m. recover_chain_from_file P rd fs = Broken ''TAMPER DETECTED'' m"
proof -
  obtain c where c: "map_of fs 0 = Some c" using assms(2) by blast
  then have "parse_lines P (split_lines [] c) = Some (evs @ [e])"
    using assms(1) by (simp add: file_events_def file_content_def)
  from recover_lines_tamper [OF this assms(3,4), of 0] show ?thesis
    using c assms(5) by (auto simp: recover_chain_from_file_def readable_def)
qed

lemma append_file_exists [simp]: "map_of (append_file d fs) 0 \<noteq> None"
  by (simp add: append_file_def)

text \<open>\<^bold>\<open>C38\<close>. One failed write makes the log unusable after the next start. The worker moves to the new chain
  hash before it writes the event. If the write of an event fails without leaving anything in the
  file and a later event is written, then the next start reports tampering, although nobody
  touched the file. (The new hash differs from the old one unless SHA-256 has a fixed point here.)\<close>

theorem failed_write_reported_as_tampering:
  assumes "line_law P" "audit_run P log" "readable rd"
    "process_record P io1 s1 op1 r1 k1 log = (Inl err, log1)" "al_files log1 = al_files log"
    "al_worker_hash log1 \<noteq> al_worker_hash log"
    "process_record P io2 s2 op2 r2 k2 log1 = (Inr (), log2)" "map_of (al_files log2) 1 = None"
  shows "\<exists>n. recover_chain_from_file P rd (al_files log2) = Broken ''TAMPER DETECTED'' n"
proof -
  obtain evs where evs: "holds_events P (al_files log) evs" "chain_events P evs zero_hash = Some (al_worker_hash log)"
    and path: "al_log_path log"
    using audit_run_inv [OF assms(1,2)] by (auto simp: run_inv_def)
  have "al_log_path log1"
    using assms(4) path
    by (auto simp: process_record_def publish_event_def Let_def split: if_splits option.splits sum.splits prod.splits)
  from process_record_ok [OF assms(7) this] obtain e l fs1 where e: "ev_previous_hash e = al_worker_hash log1"
    "ap_event_json P e = Some l" "al_files log2 = append_file (l @ [10]) fs1"
    "if ai_meta_ok io2 \<and> MAX_LOG_FILE_BYTES \<le> length (file_content 0 (al_files log1))
     then file_content 0 fs1 = [] \<and> map_of fs1 1 \<noteq> None else fs1 = open_audit_file (al_files log1)"
    by blast
  have "fs1 = open_audit_file (al_files log)" using e(3,4) assms(5,8) by (auto split: if_splits)
  then have "holds_events P (al_files log2) (evs @ [e])"
    using holds_events_append [OF evs(1) e(2), of fs1] e(3) by simp
  from recover_tamper [OF holds_events_parse [OF assms(1) this] _ evs(2) _ assms(3)] show ?thesis
    using e(1,3) assms(6) by simp
qed

definition second_event :: audit_event where
  "second_event = \<lparr>ev_timestamp = 7, ev_session_handle = 1, ev_operation = AuLogout, ev_key_id = None,
     ev_result = AuSuccess, ev_previous_hash = replicate 32 2\<rparr>"

text \<open>Primitives that know the two written events of a run with a failure between them.\<close>

definition failing_prims :: audit_prims where
  "failing_prims = \<lparr>ap_sha256 = (\<lambda>x. if x = zero_hash then replicate 32 1 else replicate 32 2), ap_payload_json = (\<lambda>_. Some []),
     ap_event_json = (\<lambda>e. if e = sample_event then Some [123, 125] else if e = second_event then Some [123, 32, 125] else None),
     ap_parse_event = (\<lambda>l. if l = [123, 125] then Some sample_event else if l = [123, 32, 125] then Some second_event else None)\<rparr>"

definition first_log :: audit_log where
  "first_log = (log_of True [(0, [123, 125, 10])] (replicate 32 1) False)\<lparr>al_entries := [sample_event],
     al_last_timestamp := 5, al_worker_timestamp := 5\<rparr>"

lemma zero_hash_one: "replicate 32 1 \<noteq> zero_hash" "replicate 32 (2 :: byte) \<noteq> replicate 32 1"
  by (simp_all add: zero_hash_def)

lemma first_log_run: "audit_run failing_prims first_log"
proof -
  let ?q = "snd (record_internal 1 AuLogout AuSuccess None (log_of True [] zero_hash False))"
  have "audit_log_with_path failing_prims sample_path sample_read [] = Inr (log_of True [] zero_hash False)"
    using sample_laws(3) by (simp add: audit_log_with_path_def recover_chain_from_file_def)
  then have q: "audit_run failing_prims ?q" by (intro run_record) (rule run_open)
  have "worker_step failing_prims (\<lambda>_. sample_io) ?q = ([Inr ()], first_log)"
    by (simp add: first_log_def worker_step_def record_internal_def log_of_def process_command_def process_record_def
      next_timestamp_def sample_io_def failing_prims_def compute_chain_hash_def write_event_def open_audit_file_def
      file_content_def append_file_def publish_event_def sample_event_def)
  then show ?thesis by (rule run_worker [OF q]) (simp_all add: first_log_def log_of_def)
qed

theorem failed_write_reported_as_tampering_witness:
  "\<exists>n. recover_chain_from_file failing_prims sample_read [(0, [123, 125, 10, 123, 32, 125, 10])] = Broken ''TAMPER DETECTED'' n"
proof -
  let ?log1 = "first_log\<lparr>al_worker_timestamp := 6, al_worker_hash := replicate 32 2\<rparr>"
  have law: "line_law failing_prims"
    by (auto simp: line_law_def failing_prims_def sample_event_def second_event_def split: if_splits)
  have f: "process_record failing_prims (sample_io\<lparr>ai_open_ok := False\<rparr>) 1 AuLogout AuSuccess None first_log
      = (Inl GeneralError, ?log1)"
    using zero_hash_one
    by (simp add: first_log_def log_of_def process_record_def next_timestamp_def sample_io_def failing_prims_def
        compute_chain_hash_def write_event_def)
  obtain log2 where s: "process_record failing_prims sample_io 1 AuLogout AuSuccess None ?log1 = (Inr (), log2)"
    "al_files log2 = [(0, [123, 125, 10, 123, 32, 125, 10])]"
    using zero_hash_one
    by (simp add: first_log_def log_of_def process_record_def next_timestamp_def sample_io_def failing_prims_def
        compute_chain_hash_def write_event_def open_audit_file_def file_content_def append_file_def publish_event_def
        sample_event_def second_event_def)
  show ?thesis
    using failed_write_reported_as_tampering [OF law first_log_run sample_laws(2) f _ _ s(1)] s(2) zero_hash_one
    by (simp add: first_log_def log_of_def)
qed

text \<open>\<^bold>\<open>C37\<close>. Rotation makes the log unusable after the next start, in every case. The first event after a
  rotation is linked to the last event of the rotated file, and the start expects the all-zero hash
  at the first line of the log file; so the first start after a rotation reports tampering, and
  the log then refuses every event.\<close>

theorem rotation_reported_as_tampering:
  assumes "line_law P" "al_log_path log" "al_worker_hash log \<noteq> zero_hash" "readable rd"
    "ai_meta_ok io" "MAX_LOG_FILE_BYTES \<le> length (file_content 0 (al_files log))"
    "process_record P io s op r k log = (Inr (), log')" "audit_log_with_path P p rd (al_files log') = Inr log2"
  shows "is_tamper_detected log2 \<and> (\<exists>e. fst (record_internal s' op' r' k' log2) = Inl e)"
proof -
  obtain e l fs1 where e: "ev_previous_hash e = al_worker_hash log" "ap_event_json P e = Some l"
    "al_files log' = append_file (l @ [10]) fs1" "file_content 0 fs1 = []"
    using process_record_ok [OF assms(7,2)] assms(5,6) by auto
  have "holds_events P fs1 []" using e(4) by (simp add: holds_events_def)
  from holds_events_append [OF this e(2) refl] have "holds_events P (al_files log') ([] @ [e])" using e(3) by simp
  from recover_tamper [OF holds_events_parse [OF assms(1) this] _ _ _ assms(4), of zero_hash]
  obtain n where "recover_chain_from_file P rd (al_files log') = Broken ''TAMPER DETECTED'' n"
    using e(1,3) assms(3) by auto
  then have "log2 = log_of True (al_files log') zero_hash True"
    using assms(8) audit_log_with_path_valid [OF assms(8)] by (simp add: audit_log_with_path_def)
  then show ?thesis by (simp add: is_tamper_detected_def record_internal_def log_of_def)
qed

theorem rotation_reported_as_tampering_witness:
  "\<exists>log2. audit_log_with_path failing_prims sample_path sample_read
       [(1, replicate MAX_LOG_FILE_BYTES 32), (0, [123, 32, 125, 10])] = Inr log2 \<and> is_tamper_detected log2"
proof -
  let ?log = "(log_of True [(0, replicate MAX_LOG_FILE_BYTES 32)] (replicate 32 2) False)\<lparr>al_worker_timestamp := 6\<rparr>"
  have law: "line_law failing_prims"
    by (auto simp: line_law_def failing_prims_def sample_event_def second_event_def split: if_splits)
  have gens: "rev [1..<MAX_ROTATED_FILES] = [4, 3, 2, 1]" by (simp add: upt_rec)
  have w: "write_event failing_prims sample_io second_event [(0, c)] = (Inr (), [(1, c), (0, [123, 32, 125, 10])])"
    if "MAX_LOG_FILE_BYTES \<le> length c" for c
  proof -
    have "rotate_log_files sample_io [(0, c)] = (Inr (), [(1, c)])"
      unfolding rotate_log_files_def gens by (simp add: rename_file_def file_content_def sample_io_def)
    then show ?thesis
      using that
      by (simp add: write_event_def sample_io_def open_audit_file_def file_content_def append_file_def failing_prims_def
          sample_event_def second_event_def)
  qed
  have e: "\<lparr>ev_timestamp = 7, ev_session_handle = 1, ev_operation = AuLogout, ev_key_id = None, ev_result = AuSuccess,
      ev_previous_hash = replicate 32 2\<rparr> = second_event" by (simp add: second_event_def)
  have h: "compute_chain_hash failing_prims h ev = Inr (ap_sha256 failing_prims h)" for h ev
    by (simp add: compute_chain_hash_def failing_prims_def)
  have wall: "ai_wall sample_io = 5" by (simp add: sample_io_def)
  obtain log' where run: "process_record failing_prims sample_io 1 AuLogout AuSuccess None ?log = (Inr (), log')"
    and fs: "al_files log' = [(1, replicate MAX_LOG_FILE_BYTES 32), (0, [123, 32, 125, 10])]"
    by (simp add: log_of_def process_record_def next_timestamp_def wall e h w publish_event_def)
  obtain log2 where open2: "audit_log_with_path failing_prims sample_path sample_read (al_files log') = Inr log2"
    using sample_laws(3) by (simp add: audit_log_with_path_def)
  have "is_tamper_detected log2"
    using rotation_reported_as_tampering [OF law _ _ sample_laws(2) _ _ run open2]
    by (simp add: log_of_def zero_hash_def sample_io_def file_content_def)
  then show ?thesis using open2 fs by auto
qed

end
