(* ===== verification/Rate_Limit.thy ===== *)
theory Rate_Limit
  imports Hsm_Error "HOL-Library.AList"
begin

text \<open>
  The rate limiter (\<open>src/src/crypto/rate_limit.rs\<close>): a token bucket per session, a global one, and a
  count of concurrent operations. Instants are nanoseconds of a monotonic clock; the time of each call is an
  argument. A bucket holds microtokens in 64 bits; the refill is computed in 128 bits and cut to 64.
\<close>

section \<open>Token buckets\<close>

record rate_limit_config =
  max_ops_per_session_per_sec :: u64
  max_global_ops_per_sec :: u64
  max_concurrent_ops :: u64

abbreviation (input) MICROTOKENS_PER_OP :: u64 where "MICROTOKENS_PER_OP \<equiv> 1000000"
abbreviation (input) MAX_SESSION_BUCKETS :: nat where "MAX_SESSION_BUCKETS \<equiv> 10000"

record rate_state =
  rs_tokens :: u64
  rs_last_refill :: nat
  rs_rate :: u64
  rs_capacity :: u64

definition saturating_mul64 :: "u64 \<Rightarrow> u64 \<Rightarrow> u64" where
  "saturating_mul64 a b = (if unat a * unat b < 2 ^ 64 then a * b else - 1)"

definition saturating_add64 :: "u64 \<Rightarrow> u64 \<Rightarrow> u64" where
  "saturating_add64 a b = (if unat a + unat b < 2 ^ 64 then a + b else - 1)"

definition rate_state_new :: "nat \<Rightarrow> u64 \<Rightarrow> rate_state" where
  "rate_state_new now rate =
    (let rate_micro = saturating_mul64 rate MICROTOKENS_PER_OP in
     \<lparr>rs_tokens = rate_micro, rs_last_refill = now, rs_rate = rate_micro, rs_capacity = rate_micro\<rparr>)"

text \<open>The product fits into 128 bits, so it does not saturate.\<close>

definition rate_refill :: "nat \<Rightarrow> rate_state \<Rightarrow> u64" where
  "rate_refill now b =
    (let elapsed_micros = word_of_nat ((now - rs_last_refill b) div 1000) :: u64
     in word_of_nat (unat (rs_rate b) * unat elapsed_micros div 1000000))"

definition try_consume :: "nat \<Rightarrow> rate_state \<Rightarrow> bool \<times> rate_state" where
  "try_consume now b =
    (let tokens = min (saturating_add64 (rs_tokens b) (rate_refill now b)) (rs_capacity b);
         b1 = b\<lparr>rs_tokens := tokens, rs_last_refill := now\<rparr>
     in if tokens \<ge> MICROTOKENS_PER_OP then (True, b1\<lparr>rs_tokens := tokens - MICROTOKENS_PER_OP\<rparr>) else (False, b1))"

section \<open>The limiter\<close>

record rate_limiter =
  rl_config :: rate_limit_config
  rl_session_buckets :: "(u64 \<times> rate_state) list"
  rl_global_bucket :: "rate_state option"
  rl_concurrent_ops :: u64

definition rate_limiter_new :: "nat \<Rightarrow> rate_limit_config \<Rightarrow> rate_limiter" where
  "rate_limiter_new now config =
    \<lparr>rl_config = config, rl_session_buckets = [],
     rl_global_bucket = (if max_global_ops_per_sec config > 0 then Some (rate_state_new now (max_global_ops_per_sec config)) else None),
     rl_concurrent_ops = 0\<rparr>"

definition check_session :: "nat \<Rightarrow> u64 \<Rightarrow> rate_limiter \<Rightarrow> bool \<times> rate_limiter" where
  "check_session now session_handle L =
    (let rate = max_ops_per_session_per_sec (rl_config L); buckets = rl_session_buckets L in
     if rate = 0 then (True, L)
     else
       (case map_of buckets session_handle of
          None \<Rightarrow>
            if length buckets \<ge> MAX_SESSION_BUCKETS then (False, L)
            else (let (ok, b) = try_consume now (rate_state_new now rate)
                  in (ok, L\<lparr>rl_session_buckets := AList.update session_handle b buckets\<rparr>))
        | Some b \<Rightarrow> (let (ok, b') = try_consume now b in (ok, L\<lparr>rl_session_buckets := AList.update session_handle b' buckets\<rparr>))))"

definition check_rate :: "nat \<Rightarrow> u64 \<Rightarrow> rate_limiter \<Rightarrow> unit hsm_result \<times> rate_limiter" where
  "check_rate now session_handle L =
    (case check_session now session_handle L of
       (False, L1) \<Rightarrow> (Inl GeneralError, L1)
     | (True, L1) \<Rightarrow>
        if max_global_ops_per_sec (rl_config L1) > 0 then
          (case rl_global_bucket L1 of
             None \<Rightarrow> (Inr (), L1)
           | Some b \<Rightarrow>
              (let (ok, b') = try_consume now b; L2 = L1\<lparr>rl_global_bucket := Some b'\<rparr>
               in if ok then (Inr (), L2) else (Inl GeneralError, L2)))
        else (Inr (), L1))"

definition begin_operation :: "rate_limiter \<Rightarrow> unit hsm_result \<times> rate_limiter" where
  "begin_operation L =
    (if max_concurrent_ops (rl_config L) = 0 then (Inr (), L)
     else
       (let prev = rl_concurrent_ops L; L1 = L\<lparr>rl_concurrent_ops := prev + 1\<rparr> in
        if prev \<ge> max_concurrent_ops (rl_config L) then (Inl GeneralError, L1\<lparr>rl_concurrent_ops := rl_concurrent_ops L1 - 1\<rparr>)
        else (Inr (), L1)))"

definition end_operation :: "rate_limiter \<Rightarrow> rate_limiter" where
  "end_operation L =
    (if max_concurrent_ops (rl_config L) = 0 then L else L\<lparr>rl_concurrent_ops := rl_concurrent_ops L - 1\<rparr>)"

definition remove_session :: "u64 \<Rightarrow> rate_limiter \<Rightarrow> rate_limiter" where
  "remove_session session_handle L = L\<lparr>rl_session_buckets := AList.delete session_handle (rl_session_buckets L)\<rparr>"

section \<open>One bucket\<close>

definition bucket_ok :: "u64 \<Rightarrow> rate_state \<Rightarrow> bool" where
  "bucket_ok rate b \<longleftrightarrow> rs_rate b = saturating_mul64 rate MICROTOKENS_PER_OP \<and> rs_capacity b = rs_rate b \<and> rs_tokens b \<le> rs_capacity b"

lemma saturating_add64_le: "unat (saturating_add64 a b) \<le> unat a + unat b"
proof (cases "unat a + unat b < 2 ^ 64")
  case True
  then show ?thesis by (simp add: saturating_add64_def unat_word_ariths)
next
  case False
  moreover have "unat (- 1 :: u64) < 2 ^ 64" using unsigned_less [of "- 1 :: u64"] by simp
  ultimately show ?thesis unfolding saturating_add64_def by (simp only: if_False)
qed

lemma unat_of_nat_le: "unat (word_of_nat n :: u64) \<le> n"
  by (simp add: unsigned_of_nat take_bit_nat_less_eq_self)

lemma rate_refill_le: "unat (rate_refill now b) * 1000000000 \<le> unat (rs_rate b) * (now - rs_last_refill b)"
proof -
  define e where "e = now - rs_last_refill b"
  have "unat (rate_refill now b) \<le> unat (rs_rate b) * unat (word_of_nat (e div 1000) :: u64) div 1000000"
    unfolding rate_refill_def Let_def e_def by (rule unat_of_nat_le)
  also have "\<dots> \<le> unat (rs_rate b) * (e div 1000) div 1000000"
    by (intro div_le_mono mult_le_mono2 unat_of_nat_le)
  finally have "unat (rate_refill now b) * 1000000 \<le> unat (rs_rate b) * (e div 1000)"
    using div_times_less_eq_dividend [of "unat (rs_rate b) * (e div 1000)" 1000000] mult_le_mono1 order_trans by blast
  then have "unat (rate_refill now b) * 1000000 * 1000 \<le> unat (rs_rate b) * (e div 1000) * 1000" by (rule mult_le_mono1)
  also have "\<dots> \<le> unat (rs_rate b) * e" using div_times_less_eq_dividend [of e 1000] by (simp add: mult.assoc)
  finally show ?thesis by (simp add: e_def)
qed

text \<open>What a bucket has given and still holds is bounded by its capacity and the elapsed time.\<close>

definition spent_ok :: "nat \<Rightarrow> nat \<Rightarrow> rate_state \<Rightarrow> bool" where
  "spent_ok t0 k b \<longleftrightarrow> rs_last_refill b \<ge> t0 \<and>
     (k * 1000000 + unat (rs_tokens b)) * 1000000000 \<le>
       unat (rs_capacity b) * 1000000000 + unat (rs_rate b) * (rs_last_refill b - t0)"

lemma try_consume_spent:
  assumes "bucket_ok rate b" "spent_ok t0 k b" "rs_last_refill b \<le> now" "try_consume now b = (ok, b')"
  shows "bucket_ok rate b'" "spent_ok t0 (if ok then Suc k else k) b'" "rs_last_refill b' = now"
proof -
  define tokens where "tokens = min (saturating_add64 (rs_tokens b) (rate_refill now b)) (rs_capacity b)"
  have b': "ok = (tokens \<ge> MICROTOKENS_PER_OP)"
      "b' = b\<lparr>rs_tokens := (if ok then tokens - MICROTOKENS_PER_OP else tokens), rs_last_refill := now\<rparr>"
    using assms(4) by (auto simp: try_consume_def Let_def tokens_def split: if_splits)
  have cap: "tokens \<le> rs_capacity b" by (simp add: tokens_def)
  have sub: "unat (tokens - MICROTOKENS_PER_OP) + 1000000 = unat tokens" if ok
    using that b'(1) by (simp add: unat_sub word_le_nat_alt)
  then have "tokens - MICROTOKENS_PER_OP \<le> rs_capacity b" if ok
    using that cap by (simp add: word_le_nat_alt)
  then show "bucket_ok rate b'" "rs_last_refill b' = now" using assms(1) cap b'(2) by (auto simp: bucket_ok_def)
  have "tokens \<le> saturating_add64 (rs_tokens b) (rate_refill now b)" by (simp add: tokens_def)
  then have "unat tokens \<le> unat (rs_tokens b) + unat (rate_refill now b)"
    using saturating_add64_le [of "rs_tokens b" "rate_refill now b"] by (simp add: word_le_nat_alt)
  then have "(k * 1000000 + unat tokens) * 1000000000 \<le>
      (k * 1000000 + unat (rs_tokens b)) * 1000000000 + unat (rs_rate b) * (now - rs_last_refill b)"
    using rate_refill_le [of now b] by simp
  also have "\<dots> \<le> unat (rs_capacity b) * 1000000000 + unat (rs_rate b) * (rs_last_refill b - t0) + unat (rs_rate b) * (now - rs_last_refill b)"
    using assms(2) by (simp add: spent_ok_def)
  also have "\<dots> = unat (rs_capacity b) * 1000000000 + unat (rs_rate b) * (now - t0)"
    using assms(2,3) by (simp add: spent_ok_def flip: add_mult_distrib2)
  finally show "spent_ok t0 (if ok then Suc k else k) b'"
    using assms(2,3) b'(2) sub by (auto simp: spent_ok_def algebra_simps)
qed

lemma rate_state_new_ok: "t0 \<le> now \<Longrightarrow> bucket_ok rate (rate_state_new now rate)" "t0 \<le> now \<Longrightarrow> spent_ok t0 0 (rate_state_new now rate)"
    "rs_last_refill (rate_state_new now rate) = now"
  by (simp_all add: bucket_ok_def spent_ok_def rate_state_new_def Let_def)

section \<open>Runs of the limiter\<close>

text \<open>What has happened so far: the time of the last request, the requests accepted per session since
  its state was last removed, all accepted requests, and the operations begun and not ended.\<close>

record history =
  hi_now :: nat
  hi_session :: "u64 \<Rightarrow> nat"
  hi_total :: nat
  hi_active :: nat

definition add_ok :: "unit hsm_result \<Rightarrow> nat \<Rightarrow> nat" where
  "add_ok r n = (if is_ok r then Suc n else n)"

inductive limiter_reach :: "rate_limit_config \<Rightarrow> nat \<Rightarrow> history \<Rightarrow> rate_limiter \<Rightarrow> bool" for config t0 where
  start: "limiter_reach config t0 \<lparr>hi_now = t0, hi_session = (\<lambda>_. 0), hi_total = 0, hi_active = 0\<rparr> (rate_limiter_new t0 config)"
| check: "limiter_reach config t0 h L \<Longrightarrow> hi_now h \<le> now \<Longrightarrow> check_rate now s L = (r, L') \<Longrightarrow>
    limiter_reach config t0 (h\<lparr>hi_now := now, hi_session := (hi_session h)(s := add_ok r (hi_session h s)),
      hi_total := add_ok r (hi_total h)\<rparr>) L'"
| begin_op: "limiter_reach config t0 h L \<Longrightarrow> begin_operation L = (r, L') \<Longrightarrow>
    limiter_reach config t0 (h\<lparr>hi_active := add_ok r (hi_active h)\<rparr>) L'"
| end_op: "limiter_reach config t0 h L \<Longrightarrow> hi_active h > 0 \<Longrightarrow>
    limiter_reach config t0 (h\<lparr>hi_active := hi_active h - 1\<rparr>) (end_operation L)"
| remove: "limiter_reach config t0 h L \<Longrightarrow>
    limiter_reach config t0 (h\<lparr>hi_session := (hi_session h)(s := 0)\<rparr>) (remove_session s L)"

definition bucket_holds :: "u64 \<Rightarrow> nat \<Rightarrow> nat \<Rightarrow> nat \<Rightarrow> rate_state option \<Rightarrow> bool" where
  "bucket_holds rate t0 now k bo \<longleftrightarrow>
     (case bo of None \<Rightarrow> k = 0 | Some b \<Rightarrow> bucket_ok rate b \<and> spent_ok t0 k b \<and> rs_last_refill b \<le> now)"

definition sessions_ok :: "rate_limit_config \<Rightarrow> nat \<Rightarrow> history \<Rightarrow> rate_limiter \<Rightarrow> bool" where
  "sessions_ok config t0 h L \<longleftrightarrow>
     length (rl_session_buckets L) \<le> MAX_SESSION_BUCKETS \<and>
     (max_ops_per_session_per_sec config > 0 \<longrightarrow>
       (\<forall>s. bucket_holds (max_ops_per_session_per_sec config) t0 (hi_now h) (hi_session h s) (map_of (rl_session_buckets L) s)))"

definition global_ok :: "rate_limit_config \<Rightarrow> nat \<Rightarrow> history \<Rightarrow> rate_limiter \<Rightarrow> bool" where
  "global_ok config t0 h L \<longleftrightarrow>
     (max_global_ops_per_sec config > 0 \<longrightarrow>
       rl_global_bucket L \<noteq> None \<and> bucket_holds (max_global_ops_per_sec config) t0 (hi_now h) (hi_total h) (rl_global_bucket L))"

definition active_ok :: "rate_limit_config \<Rightarrow> history \<Rightarrow> rate_limiter \<Rightarrow> bool" where
  "active_ok config h L \<longleftrightarrow>
     (max_concurrent_ops config > 0 \<longrightarrow>
       unat (rl_concurrent_ops L) = hi_active h \<and> hi_active h \<le> unat (max_concurrent_ops config))"

definition limiter_ok :: "rate_limit_config \<Rightarrow> nat \<Rightarrow> history \<Rightarrow> rate_limiter \<Rightarrow> bool" where
  "limiter_ok config t0 h L \<longleftrightarrow> rl_config L = config \<and> t0 \<le> hi_now h \<and> sessions_ok config t0 h L \<and> global_ok config t0 h L \<and>
     active_ok config h L"

lemma spent_ok_mono: "spent_ok t0 k b \<Longrightarrow> k' \<le> k \<Longrightarrow> spent_ok t0 k' b"
  unfolding spent_ok_def by (auto intro: order_trans [rotated])

lemma bucket_holds_later: "bucket_holds rate t0 now k bo \<Longrightarrow> now \<le> now' \<Longrightarrow> bucket_holds rate t0 now' k bo"
  by (auto simp: bucket_holds_def split: option.splits)

lemma bucket_holds_consume:
  assumes "bucket_holds rate t0 now k bo" "t0 \<le> now" "now \<le> now'"
    and "try_consume now' (case bo of Some b \<Rightarrow> b | None \<Rightarrow> rate_state_new now' rate) = (ok, b')"
  shows "bucket_holds rate t0 now' (if ok then Suc k else k) (Some b')" "bucket_holds rate t0 now' k (Some b')"
proof -
  define b where "b = (case bo of Some b \<Rightarrow> b | None \<Rightarrow> rate_state_new now' rate)"
  have "bucket_ok rate b" "spent_ok t0 k b" "rs_last_refill b \<le> now'"
    using assms(1-3) rate_state_new_ok(1,2) [OF order_trans [OF assms(2,3)]] rate_state_new_ok(3) by (auto simp: b_def bucket_holds_def split: option.splits)
  from try_consume_spent [OF this assms(4) [folded b_def]]
  show "bucket_holds rate t0 now' (if ok then Suc k else k) (Some b')" "bucket_holds rate t0 now' k (Some b')"
    using spent_ok_mono [of t0 "if ok then Suc k else k" b' k] by (auto simp: bucket_holds_def)
qed

lemma check_session_ok:
  assumes "sessions_ok config t0 h L" "rl_config L = config" "t0 \<le> hi_now h" "hi_now h \<le> now" "check_session now s L = (ok, L1)"
    and "k = hi_session h s \<or> ok \<and> k = Suc (hi_session h s)"
  shows "sessions_ok config t0 (h\<lparr>hi_now := now, hi_session := (hi_session h)(s := k), hi_total := n\<rparr>) L1 \<and>
    rl_config L1 = config \<and> rl_global_bucket L1 = rl_global_bucket L \<and> rl_concurrent_ops L1 = rl_concurrent_ops L"
proof (cases "max_ops_per_session_per_sec config = 0 \<or> map_of (rl_session_buckets L) s = None \<and> length (rl_session_buckets L) \<ge> MAX_SESSION_BUCKETS")
  case True
  then have "L1 = L" "max_ops_per_session_per_sec config > 0 \<longrightarrow> k = hi_session h s"
    using assms(2,5,6) by (auto simp: check_session_def Let_def word_neq_0_conv split: if_splits option.splits)
  then show ?thesis
    using assms(1,2) bucket_holds_later [OF _ assms(4)] by (auto simp: sessions_ok_def fun_upd_idem)
next
  case False
  define rate where "rate = max_ops_per_session_per_sec config"
  obtain b' where b': "try_consume now (case map_of (rl_session_buckets L) s of Some b \<Rightarrow> b | None \<Rightarrow> rate_state_new now rate) = (ok, b')"
      "L1 = L\<lparr>rl_session_buckets := AList.update s b' (rl_session_buckets L)\<rparr>"
    using False assms(2,5) by (auto simp: check_session_def Let_def rate_def split: option.splits prod.splits)
  have holds: "bucket_holds rate t0 (hi_now h) (hi_session h s') (map_of (rl_session_buckets L) s')" for s'
    using assms(1) False by (auto simp: sessions_ok_def rate_def word_neq_0_conv)
  have new: "bucket_holds rate t0 now k (Some b')"
    using bucket_holds_consume [OF holds assms(3,4) b'(1)] assms(6) by auto
  have len: "length (AList.update s b' (rl_session_buckets L)) \<le> MAX_SESSION_BUCKETS"
    using assms(1) False by (auto simp: sessions_ok_def length_alist_update map_of_eq_None_iff)
  have "bucket_holds rate t0 now (((hi_session h)(s := k)) s') (map_of (AList.update s b' (rl_session_buckets L)) s')" for s'
    using new bucket_holds_later [OF holds assms(4)] by (simp add: update_conv')
  then show ?thesis using len b'(2) assms(2) by (simp add: sessions_ok_def rate_def)
qed

lemma check_rate_ok:
  assumes "limiter_ok config t0 h L" "hi_now h \<le> now" "check_rate now s L = (r, L')"
  shows "limiter_ok config t0 (h\<lparr>hi_now := now, hi_session := (hi_session h)(s := add_ok r (hi_session h s)),
      hi_total := add_ok r (hi_total h)\<rparr>) L'" (is "limiter_ok config t0 ?h L'")
proof -
  obtain ok L1 where L1: "check_session now s L = (ok, L1)" by (cases "check_session now s L")
  have ok: "is_ok r \<Longrightarrow> ok" using assms(3) L1 by (auto simp: check_rate_def split: bool.splits)
  have s1: "sessions_ok config t0 ?h L1" "rl_config L1 = config" "rl_global_bucket L1 = rl_global_bucket L"
      "rl_concurrent_ops L1 = rl_concurrent_ops L"
    using check_session_ok [of config t0 h L now s ok L1 "add_ok r (hi_session h s)" "add_ok r (hi_total h)"] assms(1,2) L1 ok
    by (auto simp: limiter_ok_def add_ok_def)
  have L': "L' = L1\<lparr>rl_global_bucket := rl_global_bucket L'\<rparr>"
    using assms(3) L1 by (auto simp: check_rate_def Let_def split: bool.splits if_splits option.splits prod.splits)
  then have rest: "rl_config L' = config" "rl_session_buckets L' = rl_session_buckets L1" "rl_concurrent_ops L' = rl_concurrent_ops L"
    using s1(2,4) by (metis rate_limiter.select_convs rate_limiter.surjective rate_limiter.update_convs(3))+
  have "global_ok config t0 ?h L'"
  proof (cases "max_global_ops_per_sec config > 0")
    case True
    then obtain b where b: "rl_global_bucket L = Some b"
        "bucket_holds (max_global_ops_per_sec config) t0 (hi_now h) (hi_total h) (Some b)"
      using assms(1) by (auto simp: limiter_ok_def global_ok_def)
    have t: "t0 \<le> hi_now h" using assms(1) by (simp add: limiter_ok_def)
    show ?thesis
    proof (cases ok)
      case False
      then have "L' = L1" "\<not> is_ok r" using assms(3) L1 by (auto simp: check_rate_def)
      then show ?thesis using b s1(3) bucket_holds_later [OF b(2) assms(2)] by (simp add: global_ok_def add_ok_def)
    next
      case True
      obtain g b' where b': "try_consume now b = (g, b')" by (cases "try_consume now b")
      have "rl_global_bucket L' = Some b'" "is_ok r = g"
        using assms(3) L1 True \<open>max_global_ops_per_sec config > 0\<close> s1(2,3) b(1) b'
        by (auto simp: check_rate_def Let_def split: if_splits)
      then show ?thesis
        using bucket_holds_consume [OF b(2) t assms(2)] b' by (simp add: global_ok_def add_ok_def)
    qed
  qed (simp add: global_ok_def)
  then show ?thesis
    using s1(1) rest assms(1,2) by (auto simp: limiter_ok_def sessions_ok_def active_ok_def)
qed

lemma begin_operation_ok:
  assumes "limiter_ok config t0 h L" "begin_operation L = (r, L')"
  shows "limiter_ok config t0 (h\<lparr>hi_active := add_ok r (hi_active h)\<rparr>) L'"
proof -
  have "unat (rl_concurrent_ops L + 1) = Suc (unat (rl_concurrent_ops L))" if "rl_concurrent_ops L < max_concurrent_ops config"
  proof -
    have "unat (max_concurrent_ops config) < 2 ^ 64" using unsigned_less [of "max_concurrent_ops config"] by simp
    then show ?thesis using that by (simp add: word_less_nat_alt unat_word_ariths)
  qed
  then show ?thesis
    using assms
    by (auto simp: limiter_ok_def sessions_ok_def global_ok_def active_ok_def begin_operation_def add_ok_def Let_def word_neq_0_conv
        not_le word_less_nat_alt split: if_splits)
qed

lemma end_operation_ok:
  assumes "limiter_ok config t0 h L" "hi_active h > 0"
  shows "limiter_ok config t0 (h\<lparr>hi_active := hi_active h - 1\<rparr>) (end_operation L)"
proof -
  have "unat (rl_concurrent_ops L - 1) = unat (rl_concurrent_ops L) - 1" if "unat (rl_concurrent_ops L) > 0"
    using that by (simp add: unat_sub word_le_nat_alt Suc_leI)
  then show ?thesis
    using assms
    by (auto simp: limiter_ok_def sessions_ok_def global_ok_def active_ok_def end_operation_def word_neq_0_conv)
qed

lemma remove_session_ok:
  assumes "limiter_ok config t0 h L"
  shows "limiter_ok config t0 (h\<lparr>hi_session := (hi_session h)(s := 0)\<rparr>) (remove_session s L)"
  using assms length_delete_le [of s "rl_session_buckets L"]
  by (auto simp: limiter_ok_def sessions_ok_def global_ok_def active_ok_def remove_session_def delete_conv' bucket_holds_def
      intro: order_trans)

lemma limiter_reach_ok: "limiter_reach config t0 h L \<Longrightarrow> limiter_ok config t0 h L"
proof (induction rule: limiter_reach.induct)
  case start
  then show ?case
    using rate_state_new_ok(1,2) [OF order_refl] rate_state_new_ok(3)
    by (simp add: limiter_ok_def sessions_ok_def global_ok_def active_ok_def rate_limiter_new_def bucket_holds_def)
qed (simp_all only: check_rate_ok begin_operation_ok end_operation_ok remove_session_ok)

lemma bucket_holds_bound:
  assumes "bucket_holds rate t0 now k bo" "unat rate * 1000000 < 2 ^ 64"
  shows "k * 1000000000 \<le> unat rate * 1000000000 + unat rate * (now - t0)"
proof (cases bo)
  case (Some b)
  have m: "unat (saturating_mul64 rate MICROTOKENS_PER_OP) = unat rate * 1000000"
    using assms(2) by (simp add: saturating_mul64_def unat_word_ariths)
  have "(k * 1000000 + unat (rs_tokens b)) * 1000000000 \<le> unat rate * 1000000 * 1000000000 + unat rate * 1000000 * (rs_last_refill b - t0)"
  proof -
    have "unat (rs_rate b) = unat rate * 1000000" "unat (rs_capacity b) = unat rate * 1000000"
      using assms(1) Some m by (simp_all add: bucket_holds_def bucket_ok_def)
    then show ?thesis using assms(1) Some unfolding bucket_holds_def spent_ok_def by simp
  qed
  then have "k * 1000000 * 1000000000 \<le> unat rate * 1000000 * 1000000000 + unat rate * 1000000 * (rs_last_refill b - t0)" by simp
  also have "\<dots> \<le> unat rate * 1000000 * 1000000000 + unat rate * 1000000 * (now - t0)"
    using assms(1) Some by (intro add_left_mono mult_le_mono2 diff_le_mono) (simp add: bucket_holds_def)
  finally have "1000000 * (k * 1000000000) \<le> 1000000 * (unat rate * 1000000000 + unat rate * (now - t0))"
    by (simp add: algebra_simps)
  then show ?thesis by (rule mult_le_cancel1 [THEN iffD1, rule_format]) simp
qed (use assms in \<open>simp add: bucket_holds_def\<close>)

text \<open>\<^bold>\<open>C15\<close> The limiter keeps its limits over any run of requests, operations and removals of
  sessions: with a limit of \<open>r\<close> operations per second, at most \<open>r + r * seconds\<close> requests of a session are accepted
  since its state was last removed, and likewise of all sessions together for the global limit, whatever the times
  of the requests; no more operations are in flight than allowed; and at most 10000 sessions have state.\<close>

theorem rate_limits_hold:
  assumes "limiter_reach config t0 h L"
  shows "(0 < max_ops_per_session_per_sec config \<and> unat (max_ops_per_session_per_sec config) * 1000000 < 2 ^ 64 \<longrightarrow>
      hi_session h s * 1000000000 \<le> unat (max_ops_per_session_per_sec config) * 1000000000 +
        unat (max_ops_per_session_per_sec config) * (hi_now h - t0)) \<and>
    (0 < max_global_ops_per_sec config \<and> unat (max_global_ops_per_sec config) * 1000000 < 2 ^ 64 \<longrightarrow>
      hi_total h * 1000000000 \<le> unat (max_global_ops_per_sec config) * 1000000000 +
        unat (max_global_ops_per_sec config) * (hi_now h - t0)) \<and>
    (0 < max_concurrent_ops config \<longrightarrow> hi_active h \<le> unat (max_concurrent_ops config)) \<and>
    length (rl_session_buckets L) \<le> 10000"
proof -
  note ok = limiter_reach_ok [OF assms, unfolded limiter_ok_def sessions_ok_def global_ok_def active_ok_def]
  show ?thesis
    using ok bucket_holds_bound by blast
qed

text \<open>A limit of one operation per second, and three requests at once.\<close>

definition one_per_second :: rate_limit_config where
  "one_per_second = \<lparr>max_ops_per_session_per_sec = 1, max_global_ops_per_sec = 0, max_concurrent_ops = 2\<rparr>"

theorem rate_limits_hold_witness:
  "\<exists>h L. limiter_reach one_per_second 0 h L \<and> hi_session h 7 = 1 \<and> hi_session h 7 * 1000000000 \<le> 1 * 1000000000 + 1 * (hi_now h - 0) \<and>
     fst (check_rate 0 7 L) = Inl GeneralError"
proof -
  define L1 where "L1 = snd (check_rate 0 7 (rate_limiter_new 0 one_per_second))"
  have c: "check_rate 0 7 (rate_limiter_new 0 one_per_second) = (Inr (), L1)" "fst (check_rate 0 7 L1) = Inl GeneralError"
    unfolding L1_def
    by (simp_all add: check_rate_def check_session_def try_consume_def rate_limiter_new_def rate_state_new_def rate_refill_def
        saturating_mul64_def saturating_add64_def one_per_second_def Let_def)
  define h where "h = \<lparr>hi_now = 0, hi_session = (\<lambda>_. 0)(7 := 1), hi_total = 1, hi_active = 0\<rparr>"
  have reach: "limiter_reach one_per_second 0 h L1"
    using check [OF start _ c(1)] by (simp add: h_def add_ok_def)
  have "hi_session h 7 * 1000000000 \<le> 1 * 1000000000 + 1 * (hi_now h - 0)"
    using rate_limits_hold [OF reach, of 7] by (simp add: one_per_second_def)
  then show ?thesis using reach c(2) by (intro exI [of _ h] exI [of _ L1]) (simp add: h_def)
qed

text \<open>A request one second after the last one of its bucket is accepted, as long as the refill fits into 64
  bits.\<close>

lemma request_after_pause:
  assumes "bucket_ok rate b" "0 < rate" "rs_last_refill b + 1000000000 \<le> now"
    and "(now - rs_last_refill b) div 1000 < 2 ^ 64"
    and "unat (rs_rate b) * ((now - rs_last_refill b) div 1000) div 1000000 < 2 ^ 64" "unat rate * 1000000 < 2 ^ 64"
  shows "fst (try_consume now b)"
proof -
  define e where "e = (now - rs_last_refill b) div 1000"
  have e: "e \<ge> 1000000" "unat (word_of_nat e :: u64) = e"
    using assms(3,4) by (simp_all add: e_def unsigned_of_nat take_bit_nat_eq_self)
  have r: "unat (rs_rate b) = unat rate * 1000000" "rs_capacity b = rs_rate b"
    using assms(1,6) by (simp_all add: bucket_ok_def saturating_mul64_def unat_word_ariths)
  have pos: "unat rate \<ge> 1" using assms(2) by (simp add: word_less_nat_alt Suc_leI)
  have "unat (rate_refill now b) = unat (rs_rate b) * e div 1000000"
    using assms(5) e(2) by (simp add: rate_refill_def Let_def unsigned_of_nat take_bit_nat_eq_self flip: e_def)
  also have "\<dots> \<ge> 1000000" using e(1) pos r(1) mult_le_mono [of 1 "unat rate" 1000000 e] by (simp add: mult.assoc mult.left_commute)
  finally have refill: "unat (rate_refill now b) \<ge> 1000000" .
  have "unat (saturating_add64 (rs_tokens b) (rate_refill now b)) \<ge> 1000000"
  proof (cases "unat (rs_tokens b) + unat (rate_refill now b) < 2 ^ 64")
    case True
    then show ?thesis using refill by (simp add: saturating_add64_def unat_word_ariths)
  qed (simp add: saturating_add64_def unsigned_minus_1_eq_mask mask_eq_exp_minus_1)
  moreover have "unat (rs_capacity b) \<ge> 1000000" using r pos by simp
  ultimately show ?thesis by (simp add: try_consume_def Let_def word_le_nat_alt min_def)
qed

end
