(* ===== verification/Session.thy ===== *)
theory Session
  imports Hsm_Error
begin

text \<open>
  Sessions (\<open>src/src/session/session.rs\<close>): the five session states and their login transitions,
  the operation a session has in progress, the find context, and the session structure.

  A streaming hasher is the digest mechanism it was created for and the bytes fed to it so far:
  that is the contract of the streaming interface of the digest crates (the digest of a sequence
  of updates is the digest of the concatenated input). A cached object reference
  (\<open>Arc<RwLock<StoredObject>>\<close>) is the address of the object it points to.
\<close>

section \<open>Session states\<close>

datatype session_state = RoPublic | RoUser | RwPublic | RwUser | RwSO

fun to_ck_state :: "session_state \<Rightarrow> ck_ulong" where
  "to_ck_state RoPublic = CKS_RO_PUBLIC_SESSION"
| "to_ck_state RoUser = CKS_RO_USER_FUNCTIONS"
| "to_ck_state RwPublic = CKS_RW_PUBLIC_SESSION"
| "to_ck_state RwUser = CKS_RW_USER_FUNCTIONS"
| "to_ck_state RwSO = CKS_RW_SO_FUNCTIONS"

definition state_is_rw :: "session_state \<Rightarrow> bool" where
  "state_is_rw s = (case s of RwPublic \<Rightarrow> True | RwUser \<Rightarrow> True | RwSO \<Rightarrow> True | _ \<Rightarrow> False)"

definition state_is_logged_in :: "session_state \<Rightarrow> bool" where
  "state_is_logged_in s = (case s of RoUser \<Rightarrow> True | RwUser \<Rightarrow> True | RwSO \<Rightarrow> True | _ \<Rightarrow> False)"

definition state_is_so :: "session_state \<Rightarrow> bool" where
  "state_is_so s = (case s of RwSO \<Rightarrow> True | _ \<Rightarrow> False)"

section \<open>Operations in progress\<close>

record hasher =
  hs_mechanism :: ck_ulong
  hs_input :: bytes

datatype active_operation =
    OpEncrypt (op_mechanism: ck_ulong) (op_key_handle: u64) (op_param: bytes) (op_data: bytes)
      (op_cached: "obj_ref option")
  | OpDecrypt (op_mechanism: ck_ulong) (op_key_handle: u64) (op_param: bytes) (op_data: bytes)
      (op_cached: "obj_ref option")
  | OpSign (op_mechanism: ck_ulong) (op_key_handle: u64) (op_data: bytes)
      (op_hasher: "hasher option") (op_cached: "obj_ref option")
  | OpVerify (op_mechanism: ck_ulong) (op_key_handle: u64) (op_data: bytes)
      (op_hasher: "hasher option") (op_cached: "obj_ref option")
  | OpDigest (op_mechanism: ck_ulong) (op_hasher: "hasher option") (op_data: bytes)

record find_context =
  fc_results :: "u64 list"
  fc_position :: nat

record session =
  ss_handle :: u64
  ss_slot_id :: u64
  ss_flags :: ck_ulong
  ss_state :: session_state
  ss_active_operation :: "active_operation option"
  ss_find_context :: "find_context option"
  ss_last_fips_approved :: "bool option"
  ss_last_activity :: int
  ss_closed :: bool

definition session_new :: "u64 \<Rightarrow> u64 \<Rightarrow> ck_ulong \<Rightarrow> int \<Rightarrow> session" where
  "session_new handle slot_id flags now =
    \<lparr>ss_handle = handle, ss_slot_id = slot_id, ss_flags = flags,
     ss_state = (if flags AND CKF_RW_SESSION \<noteq> 0 then RwPublic else RoPublic),
     ss_active_operation = None, ss_find_context = None, ss_last_fips_approved = None,
     ss_last_activity = now, ss_closed = False\<rparr>"

definition touch :: "int \<Rightarrow> session \<Rightarrow> session" where
  "touch now s = s\<lparr>ss_last_activity := now\<rparr>"

definition idle_duration :: "int \<Rightarrow> session \<Rightarrow> int" where
  "idle_duration now s = max 0 (now - ss_last_activity s)"

definition session_is_rw :: "session \<Rightarrow> bool" where
  "session_is_rw s = state_is_rw (ss_state s)"

definition on_user_login :: "session \<Rightarrow> unit hsm_result \<times> session" where
  "on_user_login s =
    (case ss_state s of
       RoPublic \<Rightarrow> (Inr (), s\<lparr>ss_state := RoUser\<rparr>)
     | RwPublic \<Rightarrow> (Inr (), s\<lparr>ss_state := RwUser\<rparr>)
     | st \<Rightarrow> if state_is_logged_in st then (Inl UserAlreadyLoggedIn, s) else (Inl GeneralError, s))"

definition on_so_login :: "session \<Rightarrow> unit hsm_result \<times> session" where
  "on_so_login s =
    (case ss_state s of
       RwPublic \<Rightarrow> (Inr (), s\<lparr>ss_state := RwSO\<rparr>)
     | RoPublic \<Rightarrow> (Inl SessionReadOnly, s)
     | st \<Rightarrow> if state_is_logged_in st then (Inl UserAlreadyLoggedIn, s) else (Inl GeneralError, s))"

definition clear_operations :: "session \<Rightarrow> session" where
  "clear_operations s = s\<lparr>ss_active_operation := None, ss_find_context := None\<rparr>"

definition on_logout :: "session \<Rightarrow> unit hsm_result \<times> session" where
  "on_logout s =
    (case ss_state s of
       RoUser \<Rightarrow> (Inr (), clear_operations (s\<lparr>ss_state := RoPublic\<rparr>))
     | RwUser \<Rightarrow> (Inr (), clear_operations (s\<lparr>ss_state := RwPublic\<rparr>))
     | RwSO \<Rightarrow> (Inr (), clear_operations (s\<lparr>ss_state := RwPublic\<rparr>))
     | _ \<Rightarrow> (Inl UserNotLoggedIn, s))"

record ck_session_info =
  si_slot_id :: u64
  si_state :: ck_ulong
  si_flags :: ck_ulong
  si_device_error :: ck_ulong

definition session_get_info :: "session \<Rightarrow> ck_session_info" where
  "session_get_info s =
    \<lparr>si_slot_id = ss_slot_id s, si_state = to_ck_state (ss_state s), si_flags = ss_flags s, si_device_error = 0\<rparr>"

section \<open>Transitions\<close>

lemmas state_simps =
  state_is_rw_def state_is_logged_in_def state_is_so_def session_is_rw_def

lemma state_predicates [simp]:
  "state_is_rw RoPublic = False" "state_is_rw RoUser = False" "state_is_rw RwPublic = True"
  "state_is_rw RwUser = True" "state_is_rw RwSO = True"
  "state_is_logged_in RoPublic = False" "state_is_logged_in RoUser = True"
  "state_is_logged_in RwPublic = False" "state_is_logged_in RwUser = True" "state_is_logged_in RwSO = True"
  "state_is_so RoPublic = False" "state_is_so RoUser = False" "state_is_so RwPublic = False"
  "state_is_so RwUser = False" "state_is_so RwSO = True"
  by (simp_all add: state_simps)

lemma login_transition_frame [simp]:
  "ss_handle (snd (on_user_login s)) = ss_handle s" "ss_slot_id (snd (on_user_login s)) = ss_slot_id s"
  "ss_handle (snd (on_so_login s)) = ss_handle s" "ss_slot_id (snd (on_so_login s)) = ss_slot_id s"
  "ss_handle (snd (on_logout s)) = ss_handle s" "ss_slot_id (snd (on_logout s)) = ss_slot_id s"
  "ss_closed (snd (on_user_login s)) = ss_closed s" "ss_closed (snd (on_so_login s)) = ss_closed s"
  "ss_closed (snd (on_logout s)) = ss_closed s"
  "state_is_rw (ss_state (snd (on_user_login s))) = state_is_rw (ss_state s)"
  "state_is_rw (ss_state (snd (on_so_login s))) = state_is_rw (ss_state s)"
  "state_is_rw (ss_state (snd (on_logout s))) = state_is_rw (ss_state s)"
  by (simp_all add: on_user_login_def on_so_login_def on_logout_def clear_operations_def split: session_state.split)

lemma clear_operations_frame [simp]:
  "ss_handle (clear_operations s) = ss_handle s" "ss_slot_id (clear_operations s) = ss_slot_id s"
  "ss_state (clear_operations s) = ss_state s" "ss_closed (clear_operations s) = ss_closed s"
  "ss_active_operation (clear_operations s) = None" "ss_find_context (clear_operations s) = None"
  by (simp_all add: clear_operations_def)

lemma on_logout_public: "\<not> state_is_logged_in (ss_state (snd (on_logout s)))"
  by (simp add: on_logout_def split: session_state.split)

lemma logout_after_login:
  "fst (on_user_login s) = Inr () \<Longrightarrow> ss_state (snd (on_logout (snd (on_user_login s)))) = ss_state s"
  "fst (on_so_login s) = Inr () \<Longrightarrow> ss_state (snd (on_logout (snd (on_so_login s)))) = ss_state s"
  by (auto simp: on_user_login_def on_so_login_def on_logout_def split: session_state.splits)

end
