(* ===== verification/Mechanisms.thy ===== *)
theory Mechanisms
  imports Hsm_Config Hsm_Error Session
begin

text \<open>
  Mechanism tables and algorithm policy (\<open>src/src/crypto/mechanisms.rs\<close>,
  \<open>src/src/crypto/approved_services.rs\<close>), the mechanism helpers of \<open>src/src/crypto/sign.rs\<close>, the
  digest dispatch of \<open>src/src/crypto/digest.rs\<close> and the post-quantum variant maps of
  \<open>src/src/crypto/pqc.rs\<close>. The digest crates are the argument \<open>H\<close>: the digest of a byte string
  under a digest mechanism.
\<close>

section \<open>Tables\<close>

definition is_sign_mechanism :: "ck_ulong \<Rightarrow> bool" where
  "is_sign_mechanism mechanism \<longleftrightarrow> mechanism \<in> set
    [CKM_RSA_PKCS, CKM_SHA256_RSA_PKCS, CKM_SHA384_RSA_PKCS, CKM_SHA512_RSA_PKCS, CKM_RSA_PKCS_PSS,
     CKM_SHA256_RSA_PKCS_PSS, CKM_SHA384_RSA_PKCS_PSS, CKM_SHA512_RSA_PKCS_PSS, CKM_ECDSA,
     CKM_ECDSA_SHA256, CKM_ECDSA_SHA384, CKM_ECDSA_SHA512, CKM_EDDSA, CKM_ML_DSA_44, CKM_ML_DSA_65,
     CKM_ML_DSA_87, CKM_SLH_DSA_SHA2_128S, CKM_SLH_DSA_SHA2_256S, CKM_HYBRID_ML_DSA_ECDSA]"

definition is_encrypt_mechanism :: "ck_ulong \<Rightarrow> bool" where
  "is_encrypt_mechanism mechanism \<longleftrightarrow> mechanism \<in> set
    [CKM_AES_GCM, CKM_AES_CBC, CKM_AES_CBC_PAD, CKM_AES_CTR, CKM_RSA_PKCS_OAEP]"

definition is_keygen_mechanism :: "ck_ulong \<Rightarrow> bool" where
  "is_keygen_mechanism mechanism \<longleftrightarrow> mechanism \<in> set
    [CKM_AES_KEY_GEN]"

definition is_keypair_gen_mechanism :: "ck_ulong \<Rightarrow> bool" where
  "is_keypair_gen_mechanism mechanism \<longleftrightarrow> mechanism \<in> set
    [CKM_RSA_PKCS_KEY_PAIR_GEN, CKM_EC_KEY_PAIR_GEN, CKM_EDDSA, CKM_ML_KEM_512, CKM_ML_KEM_768,
     CKM_ML_KEM_1024, CKM_ML_DSA_44, CKM_ML_DSA_65, CKM_ML_DSA_87, CKM_SLH_DSA_SHA2_128S,
     CKM_SLH_DSA_SHA2_256S]"

definition is_kem_mechanism :: "ck_ulong \<Rightarrow> bool" where
  "is_kem_mechanism mechanism \<longleftrightarrow> mechanism \<in> set
    [CKM_ML_KEM_512, CKM_ML_KEM_768, CKM_ML_KEM_1024]"

definition is_digest_mechanism :: "ck_ulong \<Rightarrow> bool" where
  "is_digest_mechanism mechanism \<longleftrightarrow> mechanism \<in> set
    [CKM_SHA_1, CKM_SHA256, CKM_SHA384, CKM_SHA512, CKM_SHA3_256, CKM_SHA3_384, CKM_SHA3_512]"

definition is_wrap_mechanism :: "ck_ulong \<Rightarrow> bool" where
  "is_wrap_mechanism mechanism \<longleftrightarrow> mechanism \<in> set
    [CKM_AES_KEY_WRAP, CKM_AES_KEY_WRAP_KWP]"

definition is_derive_mechanism :: "ck_ulong \<Rightarrow> bool" where
  "is_derive_mechanism mechanism \<longleftrightarrow> mechanism \<in> set
    [CKM_ECDH1_DERIVE, CKM_ECDH1_COFACTOR_DERIVE]"

definition is_fips_approved :: "ck_ulong \<Rightarrow> bool" where
  "is_fips_approved mechanism \<longleftrightarrow> mechanism \<in> set
    [CKM_RSA_PKCS_KEY_PAIR_GEN, CKM_RSA_PKCS, CKM_SHA256_RSA_PKCS, CKM_SHA384_RSA_PKCS,
     CKM_SHA512_RSA_PKCS, CKM_RSA_PKCS_PSS, CKM_SHA256_RSA_PKCS_PSS, CKM_SHA384_RSA_PKCS_PSS,
     CKM_SHA512_RSA_PKCS_PSS, CKM_RSA_PKCS_OAEP, CKM_EC_KEY_PAIR_GEN, CKM_ECDSA, CKM_ECDSA_SHA256,
     CKM_ECDSA_SHA384, CKM_ECDSA_SHA512, CKM_ECDH1_DERIVE, CKM_ECDH1_COFACTOR_DERIVE, CKM_AES_KEY_GEN,
     CKM_AES_GCM, CKM_AES_CBC, CKM_AES_CBC_PAD, CKM_AES_CTR, CKM_AES_KEY_WRAP, CKM_AES_KEY_WRAP_KWP,
     CKM_SHA256, CKM_SHA384, CKM_SHA512, CKM_SHA3_256, CKM_SHA3_384, CKM_SHA3_512]"

definition is_pqc_mechanism :: "ck_ulong \<Rightarrow> bool" where
  "is_pqc_mechanism mechanism \<longleftrightarrow> mechanism \<in> set
    [CKM_ML_KEM_512, CKM_ML_KEM_768, CKM_ML_KEM_1024, CKM_ML_DSA_44, CKM_ML_DSA_65, CKM_ML_DSA_87,
     CKM_SLH_DSA_SHA2_128S, CKM_SLH_DSA_SHA2_256S, CKM_HYBRID_ML_DSA_ECDSA]"

definition supported_mechanisms :: "ck_ulong list" where
  "supported_mechanisms =
    [CKM_RSA_PKCS_KEY_PAIR_GEN, CKM_RSA_PKCS, CKM_SHA256_RSA_PKCS, CKM_SHA384_RSA_PKCS,
     CKM_SHA512_RSA_PKCS, CKM_RSA_PKCS_PSS, CKM_SHA256_RSA_PKCS_PSS, CKM_SHA384_RSA_PKCS_PSS,
     CKM_SHA512_RSA_PKCS_PSS, CKM_RSA_PKCS_OAEP, CKM_EC_KEY_PAIR_GEN, CKM_ECDSA, CKM_ECDSA_SHA256,
     CKM_ECDSA_SHA384, CKM_ECDSA_SHA512, CKM_ECDH1_DERIVE, CKM_ECDH1_COFACTOR_DERIVE, CKM_EDDSA,
     CKM_AES_KEY_GEN, CKM_AES_GCM, CKM_AES_CBC, CKM_AES_CBC_PAD, CKM_AES_CTR, CKM_AES_KEY_WRAP,
     CKM_AES_KEY_WRAP_KWP, CKM_SHA_1, CKM_SHA256, CKM_SHA384, CKM_SHA512, CKM_SHA3_256, CKM_SHA3_384,
     CKM_SHA3_512, CKM_ML_KEM_512, CKM_ML_KEM_768, CKM_ML_KEM_1024, CKM_ML_DSA_44, CKM_ML_DSA_65,
     CKM_ML_DSA_87, CKM_SLH_DSA_SHA2_128S, CKM_SLH_DSA_SHA2_256S, CKM_HYBRID_ML_DSA_ECDSA]"

definition is_pss_mechanism :: "ck_ulong \<Rightarrow> bool" where
  "is_pss_mechanism mechanism \<longleftrightarrow> mechanism \<in> set
    [CKM_RSA_PKCS_PSS, CKM_SHA256_RSA_PKCS_PSS, CKM_SHA384_RSA_PKCS_PSS, CKM_SHA512_RSA_PKCS_PSS]"

definition is_ecdsa_mechanism :: "ck_ulong \<Rightarrow> bool" where
  "is_ecdsa_mechanism mechanism \<longleftrightarrow> mechanism \<in> set
    [CKM_ECDSA, CKM_ECDSA_SHA256, CKM_ECDSA_SHA384, CKM_ECDSA_SHA512]"

definition sign_mechanism_supports_multipart :: "ck_ulong \<Rightarrow> bool" where
  "sign_mechanism_supports_multipart mechanism \<longleftrightarrow> mechanism \<in> set
    [CKM_SHA256_RSA_PKCS, CKM_SHA384_RSA_PKCS, CKM_SHA512_RSA_PKCS, CKM_SHA256_RSA_PKCS_PSS,
     CKM_SHA384_RSA_PKCS_PSS, CKM_SHA512_RSA_PKCS_PSS, CKM_ECDSA_SHA256, CKM_ECDSA_SHA384,
     CKM_ECDSA_SHA512]"

definition is_eddsa_mechanism :: "ck_ulong \<Rightarrow> bool" where
  "is_eddsa_mechanism mechanism \<longleftrightarrow> mechanism = CKM_EDDSA"

section \<open>Algorithm policy\<close>

definition validate_mechanism_for_policy :: "ck_ulong \<Rightarrow> algorithm_config \<Rightarrow> bool \<Rightarrow> ck_rv + unit" where
  "validate_mechanism_for_policy mechanism config is_signing_context =
    (if fips_approved_only config \<and> \<not> is_fips_approved mechanism then Inl CKR_MECHANISM_INVALID
     else if \<not> enable_pqc config \<and> is_pqc_mechanism mechanism then Inl CKR_MECHANISM_INVALID
     else if mechanism = CKM_SHA_1 then
       (if fips_approved_only config then Inl CKR_MECHANISM_INVALID
        else if \<not> allow_sha1_signing config \<and> is_signing_context then Inl CKR_MECHANISM_INVALID
        else Inr ())
     else Inr ())"

definition supported_mechanisms_filtered :: "algorithm_config \<Rightarrow> ck_ulong list" where
  "supported_mechanisms_filtered config =
    filter (\<lambda>mech.
      if fips_approved_only config \<and> \<not> is_fips_approved mech then False
      else if fips_approved_only config \<and> mech = CKM_SHA_1 then False
      else if \<not> enable_pqc config \<and> is_pqc_mechanism mech then False
      else True) supported_mechanisms"

datatype approval_status_t = Approved | NonApproved | Unknown

definition approval_status :: "ck_ulong \<Rightarrow> approval_status_t" where
  "approval_status mechanism =
    (if mechanism \<in> set [CKM_SHA256, CKM_SHA384, CKM_SHA512] then Approved
     else if mechanism \<in> set [CKM_SHA3_256, CKM_SHA3_384, CKM_SHA3_512] then Approved
     else if mechanism = CKM_SHA_1 then NonApproved
     else if mechanism = CKM_RSA_PKCS then Approved
     else if mechanism \<in> set [CKM_SHA256_RSA_PKCS, CKM_SHA384_RSA_PKCS, CKM_SHA512_RSA_PKCS] then Approved
     else if mechanism \<in> set [CKM_RSA_PKCS_PSS, CKM_SHA256_RSA_PKCS_PSS, CKM_SHA384_RSA_PKCS_PSS, CKM_SHA512_RSA_PKCS_PSS] then Approved
     else if mechanism = CKM_RSA_PKCS_OAEP then Approved
     else if mechanism = CKM_RSA_PKCS_KEY_PAIR_GEN then Approved
     else if mechanism \<in> set [CKM_ECDSA, CKM_ECDSA_SHA256, CKM_ECDSA_SHA384, CKM_ECDSA_SHA512] then Approved
     else if mechanism = CKM_EC_KEY_PAIR_GEN then Approved
     else if mechanism = CKM_EDDSA then NonApproved
     else if mechanism = CKM_AES_GCM then Approved
     else if mechanism = CKM_AES_CBC \<or> mechanism = CKM_AES_CBC_PAD then Approved
     else if mechanism = CKM_AES_CTR then Approved
     else if mechanism = CKM_AES_KEY_GEN then Approved
     else if mechanism = CKM_AES_KEY_WRAP \<or> mechanism = CKM_AES_KEY_WRAP_KWP then Approved
     else if mechanism = CKM_ECDH1_DERIVE then Approved
     else if mechanism \<in> set [CKM_ML_KEM_512, CKM_ML_KEM_768, CKM_ML_KEM_1024] then Approved
     else if mechanism \<in> set [CKM_ML_DSA_44, CKM_ML_DSA_65, CKM_ML_DSA_87] then Approved
     else if mechanism = CKM_SLH_DSA_SHA2_128S \<or> mechanism = CKM_SLH_DSA_SHA2_256S then Approved
     else if mechanism = CKM_HYBRID_ML_DSA_ECDSA then NonApproved
     else if mechanism = CKM_HYBRID_X25519_ML_KEM_768 \<or> mechanism = CKM_HYBRID_X25519_ML_KEM_1024 then NonApproved
     else Unknown)"

definition enforce_rsa_mechanism :: "ck_ulong \<Rightarrow> bool" where
  "enforce_rsa_mechanism mechanism \<longleftrightarrow> mechanism \<in> set
    [CKM_RSA_PKCS, CKM_RSA_PKCS_PSS, CKM_RSA_PKCS_OAEP, CKM_RSA_PKCS_KEY_PAIR_GEN, CKM_SHA256_RSA_PKCS,
     CKM_SHA384_RSA_PKCS, CKM_SHA512_RSA_PKCS, CKM_SHA256_RSA_PKCS_PSS, CKM_SHA384_RSA_PKCS_PSS,
     CKM_SHA512_RSA_PKCS_PSS]"

definition enforce :: "ck_ulong \<Rightarrow> algorithm_config \<Rightarrow> u32 option \<Rightarrow> unit hsm_result" where
  "enforce mechanism config key_size_bits =
    (if \<not> fips_approved_only config then Inr ()
     else
       (case approval_status mechanism of
          Approved \<Rightarrow>
            (case key_size_bits of
               Some bits \<Rightarrow> if enforce_rsa_mechanism mechanism \<and> bits < 2048 then Inl KeySizeRange else Inr ()
             | None \<Rightarrow> Inr ())
        | NonApproved \<Rightarrow> Inl MechanismInvalid
        | Unknown \<Rightarrow> Inl MechanismInvalid))"

definition services_fips_approved :: "ck_ulong \<Rightarrow> bool" where
  "services_fips_approved mechanism \<longleftrightarrow> approval_status mechanism = Approved"

section \<open>Hash algorithms of signature mechanisms\<close>

datatype hash_alg = Sha256 | Sha384 | Sha512

definition mechanism_to_hash :: "ck_ulong \<Rightarrow> hash_alg option" where
  "mechanism_to_hash mechanism =
    (if mechanism = CKM_SHA256_RSA_PKCS then Some Sha256
     else if mechanism = CKM_SHA384_RSA_PKCS then Some Sha384
     else if mechanism = CKM_SHA512_RSA_PKCS then Some Sha512
     else None)"

definition pss_mechanism_to_hash :: "ck_ulong \<Rightarrow> hash_alg hsm_result" where
  "pss_mechanism_to_hash mechanism =
    (if mechanism = CKM_SHA256_RSA_PKCS_PSS then Inr Sha256
     else if mechanism = CKM_SHA384_RSA_PKCS_PSS then Inr Sha384
     else if mechanism = CKM_SHA512_RSA_PKCS_PSS then Inr Sha512
     else if mechanism = CKM_RSA_PKCS_PSS then Inl MechanismParamInvalid
     else Inl MechanismInvalid)"

definition sign_mechanism_to_digest_mechanism :: "ck_ulong \<Rightarrow> ck_ulong option" where
  "sign_mechanism_to_digest_mechanism mechanism =
    (if mechanism \<in> set [CKM_SHA256_RSA_PKCS, CKM_SHA256_RSA_PKCS_PSS, CKM_ECDSA_SHA256] then Some CKM_SHA256
     else if mechanism \<in> set [CKM_SHA384_RSA_PKCS, CKM_SHA384_RSA_PKCS_PSS, CKM_ECDSA_SHA384] then Some CKM_SHA384
     else if mechanism \<in> set [CKM_SHA512_RSA_PKCS, CKM_SHA512_RSA_PKCS_PSS, CKM_ECDSA_SHA512] then Some CKM_SHA512
     else None)"

section \<open>Digests\<close>

type_synonym digest_fn = "ck_ulong \<Rightarrow> bytes \<Rightarrow> bytes"

definition compute_digest :: "digest_fn \<Rightarrow> ck_ulong \<Rightarrow> bytes \<Rightarrow> bytes hsm_result" where
  "compute_digest H mechanism data =
    (if mechanism \<in> set [CKM_SHA_1, CKM_SHA256, CKM_SHA384, CKM_SHA512, CKM_SHA3_256, CKM_SHA3_384, CKM_SHA3_512]
     then Inr (H mechanism data) else Inl MechanismInvalid)"

definition digest_output_len :: "ck_ulong \<Rightarrow> nat hsm_result" where
  "digest_output_len mechanism =
    (if mechanism = CKM_SHA_1 then Inr 20
     else if mechanism = CKM_SHA256 \<or> mechanism = CKM_SHA3_256 then Inr 32
     else if mechanism = CKM_SHA384 \<or> mechanism = CKM_SHA3_384 then Inr 48
     else if mechanism = CKM_SHA512 \<or> mechanism = CKM_SHA3_512 then Inr 64
     else Inl MechanismInvalid)"

definition create_hasher :: "ck_ulong \<Rightarrow> hasher hsm_result" where
  "create_hasher mechanism =
    (if mechanism \<in> set [CKM_SHA_1, CKM_SHA256, CKM_SHA384, CKM_SHA512, CKM_SHA3_256, CKM_SHA3_384, CKM_SHA3_512]
     then Inr \<lparr>hs_mechanism = mechanism, hs_input = []\<rparr> else Inl MechanismInvalid)"

definition hasher_update :: "bytes \<Rightarrow> hasher \<Rightarrow> hasher" where
  "hasher_update data h = h\<lparr>hs_input := hs_input h @ data\<rparr>"

definition hasher_finalize :: "digest_fn \<Rightarrow> hasher \<Rightarrow> bytes" where
  "hasher_finalize H h = H (hs_mechanism h) (hs_input h)"

text \<open>The output length of the digest crates, as the source documents it.\<close>

definition digest_sizes :: "digest_fn \<Rightarrow> bool" where
  "digest_sizes H \<longleftrightarrow> (\<forall>m n data. digest_output_len m = Inr n \<longrightarrow> length (H m data) = n)"

section \<open>Post-quantum variants\<close>

datatype ml_kem_variant = MlKem512 | MlKem768 | MlKem1024
datatype ml_dsa_variant = MlDsa44 | MlDsa65 | MlDsa87
datatype slh_dsa_variant = Sha2_128s | Sha2_256s
datatype hybrid_kem_variant = X25519MlKem768 | X25519MlKem1024

definition mechanism_to_hybrid_kem_variant :: "ck_ulong \<Rightarrow> hybrid_kem_variant option" where
  "mechanism_to_hybrid_kem_variant mechanism =
    (if mechanism = CKM_HYBRID_X25519_ML_KEM_768 then Some X25519MlKem768
     else if mechanism = CKM_HYBRID_X25519_ML_KEM_1024 then Some X25519MlKem1024 else None)"

definition is_hybrid_kem_mechanism :: "ck_ulong \<Rightarrow> bool" where
  "is_hybrid_kem_mechanism mechanism = (mechanism_to_hybrid_kem_variant mechanism \<noteq> None)"

definition mechanism_to_ml_kem_variant :: "ck_ulong \<Rightarrow> ml_kem_variant option" where
  "mechanism_to_ml_kem_variant mechanism =
    (if mechanism = CKM_ML_KEM_512 then Some MlKem512
     else if mechanism = CKM_ML_KEM_768 then Some MlKem768
     else if mechanism = CKM_ML_KEM_1024 then Some MlKem1024 else None)"

definition mechanism_to_ml_dsa_variant :: "ck_ulong \<Rightarrow> ml_dsa_variant option" where
  "mechanism_to_ml_dsa_variant mechanism =
    (if mechanism = CKM_ML_DSA_44 then Some MlDsa44
     else if mechanism = CKM_ML_DSA_65 then Some MlDsa65
     else if mechanism = CKM_ML_DSA_87 then Some MlDsa87 else None)"

definition mechanism_to_slh_dsa_variant :: "ck_ulong \<Rightarrow> slh_dsa_variant option" where
  "mechanism_to_slh_dsa_variant mechanism =
    (if mechanism = CKM_SLH_DSA_SHA2_128S then Some Sha2_128s
     else if mechanism = CKM_SLH_DSA_SHA2_256S then Some Sha2_256s else None)"

definition is_ml_kem_mechanism :: "ck_ulong \<Rightarrow> bool" where
  "is_ml_kem_mechanism mechanism = (mechanism_to_ml_kem_variant mechanism \<noteq> None)"

definition is_ml_dsa_mechanism :: "ck_ulong \<Rightarrow> bool" where
  "is_ml_dsa_mechanism mechanism = (mechanism_to_ml_dsa_variant mechanism \<noteq> None)"

definition is_slh_dsa_mechanism :: "ck_ulong \<Rightarrow> bool" where
  "is_slh_dsa_mechanism mechanism = (mechanism_to_slh_dsa_variant mechanism \<noteq> None)"

definition is_hybrid_mechanism :: "ck_ulong \<Rightarrow> bool" where
  "is_hybrid_mechanism mechanism = (mechanism = CKM_HYBRID_ML_DSA_ECDSA)"

section \<open>The tables against each other\<close>

lemma hasher_updates:
  "hasher_finalize H (fold hasher_update chunks h) = H (hs_mechanism h) (hs_input h @ concat chunks)"
  by (induction chunks arbitrary: h) (simp_all add: hasher_update_def hasher_finalize_def)

lemma multipart_has_digest:
  "sign_mechanism_supports_multipart m \<longleftrightarrow> sign_mechanism_to_digest_mechanism m \<noteq> None"
  by (simp add: sign_mechanism_supports_multipart_def sign_mechanism_to_digest_mechanism_def)

text \<open>The list of mechanisms a token advertises is the list of supported mechanisms that the
  policy admits when the mechanism is used outside a signing context: the filter of
  \<open>C_GetMechanismList\<close> and the check made by the operations agree on every configuration.\<close>

lemma advertised_iff_admitted:
  "m \<in> set (supported_mechanisms_filtered config) \<longleftrightarrow>
   m \<in> set supported_mechanisms \<and> validate_mechanism_for_policy m config False = Inr ()"
  by (auto simp: supported_mechanisms_filtered_def validate_mechanism_for_policy_def)

lemma pqc_not_fips: "is_pqc_mechanism m \<Longrightarrow> \<not> is_fips_approved m"
  by (auto simp: is_pqc_mechanism_def is_fips_approved_def)

text \<open>\<^bold>\<open>C33\<close>. The two tables of approved mechanisms, \<open>is_fips_approved\<close> of the policy and
  \<open>approval_status\<close> of the approved services, agree on every one of the \<open>2 ^ 64\<close> mechanism codes
  except nine: cofactor ECDH is approved by the policy and unknown to the services, and the eight
  standardised post-quantum mechanisms are approved services that the policy does not approve.\<close>

theorem fips_tables_differ_exactly:
  "is_fips_approved m \<noteq> services_fips_approved m \<longleftrightarrow>
   m = CKM_ECDH1_COFACTOR_DERIVE \<or> is_ml_kem_mechanism m \<or> is_ml_dsa_mechanism m \<or> is_slh_dsa_mechanism m"
  by (auto simp: is_fips_approved_def services_fips_approved_def approval_status_def is_ml_kem_mechanism_def
      is_ml_dsa_mechanism_def is_slh_dsa_mechanism_def mechanism_to_ml_kem_variant_def
      mechanism_to_ml_dsa_variant_def mechanism_to_slh_dsa_variant_def)

end
