(* ===== verification/Symmetric_Ciphers.thy ===== *)
theory Symmetric_Ciphers
  imports Hsm_Error
begin

text \<open>
  AES encryption and its guards against repeated nonces (\<open>src/src/crypto/encrypt.rs\<close>): the counters
  and nonce prefixes of the keys used with GCM, and the initialisation vectors seen with CBC and
  CTR. The process-wide maps are a record; they are indexed by the SHA-256 hash of the key. The
  block cipher modes and SHA-256 are third-party code and fields of a record; a new nonce prefix
  comes from the random generator and is an argument that may be an error. A counter is advanced
  by compare-and-exchange, so the increments of several threads happen one after the other.
\<close>

record aes_prims =
  aes_key_id :: "bytes \<Rightarrow> bytes"
  aes_gcm_seal :: "bytes \<Rightarrow> bytes \<Rightarrow> bytes \<Rightarrow> bytes \<Rightarrow> bytes option"
  aes_gcm_open :: "bytes \<Rightarrow> bytes \<Rightarrow> bytes \<Rightarrow> bytes \<Rightarrow> bytes option"
  aes_cbc_enc :: "bytes \<Rightarrow> bytes \<Rightarrow> bytes \<Rightarrow> bytes"
  aes_cbc_dec :: "bytes \<Rightarrow> bytes \<Rightarrow> bytes \<Rightarrow> bytes option"
  aes_ctr_xor :: "bytes \<Rightarrow> bytes \<Rightarrow> bytes \<Rightarrow> bytes"

record cipher_state =
  cs_gcm_counters :: "(bytes \<times> u64) list"
  cs_gcm_prefixes :: "(bytes \<times> bytes) list"
  cs_iv_tracker :: "(bytes \<times> bytes list) list"

definition cipher_state_new :: cipher_state where
  "cipher_state_new = \<lparr>cs_gcm_counters = [], cs_gcm_prefixes = [], cs_iv_tracker = []\<rparr>"

abbreviation (input) AES_GCM_MAX_PLAINTEXT :: nat where "AES_GCM_MAX_PLAINTEXT \<equiv> 68719476704"
abbreviation (input) AES_CBC_CTR_MAX_PLAINTEXT :: nat where "AES_CBC_CTR_MAX_PLAINTEXT \<equiv> 268435456"
abbreviation (input) GCM_MAX_RANDOM_NONCE_ENCRYPTIONS :: u64 where "GCM_MAX_RANDOM_NONCE_ENCRYPTIONS \<equiv> 0x80000000"
abbreviation (input) MAX_TRACKED_IVS_PER_KEY :: nat where "MAX_TRACKED_IVS_PER_KEY \<equiv> 100000"
abbreviation (input) MAX_TRACKED_KEYS :: nat where "MAX_TRACKED_KEYS \<equiv> 10000"

section \<open>Resetting the maps\<close>

definition reset_iv_trackers :: "cipher_state \<Rightarrow> cipher_state" where
  "reset_iv_trackers cs = cs\<lparr>cs_iv_tracker := []\<rparr>"

definition reset_gcm_counters :: "cipher_state \<Rightarrow> cipher_state" where
  "reset_gcm_counters cs = reset_iv_trackers cs"

definition remove_gcm_counter :: "aes_prims \<Rightarrow> bytes \<Rightarrow> cipher_state \<Rightarrow> cipher_state" where
  "remove_gcm_counter A key cs =
    (let kid = aes_key_id A key in
     cs\<lparr>cs_gcm_counters := AList.delete kid (cs_gcm_counters cs),
       cs_gcm_prefixes := AList.delete kid (cs_gcm_prefixes cs),
       cs_iv_tracker := AList.delete kid (cs_iv_tracker cs)\<rparr>)"

definition force_reset_all_counters :: "cipher_state \<Rightarrow> cipher_state" where
  "force_reset_all_counters cs = reset_iv_trackers (cs\<lparr>cs_gcm_counters := [], cs_gcm_prefixes := []\<rparr>)"

section \<open>GCM\<close>

definition gcm_nonce_prefix ::
  "aes_prims \<Rightarrow> bytes hsm_result \<Rightarrow> bytes \<Rightarrow> cipher_state \<Rightarrow> bytes hsm_result \<times> cipher_state" where
  "gcm_nonce_prefix A drbg_prefix key cs =
    (let kid = aes_key_id A key in
     case map_of (cs_gcm_prefixes cs) kid of
       Some prefix \<Rightarrow> (Inr prefix, cs)
     | None \<Rightarrow>
        (case drbg_prefix of
           Inl e \<Rightarrow> (Inl e, cs)
         | Inr prefix \<Rightarrow> (Inr prefix, cs\<lparr>cs_gcm_prefixes := AList.update kid prefix (cs_gcm_prefixes cs)\<rparr>)))"

text \<open>The loop that takes the next counter value: it stops at the limit and leaves the entry created.\<close>

definition gcm_take_counter :: "aes_prims \<Rightarrow> bytes \<Rightarrow> cipher_state \<Rightarrow> u64 hsm_result \<times> cipher_state" where
  "gcm_take_counter A key cs =
    (let kid = aes_key_id A key;
         current = (case map_of (cs_gcm_counters cs) kid of Some n \<Rightarrow> n | None \<Rightarrow> 0)
     in if GCM_MAX_RANDOM_NONCE_ENCRYPTIONS \<le> current
        then (Inl GeneralError, cs\<lparr>cs_gcm_counters := AList.update kid current (cs_gcm_counters cs)\<rparr>)
        else (Inr current, cs\<lparr>cs_gcm_counters := AList.update kid (current + 1) (cs_gcm_counters cs)\<rparr>))"

definition u64_be :: "u64 \<Rightarrow> bytes" where
  "u64_be x = rev (u64_le x)"

definition aes_256_gcm_encrypt_with_aad ::
  "aes_prims \<Rightarrow> bytes hsm_result \<Rightarrow> bytes \<Rightarrow> bytes \<Rightarrow> bytes \<Rightarrow> cipher_state \<Rightarrow> bytes hsm_result \<times> cipher_state" where
  "aes_256_gcm_encrypt_with_aad A drbg_prefix key plaintext aad cs =
    (if length key \<noteq> 32 then (Inl KeySizeRange, cs)
     else if AES_GCM_MAX_PLAINTEXT < length plaintext then (Inl DataLenRange, cs)
     else
       (case gcm_take_counter A key cs of
          (Inl e, cs1) \<Rightarrow> (Inl e, cs1)
        | (Inr count, cs1) \<Rightarrow>
           (case gcm_nonce_prefix A drbg_prefix key cs1 of
              (Inl e, cs2) \<Rightarrow> (Inl e, cs2)
            | (Inr prefix, cs2) \<Rightarrow>
               (let nonce = prefix @ u64_be count in
                case aes_gcm_seal A key nonce plaintext aad of
                  None \<Rightarrow> (Inl GeneralError, cs2)
                | Some ciphertext \<Rightarrow> (Inr (nonce @ ciphertext), cs2)))))"

definition aes_256_gcm_encrypt ::
  "aes_prims \<Rightarrow> bytes hsm_result \<Rightarrow> bytes \<Rightarrow> bytes \<Rightarrow> cipher_state \<Rightarrow> bytes hsm_result \<times> cipher_state" where
  "aes_256_gcm_encrypt A drbg_prefix key plaintext cs =
    (if length key \<noteq> 32 then (Inl KeySizeRange, cs)
     else if AES_GCM_MAX_PLAINTEXT < length plaintext then (Inl DataLenRange, cs)
     else
       (case gcm_take_counter A key cs of
          (Inl e, cs1) \<Rightarrow> (Inl e, cs1)
        | (Inr count, cs1) \<Rightarrow>
           (case gcm_nonce_prefix A drbg_prefix key cs1 of
              (Inl e, cs2) \<Rightarrow> (Inl e, cs2)
            | (Inr prefix, cs2) \<Rightarrow>
               (let nonce = prefix @ u64_be count in
                case aes_gcm_seal A key nonce plaintext [] of
                  None \<Rightarrow> (Inl GeneralError, cs2)
                | Some ciphertext \<Rightarrow> (Inr (nonce @ ciphertext), cs2)))))"

definition aes_256_gcm_decrypt_with_aad :: "aes_prims \<Rightarrow> bytes \<Rightarrow> bytes \<Rightarrow> bytes \<Rightarrow> bytes hsm_result" where
  "aes_256_gcm_decrypt_with_aad A key data aad =
    (if length key \<noteq> 32 then Inl KeySizeRange
     else if length data < 28 then Inl EncryptedDataInvalid
     else ok_or EncryptedDataInvalid (aes_gcm_open A key (take 12 data) (drop 12 data) aad))"

definition aes_256_gcm_decrypt :: "aes_prims \<Rightarrow> bytes \<Rightarrow> bytes \<Rightarrow> bytes hsm_result" where
  "aes_256_gcm_decrypt A key data =
    (if length key \<noteq> 32 then Inl KeySizeRange
     else if length data < 28 then Inl EncryptedDataInvalid
     else ok_or EncryptedDataInvalid (aes_gcm_open A key (take 12 data) (drop 12 data) []))"

section \<open>CBC and CTR\<close>

definition check_iv_reuse :: "aes_prims \<Rightarrow> bytes \<Rightarrow> bytes \<Rightarrow> cipher_state \<Rightarrow> unit hsm_result \<times> cipher_state" where
  "check_iv_reuse A key iv cs =
    (let key_hash = aes_key_id A key; tracker = cs_iv_tracker cs in
     if map_of tracker key_hash = None \<and> MAX_TRACKED_KEYS \<le> length tracker then (Inl GeneralError, cs)
     else
       let iv_set = (case map_of tracker key_hash of Some ivs \<Rightarrow> ivs | None \<Rightarrow> []);
           cs1 = cs\<lparr>cs_iv_tracker := AList.update key_hash iv_set tracker\<rparr>
       in if iv \<in> set iv_set then (Inl MechanismParamInvalid, cs1)
          else if MAX_TRACKED_IVS_PER_KEY \<le> length iv_set then (Inl GeneralError, cs1)
          else (Inr (), cs\<lparr>cs_iv_tracker := AList.update key_hash (iv # iv_set) tracker\<rparr>))"

definition zero_iv :: "bytes \<Rightarrow> bool" where
  "zero_iv iv \<longleftrightarrow> list_all (\<lambda>b. b = 0) iv"

definition aes_key_length_ok :: "bytes \<Rightarrow> bool" where
  "aes_key_length_ok key \<longleftrightarrow> length key = 16 \<or> length key = 24 \<or> length key = 32"

definition aes_cbc_encrypt ::
  "aes_prims \<Rightarrow> bytes \<Rightarrow> bytes \<Rightarrow> bytes \<Rightarrow> cipher_state \<Rightarrow> bytes hsm_result \<times> cipher_state" where
  "aes_cbc_encrypt A key iv plaintext cs =
    (if AES_CBC_CTR_MAX_PLAINTEXT < length plaintext then (Inl DataLenRange, cs)
     else if length iv \<noteq> 16 then (Inl MechanismParamInvalid, cs)
     else if zero_iv iv then (Inl MechanismParamInvalid, cs)
     else
       (case check_iv_reuse A key iv cs of
          (Inl e, cs1) \<Rightarrow> (Inl e, cs1)
        | (Inr _, cs1) \<Rightarrow>
            (if aes_key_length_ok key then Inr (aes_cbc_enc A key iv plaintext) else Inl KeySizeRange, cs1)))"

definition aes_cbc_decrypt :: "aes_prims \<Rightarrow> bytes \<Rightarrow> bytes \<Rightarrow> bytes \<Rightarrow> bytes hsm_result" where
  "aes_cbc_decrypt A key iv ciphertext =
    (if length iv \<noteq> 16 then Inl MechanismParamInvalid
     else if aes_key_length_ok key then ok_or EncryptedDataInvalid (aes_cbc_dec A key iv ciphertext)
     else Inl EncryptedDataInvalid)"

definition aes_ctr_validate :: "bytes \<Rightarrow> bytes \<Rightarrow> bytes \<Rightarrow> unit hsm_result" where
  "aes_ctr_validate key iv data =
    (if AES_CBC_CTR_MAX_PLAINTEXT < length data then Inl DataLenRange
     else if length iv \<noteq> 16 then Inl MechanismParamInvalid
     else if zero_iv iv then Inl MechanismParamInvalid
     else if \<not> aes_key_length_ok key then Inl KeySizeRange
     else Inr ())"

definition aes_ctr_apply :: "aes_prims \<Rightarrow> bytes \<Rightarrow> bytes \<Rightarrow> bytes \<Rightarrow> bytes hsm_result" where
  "aes_ctr_apply A key iv data = (if aes_key_length_ok key then Inr (aes_ctr_xor A key iv data) else Inl KeySizeRange)"

definition aes_ctr_encrypt ::
  "aes_prims \<Rightarrow> bytes \<Rightarrow> bytes \<Rightarrow> bytes \<Rightarrow> cipher_state \<Rightarrow> bytes hsm_result \<times> cipher_state" where
  "aes_ctr_encrypt A key iv plaintext cs =
    (case aes_ctr_validate key iv plaintext of
       Inl e \<Rightarrow> (Inl e, cs)
     | Inr _ \<Rightarrow>
        (case check_iv_reuse A key iv cs of
           (Inl e, cs1) \<Rightarrow> (Inl e, cs1)
         | (Inr _, cs1) \<Rightarrow> (aes_ctr_apply A key iv plaintext, cs1)))"

definition aes_ctr_decrypt :: "aes_prims \<Rightarrow> bytes \<Rightarrow> bytes \<Rightarrow> bytes \<Rightarrow> bytes hsm_result" where
  "aes_ctr_decrypt A key iv ciphertext =
    res_bind (aes_ctr_validate key iv ciphertext) (\<lambda>_. aes_ctr_apply A key iv ciphertext)"

definition aes_ctr_crypt :: "aes_prims \<Rightarrow> bytes \<Rightarrow> bytes \<Rightarrow> bytes \<Rightarrow> bytes hsm_result" where
  "aes_ctr_crypt A key iv data = res_bind (aes_ctr_validate key iv data) (\<lambda>_. aes_ctr_apply A key iv data)"

section \<open>Round trips\<close>

text \<open>Documented behaviour: opening a sealed text under the same key, nonce and associated data gives the
  plaintext and the sealed text carries a tag of 16 bytes; CBC decryption undoes CBC encryption; CTR
  is an involution for every key and vector.\<close>

definition aes_roundtrips :: "aes_prims \<Rightarrow> bool" where
  "aes_roundtrips A \<longleftrightarrow>
     (\<forall>k n p a c. aes_gcm_seal A k n p a = Some c \<longrightarrow> aes_gcm_open A k n c a = Some p \<and> 16 \<le> length c) \<and>
     (\<forall>k iv p. aes_cbc_dec A k iv (aes_cbc_enc A k iv p) = Some p) \<and>
     (\<forall>k iv p. aes_ctr_xor A k iv (aes_ctr_xor A k iv p) = p \<and> length (aes_ctr_xor A k iv p) = length p)"

lemma u64_be_length [simp]: "length (u64_be x) = 8"
  by (simp add: u64_be_def)

lemma u64_be_inject [simp]: "u64_be x = u64_be y \<longleftrightarrow> x = y"
  by (simp add: u64_be_def)

definition prefixes_ok :: "cipher_state \<Rightarrow> bool" where
  "prefixes_ok cs \<longleftrightarrow> (\<forall>(k, p) \<in> set (cs_gcm_prefixes cs). length p = 4)"

lemma gcm_encrypt_is_empty_aad:
  "aes_256_gcm_encrypt A d key pt cs = aes_256_gcm_encrypt_with_aad A d key pt [] cs"
  by (simp only: aes_256_gcm_encrypt_def aes_256_gcm_encrypt_with_aad_def)

section \<open>Nonces and vectors are not reused\<close>

text \<open>The runs of a token: encryptions in any order under any keys, resets at initialisation, removal of
  the state of a destroyed key, the reset of all state, and restarts of the process. The run collects
  the nonce of every GCM ciphertext that was returned, with the hash of its key, and the vectors of
  the CBC and CTR ciphertexts since the trackers were last cleared. A prefix drawn for a key has four
  bytes and is not one the key has been used with before.\<close>

definition fresh_prefix :: "bytes hsm_result \<Rightarrow> bytes \<Rightarrow> cipher_state \<Rightarrow> (bytes \<times> bytes) list \<Rightarrow> bool" where
  "fresh_prefix d kid cs used \<longleftrightarrow>
     (\<forall>p. map_of (cs_gcm_prefixes cs) kid = None \<longrightarrow> d = Inr p \<longrightarrow> length p = 4 \<and> (\<forall>n. (kid, n) \<in> set used \<longrightarrow> take 4 n \<noteq> p))"

definition emit :: "bytes \<Rightarrow> bytes hsm_result \<Rightarrow> (bytes \<times> bytes) list \<Rightarrow> (bytes \<times> bytes) list" where
  "emit kid r used = (case r of Inl _ \<Rightarrow> used | Inr out \<Rightarrow> (kid, take 12 out) # used)"

definition emit_iv :: "bytes \<Rightarrow> bytes \<Rightarrow> bytes hsm_result \<Rightarrow> (bytes \<times> bytes) list \<Rightarrow> (bytes \<times> bytes) list" where
  "emit_iv kid iv r ivs = (case r of Inl _ \<Rightarrow> ivs | Inr _ \<Rightarrow> (kid, iv) # ivs)"

inductive cipher_run :: "aes_prims \<Rightarrow> cipher_state \<Rightarrow> (bytes \<times> bytes) list \<Rightarrow> (bytes \<times> bytes) list \<Rightarrow> bool" for A where
  cr_start: "cipher_run A cipher_state_new [] []"
| cr_gcm: "cipher_run A cs used ivs \<Longrightarrow> fresh_prefix d (aes_key_id A key) cs used \<Longrightarrow>
    aes_256_gcm_encrypt A d key pt cs = (r, cs') \<Longrightarrow> cipher_run A cs' (emit (aes_key_id A key) r used) ivs"
| cr_gcm_aad: "cipher_run A cs used ivs \<Longrightarrow> fresh_prefix d (aes_key_id A key) cs used \<Longrightarrow>
    aes_256_gcm_encrypt_with_aad A d key pt aad cs = (r, cs') \<Longrightarrow> cipher_run A cs' (emit (aes_key_id A key) r used) ivs"
| cr_cbc: "cipher_run A cs used ivs \<Longrightarrow> aes_cbc_encrypt A key iv pt cs = (r, cs') \<Longrightarrow>
    cipher_run A cs' used (emit_iv (aes_key_id A key) iv r ivs)"
| cr_ctr: "cipher_run A cs used ivs \<Longrightarrow> aes_ctr_encrypt A key iv pt cs = (r, cs') \<Longrightarrow>
    cipher_run A cs' used (emit_iv (aes_key_id A key) iv r ivs)"
| cr_reset: "cipher_run A cs used ivs \<Longrightarrow> cipher_run A (reset_gcm_counters cs) used []"
| cr_remove: "cipher_run A cs used ivs \<Longrightarrow>
    cipher_run A (remove_gcm_counter A key cs) used (filter (\<lambda>(kid, iv). kid \<noteq> aes_key_id A key) ivs)"
| cr_force: "cipher_run A cs used ivs \<Longrightarrow> cipher_run A (force_reset_all_counters cs) used []"
| cr_restart: "cipher_run A cs used ivs \<Longrightarrow> cipher_run A cipher_state_new used []"

definition ctr :: "cipher_state \<Rightarrow> bytes \<Rightarrow> u64" where
  "ctr cs kid = (case map_of (cs_gcm_counters cs) kid of Some n \<Rightarrow> n | None \<Rightarrow> 0)"

definition gcm_inv :: "cipher_state \<Rightarrow> (bytes \<times> bytes) list \<Rightarrow> bool" where
  "gcm_inv cs used \<longleftrightarrow> distinct used \<and> (\<forall>kid p. map_of (cs_gcm_prefixes cs) kid = Some p \<longrightarrow> length p = 4) \<and>
     (\<forall>kid n. (kid, n) \<in> set used \<longrightarrow> (\<exists>p c. length p = 4 \<and> n = p @ u64_be c \<and> c < GCM_MAX_RANDOM_NONCE_ENCRYPTIONS \<and>
       (map_of (cs_gcm_prefixes cs) kid = Some p \<longrightarrow> c < ctr cs kid)))"

lemma nonce_parts: "length p = 4 \<Longrightarrow> length p' = 4 \<Longrightarrow> p @ u64_be c = p' @ u64_be c' \<longleftrightarrow> p = p' \<and> c = c'"
  by simp

lemma below_limit_less: "(c :: u64) < GCM_MAX_RANDOM_NONCE_ENCRYPTIONS \<Longrightarrow> c < c + 1"
  using unat_Suc_less [of c GCM_MAX_RANDOM_NONCE_ENCRYPTIONS] by (simp add: word_less_nat_alt)

lemma take_counter_spec:
  assumes "gcm_take_counter A key cs = (r, cs1)"
  shows "cs_gcm_prefixes cs1 = cs_gcm_prefixes cs" "cs_iv_tracker cs1 = cs_iv_tracker cs"
    "ctr cs kid \<le> ctr cs1 kid"
    "r = Inr c \<Longrightarrow> c = ctr cs (aes_key_id A key) \<and> c < GCM_MAX_RANDOM_NONCE_ENCRYPTIONS \<and> ctr cs1 (aes_key_id A key) = c + 1"
proof -
  let ?k = "aes_key_id A key" and ?c = "ctr cs (aes_key_id A key)"
  have cs1: "cs1 = cs\<lparr>cs_gcm_counters := AList.update ?k (if GCM_MAX_RANDOM_NONCE_ENCRYPTIONS \<le> ?c then ?c else ?c + 1) (cs_gcm_counters cs)\<rparr>"
    and r: "r = (if GCM_MAX_RANDOM_NONCE_ENCRYPTIONS \<le> ?c then Inl GeneralError else Inr ?c)"
    using assms by (auto simp: gcm_take_counter_def ctr_def Let_def split: if_splits)
  show "cs_gcm_prefixes cs1 = cs_gcm_prefixes cs" "cs_iv_tracker cs1 = cs_iv_tracker cs" by (simp_all add: cs1)
  have "?c \<le> ?c + 1" if "\<not> GCM_MAX_RANDOM_NONCE_ENCRYPTIONS \<le> ?c"
    using below_limit_less [of ?c] that by (meson less_imp_le not_le)
  then have "ctr cs kid \<le> (if kid = ?k then if GCM_MAX_RANDOM_NONCE_ENCRYPTIONS \<le> ?c then ?c else ?c + 1 else ctr cs kid)"
    by auto
  also have "\<dots> = ctr cs1 kid" unfolding cs1 by (simp add: ctr_def)
  finally show "ctr cs kid \<le> ctr cs1 kid" .
  show "r = Inr c \<Longrightarrow> c = ?c \<and> c < GCM_MAX_RANDOM_NONCE_ENCRYPTIONS \<and> ctr cs1 ?k = c + 1"
    using r by (auto simp: cs1 ctr_def split: if_splits)
qed

lemma gcm_inv_weaken:
  assumes "gcm_inv cs used" "\<And>kid p. map_of (cs_gcm_prefixes cs1) kid = Some p \<Longrightarrow>
      map_of (cs_gcm_prefixes cs) kid = Some p \<and> ctr cs kid \<le> ctr cs1 kid"
  shows "gcm_inv cs1 used"
  unfolding gcm_inv_def
proof (intro conjI allI impI)
  fix kid n assume "(kid, n) \<in> set used"
  then obtain p c where pc: "length p = 4" "n = p @ u64_be c" "c < GCM_MAX_RANDOM_NONCE_ENCRYPTIONS"
    "map_of (cs_gcm_prefixes cs) kid = Some p \<longrightarrow> c < ctr cs kid" using assms(1) unfolding gcm_inv_def by blast
  have "map_of (cs_gcm_prefixes cs1) kid = Some p \<longrightarrow> c < ctr cs1 kid"
    using assms(2) [of kid p] pc(4) by (meson order.strict_trans2)
  then show "\<exists>p c. length p = 4 \<and> n = p @ u64_be c \<and> c < GCM_MAX_RANDOM_NONCE_ENCRYPTIONS \<and>
      (map_of (cs_gcm_prefixes cs1) kid = Some p \<longrightarrow> c < ctr cs1 kid)" using pc(1-3) by blast
qed (use assms in \<open>auto simp: gcm_inv_def\<close>)

lemma nonce_prefix_spec:
  assumes "gcm_inv cs used" "fresh_prefix d (aes_key_id A key) cs used" "gcm_nonce_prefix A d key cs = (r, cs1)"
  shows "gcm_inv cs1 used" "ctr cs1 = ctr cs" "cs_iv_tracker cs1 = cs_iv_tracker cs"
    "r = Inr p \<Longrightarrow> map_of (cs_gcm_prefixes cs1) (aes_key_id A key) = Some p \<and>
       (map_of (cs_gcm_prefixes cs) (aes_key_id A key) = None \<longrightarrow> (\<forall>n. (aes_key_id A key, n) \<in> set used \<longrightarrow> take 4 n \<noteq> p))"
proof -
  show "ctr cs1 = ctr cs" "cs_iv_tracker cs1 = cs_iv_tracker cs"
    using assms(3) by (auto simp: gcm_nonce_prefix_def ctr_def fun_eq_iff Let_def split: option.splits sum.splits)
  show "r = Inr p \<Longrightarrow> map_of (cs_gcm_prefixes cs1) (aes_key_id A key) = Some p \<and>
       (map_of (cs_gcm_prefixes cs) (aes_key_id A key) = None \<longrightarrow> (\<forall>n. (aes_key_id A key, n) \<in> set used \<longrightarrow> take 4 n \<noteq> p))"
    using assms(2,3) by (auto simp: gcm_nonce_prefix_def fresh_prefix_def Let_def split: option.splits sum.splits)
  show "gcm_inv cs1 used"
  proof (cases "cs1 = cs")
    case False
    then obtain q where q: "map_of (cs_gcm_prefixes cs) (aes_key_id A key) = None" "d = Inr q"
      "cs1 = cs\<lparr>cs_gcm_prefixes := AList.update (aes_key_id A key) q (cs_gcm_prefixes cs)\<rparr>"
      using assms(3) by (auto simp: gcm_nonce_prefix_def Let_def split: option.splits sum.splits)
    have f: "length q = 4" "\<And>n. (aes_key_id A key, n) \<in> set used \<Longrightarrow> take 4 n \<noteq> q"
      using assms(2) q(1,2) by (auto simp: fresh_prefix_def)
    have c: "ctr cs1 = ctr cs" using q(3) by (simp add: ctr_def fun_eq_iff)
    show ?thesis
      unfolding gcm_inv_def c
    proof (intro conjI allI impI)
      fix kid n assume u: "(kid, n) \<in> set used"
      then obtain p c where pc: "length p = 4" "n = p @ u64_be c" "c < GCM_MAX_RANDOM_NONCE_ENCRYPTIONS"
        "map_of (cs_gcm_prefixes cs) kid = Some p \<longrightarrow> c < ctr cs kid" using assms(1) unfolding gcm_inv_def by blast
      have "kid = aes_key_id A key \<longrightarrow> q \<noteq> p" using f(2) [of n] u pc(1,2) by auto
      then show "\<exists>p c. length p = 4 \<and> n = p @ u64_be c \<and> c < GCM_MAX_RANDOM_NONCE_ENCRYPTIONS \<and>
          (map_of (cs_gcm_prefixes cs1) kid = Some p \<longrightarrow> c < ctr cs kid)"
        using pc q(3) by (intro exI [of _ p] exI [of _ c]) auto
    qed (use assms(1) f(1) q(3) in \<open>auto simp: gcm_inv_def split: if_splits\<close>)
  qed (use assms(1) in simp)
qed

lemma gcm_step_inv:
  assumes "gcm_inv cs used" "fresh_prefix d (aes_key_id A key) cs used"
    "aes_256_gcm_encrypt_with_aad A d key pt aad cs = (r, cs')"
  shows "gcm_inv cs' (emit (aes_key_id A key) r used) \<and> cs_iv_tracker cs' = cs_iv_tracker cs"
proof (cases "cs' = cs \<and> (\<exists>e. r = Inl e)")
  case True
  then show ?thesis using assms(1) by (auto simp: emit_def)
next
  case False
  let ?k = "aes_key_id A key"
  obtain r1 cs1 where t: "gcm_take_counter A key cs = (r1, cs1)" by force
  note t' = take_counter_spec [OF t]
  have inv1: "gcm_inv cs1 used" using t'(1,3) by (auto intro: gcm_inv_weaken [OF assms(1)])
  have fr: "fresh_prefix d ?k cs1 used" using assms(2) t'(1) by (simp add: fresh_prefix_def)
  obtain r2 cs2 where n: "gcm_nonce_prefix A d key cs1 = (r2, cs2)" by force
  note n' = nonce_prefix_spec [OF inv1 fr n]
  have ok: "length key = 32" "\<not> AES_GCM_MAX_PLAINTEXT < length pt"
    using assms(3) False by (auto simp: aes_256_gcm_encrypt_with_aad_def split: if_splits)
  have eq: "(r, cs') = (case r1 of Inl e \<Rightarrow> (Inl e, cs1) | Inr c \<Rightarrow>
      (case r2 of Inl e \<Rightarrow> (Inl e, cs2) | Inr p \<Rightarrow>
        (case aes_gcm_seal A key (p @ u64_be c) pt aad of None \<Rightarrow> (Inl GeneralError, cs2)
         | Some ct \<Rightarrow> (Inr ((p @ u64_be c) @ ct), cs2))))"
    unfolding assms(3) [symmetric] aes_256_gcm_encrypt_with_aad_def t n Let_def prod.case
    using ok by (simp add: n split: sum.split)
  consider (counter) e where "r = Inl e" "cs' = cs1" | (sealed) e where "r = Inl e" "cs' = cs2"
    | (finished) c p ct where "r = Inr ((p @ u64_be c) @ ct)" "cs' = cs2" "r1 = Inr c" "r2 = Inr p"
    using eq by (auto split: sum.splits option.splits)
  then show ?thesis
  proof cases
    case finished
    note c = t'(4) [OF finished(3)] and p = n'(4) [OF finished(4)]
    have len: "length p = 4" using n'(1) p unfolding gcm_inv_def by blast
    have em: "emit ?k r used = (?k, p @ u64_be c) # used" using finished(1) len by (simp add: emit_def)
    have below: "c' < c" if "(?k, p @ u64_be c') \<in> set used" for c'
    proof -
      have "map_of (cs_gcm_prefixes cs) ?k = Some p"
        using p that len n t'(1) by (auto simp: gcm_nonce_prefix_def finished(4) Let_def split: option.splits)
      then show ?thesis using assms(1) that len c unfolding gcm_inv_def by (metis nonce_parts)
    qed
    have "c < ctr cs2 ?k" using n'(2) c below_limit_less [of c] by (metis (no_types))
    then have "gcm_inv cs2 ((?k, p @ u64_be c) # used)"
      using n'(1) below len c unfolding gcm_inv_def by auto
    then show ?thesis using finished(2) em t'(2) n'(3) by simp
  qed (use inv1 n' t' in \<open>auto simp: emit_def\<close>)
qed

definition iv_inv :: "cipher_state \<Rightarrow> (bytes \<times> bytes) list \<Rightarrow> bool" where
  "iv_inv cs ivs \<longleftrightarrow> distinct ivs \<and>
     (\<forall>kid iv. (kid, iv) \<in> set ivs \<longrightarrow> (\<exists>l. map_of (cs_iv_tracker cs) kid = Some l \<and> iv \<in> set l))"

lemma check_iv_spec:
  assumes "iv_inv cs ivs" "check_iv_reuse A key iv cs = (r, cs1)"
  shows "iv_inv cs1 ivs \<and> (r = Inr () \<longrightarrow> iv_inv cs1 ((aes_key_id A key, iv) # ivs)) \<and>
    cs_gcm_prefixes cs1 = cs_gcm_prefixes cs \<and> ctr cs1 = ctr cs"
  using assms by (fastforce simp: check_iv_reuse_def iv_inv_def Let_def ctr_def split: if_splits option.splits)

lemma iv_step_inv:
  assumes "iv_inv cs ivs" "aes_cbc_encrypt A key iv pt cs = (r, cs') \<or> aes_ctr_encrypt A key iv pt cs = (r, cs')"
  shows "iv_inv cs' (emit_iv (aes_key_id A key) iv r ivs) \<and> cs_gcm_prefixes cs' = cs_gcm_prefixes cs \<and> ctr cs' = ctr cs"
proof -
  obtain r1 cs1 where c: "check_iv_reuse A key iv cs = (r1, cs1)" by force
  have "(cs' = cs \<or> cs' = cs1) \<and> ((\<exists>e. r = Inl e) \<or> cs' = cs1 \<and> r1 = Inr ())"
    using assms(2) c
    by (auto simp: aes_cbc_encrypt_def aes_ctr_encrypt_def split: if_splits sum.splits)
  then show ?thesis using check_iv_spec [OF assms(1) c] assms(1) by (auto simp: emit_iv_def split: sum.splits)
qed

lemma cipher_run_inv:
  assumes "cipher_run A cs used ivs"
  shows "gcm_inv cs used \<and> iv_inv cs ivs"
  using assms
proof (induction rule: cipher_run.induct)
  case (cr_gcm cs used ivs d key pt r cs')
  then show ?case using gcm_step_inv [of cs used d A key pt "[]" r cs'] by (auto simp: gcm_encrypt_is_empty_aad iv_inv_def)
next
  case (cr_gcm_aad cs used ivs d key pt aad r cs')
  then show ?case using gcm_step_inv [of cs used d A key pt aad r cs'] by (auto simp: iv_inv_def)
next
  case (cr_cbc cs used ivs key iv pt r cs')
  then show ?case using iv_step_inv [of cs ivs A key iv pt r cs'] gcm_inv_weaken [of cs used cs'] by auto
next
  case (cr_ctr cs used ivs key iv pt r cs')
  then show ?case using iv_step_inv [of cs ivs A key iv pt r cs'] gcm_inv_weaken [of cs used cs'] by auto
next
  case (cr_reset cs used ivs)
  then show ?case
    by (auto simp: reset_gcm_counters_def reset_iv_trackers_def iv_inv_def ctr_def intro: gcm_inv_weaken)
next
  case (cr_remove cs used ivs key)
  have m: "map_of (cs_gcm_prefixes (remove_gcm_counter A key cs)) = (map_of (cs_gcm_prefixes cs))(aes_key_id A key := None)"
    "ctr (remove_gcm_counter A key cs) = (ctr cs)(aes_key_id A key := 0)"
    "map_of (cs_iv_tracker (remove_gcm_counter A key cs)) = (map_of (cs_iv_tracker cs))(aes_key_id A key := None)"
    by (auto simp: remove_gcm_counter_def Let_def ctr_def fun_eq_iff)
  have "gcm_inv (remove_gcm_counter A key cs) used"
    by (rule gcm_inv_weaken [OF conjunct1 [OF cr_remove.IH]]) (simp add: m split: if_splits)
  moreover have "iv_inv (remove_gcm_counter A key cs) (filter (\<lambda>(kid, iv). kid \<noteq> aes_key_id A key) ivs)"
    using cr_remove.IH unfolding iv_inv_def m by simp
  ultimately show ?case ..
next
  case (cr_force cs used ivs)
  then show ?case
    by (auto simp: force_reset_all_counters_def reset_iv_trackers_def iv_inv_def intro: gcm_inv_weaken)
next
  case (cr_restart cs used ivs)
  then show ?case by (auto simp: cipher_state_new_def iv_inv_def intro: gcm_inv_weaken)
qed (simp add: gcm_inv_def iv_inv_def cipher_state_new_def)


definition plain_aes :: aes_prims where
  "plain_aes = \<lparr>aes_key_id = id, aes_gcm_seal = (\<lambda>k n p a. Some (p @ replicate 16 0)),
     aes_gcm_open = (\<lambda>k n c a. Some (take (length c - 16) c)), aes_cbc_enc = (\<lambda>k iv p. p), aes_cbc_dec = (\<lambda>k iv c. Some c),
     aes_ctr_xor = (\<lambda>k iv p. p)\<rparr>"

lemma plain_aes_roundtrips: "aes_roundtrips plain_aes"
  by (auto simp: aes_roundtrips_def plain_aes_def)


end
