(* ===== verification/Crypto_Backend.thy ===== *)
theory Crypto_Backend
  imports Mechanisms Objects Symmetric_Ciphers
begin

text \<open>
  The interface between the entry points and a cryptographic backend (\<open>src/src/crypto/backend.rs\<close>):
  the methods of the \<open>CryptoBackend\<close> trait that the entry points call, in three groups. A backend is
  a value of these records, as a trait object is in the source; the AES methods work on the
  process-wide cipher state. Randomness of a method (the nonce of an ECDSA signature, a generated
  key) is the choice of the backend value: two calls may see different values.

  The second part is the dispatch of signatures to the backend in
  \<open>src/src/pkcs11_abi/functions.rs\<close> and the pairwise consistency tests of
  \<open>src/src/crypto/pairwise_test.rs\<close>.
\<close>

section \<open>The methods of a backend\<close>

datatype oaep_hash = OaepSha256 | OaepSha384 | OaepSha512

record signing_ops =
  sg_rsa_pkcs1v15_sign :: "bytes \<Rightarrow> bytes \<Rightarrow> hash_alg option \<Rightarrow> bytes hsm_result"
  sg_rsa_pkcs1v15_sign_with_handle :: "u64 \<Rightarrow> u64 \<Rightarrow> bytes \<Rightarrow> bytes \<Rightarrow> hash_alg option \<Rightarrow> bytes hsm_result"
  sg_rsa_pkcs1v15_verify :: "bytes \<Rightarrow> bytes \<Rightarrow> bytes \<Rightarrow> bytes \<Rightarrow> hash_alg option \<Rightarrow> bool hsm_result"
  sg_rsa_pkcs1v15_verify_with_handle ::
    "u64 \<Rightarrow> u64 \<Rightarrow> bytes \<Rightarrow> bytes \<Rightarrow> bytes \<Rightarrow> bytes \<Rightarrow> hash_alg option \<Rightarrow> bool hsm_result"
  sg_rsa_pss_sign_with_handle :: "u64 \<Rightarrow> u64 \<Rightarrow> bytes \<Rightarrow> bytes \<Rightarrow> hash_alg \<Rightarrow> bytes hsm_result"
  sg_rsa_pss_verify_with_handle :: "u64 \<Rightarrow> u64 \<Rightarrow> bytes \<Rightarrow> bytes \<Rightarrow> bytes \<Rightarrow> bytes \<Rightarrow> hash_alg \<Rightarrow> bool hsm_result"
  sg_ecdsa_p256_sign :: "bytes \<Rightarrow> bytes \<Rightarrow> bytes hsm_result"
  sg_ecdsa_p256_verify :: "bytes \<Rightarrow> bytes \<Rightarrow> bytes \<Rightarrow> bool hsm_result"
  sg_ecdsa_p384_sign :: "bytes \<Rightarrow> bytes \<Rightarrow> bytes hsm_result"
  sg_ecdsa_p384_verify :: "bytes \<Rightarrow> bytes \<Rightarrow> bytes \<Rightarrow> bool hsm_result"
  sg_ed25519_sign :: "bytes \<Rightarrow> bytes \<Rightarrow> bytes hsm_result"
  sg_ed25519_verify :: "bytes \<Rightarrow> bytes \<Rightarrow> bytes \<Rightarrow> bool hsm_result"
  sg_ml_dsa_sign :: "bytes \<Rightarrow> bytes \<Rightarrow> ml_dsa_variant \<Rightarrow> bytes hsm_result"
  sg_ml_dsa_verify :: "bytes \<Rightarrow> bytes \<Rightarrow> bytes \<Rightarrow> ml_dsa_variant \<Rightarrow> bool hsm_result"
  sg_slh_dsa_sign :: "bytes \<Rightarrow> bytes \<Rightarrow> slh_dsa_variant \<Rightarrow> bytes hsm_result"
  sg_slh_dsa_verify :: "bytes \<Rightarrow> bytes \<Rightarrow> bytes \<Rightarrow> slh_dsa_variant \<Rightarrow> bool hsm_result"
  sg_hybrid_sign :: "bytes \<Rightarrow> bytes \<Rightarrow> bytes \<Rightarrow> bytes hsm_result"
  sg_hybrid_verify :: "bytes \<Rightarrow> bytes \<Rightarrow> bytes \<Rightarrow> bytes \<Rightarrow> bool hsm_result"

record prehash_ops =
  ph_rsa_pkcs1v15_sign :: "u64 \<Rightarrow> u64 \<Rightarrow> bytes \<Rightarrow> bytes \<Rightarrow> hash_alg \<Rightarrow> bytes hsm_result"
  ph_rsa_pkcs1v15_verify :: "u64 \<Rightarrow> u64 \<Rightarrow> bytes \<Rightarrow> bytes \<Rightarrow> bytes \<Rightarrow> bytes \<Rightarrow> hash_alg \<Rightarrow> bool hsm_result"
  ph_rsa_pss_sign :: "u64 \<Rightarrow> u64 \<Rightarrow> bytes \<Rightarrow> bytes \<Rightarrow> hash_alg \<Rightarrow> bytes hsm_result"
  ph_rsa_pss_verify :: "u64 \<Rightarrow> u64 \<Rightarrow> bytes \<Rightarrow> bytes \<Rightarrow> bytes \<Rightarrow> bytes \<Rightarrow> hash_alg \<Rightarrow> bool hsm_result"
  ph_ecdsa_p256_sign :: "bytes \<Rightarrow> bytes \<Rightarrow> bytes hsm_result"
  ph_ecdsa_p256_verify :: "bytes \<Rightarrow> bytes \<Rightarrow> bytes \<Rightarrow> bool hsm_result"
  ph_ecdsa_p384_sign :: "bytes \<Rightarrow> bytes \<Rightarrow> bytes hsm_result"
  ph_ecdsa_p384_verify :: "bytes \<Rightarrow> bytes \<Rightarrow> bytes \<Rightarrow> bool hsm_result"

record crypto_backend =
  cb_signing :: signing_ops
  cb_prehash :: prehash_ops
  cb_aes_256_gcm_encrypt :: "bytes \<Rightarrow> bytes \<Rightarrow> cipher_state \<Rightarrow> bytes hsm_result \<times> cipher_state"
  cb_aes_256_gcm_decrypt :: "bytes \<Rightarrow> bytes \<Rightarrow> bytes hsm_result"
  cb_aes_cbc_encrypt :: "bytes \<Rightarrow> bytes \<Rightarrow> bytes \<Rightarrow> cipher_state \<Rightarrow> bytes hsm_result \<times> cipher_state"
  cb_aes_cbc_decrypt :: "bytes \<Rightarrow> bytes \<Rightarrow> bytes \<Rightarrow> bytes hsm_result"
  cb_aes_ctr_encrypt :: "bytes \<Rightarrow> bytes \<Rightarrow> bytes \<Rightarrow> cipher_state \<Rightarrow> bytes hsm_result \<times> cipher_state"
  cb_aes_ctr_decrypt :: "bytes \<Rightarrow> bytes \<Rightarrow> bytes \<Rightarrow> bytes hsm_result"
  cb_rsa_oaep_encrypt_with_handle :: "u64 \<Rightarrow> u64 \<Rightarrow> bytes \<Rightarrow> bytes \<Rightarrow> bytes \<Rightarrow> oaep_hash \<Rightarrow> bytes hsm_result"
  cb_rsa_oaep_decrypt_with_handle :: "u64 \<Rightarrow> u64 \<Rightarrow> bytes \<Rightarrow> bytes \<Rightarrow> oaep_hash \<Rightarrow> bytes hsm_result"
  cb_generate_aes_key :: "nat \<Rightarrow> bool \<Rightarrow> bytes hsm_result"
  cb_generate_rsa_key_pair :: "u32 \<Rightarrow> bool \<Rightarrow> (bytes \<times> bytes \<times> bytes) hsm_result"
  cb_generate_ec_p256_key_pair :: "(bytes \<times> bytes) hsm_result"
  cb_generate_ec_p384_key_pair :: "(bytes \<times> bytes) hsm_result"
  cb_generate_ed25519_key_pair :: "(bytes \<times> bytes) hsm_result"
  cb_ml_kem_keygen :: "ml_kem_variant \<Rightarrow> (bytes \<times> bytes) hsm_result"
  cb_ml_dsa_keygen :: "ml_dsa_variant \<Rightarrow> (bytes \<times> bytes) hsm_result"
  cb_slh_dsa_keygen :: "slh_dsa_variant \<Rightarrow> (bytes \<times> bytes) hsm_result"
  cb_compute_digest :: "ck_ulong \<Rightarrow> bytes \<Rightarrow> bytes hsm_result"
  cb_create_hasher :: "ck_ulong \<Rightarrow> hasher hsm_result"
  cb_hasher_output_len :: "hasher \<Rightarrow> nat"
  cb_hasher_finalize :: "hasher \<Rightarrow> bytes"
  cb_aes_key_wrap :: "bytes \<Rightarrow> bytes \<Rightarrow> bool \<Rightarrow> bytes hsm_result"
  cb_aes_key_unwrap :: "bytes \<Rightarrow> bytes \<Rightarrow> bool \<Rightarrow> bytes hsm_result"
  cb_ecdh_p256 :: "bytes \<Rightarrow> bytes \<Rightarrow> nat option \<Rightarrow> bytes hsm_result"
  cb_ecdh_p384 :: "bytes \<Rightarrow> bytes \<Rightarrow> nat option \<Rightarrow> bytes hsm_result"
  cb_ml_kem_encapsulate :: "bytes \<Rightarrow> ml_kem_variant \<Rightarrow> (bytes \<times> bytes) hsm_result"
  cb_ml_kem_decapsulate :: "bytes \<Rightarrow> bytes \<Rightarrow> ml_kem_variant \<Rightarrow> bytes hsm_result"

section \<open>Key sizes and mechanism parameters\<close>

definition saturating_mul32 :: "u32 \<Rightarrow> u32 \<Rightarrow> u32" where
  "saturating_mul32 a b = (if unat a * unat b < 2 ^ 32 then a * b else - 1)"

definition stored_key_bits :: "stored_object \<Rightarrow> u32 option" where
  "stored_key_bits obj =
    (case ob_modulus_bits obj of
       Some bits \<Rightarrow> Some (ucast bits)
     | None \<Rightarrow> map_option (\<lambda>bytes. saturating_mul32 (ucast bytes) 8) (ob_value_len obj))"

definition parse_oaep_hash :: "bytes \<Rightarrow> ck_rv + oaep_hash" where
  "parse_oaep_hash mech_param =
    (if length mech_param \<ge> 8 then
       (let hash_mech = le_word (take 8 mech_param) :: ck_ulong in
        if hash_mech = CKM_SHA256 then Inr OaepSha256
        else if hash_mech = CKM_SHA384 then Inr OaepSha384
        else if hash_mech = CKM_SHA512 then Inr OaepSha512
        else Inl CKR_MECHANISM_PARAM_INVALID)
     else Inl CKR_MECHANISM_PARAM_INVALID)"

definition P384_OID :: bytes where
  "P384_OID = [0x06, 0x05, 0x2B, 0x81, 0x04, 0x00, 0x22]"

fun has_window :: "bytes \<Rightarrow> bytes \<Rightarrow> bool" where
  "has_window pat [] = (pat = [])"
| "has_window pat (b # bs) = (take (length pat) (b # bs) = pat \<or> has_window pat bs)"

definition is_p384_params :: "bytes \<Rightarrow> bool" where
  "is_p384_params ec_params = (ec_params = P384_OID \<or> has_window P384_OID ec_params)"

definition opt_bytes :: "bytes option \<Rightarrow> bytes" where
  "opt_bytes x = (case x of Some bs \<Rightarrow> bs | None \<Rightarrow> [])"

section \<open>Signature dispatch\<close>

definition hybrid_point :: "stored_object \<Rightarrow> bytes" where
  "hybrid_point obj =
    (case map_of (ob_extra_attributes obj) CKA_EC_POINT of
       Some v \<Rightarrow> v
     | None \<Rightarrow> opt_bytes (ob_ec_point obj))"

definition sign_single_shot ::
  "crypto_backend \<Rightarrow> u64 \<Rightarrow> u64 \<Rightarrow> ck_ulong \<Rightarrow> bytes \<Rightarrow> bytes \<Rightarrow> stored_object \<Rightarrow> bytes hsm_result" where
  "sign_single_shot B slot_id key_handle mechanism key_bytes data obj =
    (let S = cb_signing B in
     if is_pss_mechanism mechanism then
       res_bind (pss_mechanism_to_hash mechanism)
         (\<lambda>hash. sg_rsa_pss_sign_with_handle S slot_id key_handle key_bytes data hash)
     else if is_ecdsa_mechanism mechanism then
       (if ob_key_type obj = Some CKK_EC then
          if is_p384_params (opt_bytes (ob_ec_params obj)) then sg_ecdsa_p384_sign S key_bytes data
          else sg_ecdsa_p256_sign S key_bytes data
        else Inl KeyTypeInconsistent)
     else if is_eddsa_mechanism mechanism then sg_ed25519_sign S key_bytes data
     else
       (case mechanism_to_ml_dsa_variant mechanism of
          Some variant \<Rightarrow> sg_ml_dsa_sign S key_bytes data variant
        | None \<Rightarrow>
           (case mechanism_to_slh_dsa_variant mechanism of
              Some variant \<Rightarrow> sg_slh_dsa_sign S key_bytes data variant
            | None \<Rightarrow>
               if is_hybrid_mechanism mechanism then sg_hybrid_sign S key_bytes (hybrid_point obj) data
               else sg_rsa_pkcs1v15_sign_with_handle S slot_id key_handle key_bytes data
                      (mechanism_to_hash mechanism))))"

definition sign_prehashed ::
  "crypto_backend \<Rightarrow> u64 \<Rightarrow> u64 \<Rightarrow> ck_ulong \<Rightarrow> bytes \<Rightarrow> bytes \<Rightarrow> stored_object \<Rightarrow> bytes hsm_result" where
  "sign_prehashed B slot_id key_handle mechanism key_bytes digest obj =
    (let P = cb_prehash B in
     if is_pss_mechanism mechanism then
       res_bind (pss_mechanism_to_hash mechanism)
         (\<lambda>hash. ph_rsa_pss_sign P slot_id key_handle key_bytes digest hash)
     else if is_ecdsa_mechanism mechanism then
       (if ob_key_type obj = Some CKK_EC then
          if is_p384_params (opt_bytes (ob_ec_params obj)) then ph_ecdsa_p384_sign P key_bytes digest
          else ph_ecdsa_p256_sign P key_bytes digest
        else Inl KeyTypeInconsistent)
     else
       res_bind (ok_or MechanismInvalid (mechanism_to_hash mechanism))
         (\<lambda>hash_alg. ph_rsa_pkcs1v15_sign P slot_id key_handle key_bytes digest hash_alg))"

definition rsa_public :: "stored_object \<Rightarrow> (bytes \<times> bytes) hsm_result" where
  "rsa_public obj =
    res_bind (ok_or KeyHandleInvalid (ob_modulus obj))
      (\<lambda>modulus. res_map (Pair modulus) (ok_or KeyHandleInvalid (ob_public_exponent obj)))"

definition verify_single_shot ::
  "crypto_backend \<Rightarrow> u64 \<Rightarrow> u64 \<Rightarrow> ck_ulong \<Rightarrow> bytes \<Rightarrow> bytes \<Rightarrow> stored_object \<Rightarrow> bool hsm_result" where
  "verify_single_shot B slot_id key_handle mechanism data signature obj =
    (let S = cb_signing B in
     if is_pss_mechanism mechanism then
       res_bind (rsa_public obj) (\<lambda>(modulus, pub_exp).
         res_bind (pss_mechanism_to_hash mechanism)
           (\<lambda>hash. sg_rsa_pss_verify_with_handle S slot_id key_handle modulus pub_exp data signature hash))
     else if is_ecdsa_mechanism mechanism then
       res_bind (ok_or KeyHandleInvalid (ob_ec_point obj)) (\<lambda>ec_point.
         if is_p384_params (opt_bytes (ob_ec_params obj)) then sg_ecdsa_p384_verify S ec_point data signature
         else sg_ecdsa_p256_verify S ec_point data signature)
     else if is_eddsa_mechanism mechanism then
       res_bind (ok_or KeyHandleInvalid (case ob_public_key_data obj of Some k \<Rightarrow> Some k | None \<Rightarrow> ob_ec_point obj))
         (\<lambda>pub_key. sg_ed25519_verify S pub_key data signature)
     else
       (case mechanism_to_ml_dsa_variant mechanism of
          Some variant \<Rightarrow>
            res_bind (ok_or KeyHandleInvalid (ob_public_key_data obj))
              (\<lambda>pub_key. sg_ml_dsa_verify S pub_key data signature variant)
        | None \<Rightarrow>
           (case mechanism_to_slh_dsa_variant mechanism of
              Some variant \<Rightarrow>
                res_bind (ok_or KeyHandleInvalid (ob_public_key_data obj))
                  (\<lambda>pub_key. sg_slh_dsa_verify S pub_key data signature variant)
            | None \<Rightarrow>
               if is_hybrid_mechanism mechanism then
                 res_bind (ok_or KeyHandleInvalid (ob_public_key_data obj))
                   (\<lambda>ml_dsa_vk. sg_hybrid_verify S ml_dsa_vk (hybrid_point obj) data signature)
               else
                 res_bind (rsa_public obj) (\<lambda>(modulus, pub_exp).
                   sg_rsa_pkcs1v15_verify_with_handle S slot_id key_handle modulus pub_exp data signature
                     (mechanism_to_hash mechanism)))))"

definition verify_prehashed ::
  "crypto_backend \<Rightarrow> u64 \<Rightarrow> u64 \<Rightarrow> ck_ulong \<Rightarrow> bytes \<Rightarrow> bytes \<Rightarrow> stored_object \<Rightarrow> bool hsm_result" where
  "verify_prehashed B slot_id key_handle mechanism digest signature obj =
    (let P = cb_prehash B in
     if is_pss_mechanism mechanism then
       res_bind (rsa_public obj) (\<lambda>(modulus, pub_exp).
         res_bind (pss_mechanism_to_hash mechanism)
           (\<lambda>hash. ph_rsa_pss_verify P slot_id key_handle modulus pub_exp digest signature hash))
     else if is_ecdsa_mechanism mechanism then
       res_bind (ok_or KeyHandleInvalid (ob_ec_point obj)) (\<lambda>ec_point.
         if is_p384_params (opt_bytes (ob_ec_params obj)) then ph_ecdsa_p384_verify P ec_point digest signature
         else ph_ecdsa_p256_verify P ec_point digest signature)
     else
       res_bind (rsa_public obj) (\<lambda>(modulus, pub_exp).
         res_bind (ok_or MechanismInvalid (mechanism_to_hash mechanism))
           (\<lambda>hash_alg. ph_rsa_pkcs1v15_verify P slot_id key_handle modulus pub_exp digest signature hash_alg)))"

section \<open>Pairwise consistency tests\<close>

definition PAIRWISE_TEST_DATA :: bytes where
  "PAIRWISE_TEST_DATA = map of_char ''FIPS 140-3 pairwise consistency test''"

text \<open>Every test signs and verifies; whatever goes wrong is the same error.\<close>

definition sign_verify_test :: "bytes hsm_result \<Rightarrow> (bytes \<Rightarrow> bool hsm_result) \<Rightarrow> unit hsm_result" where
  "sign_verify_test made verify =
    (case made of
       Inl _ \<Rightarrow> Inl GeneralError
     | Inr signature \<Rightarrow>
        (case verify signature of
           Inl _ \<Rightarrow> Inl GeneralError
         | Inr valid \<Rightarrow> if valid then Inr () else Inl GeneralError))"

definition rsa_pairwise_test :: "crypto_backend \<Rightarrow> bytes \<Rightarrow> bytes \<Rightarrow> bytes \<Rightarrow> unit hsm_result" where
  "rsa_pairwise_test B private_key_der modulus public_exponent =
    sign_verify_test (sg_rsa_pkcs1v15_sign (cb_signing B) private_key_der PAIRWISE_TEST_DATA (Some Sha256))
      (\<lambda>signature. sg_rsa_pkcs1v15_verify (cb_signing B) modulus public_exponent PAIRWISE_TEST_DATA signature (Some Sha256))"

definition ecdsa_p256_pairwise_test :: "crypto_backend \<Rightarrow> bytes \<Rightarrow> bytes \<Rightarrow> unit hsm_result" where
  "ecdsa_p256_pairwise_test B private_key public_key =
    sign_verify_test (sg_ecdsa_p256_sign (cb_signing B) private_key PAIRWISE_TEST_DATA)
      (\<lambda>signature. sg_ecdsa_p256_verify (cb_signing B) public_key PAIRWISE_TEST_DATA signature)"

definition ecdsa_p384_pairwise_test :: "crypto_backend \<Rightarrow> bytes \<Rightarrow> bytes \<Rightarrow> unit hsm_result" where
  "ecdsa_p384_pairwise_test B private_key public_key =
    sign_verify_test (sg_ecdsa_p384_sign (cb_signing B) private_key PAIRWISE_TEST_DATA)
      (\<lambda>signature. sg_ecdsa_p384_verify (cb_signing B) public_key PAIRWISE_TEST_DATA signature)"

definition ed25519_pairwise_test :: "crypto_backend \<Rightarrow> bytes \<Rightarrow> bytes \<Rightarrow> unit hsm_result" where
  "ed25519_pairwise_test B private_key public_key =
    sign_verify_test (sg_ed25519_sign (cb_signing B) private_key PAIRWISE_TEST_DATA)
      (\<lambda>signature. sg_ed25519_verify (cb_signing B) public_key PAIRWISE_TEST_DATA signature)"

text \<open>The post-quantum tests get the name of the parameter set and look it up again.\<close>

definition ml_dsa_pairwise_test :: "crypto_backend \<Rightarrow> bytes \<Rightarrow> bytes \<Rightarrow> string \<Rightarrow> unit hsm_result" where
  "ml_dsa_pairwise_test B private_key public_key variant =
    res_bind
      (if variant = ''ML-DSA-44'' then Inr MlDsa44 else if variant = ''ML-DSA-65'' then Inr MlDsa65
       else if variant = ''ML-DSA-87'' then Inr MlDsa87 else Inl MechanismInvalid)
      (\<lambda>v. sign_verify_test (sg_ml_dsa_sign (cb_signing B) private_key PAIRWISE_TEST_DATA v)
             (\<lambda>signature. sg_ml_dsa_verify (cb_signing B) public_key PAIRWISE_TEST_DATA signature v))"

definition slh_dsa_pairwise_test :: "crypto_backend \<Rightarrow> bytes \<Rightarrow> bytes \<Rightarrow> string \<Rightarrow> unit hsm_result" where
  "slh_dsa_pairwise_test B private_key public_key variant =
    res_bind
      (if variant = ''SLH-DSA-SHA2-128s'' then Inr Sha2_128s
       else if variant = ''SLH-DSA-SHA2-256s'' then Inr Sha2_256s else Inl MechanismInvalid)
      (\<lambda>v. sign_verify_test (sg_slh_dsa_sign (cb_signing B) private_key PAIRWISE_TEST_DATA v)
             (\<lambda>signature. sg_slh_dsa_verify (cb_signing B) public_key PAIRWISE_TEST_DATA signature v))"

definition ml_kem_pairwise_test :: "crypto_backend \<Rightarrow> bytes \<Rightarrow> bytes \<Rightarrow> string \<Rightarrow> unit hsm_result" where
  "ml_kem_pairwise_test B private_key public_key variant =
    res_bind
      (if variant = ''ML-KEM-512'' then Inr MlKem512 else if variant = ''ML-KEM-768'' then Inr MlKem768
       else if variant = ''ML-KEM-1024'' then Inr MlKem1024 else Inl MechanismInvalid)
      (\<lambda>v. case cb_ml_kem_encapsulate B public_key v of
             Inl _ \<Rightarrow> Inl GeneralError
           | Inr (ciphertext, shared_secret_enc) \<Rightarrow>
              (case cb_ml_kem_decapsulate B private_key ciphertext v of
                 Inl _ \<Rightarrow> Inl GeneralError
               | Inr shared_secret_dec \<Rightarrow>
                   if shared_secret_enc = shared_secret_dec then Inr () else Inl GeneralError))"

end
