(* ===== verification/Session_Manager.thy ===== *)
theory Session_Manager
  imports Session Handles Token_Properties
begin

text \<open>
  The session table (\<open>src/src/session/manager.rs\<close>): opening and closing sessions with the session
  counts of the token, the two-phase login of all sessions of a slot, logout, idle timeouts, and
  the thread-local cache with its generation counter. A thread-local cache entry is the handle
  of the session it references and the generation at which it was filled.
\<close>

record session_manager =
  sm_sessions :: "(u64 \<times> session) list"
  sm_handle_alloc :: session_handle_allocator
  sm_idle_timeout :: int
  sm_generation :: u64
  sm_tls_cache :: "nat \<Rightarrow> (u64 \<times> u64) option"

definition session_manager_new :: "u64 list \<Rightarrow> session_manager" where
  "session_manager_new keys =
    \<lparr>sm_sessions = [], sm_handle_alloc = session_allocator_new keys, sm_idle_timeout = 0, sm_generation = 0,
     sm_tls_cache = (\<lambda>_. None)\<rparr>"

definition set_idle_timeout :: "int \<Rightarrow> session_manager \<Rightarrow> session_manager" where
  "set_idle_timeout timeout sm = sm\<lparr>sm_idle_timeout := timeout\<rparr>"

definition bump_generation :: "session_manager \<Rightarrow> session_manager" where
  "bump_generation sm = sm\<lparr>sm_generation := sm_generation sm + 1\<rparr>"

definition invalidate_session_cache :: "nat \<Rightarrow> u64 \<Rightarrow> session_manager \<Rightarrow> session_manager" where
  "invalidate_session_cache tid handle sm =
    (case sm_tls_cache sm tid of
       Some (cached_handle, _) \<Rightarrow>
         if cached_handle = handle then sm\<lparr>sm_tls_cache := (sm_tls_cache sm)(tid := None)\<rparr> else sm
     | None \<Rightarrow> sm)"

definition invalidate_all_session_caches :: "nat \<Rightarrow> session_manager \<Rightarrow> session_manager" where
  "invalidate_all_session_caches tid sm = sm\<lparr>sm_tls_cache := (sm_tls_cache sm)(tid := None)\<rparr>"

definition cleanup_idle_sessions :: "int \<Rightarrow> session_manager \<Rightarrow> u64 list \<times> session_manager" where
  "cleanup_idle_sessions now sm =
    (if sm_idle_timeout sm = 0 then ([], sm)
     else
       (let idle = (\<lambda>(h, s). idle_duration now s > sm_idle_timeout sm);
            closed_handles = map fst (filter idle (sm_sessions sm));
            sm1 = sm\<lparr>sm_sessions := filter (\<lambda>p. \<not> idle p) (sm_sessions sm)\<rparr>
        in (closed_handles, if closed_handles \<noteq> [] then bump_generation sm1 else sm1)))"

definition inherit_login :: "login_state \<Rightarrow> session \<Rightarrow> unit hsm_result \<times> session" where
  "inherit_login role s =
    (case role of
       UserLoggedIn \<Rightarrow> on_user_login s
     | SoLoggedIn \<Rightarrow> on_so_login s
     | Public \<Rightarrow> (Inr (), s))"

definition open_session ::
  "int \<Rightarrow> u64 \<Rightarrow> ck_ulong \<Rightarrow> token \<Rightarrow> session_manager \<Rightarrow> u64 hsm_result \<times> token \<times> session_manager" where
  "open_session now slot_id flags token sm =
    (if flags AND CKF_SERIAL_SESSION = 0 then (Inl SessionParallelNotSupported, token, sm)
     else
       (let is_rw = (flags AND CKF_RW_SESSION \<noteq> 0) in
        if \<not> is_rw \<and> au_login (tk_auth token) = SoLoggedIn then (Inl SessionReadWriteSoExists, token, sm)
        else
          (case increment_session_count is_rw token of
             (Inl e, token1) \<Rightarrow> (Inl e, token1, sm)
           | (Inr _, token1) \<Rightarrow>
              (let (handle, alloc) = session_next ULong64 (sm_handle_alloc sm);
                   sm1 = sm\<lparr>sm_handle_alloc := alloc\<rparr>
               in case inherit_login (au_login (tk_auth token1)) (session_new handle slot_id flags now) of
                    (Inl e, _) \<Rightarrow> (Inl e, snd (decrement_session_count is_rw token1), sm1)
                  | (Inr _, session) \<Rightarrow>
                      (Inr handle, token1,
                       sm1\<lparr>sm_sessions := AList.update handle session (sm_sessions sm1)\<rparr>)))))"

definition close_session ::
  "nat \<Rightarrow> u64 \<Rightarrow> token \<Rightarrow> session_manager \<Rightarrow> unit hsm_result \<times> token \<times> session_manager" where
  "close_session tid handle token sm =
    (case map_of (sm_sessions sm) handle of
       None \<Rightarrow> (Inl SessionHandleInvalid, token, sm)
     | Some s \<Rightarrow>
        (let sm1 = bump_generation (sm\<lparr>sm_sessions := AList.delete handle (sm_sessions sm)\<rparr>);
             sm2 = invalidate_session_cache tid handle sm1;
             (r, token1) = decrement_session_count (session_is_rw s) token
         in (r, token1, sm2)))"

definition close_all_sessions :: "nat \<Rightarrow> u64 \<Rightarrow> token \<Rightarrow> session_manager \<Rightarrow> token \<times> session_manager" where
  "close_all_sessions tid slot_id token sm =
    (let sm0 = invalidate_all_session_caches tid sm;
         matching = filter (\<lambda>(h, s). ss_slot_id s = slot_id) (sm_sessions sm0);
         token1 = foldl (\<lambda>t (h, s). snd (decrement_session_count (session_is_rw s) t)) token matching;
         sm1 = sm0\<lparr>sm_sessions := filter (\<lambda>(h, s). ss_slot_id s \<noteq> slot_id) (sm_sessions sm0)\<rparr>
     in (token1, if matching \<noteq> [] then bump_generation sm1 else sm1))"

definition get_session :: "u64 \<Rightarrow> session_manager \<Rightarrow> session hsm_result" where
  "get_session handle sm = ok_or SessionHandleInvalid (map_of (sm_sessions sm) handle)"

text \<open>The cached lookup returns a reference: the handle of the session it denotes.\<close>

definition get_session_cached :: "nat \<Rightarrow> u64 \<Rightarrow> session_manager \<Rightarrow> u64 hsm_result \<times> session_manager" where
  "get_session_cached tid handle sm =
    (let current_gen = sm_generation sm in
     if sm_tls_cache sm tid = Some (handle, current_gen) then (Inr handle, sm)
     else
       (case get_session handle sm of
          Inl e \<Rightarrow> (Inl e, sm)
        | Inr _ \<Rightarrow> (Inr handle, sm\<lparr>sm_tls_cache := (sm_tls_cache sm)(tid := Some (handle, current_gen))\<rparr>)))"

definition session_login :: "ck_ulong \<Rightarrow> session \<Rightarrow> unit hsm_result \<times> session" where
  "session_login user_type s = (if user_type = CKU_USER then on_user_login s else on_so_login s)"

definition rollback_logins :: "u64 list \<Rightarrow> (u64 \<times> session) list \<Rightarrow> (u64 \<times> session) list" where
  "rollback_logins handles sessions =
    foldl (\<lambda>ss h. case map_of ss h of None \<Rightarrow> ss | Some s \<Rightarrow> AList.update h (snd (on_logout s)) ss) sessions handles"

fun login_sessions ::
  "ck_ulong \<Rightarrow> u64 \<Rightarrow> u64 list \<Rightarrow> u64 list \<Rightarrow> (u64 \<times> session) list \<Rightarrow> unit hsm_result \<times> (u64 \<times> session) list" where
  "login_sessions user_type slot_id [] logged_in ss = (Inr (), ss)"
| "login_sessions user_type slot_id (handle # handles) logged_in ss =
    (case map_of ss handle of
       None \<Rightarrow> login_sessions user_type slot_id handles logged_in ss
     | Some s \<Rightarrow>
         if ss_slot_id s \<noteq> slot_id then login_sessions user_type slot_id handles logged_in ss
         else
           (case session_login user_type s of
              (Inl e, _) \<Rightarrow> (Inl e, rollback_logins logged_in ss)
            | (Inr _, s') \<Rightarrow>
                login_sessions user_type slot_id handles (logged_in @ [handle]) (AList.update handle s' ss)))"

definition login_all :: "u64 \<Rightarrow> ck_ulong \<Rightarrow> session_manager \<Rightarrow> unit hsm_result \<times> session_manager" where
  "login_all slot_id user_type sm =
    (if user_type \<noteq> CKU_USER \<and> user_type \<noteq> CKU_SO then (Inl UserTypeInvalid, sm)
     else
       (let handles = map fst (filter (\<lambda>(h, s). ss_slot_id s = slot_id) (sm_sessions sm));
            (r, ss) = login_sessions user_type slot_id handles [] (sm_sessions sm)
        in (r, sm\<lparr>sm_sessions := ss\<rparr>)))"

definition cancel_session :: "u64 \<Rightarrow> session \<Rightarrow> session" where
  "cancel_session slot_id s =
    (if ss_slot_id s \<noteq> slot_id then s else snd (on_logout (clear_operations s)))"

definition cancel_sessions_for_slot :: "u64 \<Rightarrow> session_manager \<Rightarrow> session_manager" where
  "cancel_sessions_for_slot slot_id sm =
    sm\<lparr>sm_sessions := map (\<lambda>(h, s). (h, cancel_session slot_id s)) (sm_sessions sm)\<rparr>"

definition logout_all :: "u64 \<Rightarrow> session_manager \<Rightarrow> unit hsm_result \<times> session_manager" where
  "logout_all slot_id sm =
    (let visit = (\<lambda>s. if ss_slot_id s = slot_id \<and> state_is_logged_in (ss_state s) then on_logout s else (Inr (), s));
         errors = List.map_filter (\<lambda>(h, s). case fst (visit s) of Inl e \<Rightarrow> Some e | Inr _ \<Rightarrow> None) (sm_sessions sm)
     in ((case errors of [] \<Rightarrow> Inr () | e # _ \<Rightarrow> Inl e),
         sm\<lparr>sm_sessions := map (\<lambda>(h, s). (h, snd (visit s))) (sm_sessions sm)\<rparr>))"

definition check_and_touch :: "nat \<Rightarrow> int \<Rightarrow> u64 \<Rightarrow> session_manager \<Rightarrow> unit hsm_result \<times> session_manager" where
  "check_and_touch tid now handle sm =
    (case get_session handle sm of
       Inl e \<Rightarrow> (Inl e, sm)
     | Inr s \<Rightarrow>
        if sm_idle_timeout sm \<noteq> 0 \<and> idle_duration now s > sm_idle_timeout sm then
          (Inl SessionClosed,
           invalidate_session_cache tid handle
             (bump_generation (sm\<lparr>sm_sessions := AList.delete handle (sm_sessions sm)\<rparr>)))
        else (Inr (), sm\<lparr>sm_sessions := AList.update handle (touch now s) (sm_sessions sm)\<rparr>))"

definition has_ro_sessions :: "u64 \<Rightarrow> session_manager \<Rightarrow> bool" where
  "has_ro_sessions slot_id sm =
    list_ex (\<lambda>(h, s). ss_slot_id s = slot_id \<and> \<not> session_is_rw s) (sm_sessions sm)"

section \<open>The session counter of the token\<close>

text \<open>
  The contract the session table relies on: a successful increment counts one more session (and
  one more read/write session), a refused one changes nothing, and a decrement of a session that
  was counted succeeds and takes it out. The client facts follow once for every such counter.
\<close>

locale session_counter =
  fixes inc dec :: "bool \<Rightarrow> 't \<Rightarrow> unit hsm_result \<times> 't"
    and total rw_total :: "'t \<Rightarrow> nat"
  assumes inc_ok: "fst (inc b t) = Inr () \<Longrightarrow>
      total (snd (inc b t)) = total t + 1 \<and> rw_total (snd (inc b t)) = rw_total t + of_bool b"
    and inc_err: "fst (inc b t) = Inl e \<Longrightarrow> snd (inc b t) = t"
    and dec_ok: "0 < total t \<Longrightarrow> of_bool b \<le> rw_total t \<Longrightarrow>
      fst (dec b t) = Inr () \<and> total (snd (dec b t)) = total t - 1 \<and> rw_total (snd (dec b t)) = rw_total t - of_bool b"
begin

lemma dec_inc:
  "fst (inc b t) = Inr () \<Longrightarrow>
   total (snd (dec b (snd (inc b t)))) = total t \<and> rw_total (snd (dec b (snd (inc b t)))) = rw_total t"
  using inc_ok [of b t] dec_ok [of "snd (inc b t)" b] by simp

lemma dec_all:
  "length bs \<le> total t \<Longrightarrow> length (filter id bs) \<le> rw_total t \<Longrightarrow>
   total (foldl (\<lambda>t b. snd (dec b t)) t bs) = total t - length bs \<and>
   rw_total (foldl (\<lambda>t b. snd (dec b t)) t bs) = rw_total t - length (filter id bs)"
proof (induction bs arbitrary: t)
  case Nil
  then show ?case by simp
next
  case (Cons b bs)
  have "fst (dec b t) = Inr () \<and> total (snd (dec b t)) = total t - 1 \<and> rw_total (snd (dec b t)) = rw_total t - of_bool b"
    using Cons.prems by (intro dec_ok) (auto split: if_splits)
  then show ?case using Cons.prems Cons.IH [of "snd (dec b t)"] by (cases b) auto
qed

end

definition session_total :: "token \<Rightarrow> nat" where
  "session_total t = unat (tk_session_count t)"

definition rw_session_total :: "token \<Rightarrow> nat" where
  "rw_session_total t = unat (tk_rw_session_count t)"

lemma unat_succ_of_less: "(a :: u64) < b \<Longrightarrow> unat (a + 1) = unat a + 1"
  by (metis Suc_eq_plus1 unat_Suc_less)

interpretation token_counter: session_counter increment_session_count decrement_session_count
    session_total rw_session_total
proof unfold_locales
  fix b t
  assume "fst (increment_session_count b t) = Inr ()"
  then show "session_total (snd (increment_session_count b t)) = session_total t + 1 \<and>
      rw_session_total (snd (increment_session_count b t)) = rw_session_total t + of_bool b"
    by (auto simp: increment_session_count_def session_total_def rw_session_total_def Let_def not_le
        unat_succ_of_less split: if_splits)
next
  fix b t e
  assume "fst (increment_session_count b t) = Inl e"
  then show "snd (increment_session_count b t) = t"
    by (auto simp: increment_session_count_def Let_def split: if_splits)
next
  fix t b
  assume "0 < session_total t" "of_bool b \<le> rw_session_total t"
  then show "fst (decrement_session_count b t) = Inr () \<and>
      session_total (snd (decrement_session_count b t)) = session_total t - 1 \<and>
      rw_session_total (snd (decrement_session_count b t)) = rw_session_total t - of_bool b"
    by (auto simp: decrement_session_count_def session_total_def rw_session_total_def Let_def
        unat_minus_one unat_gt_0 split: if_splits)
qed

section \<open>The table and the token of a slot agree\<close>

definition in_slot :: "u64 \<Rightarrow> u64 \<times> session \<Rightarrow> bool" where
  "in_slot slot_id p = (ss_slot_id (snd p) = slot_id)"

fun login_matches :: "login_state \<Rightarrow> session_state \<Rightarrow> bool" where
  "login_matches Public st = (\<not> state_is_logged_in st)"
| "login_matches UserLoggedIn st = (st = RoUser \<or> st = RwUser)"
| "login_matches SoLoggedIn st = (st = RwSO)"

text \<open>The agreement of the session table with the token of a slot: the token counts exactly the
  open sessions of the slot, and every session of the slot is in the state of the token's login.\<close>

definition slot_counted :: "u64 \<Rightarrow> token \<Rightarrow> (u64 \<times> session) list \<Rightarrow> bool" where
  "slot_counted slot_id t ss \<longleftrightarrow>
     session_total t = length (filter (in_slot slot_id) ss) \<and>
     rw_session_total t = length (filter (\<lambda>p. in_slot slot_id p \<and> session_is_rw (snd p)) ss)"

definition slot_logins :: "u64 \<Rightarrow> token \<Rightarrow> (u64 \<times> session) list \<Rightarrow> bool" where
  "slot_logins slot_id t ss \<longleftrightarrow>
     (\<forall>p \<in> set ss. in_slot slot_id p \<longrightarrow> login_matches (au_login (tk_auth t)) (ss_state (snd p)))"

definition slot_inv :: "u64 \<Rightarrow> token \<Rightarrow> (u64 \<times> session) list \<Rightarrow> bool" where
  "slot_inv slot_id t ss \<longleftrightarrow> slot_counted slot_id t ss \<and> slot_logins slot_id t ss"

definition table_wf :: "(u64 \<times> session) list \<Rightarrow> bool" where
  "table_wf ss \<longleftrightarrow> distinct (map fst ss) \<and> (\<forall>(h, s) \<in> set ss. ss_handle s = h \<and> \<not> ss_closed s)"

lemmas slot_defs = slot_inv_def slot_counted_def slot_logins_def in_slot_def

lemma inherit_login_ok:
  assumes "st = RoPublic \<or> st = RwPublic" "role = SoLoggedIn \<Longrightarrow> st = RwPublic" "ss_state s = st"
  obtains s' where "inherit_login role s = (Inr (), s')" "login_matches role (ss_state s')"
    "ss_slot_id s' = ss_slot_id s" "ss_handle s' = ss_handle s" "ss_closed s' = ss_closed s"
    "session_is_rw s' = session_is_rw s"
  using assms by (cases role) (auto simp: inherit_login_def on_user_login_def on_so_login_def session_is_rw_def)

lemma session_new_simps [simp]:
  "ss_handle (session_new h sl f now) = h" "ss_slot_id (session_new h sl f now) = sl"
  "ss_state (session_new h sl f now) = (if f AND CKF_RW_SESSION \<noteq> 0 then RwPublic else RoPublic)"
  "ss_closed (session_new h sl f now) = False"
  by (simp_all add: session_new_def)

lemma count_auth [simp]:
  "tk_auth (snd (increment_session_count b t)) = tk_auth t"
  "tk_auth (snd (decrement_session_count b t)) = tk_auth t"
  by (simp_all add: increment_session_count_def decrement_session_count_def Let_def)

text \<open>Opening a session either leaves the table alone, or adds one session in the state of the
  token's login and counts it.\<close>

lemma open_session_cases:
  assumes "open_session now sl flags t sm = (r, t', sm')"
  obtains (refused) e where "r = Inl e" "t' = t" "sm' = sm"
  | (opened) h s where "r = Inr h" "fst (increment_session_count (session_is_rw s) t) = Inr ()"
      "t' = snd (increment_session_count (session_is_rw s) t)"
      "session_next ULong64 (sm_handle_alloc sm) = (h, sm_handle_alloc sm')"
      "sm' = sm\<lparr>sm_handle_alloc := sm_handle_alloc sm', sm_sessions := AList.update h s (sm_sessions sm)\<rparr>"
      "ss_slot_id s = sl" "ss_handle s = h" "\<not> ss_closed s" "login_matches (au_login (tk_auth t)) (ss_state s)"
      "session_is_rw s = (flags AND CKF_RW_SESSION \<noteq> 0)"
proof -
  define rw where "rw = (flags AND CKF_RW_SESSION \<noteq> 0)"
  consider (no) "flags AND CKF_SERIAL_SESSION = 0 \<or> \<not> rw \<and> au_login (tk_auth t) = SoLoggedIn"
    | (full) e t1 where "increment_session_count rw t = (Inl e, t1)"
    | (yes) t1 where "flags AND CKF_SERIAL_SESSION \<noteq> 0" "rw \<or> au_login (tk_auth t) \<noteq> SoLoggedIn"
        "increment_session_count rw t = (Inr (), t1)"
    by (metis old.unit.exhaust old.sum.exhaust surj_pair)
  then show ?thesis
  proof cases
    case no
    then show ?thesis
      using assms refused by (auto simp: open_session_def rw_def [symmetric] Let_def split: if_splits)
  next
    case full
    then show ?thesis using assms refused token_counter.inc_err [of rw t e]
      by (auto simp: open_session_def rw_def [symmetric] Let_def split: if_splits)
  next
    case yes
    obtain h a where n: "session_next ULong64 (sm_handle_alloc sm) = (h, a)" by (metis surj_pair)
    let ?s = "session_new h sl flags now"
    obtain s' where s': "inherit_login (au_login (tk_auth t)) ?s = (Inr (), s')"
      "login_matches (au_login (tk_auth t)) (ss_state s')" "ss_slot_id s' = sl" "ss_handle s' = h"
      "\<not> ss_closed s'" "session_is_rw s' = rw"
      by (rule inherit_login_ok [of "ss_state ?s" "au_login (tk_auth t)" ?s])
        (use yes in \<open>auto simp: rw_def session_is_rw_def split: if_splits\<close>)
    have "tk_auth t1 = tk_auth t" using count_auth(1) [of rw t] yes by simp
    then have "r = Inr h" "t' = t1"
      "sm' = sm\<lparr>sm_handle_alloc := a, sm_sessions := AList.update h s' (sm_sessions sm)\<rparr>"
      using assms yes n s' by (simp_all add: open_session_def rw_def [symmetric] Let_def split: if_splits)
    then show ?thesis using opened [of h s'] s' yes n by (simp add: rw_def [symmetric])
  qed
qed

lemma in_slot_pair [simp]: "in_slot sl (h, s) \<longleftrightarrow> ss_slot_id s = sl"
  by (simp add: in_slot_def)

lemma table_wf_update:
  "table_wf ss \<Longrightarrow> ss_handle s = h \<Longrightarrow> \<not> ss_closed s \<Longrightarrow> table_wf (AList.update h s ss)"
  unfolding table_wf_def by (auto simp: distinct_update dest!: al_update_memD)

lemma table_wf_delete: "table_wf ss \<Longrightarrow> table_wf (AList.delete h ss)"
  unfolding table_wf_def by (auto simp: distinct_delete al_delete_set)

lemma table_wf_lookup:
  "table_wf ss \<Longrightarrow> map_of ss h = Some s \<Longrightarrow> ss_handle s = h \<and> \<not> ss_closed s"
  unfolding table_wf_def using map_of_SomeD by fastforce

lemma slot_logins_update:
  "slot_logins sl t ss \<Longrightarrow>
   (ss_slot_id s = sl \<Longrightarrow> login_matches (au_login (tk_auth t)) (ss_state s)) \<Longrightarrow>
   slot_logins sl t (AList.update h s ss)"
  by (auto simp: slot_logins_def dest!: al_update_memD)

lemma slot_logins_cong: "tk_auth t' = tk_auth t \<Longrightarrow> slot_logins sl t' ss = slot_logins sl t ss"
  by (simp add: slot_logins_def)

lemma open_session_inv:
  assumes "open_session now sl flags t sm = (r, t', sm')" "slot_inv sl t (sm_sessions sm)"
    "map_of (sm_sessions sm) (fst (session_next ULong64 (sm_handle_alloc sm))) = None"
  shows "slot_inv sl t' (sm_sessions sm')"
  using assms(1)
proof (cases rule: open_session_cases)
  case refused
  then show ?thesis using assms by simp
next
  case (opened h s)
  then have new: "map_of (sm_sessions sm) h = None" using assms(3) by simp
  have ss: "sm_sessions sm' = AList.update h s (sm_sessions sm)"
    using arg_cong [OF opened(5), of sm_sessions] by simp
  have "slot_counted sl t' (sm_sessions sm')"
    using assms(2) token_counter.inc_ok [OF opened(2)] opened
    unfolding slot_inv_def slot_counted_def ss count_update_new [OF new] by simp
  moreover have "slot_logins sl t' (sm_sessions sm')"
    using assms(2) opened slot_logins_cong [of t' t] unfolding ss
    by (simp add: slot_inv_def slot_logins_update)
  ultimately show ?thesis by (simp add: slot_inv_def)
qed

lemma open_session_other_slot:
  assumes "open_session now sl flags t sm = (r, t', sm')" "slot_inv sl' u (sm_sessions sm)" "sl' \<noteq> sl"
    "map_of (sm_sessions sm) (fst (session_next ULong64 (sm_handle_alloc sm))) = None"
  shows "slot_inv sl' u (sm_sessions sm')"
  using assms(1)
proof (cases rule: open_session_cases)
  case refused
  then show ?thesis using assms by simp
next
  case (opened h s)
  then have new: "map_of (sm_sessions sm) h = None" using assms(4) by simp
  have ss: "sm_sessions sm' = AList.update h s (sm_sessions sm)"
    using arg_cong [OF opened(5), of sm_sessions] by simp
  show ?thesis
    using assms(2,3) opened slot_logins_update [of sl' u "sm_sessions sm" s h]
    unfolding slot_inv_def slot_counted_def ss count_update_new [OF new] by simp
qed

lemma open_session_table_wf:
  assumes "open_session now sl flags t sm = (r, t', sm')" "table_wf (sm_sessions sm)"
  shows "table_wf (sm_sessions sm')"
  using assms(1)
proof (cases rule: open_session_cases)
  case (opened h s)
  have "sm_sessions sm' = AList.update h s (sm_sessions sm)"
    using arg_cong [OF opened(5), of sm_sessions] by simp
  then show ?thesis using assms(2) opened table_wf_update by simp
qed (use assms in simp)

lemma cache_ops_sessions [simp]:
  "sm_sessions (invalidate_session_cache tid h sm) = sm_sessions sm"
  "sm_sessions (invalidate_all_session_caches tid sm) = sm_sessions sm"
  "sm_sessions (bump_generation sm) = sm_sessions sm"
  "sm_generation (invalidate_session_cache tid h sm) = sm_generation sm"
  "sm_generation (invalidate_all_session_caches tid sm) = sm_generation sm"
  "sm_generation (bump_generation sm) = sm_generation sm + 1"
  "sm_handle_alloc (invalidate_session_cache tid h sm) = sm_handle_alloc sm"
  "sm_handle_alloc (invalidate_all_session_caches tid sm) = sm_handle_alloc sm"
  "sm_handle_alloc (bump_generation sm) = sm_handle_alloc sm"
  by (simp_all add: invalidate_session_cache_def invalidate_all_session_caches_def bump_generation_def
      split: option.split)

lemma slot_logins_subset: "slot_logins sl t ss \<Longrightarrow> set ss' \<subseteq> set ss \<Longrightarrow> slot_logins sl t ss'"
  by (auto simp: slot_logins_def)

text \<open>Closing an open session always succeeds and takes it out of the counts of its slot.\<close>

lemma close_session_inv:
  assumes "close_session tid h t sm = (r, t', sm')" "table_wf (sm_sessions sm)"
    "map_of (sm_sessions sm) h = Some s" "slot_inv (ss_slot_id s) t (sm_sessions sm)"
  shows "r = Inr ()" "slot_inv (ss_slot_id s) t' (sm_sessions sm')"
proof -
  let ?ss = "sm_sessions sm" and ?sl = "ss_slot_id s"
  have d: "distinct (map fst ?ss)" using assms(2) by (simp add: table_wf_def)
  have r: "(r, t') = decrement_session_count (session_is_rw s) t" and ss: "sm_sessions sm' = AList.delete h ?ss"
    using assms(1,3) by (auto simp: close_session_def Let_def split: prod.splits)
  note c = count_delete [OF d assms(3)]
  have tot: "session_total t = length (filter (in_slot ?sl) (AList.delete h ?ss)) + 1"
    "rw_session_total t = length (filter (\<lambda>p. in_slot ?sl p \<and> session_is_rw (snd p)) (AList.delete h ?ss))
       + of_bool (session_is_rw s)"
    using assms(4) c [of "in_slot ?sl"] c [of "\<lambda>p. in_slot ?sl p \<and> session_is_rw (snd p)"]
    by (simp_all add: slot_inv_def slot_counted_def)
  have dec: "fst (decrement_session_count (session_is_rw s) t) = Inr () \<and>
      session_total (snd (decrement_session_count (session_is_rw s) t)) = session_total t - 1 \<and>
      rw_session_total (snd (decrement_session_count (session_is_rw s) t)) = rw_session_total t - of_bool (session_is_rw s)"
    using tot by (intro token_counter.dec_ok) simp_all
  then show "r = Inr ()" using r by (metis fst_conv)
  have t': "t' = snd (decrement_session_count (session_is_rw s) t)" using r by (metis snd_conv)
  have "slot_logins ?sl t' (AList.delete h ?ss)"
    using assms(4) slot_logins_subset [of ?sl t ?ss "AList.delete h ?ss"] slot_logins_cong [of t' t]
    by (auto simp: slot_inv_def t' al_delete_set)
  then show "slot_inv ?sl t' (sm_sessions sm')"
    using tot dec by (simp add: slot_inv_def slot_counted_def ss t')
qed

lemma close_session_other_slot:
  assumes "close_session tid h t sm = (r, t', sm')" "table_wf (sm_sessions sm)"
    "map_of (sm_sessions sm) h = Some s" "slot_inv sl u (sm_sessions sm)" "sl \<noteq> ss_slot_id s"
  shows "slot_inv sl u (sm_sessions sm')"
proof -
  have d: "distinct (map fst (sm_sessions sm))" using assms(2) by (simp add: table_wf_def)
  have ss: "sm_sessions sm' = AList.delete h (sm_sessions sm)"
    using assms(1,3) by (auto simp: close_session_def Let_def split: prod.splits)
  show ?thesis
    using assms(4,5) count_delete [OF d assms(3), of "in_slot sl"]
      count_delete [OF d assms(3), of "\<lambda>p. in_slot sl p \<and> session_is_rw (snd p)"]
      slot_logins_subset [of sl u "sm_sessions sm" "AList.delete h (sm_sessions sm)"]
    by (auto simp: slot_inv_def slot_counted_def ss al_delete_set)
qed

lemma close_all_fold:
  "foldl (\<lambda>t (h, s). snd (decrement_session_count (session_is_rw s) t)) t ps =
   foldl (\<lambda>t b. snd (decrement_session_count b t)) t (map (\<lambda>p. session_is_rw (snd p)) ps)"
  by (induction ps arbitrary: t) auto

lemma close_all_auth: "tk_auth (foldl (\<lambda>t b. snd (decrement_session_count b t)) t bs) = tk_auth t"
  by (induction bs arbitrary: t) auto

lemma in_slot_fold:
  "(\<lambda>(h, s). ss_slot_id s = sl) = in_slot sl" "(\<lambda>(h, s). ss_slot_id s \<noteq> sl) = (\<lambda>p. \<not> in_slot sl p)"
  by (auto simp: fun_eq_iff)

lemma close_all_sessions_eq:
  assumes "close_all_sessions tid sl t sm = (t', sm')"
  shows "sm_sessions sm' = filter (\<lambda>p. \<not> in_slot sl p) (sm_sessions sm)" "tk_auth t' = tk_auth t"
    "t' = foldl (\<lambda>t b. snd (decrement_session_count b t)) t
      (map (\<lambda>p. session_is_rw (snd p)) (filter (in_slot sl) (sm_sessions sm)))"
  using assms by (auto simp: close_all_sessions_def Let_def close_all_fold close_all_auth in_slot_fold)

lemma close_all_sessions_inv:
  assumes "close_all_sessions tid sl t sm = (t', sm')" "slot_inv sl t (sm_sessions sm)"
  shows "slot_inv sl t' (sm_sessions sm')" "filter (in_slot sl) (sm_sessions sm') = []"
    "session_total t' = 0" "rw_session_total t' = 0"
proof -
  note eq = close_all_sessions_eq [OF assms(1)]
  let ?bs = "map (\<lambda>p. session_is_rw (snd p)) (filter (in_slot sl) (sm_sessions sm))"
  have "length (filter id ?bs) = rw_session_total t" "length ?bs = session_total t"
    using assms(2) by (simp_all add: slot_inv_def slot_counted_def filter_map comp_def conj_commute)
  then show z: "session_total t' = 0" "rw_session_total t' = 0"
    using token_counter.dec_all [of ?bs t] by (simp_all add: eq(3))
  show e: "filter (in_slot sl) (sm_sessions sm') = []" by (simp add: eq(1))
  have "filter (\<lambda>p. in_slot sl p \<and> session_is_rw (snd p)) (sm_sessions sm') = []" by (auto simp: eq(1) filter_empty_conv)
  then show "slot_inv sl t' (sm_sessions sm')"
    using z e by (auto simp: slot_inv_def slot_counted_def slot_logins_def eq(1))
qed

lemma close_all_sessions_other_slot:
  assumes "close_all_sessions tid sl t sm = (t', sm')" "slot_inv sl' u (sm_sessions sm)" "sl' \<noteq> sl"
  shows "slot_inv sl' u (sm_sessions sm')"
proof -
  have "filter (in_slot sl') (sm_sessions sm') = filter (in_slot sl') (sm_sessions sm)"
    "filter (\<lambda>p. in_slot sl' p \<and> session_is_rw (snd p)) (sm_sessions sm')
     = filter (\<lambda>p. in_slot sl' p \<and> session_is_rw (snd p)) (sm_sessions sm)"
    using assms(3) by (auto simp: close_all_sessions_eq(1) [OF assms(1)] in_slot_def intro!: filter_cong)
  then show ?thesis
    using assms(2) by (auto simp: slot_inv_def slot_counted_def slot_logins_def close_all_sessions_eq(1) [OF assms(1)])
qed

lemma close_all_sessions_table_wf:
  "close_all_sessions tid sl t sm = (t', sm') \<Longrightarrow> table_wf (sm_sessions sm) \<Longrightarrow> table_wf (sm_sessions sm')"
  by (auto simp: close_all_sessions_eq(1) table_wf_def distinct_map_filter)

section \<open>Logging in all sessions of a slot\<close>

lemma alist_eqI:
  assumes "map fst ys = map fst xs" "distinct (map fst xs)" "\<And>k. map_of ys k = map_option (f k) (map_of xs k)"
  shows "ys = map (\<lambda>(k, v). (k, f k v)) xs"
proof (rule nth_equalityI)
  show len: "length ys = length (map (\<lambda>(k, v). (k, f k v)) xs)"
    using arg_cong [OF assms(1), of length] by simp
  fix i assume i: "i < length ys"
  obtain k v w where k: "xs ! i = (k, v)" "ys ! i = (k, w)"
    using i len nth_map [of i xs fst] nth_map [of i ys fst] assms(1) by (metis length_map prod.collapse)
  have "map_of xs k = Some v" "map_of ys k = Some w"
    using i len k assms(1,2) by (metis length_map map_of_is_SomeI nth_mem)+
  then show "ys ! i = map (\<lambda>(k, v). (k, f k v)) xs ! i" using i len k assms(3) [of k] by simp
qed

lemma al_update_keys: "map_of xs k = Some v \<Longrightarrow> map fst (AList.update k w xs) = map fst xs"
  by (induction xs) auto

lemma session_login_frame [simp]:
  "ss_slot_id (snd (session_login ut s)) = ss_slot_id s" "ss_handle (snd (session_login ut s)) = ss_handle s"
  "ss_closed (snd (session_login ut s)) = ss_closed s" "session_is_rw (snd (session_login ut s)) = session_is_rw s"
  by (simp_all add: session_login_def session_is_rw_def)

lemma rollback_lookup:
  "distinct lg \<Longrightarrow> map_of (rollback_logins lg ss) h =
     (if h \<in> set lg then map_option (\<lambda>s. snd (on_logout s)) (map_of ss h) else map_of ss h)"
  by (induction lg arbitrary: ss) (auto simp: rollback_logins_def split: option.split)

lemma rollback_keys: "map fst (rollback_logins lg ss) = map fst ss"
  by (induction lg arbitrary: ss) (auto simp: rollback_logins_def al_update_keys split: option.split)

lemma login_sessions_keys: "map fst (snd (login_sessions ut sl hs lg ss)) = map fst ss"
  by (induction ut sl hs lg ss rule: login_sessions.induct)
    (auto simp: rollback_keys al_update_keys split: option.split prod.split sum.split)

text \<open>The loop over the collected handles: \<open>ss0\<close> is the table at the start, \<open>lg\<close> the handles
  already logged in. Either all remaining handles are logged in too, or the states of the table
  at the start are back.\<close>

definition partly_logged_in ::
  "ck_ulong \<Rightarrow> (u64 \<times> session) list \<Rightarrow> u64 set \<Rightarrow> (u64 \<times> session) list \<Rightarrow> bool" where
  "partly_logged_in ut ss0 lg ss \<longleftrightarrow>
     (\<forall>h. map_of ss h = (if h \<in> lg then map_option (\<lambda>s. snd (session_login ut s)) (map_of ss0 h) else map_of ss0 h)) \<and>
     (\<forall>h \<in> lg. \<exists>s. map_of ss0 h = Some s \<and> fst (session_login ut s) = Inr ())"

lemma login_sessions_spec:
  assumes "partly_logged_in ut ss0 (set lg) ss" "distinct (lg @ hs)"
    "\<forall>h \<in> set hs. \<exists>s. map_of ss0 h = Some s \<and> ss_slot_id s = sl"
  shows "case login_sessions ut sl hs lg ss of
      (Inr _, ss') \<Rightarrow> partly_logged_in ut ss0 (set lg \<union> set hs) ss'
    | (Inl _, ss') \<Rightarrow> \<forall>h. map_option ss_state (map_of ss' h) = map_option ss_state (map_of ss0 h)"
  using assms
proof (induction hs arbitrary: lg ss)
  case Nil
  then show ?case by simp
next
  case (Cons h hs)
  obtain s where s: "map_of ss0 h = Some s" "ss_slot_id s = sl" using Cons.prems(3) by auto
  have cur: "map_of ss h = Some s" using Cons.prems(1,2) s by (simp add: partly_logged_in_def)
  obtain r s' where login: "session_login ut s = (r, s')" by (metis surj_pair)
  show ?case
  proof (cases r)
    case (Inl e)
    have "map_option ss_state (map_of (rollback_logins lg ss) k) = map_option ss_state (map_of ss0 k)" for k
    proof (cases "k \<in> set lg")
      case True
      then obtain u where "map_of ss0 k = Some u" "fst (session_login ut u) = Inr ()"
        using Cons.prems(1) by (auto simp: partly_logged_in_def)
      then show ?thesis
        using True Cons.prems logout_after_login [of u]
        by (auto simp: rollback_lookup partly_logged_in_def session_login_def split: if_splits)
    qed (use Cons.prems in \<open>auto simp: rollback_lookup partly_logged_in_def\<close>)
    then show ?thesis using Inl cur s login by simp
  next
    case (Inr u)
    have "partly_logged_in ut ss0 (set (lg @ [h])) (AList.update h s' ss)"
      using Cons.prems(1) s login Inr by (auto simp: partly_logged_in_def)
    then have "case login_sessions ut sl hs (lg @ [h]) (AList.update h s' ss) of
        (Inr _, ss') \<Rightarrow> partly_logged_in ut ss0 (set (lg @ [h]) \<union> set hs) ss'
      | (Inl _, ss') \<Rightarrow> \<forall>h. map_option ss_state (map_of ss' h) = map_option ss_state (map_of ss0 h)"
      using Cons.prems by (intro Cons.IH) auto
    moreover have eq: "set lg \<union> set (h # hs) = set (lg @ [h]) \<union> set hs" by auto
    ultimately show ?thesis unfolding eq using Inr cur s login by simp
  qed
qed

lemma slot_handles:
  assumes "distinct (map fst ss)"
  shows "distinct (map fst (filter (in_slot sl) ss))"
    and "h \<in> set (map fst (filter (in_slot sl) ss)) \<longleftrightarrow> (\<exists>s. map_of ss h = Some s \<and> ss_slot_id s = sl)"
  using assms by (auto simp: distinct_map_filter image_iff in_slot_def dest: map_of_SomeD)

lemma login_all_lookup:
  assumes "distinct (map fst (sm_sessions sm))" "ut = CKU_USER \<or> ut = CKU_SO"
    "login_all sl ut sm = (r, sm')"
  shows "case r of
      Inr _ \<Rightarrow> sm_sessions sm' = map (\<lambda>(h, s). (h, if ss_slot_id s = sl then snd (session_login ut s) else s)) (sm_sessions sm) \<and>
        (\<forall>h s. map_of (sm_sessions sm) h = Some s \<longrightarrow> ss_slot_id s = sl \<longrightarrow> fst (session_login ut s) = Inr ())
    | Inl _ \<Rightarrow> \<forall>h. map_option ss_state (map_of (sm_sessions sm') h) = map_option ss_state (map_of (sm_sessions sm) h)"
proof -
  let ?ss = "sm_sessions sm"
  let ?hs = "map fst (filter (in_slot sl) ?ss)"
  obtain ss' where ls: "login_sessions ut sl ?hs [] ?ss = (r, ss')" "sm_sessions sm' = ss'"
    using assms(2,3) by (auto simp: login_all_def Let_def in_slot_fold split: prod.splits)
  have spec: "case (r, ss') of (Inr _, ss') \<Rightarrow> partly_logged_in ut ?ss (set [] \<union> set ?hs) ss'
    | (Inl _, ss') \<Rightarrow> \<forall>h. map_option ss_state (map_of ss' h) = map_option ss_state (map_of ?ss h)"
    using login_sessions_spec [of ut ?ss "[]" ?ss ?hs sl] slot_handles(1) [OF assms(1), of sl]
      slot_handles(2) [OF assms(1), of _ sl] ls
    by (simp add: partly_logged_in_def del: set_map)
  show ?thesis
  proof (cases r)
    case Inl
    then show ?thesis using spec ls by simp
  next
    case (Inr u)
    have p: "partly_logged_in ut ?ss (set ?hs) ss'" using spec Inr by simp
    have "ss' = map (\<lambda>(h, s). (h, if ss_slot_id s = sl then snd (session_login ut s) else s)) ?ss"
    proof (rule alist_eqI [OF _ assms(1)])
      show "map fst ss' = map fst ?ss" using login_sessions_keys [of ut sl ?hs "[]" ?ss] ls by simp
      show "map_of ss' k = map_option (\<lambda>s. if ss_slot_id s = sl then snd (session_login ut s) else s) (map_of ?ss k)" for k
        using p slot_handles(2) [OF assms(1), of k sl]
        by (cases "map_of ?ss k") (auto simp: partly_logged_in_def simp del: set_map)
    qed
    moreover have "fst (session_login ut s) = Inr ()" if "map_of ?ss h = Some s" "ss_slot_id s = sl" for h s
      using p that slot_handles(2) [OF assms(1), of h sl] unfolding partly_logged_in_def by (metis option.inject)
    ultimately show ?thesis using ls Inr by auto
  qed
qed

lemma slot_counted_map:
  assumes "\<And>s. ss_slot_id (f s) = ss_slot_id s" "\<And>s. session_is_rw (f s) = session_is_rw s"
  shows "slot_counted sl t (map (\<lambda>(h, s). (h, f s)) ss) = slot_counted sl t ss"
proof -
  have "in_slot sl = (\<lambda>p. ss_slot_id (snd p) = sl)" by (simp add: fun_eq_iff in_slot_def)
  then show ?thesis by (simp add: slot_counted_def filter_map comp_def case_prod_beta assms)
qed

lemma slot_counted_cong:
  "session_total t' = session_total t \<Longrightarrow> rw_session_total t' = rw_session_total t \<Longrightarrow>
   slot_counted sl t' ss = slot_counted sl t ss"
  by (simp add: slot_counted_def)

lemma table_wf_map:
  assumes "\<And>s. ss_handle (f s) = ss_handle s" "\<And>s. ss_closed (f s) = ss_closed s"
  shows "table_wf (map (\<lambda>(h, s). (h, f s)) ss) = table_wf ss"
  by (auto simp: table_wf_def assms comp_def case_prod_beta)

lemma slot_logins_map:
  "slot_logins sl t (map (\<lambda>(h, s). (h, f s)) ss) \<longleftrightarrow>
   (\<forall>(h, s) \<in> set ss. ss_slot_id (f s) = sl \<longrightarrow> login_matches (au_login (tk_auth t)) (ss_state (f s)))"
  by (auto simp: slot_logins_def)

definition role_of :: "ck_ulong \<Rightarrow> login_state" where
  "role_of user_type = (if user_type = CKU_USER then UserLoggedIn else SoLoggedIn)"

lemma session_login_matches:
  "fst (session_login ut s) = Inr () \<Longrightarrow> login_matches (role_of ut) (ss_state (snd (session_login ut s)))"
  by (auto simp: session_login_def role_of_def on_user_login_def on_so_login_def split: session_state.splits if_splits)

lemma session_login_ok:
  "\<not> state_is_logged_in (ss_state s) \<Longrightarrow> (ut \<noteq> CKU_USER \<Longrightarrow> session_is_rw s) \<Longrightarrow> fst (session_login ut s) = Inr ()"
  by (cases "ss_state s") (auto simp: session_login_def on_user_login_def on_so_login_def session_is_rw_def)

lemma login_all_other_state:
  "login_all sl ut sm = (r, sm') \<Longrightarrow> sm' = sm\<lparr>sm_sessions := sm_sessions sm'\<rparr>"
  by (auto simp: login_all_def Let_def split: if_splits prod.splits)

lemma login_sessions_no_fail:
  "\<forall>h s. map_of ss h = Some s \<longrightarrow> ss_slot_id s = sl \<longrightarrow> h \<in> set hs \<longrightarrow> fst (session_login ut s) = Inr () \<Longrightarrow>
   distinct hs \<Longrightarrow> fst (login_sessions ut sl hs lg ss) = Inr ()"
proof (induction hs arbitrary: lg ss)
  case (Cons h hs)
  show ?case
  proof (cases "map_of ss h")
    case None
    then show ?thesis using Cons by simp
  next
    case (Some s)
    obtain r s' where l: "session_login ut s = (r, s')" by (metis surj_pair)
    show ?thesis
    proof (cases "ss_slot_id s = sl")
      case True
      then have "r = Inr ()" using Cons.prems(1) Some l by (metis fst_conv list.set_intros(1))
      then show ?thesis
        using Cons.prems Cons.IH [of "AList.update h s' ss" "lg @ [h]"] True Some l by auto
    next
      case False
      then show ?thesis using Cons Some by simp
    qed
  qed
qed simp

text \<open>When the token was public and the session manager's precondition for a security officer
  login holds, the login of all sessions cannot fail, and the slot agrees with the token again.\<close>

lemma login_all_inv:
  assumes "slot_inv sl t (sm_sessions sm)" "table_wf (sm_sessions sm)" "au_login (tk_auth t) = Public"
    "ut = CKU_USER \<or> ut = CKU_SO \<and> \<not> has_ro_sessions sl sm" "login_all sl ut sm = (r, sm')"
    "session_total t' = session_total t" "rw_session_total t' = rw_session_total t"
    "au_login (tk_auth t') = role_of ut"
  shows "r = Inr ()" "slot_inv sl t' (sm_sessions sm')" "table_wf (sm_sessions sm')"
    "sl' \<noteq> sl \<Longrightarrow> slot_inv sl' u (sm_sessions sm') = slot_inv sl' u (sm_sessions sm)"
proof -
  let ?ss = "sm_sessions sm" and ?f = "\<lambda>s. if ss_slot_id s = sl then snd (session_login ut s) else s"
  have d: "distinct (map fst ?ss)" using assms(2) by (simp add: table_wf_def)
  have ok: "fst (session_login ut s) = Inr ()" if "(h, s) \<in> set ?ss" "ss_slot_id s = sl" for h s
  proof (rule session_login_ok)
    show "\<not> state_is_logged_in (ss_state s)" using that assms(1,3) by (auto simp: slot_inv_def slot_logins_def)
    show "session_is_rw s" if "ut \<noteq> CKU_USER"
      using that assms(4) \<open>(h, s) \<in> set ?ss\<close> \<open>ss_slot_id s = sl\<close> by (auto simp: has_ro_sessions_def list_ex_iff)
  qed
  have ut: "ut = CKU_USER \<or> ut = CKU_SO" using assms(4) by auto
  note lookup = login_all_lookup [OF d ut assms(5)]
  show r: "r = Inr ()"
  proof (rule ccontr)
    assume "r \<noteq> Inr ()"
    have "fst (login_sessions ut sl (map fst (filter (in_slot sl) ?ss)) [] ?ss) = Inr ()"
      using ok slot_handles(1) [OF d] by (intro login_sessions_no_fail) (auto dest: map_of_SomeD)
    then show False using assms(5) ut \<open>r \<noteq> Inr ()\<close>
      by (auto simp: login_all_def Let_def in_slot_fold split: prod.splits)
  qed
  then have ss: "sm_sessions sm' = map (\<lambda>(h, s). (h, ?f s)) ?ss" using lookup by simp
  show "table_wf (sm_sessions sm')" using assms(2) unfolding ss by (subst table_wf_map) auto
  have c: "slot_counted k v (sm_sessions sm') = slot_counted k v ?ss" for k v
    unfolding ss by (rule slot_counted_map) auto
  have "slot_logins sl t' (sm_sessions sm')"
    unfolding ss slot_logins_map assms(8) using ok session_login_matches [of ut] by auto
  then show "slot_inv sl t' (sm_sessions sm')"
    using assms(1) slot_counted_cong [OF assms(6,7), of sl ?ss] by (simp add: slot_inv_def c)
  show "slot_inv sl' u (sm_sessions sm') = slot_inv sl' u ?ss" if "sl' \<noteq> sl"
  proof -
    have "slot_logins sl' u (sm_sessions sm') = slot_logins sl' u ?ss"
      unfolding ss slot_logins_map using that by (auto simp: slot_logins_def)
    then show ?thesis by (simp add: slot_inv_def c)
  qed
qed

lemma cancel_session_frame [simp]:
  "ss_slot_id (cancel_session sl s) = ss_slot_id s" "ss_handle (cancel_session sl s) = ss_handle s"
  "ss_closed (cancel_session sl s) = ss_closed s" "session_is_rw (cancel_session sl s) = session_is_rw s"
  by (simp_all add: cancel_session_def session_is_rw_def)

lemma cancel_sessions_inv:
  assumes "slot_inv sl t (sm_sessions sm)" "session_total t' = session_total t"
    "rw_session_total t' = rw_session_total t" "au_login (tk_auth t') = Public"
  shows "slot_inv sl t' (sm_sessions (cancel_sessions_for_slot sl sm))"
    "sl' \<noteq> sl \<Longrightarrow> slot_inv sl' u (sm_sessions (cancel_sessions_for_slot sl sm)) = slot_inv sl' u (sm_sessions sm)"
proof -
  have ss: "sm_sessions (cancel_sessions_for_slot sl sm) = map (\<lambda>(h, s). (h, cancel_session sl s)) (sm_sessions sm)"
    by (simp add: cancel_sessions_for_slot_def)
  have c: "slot_counted k v (map (\<lambda>(h, s). (h, cancel_session sl s)) (sm_sessions sm)) = slot_counted k v (sm_sessions sm)" for k v
    by (rule slot_counted_map) auto
  have "slot_logins sl t' (map (\<lambda>(h, s). (h, cancel_session sl s)) (sm_sessions sm))"
    unfolding slot_logins_map assms(4) by (auto simp: cancel_session_def on_logout_public)
  then show "slot_inv sl t' (sm_sessions (cancel_sessions_for_slot sl sm))"
    using assms(1) slot_counted_cong [OF assms(2,3)] by (simp add: slot_inv_def c ss)
  have "slot_logins sl' u (map (\<lambda>(h, s). (h, cancel_session sl s)) (sm_sessions sm)) = slot_logins sl' u (sm_sessions sm)"
    if "sl' \<noteq> sl" unfolding slot_logins_map using that by (auto simp: slot_logins_def cancel_session_def)
  then show "sl' \<noteq> sl \<Longrightarrow> slot_inv sl' u (sm_sessions (cancel_sessions_for_slot sl sm)) = slot_inv sl' u (sm_sessions sm)"
    by (simp add: slot_inv_def c ss)
qed

lemma cancel_sessions_table_wf:
  "table_wf (sm_sessions (cancel_sessions_for_slot sl sm)) = table_wf (sm_sessions sm)"
  unfolding cancel_sessions_for_slot_def by (simp add: table_wf_map)

text \<open>An operation that changes the operation in progress, the search or the activity of one
  session keeps the agreement of every slot.\<close>

lemma session_update_inv:
  assumes "map_of ss h = Some s" "table_wf ss" "ss_slot_id s' = ss_slot_id s" "ss_state s' = ss_state s"
    "slot_inv sl t ss"
  shows "slot_inv sl t (AList.update h s' ss)"
proof -
  have d: "distinct (map fst ss)" using assms(2) by (simp add: table_wf_def)
  have "slot_logins sl t (AList.update h s' ss)"
    using assms map_of_SomeD [OF assms(1)] by (intro slot_logins_update) (auto simp: slot_inv_def slot_logins_def)
  moreover have "slot_counted sl t (AList.update h s' ss)"
    using assms(3-5) count_update_same [OF assms(1) d, of "in_slot sl" s']
      count_update_same [OF assms(1) d, of "\<lambda>p. in_slot sl p \<and> session_is_rw (snd p)" s']
    by (simp add: slot_inv_def slot_counted_def session_is_rw_def)
  ultimately show ?thesis by (simp add: slot_inv_def)
qed

section \<open>The thread-local cache\<close>

text \<open>Every state a manager can reach, indexed by the number of calls that opened a session. The
  token of each call is arbitrary, and \<open>mgr_use\<close> stands for any handler that changes the
  contents of one open session.\<close>

inductive mgr_reach :: "u64 list \<Rightarrow> nat \<Rightarrow> session_manager \<Rightarrow> bool" for keys where
  mgr_new: "mgr_reach keys 0 (session_manager_new keys)"
| mgr_timeout: "mgr_reach keys n sm \<Longrightarrow> mgr_reach keys n (set_idle_timeout d sm)"
| mgr_open: "mgr_reach keys n sm \<Longrightarrow> mgr_reach keys (Suc n) (snd (snd (open_session now sl flags t sm)))"
| mgr_close: "mgr_reach keys n sm \<Longrightarrow> mgr_reach keys n (snd (snd (close_session tid h t sm)))"
| mgr_close_all: "mgr_reach keys n sm \<Longrightarrow> mgr_reach keys n (snd (close_all_sessions tid sl t sm))"
| mgr_cleanup: "mgr_reach keys n sm \<Longrightarrow> mgr_reach keys n (snd (cleanup_idle_sessions now sm))"
| mgr_cached: "mgr_reach keys n sm \<Longrightarrow> mgr_reach keys n (snd (get_session_cached tid h sm))"
| mgr_login: "mgr_reach keys n sm \<Longrightarrow> mgr_reach keys n (snd (login_all sl ut sm))"
| mgr_cancel: "mgr_reach keys n sm \<Longrightarrow> mgr_reach keys n (cancel_sessions_for_slot sl sm)"
| mgr_logout: "mgr_reach keys n sm \<Longrightarrow> mgr_reach keys n (snd (logout_all sl sm))"
| mgr_touch: "mgr_reach keys n sm \<Longrightarrow> mgr_reach keys n (snd (check_and_touch tid now h sm))"
| mgr_use: "mgr_reach keys n sm \<Longrightarrow> map_of (sm_sessions sm) h = Some s \<Longrightarrow>
    mgr_reach keys n (sm\<lparr>sm_sessions := AList.update h s' (sm_sessions sm)\<rparr>)"

definition cache_ok :: "session_manager \<Rightarrow> bool" where
  "cache_ok sm \<longleftrightarrow> (\<forall>tid h g. sm_tls_cache sm tid = Some (h, g) \<longrightarrow>
     g \<le> sm_generation sm \<and> (g = sm_generation sm \<longrightarrow> h \<in> fst ` set (sm_sessions sm)))"

definition mgr_inv :: "u64 list \<Rightarrow> nat \<Rightarrow> session_manager \<Rightarrow> bool" where
  "mgr_inv keys n sm \<longleftrightarrow>
     (\<exists>m \<le> n. sm_handle_alloc sm = snd (session_nexts m ULong64 (session_allocator_new keys)) \<and>
        fst ` set (sm_sessions sm) \<subseteq> set (fst (session_nexts m ULong64 (session_allocator_new keys)))) \<and>
     distinct (map fst (sm_sessions sm)) \<and> unat (sm_generation sm) + length (sm_sessions sm) \<le> n \<and> cache_ok sm"

lemma mgr_inv_rekey:
  assumes "mgr_inv keys n sm" "map fst ss = map fst (sm_sessions sm)"
  shows "mgr_inv keys n (sm\<lparr>sm_sessions := ss\<rparr>)"
proof -
  have "length ss = length (sm_sessions sm)" "fst ` set ss = fst ` set (sm_sessions sm)"
    using assms(2) by (metis length_map, metis list.set_map)
  then show ?thesis using assms by (simp add: mgr_inv_def cache_ok_def)
qed

lemma bump_unat:
  assumes "mgr_inv keys n sm" "n < 2 ^ 64"
  shows "unat (sm_generation sm) + 1 < 2 ^ 64 \<or> sm_sessions sm = []"
  using assms by (cases "sm_sessions sm") (auto simp: mgr_inv_def)

lemma mgr_inv_remove:
  assumes "mgr_inv keys n sm" "n < 2 ^ 64" "set ss \<subseteq> set (sm_sessions sm)" "length ss < length (sm_sessions sm)"
    "distinct (map fst ss)"
  shows "mgr_inv keys n (bump_generation (sm\<lparr>sm_sessions := ss\<rparr>))"
proof -
  let ?g = "sm_generation sm"
  have g: "unat ?g + 1 < 2 ^ 64" using assms bump_unat [OF assms(1,2)] by auto
  then have u: "unat (?g + 1) = unat ?g + 1" by (simp add: unat_word_ariths unsigned_1)
  have "g \<le> ?g + 1 \<and> g \<noteq> ?g + 1" if "sm_tls_cache sm tid = Some (h, g)" for tid h g
  proof -
    have "unat g \<le> unat ?g" using assms(1) that by (auto simp: mgr_inv_def cache_ok_def word_le_nat_alt)
    then show ?thesis using u by (auto simp: word_le_nat_alt)
  qed
  then have "cache_ok (bump_generation (sm\<lparr>sm_sessions := ss\<rparr>))"
    by (auto simp: cache_ok_def bump_generation_def)
  moreover have "fst ` set ss \<subseteq> fst ` set (sm_sessions sm)" using assms(3) by auto
  ultimately show ?thesis using assms u unfolding mgr_inv_def by simp (meson order_trans)
qed

lemma mgr_inv_forget:
  "mgr_inv keys n sm \<Longrightarrow> mgr_inv keys n (invalidate_session_cache tid h sm)"
  "mgr_inv keys n sm \<Longrightarrow> mgr_inv keys n (invalidate_all_session_caches tid sm)"
  "mgr_inv keys n sm \<Longrightarrow> mgr_inv keys n (sm\<lparr>sm_idle_timeout := d\<rparr>)"
  by (auto simp: mgr_inv_def cache_ok_def invalidate_session_cache_def invalidate_all_session_caches_def
      split: option.split)

lemma delete_shorter:
  "distinct (map fst xs) \<Longrightarrow> map_of xs k = Some v \<Longrightarrow> length (AList.delete k xs) < length xs"
  using count_delete [of xs k v "\<lambda>_. True"] by simp

lemma mgr_inv_mono: "mgr_inv keys n sm \<Longrightarrow> mgr_inv keys (Suc n) sm"
  unfolding mgr_inv_def by (meson le_SucI)

lemma session_allocator_new_start: "sha_next (session_allocator_new keys) \<le> MAX_HANDLE ULong64"
  by (simp add: session_allocator_new_def)

lemma next_handle_fresh:
  assumes "mgr_inv keys n sm" "Suc n < 2 ^ 64"
  shows "map_of (sm_sessions sm) (fst (session_next ULong64 (sm_handle_alloc sm))) = None"
proof -
  let ?a = "session_allocator_new keys"
  obtain m where m: "m \<le> n" "sm_handle_alloc sm = snd (session_nexts m ULong64 ?a)"
      "fst ` set (sm_sessions sm) \<subseteq> set (fst (session_nexts m ULong64 ?a))"
    using assms(1) by (auto simp: mgr_inv_def)
  have "unat (MAX_HANDLE ULong64) = 2 ^ 64 - 1" by simp
  then have "distinct (fst (session_nexts (Suc m) ULong64 ?a))"
    using m(1) assms(2) by (intro session_nexts_distinct session_allocator_new_start) simp
  then have "fst (session_next ULong64 (sm_handle_alloc sm)) \<notin> set (fst (session_nexts m ULong64 ?a))"
    using m(2) by (auto simp: Let_def case_prod_beta)
  then show ?thesis using m(3) by (auto simp: map_of_eq_None_iff)
qed

lemma mgr_inv_open:
  assumes "mgr_inv keys n sm" "Suc n < 2 ^ 64" "open_session now sl flags t sm = (r, t', sm')"
  shows "mgr_inv keys (Suc n) sm'"
  using assms(3)
proof (cases rule: open_session_cases)
  case refused
  then show ?thesis using assms(1) by (simp add: mgr_inv_mono)
next
  case (opened h s)
  let ?a = "session_allocator_new keys"
  obtain m where m: "m \<le> n" "sm_handle_alloc sm = snd (session_nexts m ULong64 ?a)"
      "fst ` set (sm_sessions sm) \<subseteq> set (fst (session_nexts m ULong64 ?a))"
    using assms(1) by (auto simp: mgr_inv_def)
  have next_m: "session_nexts (Suc m) ULong64 ?a = (fst (session_nexts m ULong64 ?a) @ [h], sm_handle_alloc sm')"
    using opened(4) m(2) by (simp add: Let_def case_prod_beta)
  have new: "map_of (sm_sessions sm) h = None" using next_handle_fresh [OF assms(1,2)] opened(4) by simp
  have upd: "AList.update h s (sm_sessions sm) = sm_sessions sm @ [(h, s)]"
    using new by (intro al_update_new) (simp add: map_of_eq_None_iff)
  obtain a where sm': "sm' = sm\<lparr>sm_handle_alloc := a, sm_sessions := sm_sessions sm @ [(h, s)]\<rparr>"
    using opened(5) upd by metis
  have "\<exists>m \<le> Suc n. sm_handle_alloc sm' = snd (session_nexts m ULong64 ?a) \<and>
      fst ` set (sm_sessions sm') \<subseteq> set (fst (session_nexts m ULong64 ?a))"
    using m next_m sm' by (intro exI [of _ "Suc m"]) auto
  moreover have "cache_ok sm'" using assms(1) by (auto simp: mgr_inv_def cache_ok_def sm')
  moreover have "h \<notin> fst ` set (sm_sessions sm)" using new by (simp add: map_of_eq_None_iff)
  ultimately show ?thesis using assms(1) unfolding mgr_inv_def by (simp add: sm')
qed

lemma mgr_inv_delete:
  assumes "mgr_inv keys n sm" "n < 2 ^ 64" "map_of (sm_sessions sm) h = Some s"
  shows "mgr_inv keys n (bump_generation (sm\<lparr>sm_sessions := AList.delete h (sm_sessions sm)\<rparr>))"
proof -
  have "distinct (map fst (sm_sessions sm))" using assms(1) by (simp add: mgr_inv_def)
  then show ?thesis
    using assms by (intro mgr_inv_remove) (auto simp: al_delete_set delete_shorter distinct_delete)
qed

lemma mgr_inv_filter:
  assumes "mgr_inv keys n sm" "n < 2 ^ 64"
  shows "mgr_inv keys n (if filter P (sm_sessions sm) \<noteq> []
    then bump_generation (sm\<lparr>sm_sessions := filter (\<lambda>p. \<not> P p) (sm_sessions sm)\<rparr>)
    else sm\<lparr>sm_sessions := filter (\<lambda>p. \<not> P p) (sm_sessions sm)\<rparr>)"
proof (cases "filter P (sm_sessions sm) = []")
  case True
  then have "filter (\<lambda>p. \<not> P p) (sm_sessions sm) = sm_sessions sm" by (simp add: filter_empty_conv filter_id_conv)
  then show ?thesis using True assms by simp
next
  case False
  have "length (filter (\<lambda>p. \<not> P p) (sm_sessions sm)) < length (sm_sessions sm)"
    using False by (auto simp: filter_empty_conv intro!: length_filter_less)
  moreover have "distinct (map fst (sm_sessions sm))" using assms(1) by (simp add: mgr_inv_def)
  ultimately show ?thesis using False assms by (auto intro!: mgr_inv_remove simp: distinct_map_filter)
qed

lemma mgr_reach_inv: "mgr_reach keys n sm \<Longrightarrow> n < 2 ^ 64 \<Longrightarrow> mgr_inv keys n sm"
proof (induction rule: mgr_reach.induct)
  case mgr_new
  then show ?case by (auto simp: mgr_inv_def session_manager_new_def cache_ok_def)
next
  case (mgr_timeout n sm d)
  then show ?case by (simp add: set_idle_timeout_def mgr_inv_forget)
next
  case (mgr_open n sm now sl flags t)
  then show ?case using mgr_inv_open [of keys n sm now sl flags t] by (metis Suc_lessD prod.collapse)
next
  case (mgr_close n sm tid h t)
  then show ?case
    by (cases "map_of (sm_sessions sm) h")
      (simp_all add: close_session_def Let_def case_prod_beta mgr_inv_forget mgr_inv_delete)
next
  case (mgr_close_all n sm tid sl t)
  then show ?case
    using mgr_inv_filter [OF mgr_inv_forget(2) [of keys n sm tid], of "in_slot sl"]
    by (simp add: close_all_sessions_def Let_def in_slot_fold)
next
  case (mgr_cleanup n sm now)
  then show ?case using mgr_inv_filter [of keys n sm "\<lambda>(h, s). idle_duration now s > sm_idle_timeout sm"]
    by (simp add: cleanup_idle_sessions_def Let_def)
next
  case (mgr_cached n sm tid h)
  then show ?case by (auto simp: get_session_cached_def get_session_def Let_def ok_or_def mgr_inv_def cache_ok_def
        split: option.splits dest: map_of_SomeD intro: rev_image_eqI)
next
  case (mgr_login n sm sl ut)
  then show ?case
    by (auto simp: login_all_def Let_def case_prod_beta intro!: mgr_inv_rekey login_sessions_keys)
next
  case (mgr_cancel n sm sl)
  then show ?case by (auto simp: cancel_sessions_for_slot_def intro!: mgr_inv_rekey)
next
  case (mgr_logout n sm sl)
  then show ?case by (auto simp: logout_all_def Let_def intro!: mgr_inv_rekey)
next
  case (mgr_touch n sm tid now h)
  then show ?case
    by (cases "map_of (sm_sessions sm) h")
      (auto simp: check_and_touch_def get_session_def intro!: mgr_inv_forget mgr_inv_delete mgr_inv_rekey al_update_keys)
next
  case (mgr_use n sm h s s')
  then show ?case by (intro mgr_inv_rekey al_update_keys) auto
qed


text \<open>\<^bold>\<open>C29\<close>. Login of all sessions of a slot is all or nothing: on success every session of the
  slot is in the state of the new role with its read/write mode unchanged and the sessions of
  other slots are untouched; on failure every session of the table is back in the state it had,
  whatever the iteration order of the table.\<close>

theorem login_all_atomic:
  assumes "table_wf (sm_sessions sm)" "ut = CKU_USER \<or> ut = CKU_SO" "map_of (sm_sessions sm) h = Some s"
    "login_all sl ut sm = (r, sm')"
  shows "\<exists>s'. map_of (sm_sessions sm') h = Some s' \<and>
    (case r of
       Inl _ \<Rightarrow> ss_state s' = ss_state s
     | Inr _ \<Rightarrow> if ss_slot_id s = sl
         then login_matches (if ut = CKU_USER then UserLoggedIn else SoLoggedIn) (ss_state s') \<and>
           session_is_rw s' = session_is_rw s
         else s' = s)"
proof -
  have d: "distinct (map fst (sm_sessions sm))" using assms(1) by (simp add: table_wf_def)
  note spec = login_all_lookup [OF d assms(2,4)]
  show ?thesis
  proof (cases r)
    case (Inl e)
    then have "map_option ss_state (map_of (sm_sessions sm') h) = Some (ss_state s)"
      using spec assms(3) by simp
    then show ?thesis using Inl by auto
  next
    case (Inr u)
    then have "map_of (sm_sessions sm') h = Some (if ss_slot_id s = sl then snd (session_login ut s) else s)"
      "ss_slot_id s = sl \<Longrightarrow> fst (session_login ut s) = Inr ()"
      using spec assms(3) by (auto simp: map_of_map_val)
    then show ?thesis using Inr session_login_matches [of ut s] by (simp add: role_of_def)
  qed
qed

definition racing_handle :: u64 where
  "racing_handle = fst (session_next ULong64 (session_allocator_new [1, 2, 3, 4]))"

definition racing_manager :: session_manager where
  "racing_manager =
    snd (snd (close_session 1 racing_handle sample_token
      (snd (get_session_cached 0 racing_handle
        (snd (snd (open_session 0 0 6 sample_token (session_manager_new [1, 2, 3, 4]))))))))"


definition mixed_manager :: session_manager where
  "mixed_manager = (session_manager_new [])\<lparr>sm_sessions := [(5, session_new 5 0 6 0), (7, session_new 7 0 4 0)]\<rparr>"

theorem login_all_atomic_witness:
  "fst (login_all 0 CKU_SO mixed_manager) = Inl SessionReadOnly \<and>
   map_option ss_state (map_of (sm_sessions (snd (login_all 0 CKU_SO mixed_manager))) 5) = Some RwPublic"
proof -
  have "table_wf (sm_sessions mixed_manager)"
    "map_of (sm_sessions mixed_manager) 5 = Some (session_new 5 0 6 0)"
    by (simp_all add: mixed_manager_def table_wf_def)
  moreover have "fst (login_all 0 CKU_SO mixed_manager) = Inl SessionReadOnly" by code_simp
  ultimately show ?thesis
    using login_all_atomic [of mixed_manager CKU_SO 5 "session_new 5 0 6 0" 0
      "fst (login_all 0 CKU_SO mixed_manager)" "snd (login_all 0 CKU_SO mixed_manager)"]
    by (cases "login_all 0 CKU_SO mixed_manager") auto
qed

text \<open>\<^bold>\<open>C40\<close>. An idle timeout leaks the session's slot in the token's count: the session is gone from
  the table, but unlike every other way of closing a session the token still counts it, so each
  timeout permanently uses up one of the token's \<open>max_sessions\<close>.\<close>

theorem idle_timeout_leaks_count:
  assumes "table_wf (sm_sessions sm)" "map_of (sm_sessions sm) h = Some s"
    "slot_inv (ss_slot_id s) t (sm_sessions sm)" "sm_idle_timeout sm \<noteq> 0"
    "idle_duration now s > sm_idle_timeout sm"
  shows "fst (check_and_touch tid now h sm) = Inl SessionClosed \<and>
    session_total t = length (filter (in_slot (ss_slot_id s)) (sm_sessions (snd (check_and_touch tid now h sm)))) + 1"
proof -
  have "distinct (map fst (sm_sessions sm))" using assms(1) by (simp add: table_wf_def)
  then show ?thesis
    using assms(2-5) count_delete [of "sm_sessions sm" h s "in_slot (ss_slot_id s)"]
    by (simp add: check_and_touch_def get_session_def slot_inv_def slot_counted_def)
qed

definition idle_manager :: session_manager where
  "idle_manager = (session_manager_new [])\<lparr>sm_sessions := [(5, session_new 5 0 4 0)], sm_idle_timeout := 1000\<rparr>"

theorem idle_timeout_leaks_count_witness:
  "session_total (sample_token\<lparr>tk_session_count := 1\<rparr>) =
     length (filter (in_slot 0) (sm_sessions (snd (check_and_touch 0 5000 5 idle_manager)))) + 1"
proof -
  let ?t = "sample_token\<lparr>tk_session_count := 1\<rparr>"
  have "tk_rw_session_count sample_token = 0" "au_login (tk_auth sample_token) = Public" by code_simp+
  then have "slot_inv 0 ?t (sm_sessions idle_manager)"
    by (simp add: slot_inv_def slot_counted_def slot_logins_def idle_manager_def session_total_def
        rw_session_total_def session_is_rw_def)
  moreover have "table_wf (sm_sessions idle_manager)"
    "map_of (sm_sessions idle_manager) 5 = Some (session_new 5 0 4 0)" "sm_idle_timeout idle_manager = 1000"
    "idle_duration 5000 (session_new 5 0 4 0) = 5000"
    by (simp_all add: idle_manager_def table_wf_def idle_duration_def session_new_def)
  ultimately show ?thesis
    using idle_timeout_leaks_count [of idle_manager 5 "session_new 5 0 4 0" ?t 5000 0] by simp
qed

end
