(* ===== verification/Op_State.thy ===== *)
theory Op_State
  imports Session
begin

text \<open>
  Saving and restoring the state of an operation (\<open>ActiveOperation::serialize_state\<close> and
  \<open>deserialize_state\<close> in \<open>src/src/session/session.rs\<close>). HMAC-SHA256 is third-party code: the
  parameter \<open>hmac\<close> maps key and message to the tag, whose length is 32 bytes.
\<close>

abbreviation (input) OP_TYPE_ENCRYPT :: byte where "OP_TYPE_ENCRYPT \<equiv> 0"
abbreviation (input) OP_TYPE_DECRYPT :: byte where "OP_TYPE_DECRYPT \<equiv> 1"
abbreviation (input) OP_TYPE_SIGN :: byte where "OP_TYPE_SIGN \<equiv> 2"
abbreviation (input) OP_TYPE_VERIFY :: byte where "OP_TYPE_VERIFY \<equiv> 3"
abbreviation (input) OP_TYPE_DIGEST :: byte where "OP_TYPE_DIGEST \<equiv> 4"
abbreviation (input) OP_STATE_HMAC_LEN :: nat where "OP_STATE_HMAC_LEN \<equiv> 32"
abbreviation (input) OP_STATE_MAX_PARAM_LEN :: nat where "OP_STATE_MAX_PARAM_LEN \<equiv> 65536"
abbreviation (input) OP_STATE_MAX_DATA_LEN :: nat where "OP_STATE_MAX_DATA_LEN \<equiv> 4194304"

type_synonym hmac_fn = "bytes \<Rightarrow> bytes \<Rightarrow> bytes"

definition OP_STATE_MAGIC :: bytes where
  "OP_STATE_MAGIC = [0x4F, 0x50, 0x53, 0x31]"

definition slice :: "nat \<Rightarrow> nat \<Rightarrow> bytes \<Rightarrow> bytes" where
  "slice i j bs = take (j - i) (drop i bs)"

definition write_field :: "bytes \<Rightarrow> bytes \<Rightarrow> nat \<Rightarrow> bytes hsm_result" where
  "write_field buf field max_len =
    (if length field > max_len then Inl DataLenRange
     else Inr (buf @ u32_le (word_of_nat (length field)) @ field))"

definition op_state_header :: "u64 \<Rightarrow> u64 \<Rightarrow> byte \<Rightarrow> ck_ulong \<Rightarrow> u64 \<Rightarrow> bytes" where
  "op_state_header session_handle slot_id op_type mechanism key_handle =
    OP_STATE_MAGIC @ u64_le session_handle @ u64_le slot_id @ [op_type] @ u64_le mechanism @ u64_le key_handle"

definition op_state_payload :: "u64 \<Rightarrow> u64 \<Rightarrow> active_operation \<Rightarrow> bytes hsm_result" where
  "op_state_payload session_handle slot_id op =
    (case op of
       OpEncrypt mechanism key_handle mechanism_param data _ \<Rightarrow>
         res_bind (write_field (op_state_header session_handle slot_id OP_TYPE_ENCRYPT mechanism key_handle)
           mechanism_param OP_STATE_MAX_PARAM_LEN) (\<lambda>buf. write_field buf data OP_STATE_MAX_DATA_LEN)
     | OpDecrypt mechanism key_handle mechanism_param data _ \<Rightarrow>
         res_bind (write_field (op_state_header session_handle slot_id OP_TYPE_DECRYPT mechanism key_handle)
           mechanism_param OP_STATE_MAX_PARAM_LEN) (\<lambda>buf. write_field buf data OP_STATE_MAX_DATA_LEN)
     | OpSign mechanism key_handle data _ _ \<Rightarrow>
         write_field (op_state_header session_handle slot_id OP_TYPE_SIGN mechanism key_handle @ u32_le 0)
           data OP_STATE_MAX_DATA_LEN
     | OpVerify mechanism key_handle data _ _ \<Rightarrow>
         write_field (op_state_header session_handle slot_id OP_TYPE_VERIFY mechanism key_handle @ u32_le 0)
           data OP_STATE_MAX_DATA_LEN
     | OpDigest mechanism _ accumulated_input \<Rightarrow>
         write_field (op_state_header session_handle slot_id OP_TYPE_DIGEST mechanism 0 @ u32_le 0)
           accumulated_input OP_STATE_MAX_DATA_LEN)"

definition serialize_state :: "hmac_fn \<Rightarrow> bytes \<Rightarrow> u64 \<Rightarrow> u64 \<Rightarrow> active_operation \<Rightarrow> bytes hsm_result" where
  "serialize_state hmac state_hmac_key session_handle slot_id op =
    res_bind (op_state_payload session_handle slot_id op) (\<lambda>buf. Inr (buf @ hmac state_hmac_key buf))"

type_synonym restored_op = "byte \<times> ck_ulong \<times> u64 \<times> bytes \<times> bytes"

definition deserialize_state :: "hmac_fn \<Rightarrow> bytes \<Rightarrow> bytes \<Rightarrow> u64 \<Rightarrow> u64 \<Rightarrow> restored_op hsm_result" where
  "deserialize_state hmac blob state_hmac_key expected_session expected_slot =
    (if length blob < 41 + OP_STATE_HMAC_LEN then Inl DataInvalid
     else
      (let payload = take (length blob - OP_STATE_HMAC_LEN) blob;
           provided_tag = drop (length blob - OP_STATE_HMAC_LEN) blob
       in
       if provided_tag \<noteq> hmac state_hmac_key payload then Inl DataInvalid
       else if take 4 payload \<noteq> OP_STATE_MAGIC then Inl DataInvalid
       else
        (let blob_session = le_word (slice 4 12 payload); blob_slot = le_word (slice 12 20 payload) in
         if blob_session \<noteq> expected_session \<or> blob_slot \<noteq> expected_slot then Inl DataInvalid
         else
          (let op_type = payload ! 20 in
           if op_type \<notin> {OP_TYPE_ENCRYPT, OP_TYPE_DECRYPT, OP_TYPE_SIGN, OP_TYPE_VERIFY, OP_TYPE_DIGEST}
           then Inl DataInvalid
           else
            (let mechanism = le_word (slice 21 29 payload); key_handle = le_word (slice 29 37 payload);
                 param_len = unat (le_word (slice 37 41 payload) :: u32) in
             if param_len > OP_STATE_MAX_PARAM_LEN then Inl DataInvalid
             else if length payload < 41 + param_len + 4 then Inl DataInvalid
             else
              (let mechanism_param = slice 41 (41 + param_len) payload; data_offset = 41 + param_len;
                   data_len = unat (le_word (slice data_offset (data_offset + 4) payload) :: u32) in
               if data_len > OP_STATE_MAX_DATA_LEN then Inl DataInvalid
               else if length payload < data_offset + 4 + data_len then Inl DataInvalid
               else Inr (op_type, mechanism, key_handle, mechanism_param,
                      slice (data_offset + 4) (data_offset + 4 + data_len) payload)))))))"

section \<open>Round trip\<close>

text \<open>What of an operation a saved state records: its type, mechanism, key handle, parameter and
  accumulated data. The hasher and the cached object are not part of it.\<close>

fun saved_view :: "active_operation \<Rightarrow> restored_op" where
  "saved_view (OpEncrypt m k p d _) = (OP_TYPE_ENCRYPT, m, k, p, d)"
| "saved_view (OpDecrypt m k p d _) = (OP_TYPE_DECRYPT, m, k, p, d)"
| "saved_view (OpSign m k d _ _) = (OP_TYPE_SIGN, m, k, [], d)"
| "saved_view (OpVerify m k d _ _) = (OP_TYPE_VERIFY, m, k, [], d)"
| "saved_view (OpDigest m _ d) = (OP_TYPE_DIGEST, m, 0, [], d)"

lemma u32_len_roundtrip:
  assumes "n < 2 ^ 32"
  shows "unat (word_of_nat n :: u32) = n"
  using assms by (simp only: unsigned_of_nat) (simp add: take_bit_nat_eq_self)

lemma magic_length [simp]: "length OP_STATE_MAGIC = 4"
  by (simp add: OP_STATE_MAGIC_def)

definition encode_fields :: "u64 \<Rightarrow> u64 \<Rightarrow> restored_op \<Rightarrow> bytes" where
  "encode_fields session_handle slot_id r =
    (case r of (op_type, mechanism, key_handle, param, data) \<Rightarrow>
      op_state_header session_handle slot_id op_type mechanism key_handle @
      u32_le (word_of_nat (length param)) @ param @ u32_le (word_of_nat (length data)) @ data)"

lemma op_state_payload_eq:
  "op_state_payload session_handle slot_id op =
    (case saved_view op of (op_type, mechanism, key_handle, param, data) \<Rightarrow>
      if length param > OP_STATE_MAX_PARAM_LEN \<or> length data > OP_STATE_MAX_DATA_LEN then Inl DataLenRange
      else Inr (encode_fields session_handle slot_id (saved_view op)))"
  by (cases op) (simp_all add: op_state_payload_def write_field_def encode_fields_def)

lemma slices_of_encoding:
  assumes "payload = encode_fields s sl (ty, m, k, p, d)" "length p \<le> OP_STATE_MAX_PARAM_LEN"
    "length d \<le> OP_STATE_MAX_DATA_LEN"
  shows "take 4 payload = OP_STATE_MAGIC" "slice 4 12 payload = u64_le s" "slice 12 20 payload = u64_le sl"
    "payload ! 20 = ty" "slice 21 29 payload = u64_le m" "slice 29 37 payload = u64_le k"
    "slice 37 41 payload = u32_le (word_of_nat (length p))"
    "slice 41 (41 + length p) payload = p"
    "slice (41 + length p) (45 + length p) payload = u32_le (word_of_nat (length d))"
    "slice (45 + length p) (45 + length p + length d) payload = d"
    "length payload = 45 + length p + length d"
  using assms(1) by (simp_all add: encode_fields_def op_state_header_def slice_def nth_append
      drop_Cons')

text \<open>\<^bold>\<open>C22\<close>. Restoring a saved operation state in the session and slot that saved it returns
  exactly the type, mechanism, key handle, parameter and data of the saved operation; the save
  itself fails only for oversized fields.\<close>

theorem op_state_roundtrip:
  assumes "\<And>key msg. length (hmac key msg) = OP_STATE_HMAC_LEN"
    and "serialize_state hmac key session_handle slot_id op = Inr blob"
  shows "deserialize_state hmac blob key session_handle slot_id = Inr (saved_view op)"
proof -
  obtain ty m k p d where view: "saved_view op = (ty, m, k, p, d)"
    by (cases "saved_view op")
  define payload where "payload = encode_fields session_handle slot_id (ty, m, k, p, d)"
  have sizes: "length p \<le> OP_STATE_MAX_PARAM_LEN" "length d \<le> OP_STATE_MAX_DATA_LEN"
    and blob: "blob = payload @ hmac key payload"
    using assms(2)
    by (auto simp: serialize_state_def op_state_payload_eq view payload_def res_bind_eq_Inr split: if_splits)
  note sl = slices_of_encoding [OF payload_def sizes]
  have ty: "ty \<in> {0, 1, 2, 3, 4}"
    using view by (cases op) auto
  have lens: "unat (word_of_nat (length p) :: u32) = length p" "unat (word_of_nat (length d) :: u32) = length d"
    using sizes by (auto intro!: u32_len_roundtrip)
  show ?thesis
    unfolding blob deserialize_state_def
    using ty sizes by (simp add: sl assms(1) lens view Let_def)
qed


definition flat_hmac :: hmac_fn where
  "flat_hmac key msg = take 32 (key @ replicate 32 0)"

definition sample_sign_op :: active_operation where
  "sample_sign_op = OpSign CKM_ECDSA 77 [1, 2, 3] None (Some 77)"

lemma flat_hmac_length: "length (flat_hmac key msg) = 32"
  by (simp add: flat_hmac_def)

lemma sample_sign_op_saves: "\<exists>blob. serialize_state flat_hmac key session_handle slot_id sample_sign_op = Inr blob"
  by (simp add: serialize_state_def op_state_payload_def write_field_def sample_sign_op_def)

theorem op_state_roundtrip_witness:
  "\<exists>blob. serialize_state flat_hmac [9] 5 0 sample_sign_op = Inr blob \<and>
     deserialize_state flat_hmac blob [9] 5 0 = Inr (2, CKM_ECDSA, 77, [], [1, 2, 3])"
proof -
  obtain blob where "serialize_state flat_hmac [9] 5 0 sample_sign_op = Inr blob"
    using sample_sign_op_saves by blast
  with op_state_roundtrip [of flat_hmac, OF flat_hmac_length this] show ?thesis
    by (simp add: sample_sign_op_def)
qed

section \<open>Binding to the session\<close>

lemma deserialize_state_accepts:
  assumes "deserialize_state hmac blob key s sl = Inr r"
  shows "\<exists>payload. blob = payload @ hmac key payload \<and> take 4 payload = OP_STATE_MAGIC \<and>
    le_word (slice 4 12 payload) = s \<and> le_word (slice 12 20 payload) = sl"
proof -
  define payload where "payload = take (length blob - OP_STATE_HMAC_LEN) blob"
  have "drop (length blob - OP_STATE_HMAC_LEN) blob = hmac key payload"
    "take 4 payload = OP_STATE_MAGIC" "le_word (slice 4 12 payload) = s" "le_word (slice 12 20 payload) = sl"
    using assms by (simp_all add: deserialize_state_def Let_def payload_def [symmetric] split: if_split_asm)
  moreover have "blob = payload @ drop (length blob - OP_STATE_HMAC_LEN) blob"
    by (simp add: payload_def)
  ultimately show ?thesis
    by metis
qed

lemma deserialize_state_error: "deserialize_state hmac blob key s sl = Inl e \<Longrightarrow> e = DataInvalid"
  by (auto simp: deserialize_state_def Let_def split: if_split_asm)

text \<open>\<^bold>\<open>C23\<close>. A saved operation state is bound to the session and slot that saved it: restored in
  any other session or slot it is rejected, and so is, in any session, every blob that does not
  end in the tag of its own payload under the key of this instance.\<close>

theorem op_state_bound_to_session:
  assumes "\<And>key msg. length (hmac key msg) = OP_STATE_HMAC_LEN"
  shows "(serialize_state hmac key s sl op = Inr blob \<and> (s', sl') \<noteq> (s, sl)
      \<longrightarrow> deserialize_state hmac blob key s' sl' = Inl DataInvalid)
    \<and> ((\<forall>payload. blob \<noteq> payload @ hmac key payload) \<longrightarrow> deserialize_state hmac blob key s' sl' = Inl DataInvalid)"
proof (intro conjI impI)
  have reject: "deserialize_state hmac blob key s' sl' = Inl DataInvalid"
    if "\<And>r. deserialize_state hmac blob key s' sl' \<noteq> Inr r"
    using that deserialize_state_error by (metis old.sum.exhaust)
  show "deserialize_state hmac blob key s' sl' = Inl DataInvalid"
    if "\<forall>payload. blob \<noteq> payload @ hmac key payload"
    using that deserialize_state_accepts by (intro reject) blast
  assume *: "serialize_state hmac key s sl op = Inr blob \<and> (s', sl') \<noteq> (s, sl)"
  show "deserialize_state hmac blob key s' sl' = Inl DataInvalid"
  proof (intro reject notI)
    fix r assume "deserialize_state hmac blob key s' sl' = Inr r"
    moreover have "deserialize_state hmac blob key s sl = Inr (saved_view op)"
      using * assms by (intro op_state_roundtrip) simp_all
    ultimately obtain p p' where "blob = p @ hmac key p" "blob = p' @ hmac key p'"
      "le_word (slice 4 12 p) = s" "le_word (slice 12 20 p) = sl"
      "le_word (slice 4 12 p') = s'" "le_word (slice 12 20 p') = sl'"
      using deserialize_state_accepts by metis
    moreover from this have "p = p'"
      by (metis append_eq_append_conv assms)
    ultimately show False
      using * by simp
  qed
qed

theorem op_state_bound_to_session_witness:
  "\<exists>blob. serialize_state flat_hmac [9] 5 0 sample_sign_op = Inr blob \<and>
     deserialize_state flat_hmac blob [9] 6 0 = Inl DataInvalid"
proof -
  obtain blob where "serialize_state flat_hmac [9] 5 0 sample_sign_op = Inr blob"
    using sample_sign_op_saves by blast
  then show ?thesis
    using op_state_bound_to_session [of flat_hmac, OF flat_hmac_length, of "[9]" 5 0 sample_sign_op blob 6 0] by auto
qed

end
