(* ===== verification/Hsm_Core.thy ===== *)
theory Hsm_Core
  imports Crypto_Backend Session_Manager Object_Store Audit_Log Op_State
begin

text \<open>
  The state shared by all entry points and the way an entry point runs: the core structure
  (\<open>src/src/core.rs\<close>), the slots (\<open>src/src/token/slot.rs\<close>), the process-wide statics of
  \<open>src/src/pkcs11_abi/functions.rs\<close>, and \<open>C_Initialize\<close> and \<open>C_Finalize\<close>.

  An entry point is an action on the state of the process. An action ends with a value, with an
  early return of a code, or with a panic; \<open>catch_unwind\<close> turns the panic into
  \<open>CKR_GENERAL_ERROR\<close> and keeps what was changed before it. References to sessions, tokens and
  objects are handles, slots and heap addresses, read through the state at each use. An entry
  point runs without interleaving with another one. The thread-local copy of the reference to the
  core is not modelled; a lookup is the lookup behind the lock.

  What third-party code and the operating system contribute to one call is the context
  argument \<open>X\<close>: the clock, the random values, the outcome of file operations, the
  backend.
\<close>

section \<open>State\<close>

text \<open>The last field of a process is the core dropped by the last \<open>C_Finalize\<close>: the files of its
  token, object and audit stores are what remains on disk.\<close>

record hsm_core =
  co_tokens :: "(u64 \<times> token) list"
  co_sessions :: session_manager
  co_objects :: object_store
  co_audit :: audit_log
  co_algorithm_config :: algorithm_config
  co_serial_number :: bytes
  co_state_hmac_key :: bytes
  co_persist_objects :: bool

record process =
  pr_hsm :: "hsm_core option"
  pr_post_failed :: bool
  pr_init_pid :: u32
  pr_ciphers :: cipher_state
  pr_retired :: "hsm_core option"

record boot_env =
  be_post_ok :: bool
  be_config :: "hsm_config hsm_result"
  be_drbg_ok :: bool
  be_session_keys :: "u64 list"
  be_object_keys :: "u64 list"
  be_store :: "encrypted_store hsm_result"
  be_lockout :: "u64 \<Rightarrow> lockout_file"
  be_token_state :: "u64 \<Rightarrow> token_state_file"
  be_audit_path :: path_info
  be_audit_read :: audit_read
  be_audit_files :: audit_files
  be_state_hmac_key :: bytes

record abi_ctx =
  x_pid :: u32
  x_tid :: nat
  x_now :: int
  x_pin :: pin_crypto
  x_codec :: object_codec
  x_tok :: tok_env
  x_store :: store_env
  x_audit :: audit_prims
  x_audit_io :: "nat \<Rightarrow> audit_io"
  x_backend :: crypto_backend
  x_aes :: aes_prims
  x_hmac :: hmac_fn
  x_size_of :: int
  x_random :: "nat \<Rightarrow> bytes"
  x_boot :: boot_env

section \<open>Actions\<close>

datatype 'a outcome = Done 'a | Exit ck_rv | Panic

type_synonym 'a act = "process \<Rightarrow> 'a outcome \<times> process"

type_synonym 'o handler = "process \<Rightarrow> (ck_rv \<times> 'o option) \<times> process"

definition act_ret :: "'a \<Rightarrow> 'a act" where
  "act_ret x p = (Done x, p)"

definition act_exit :: "ck_rv \<Rightarrow> 'a act" where
  "act_exit rv p = (Exit rv, p)"

definition act_panic :: "'a act" where
  "act_panic p = (Panic, p)"

definition act_bind :: "'a act \<Rightarrow> ('a \<Rightarrow> 'b act) \<Rightarrow> 'b act" where
  "act_bind m f p =
    (case m p of
       (Done x, p') \<Rightarrow> f x p'
     | (Exit rv, p') \<Rightarrow> (Exit rv, p')
     | (Panic, p') \<Rightarrow> (Panic, p'))"

definition act_then :: "unit act \<Rightarrow> 'b act \<Rightarrow> 'b act" where
  "act_then m n = act_bind m (\<lambda>_. n)"

definition exit_if :: "bool \<Rightarrow> ck_rv \<Rightarrow> unit act" where
  "exit_if c rv = (if c then act_exit rv else act_ret ())"

text \<open>The two ways a failure is passed on: an error of the library, or a code.\<close>

definition act_try :: "'a hsm_result \<Rightarrow> 'a act" where
  "act_try r = (case r of Inl e \<Rightarrow> act_exit (err_to_rv e) | Inr x \<Rightarrow> act_ret x)"

definition act_rv :: "ck_rv + 'a \<Rightarrow> 'a act" where
  "act_rv r = (case r of Inl rv \<Rightarrow> act_exit rv | Inr x \<Rightarrow> act_ret x)"

definition act_some :: "ck_rv \<Rightarrow> 'a option \<Rightarrow> 'a act" where
  "act_some rv x = (case x of None \<Rightarrow> act_exit rv | Some y \<Rightarrow> act_ret y)"

definition act_nopanic :: "'a option \<Rightarrow> 'a act" where
  "act_nopanic x = (case x of None \<Rightarrow> act_panic | Some y \<Rightarrow> act_ret y)"

text \<open>Reading and changing the core; without a core there is nothing to run on.\<close>

definition on_core :: "(hsm_core \<Rightarrow> 'a \<times> hsm_core) \<Rightarrow> 'a act" where
  "on_core f p =
    (case pr_hsm p of
       None \<Rightarrow> (Panic, p)
     | Some c \<Rightarrow> (let (x, c') = f c in (Done x, p\<lparr>pr_hsm := Some c'\<rparr>)))"

definition core_get :: "(hsm_core \<Rightarrow> 'a) \<Rightarrow> 'a act" where
  "core_get f = on_core (\<lambda>c. (f c, c))"

definition on_ciphers :: "(cipher_state \<Rightarrow> 'a \<times> cipher_state) \<Rightarrow> 'a act" where
  "on_ciphers f p = (let (x, s) = f (pr_ciphers p) in (Done x, p\<lparr>pr_ciphers := s\<rparr>))"

definition set_post_failed :: "unit act" where
  "set_post_failed p = (Done (), p\<lparr>pr_post_failed := True\<rparr>)"

text \<open>The result of an entry point: its return code and what it wrote to the output parameters.
  An early return writes nothing.\<close>

definition catch_unwind :: "(ck_rv \<times> 'o option) act \<Rightarrow> 'o handler" where
  "catch_unwind body p =
    (case body p of
       (Done r, p') \<Rightarrow> (r, p')
     | (Exit rv, p') \<Rightarrow> ((rv, None), p')
     | (Panic, p') \<Rightarrow> ((CKR_GENERAL_ERROR, None), p'))"

abbreviation reply :: "ck_rv \<Rightarrow> (ck_rv \<times> 'o option) act" where
  "reply rv \<equiv> act_ret (rv, None)"

abbreviation reply_with :: "ck_rv \<Rightarrow> 'o \<Rightarrow> (ck_rv \<times> 'o option) act" where
  "reply_with rv out \<equiv> act_ret (rv, Some out)"

definition get_hsm :: "abi_ctx \<Rightarrow> unit act" where
  "get_hsm X p =
    (if pr_post_failed p then (Exit CKR_GENERAL_ERROR, p)
     else if pr_init_pid p \<noteq> 0 \<and> pr_init_pid p \<noteq> x_pid X then (Exit CKR_CRYPTOKI_NOT_INITIALIZED, p)
     else if pr_hsm p = None then (Exit CKR_CRYPTOKI_NOT_INITIALIZED, p)
     else (Done (), p))"

section \<open>Slots, sessions, objects and the audit log as actions\<close>

definition get_slot_ids :: "hsm_core \<Rightarrow> u64 list" where
  "get_slot_ids c = sort (map fst (co_tokens c))"

definition get_token :: "u64 \<Rightarrow> u64 act" where
  "get_token slot_id =
    act_bind (core_get (\<lambda>c. map_of (co_tokens c) slot_id))
      (\<lambda>t. act_try (res_map (\<lambda>_. slot_id) (ok_or SlotIdInvalid t)))"

definition validate_slot :: "u64 \<Rightarrow> unit act" where
  "validate_slot slot_id =
    act_bind (core_get (\<lambda>c. map_of (co_tokens c) slot_id))
      (\<lambda>t. act_try (res_map (\<lambda>_. ()) (ok_or SlotIdInvalid t)))"

text \<open>A method of the token of a slot.\<close>

definition on_token :: "u64 \<Rightarrow> (token \<Rightarrow> 'a \<times> token) \<Rightarrow> 'a act" where
  "on_token slot_id f p =
    (case pr_hsm p of
       None \<Rightarrow> (Panic, p)
     | Some c \<Rightarrow>
        (case map_of (co_tokens c) slot_id of
           None \<Rightarrow> (Panic, p)
         | Some t \<Rightarrow>
            (let (x, t') = f t
             in (Done x, p\<lparr>pr_hsm := Some (c\<lparr>co_tokens := AList.update slot_id t' (co_tokens c)\<rparr>)\<rparr>))))"

text \<open>A method of the session manager that also works on the token of a slot.\<close>

definition on_token_sessions :: "u64 \<Rightarrow> (token \<Rightarrow> session_manager \<Rightarrow> 'a \<times> token \<times> session_manager) \<Rightarrow> 'a act" where
  "on_token_sessions slot_id f p =
    (case pr_hsm p of
       None \<Rightarrow> (Panic, p)
     | Some c \<Rightarrow>
        (case map_of (co_tokens c) slot_id of
           None \<Rightarrow> (Panic, p)
         | Some t \<Rightarrow>
            (let (x, t', sm') = f t (co_sessions c)
             in (Done x, p\<lparr>pr_hsm := Some (c\<lparr>co_tokens := AList.update slot_id t' (co_tokens c),
                   co_sessions := sm'\<rparr>)\<rparr>))))"

definition on_sessions :: "(session_manager \<Rightarrow> 'a \<times> session_manager) \<Rightarrow> 'a act" where
  "on_sessions f = on_core (\<lambda>c. let (x, sm) = f (co_sessions c) in (x, c\<lparr>co_sessions := sm\<rparr>))"

text \<open>Looking a session up checks the handle; the session itself is read and written through it.\<close>

definition get_sess :: "u64 \<Rightarrow> session act" where
  "get_sess handle =
    act_bind (core_get (\<lambda>c. get_session handle (co_sessions c))) act_try"

definition put_sess :: "u64 \<Rightarrow> session \<Rightarrow> session_manager \<Rightarrow> session_manager" where
  "put_sess handle s sm = sm\<lparr>sm_sessions := AList.update handle s (sm_sessions sm)\<rparr>"

definition set_operation :: "u64 \<Rightarrow> active_operation option \<Rightarrow> unit act" where
  "set_operation handle op =
    on_sessions (\<lambda>sm. ((), case map_of (sm_sessions sm) handle of
        None \<Rightarrow> sm
      | Some s \<Rightarrow> put_sess handle (s\<lparr>ss_active_operation := op\<rparr>) sm))"

definition set_find_context :: "u64 \<Rightarrow> find_context option \<Rightarrow> unit act" where
  "set_find_context handle ctx =
    on_sessions (\<lambda>sm. ((), case map_of (sm_sessions sm) handle of
        None \<Rightarrow> sm
      | Some s \<Rightarrow> put_sess handle (s\<lparr>ss_find_context := ctx\<rparr>) sm))"

definition on_objects :: "(object_store \<Rightarrow> 'a \<times> object_store) \<Rightarrow> 'a act" where
  "on_objects f = on_core (\<lambda>c. let (x, os) = f (co_objects c) in (x, c\<lparr>co_objects := os\<rparr>))"

text \<open>Reading an object: its address and its content.\<close>

definition lookup_object :: "u64 \<Rightarrow> (obj_ref \<times> stored_object) hsm_result act" where
  "lookup_object handle =
    core_get (\<lambda>c. res_bind (get_object handle (co_objects c))
      (\<lambda>addr. res_map (Pair addr) (ok_or ObjectHandleInvalid (obj_at addr (co_objects c)))))"

definition read_object :: "obj_ref \<Rightarrow> stored_object act" where
  "read_object addr = act_bind (core_get (\<lambda>c. obj_at addr (co_objects c))) act_nopanic"

text \<open>Changing an object in place, through its reference.\<close>

definition update_object :: "obj_ref \<Rightarrow> (stored_object \<Rightarrow> stored_object) \<Rightarrow> unit act" where
  "update_object addr f =
    on_objects (\<lambda>os. ((), case obj_at addr os of None \<Rightarrow> os | Some obj \<Rightarrow> write_obj addr (f obj) os))"

definition audit :: "u64 \<Rightarrow> audit_operation \<Rightarrow> audit_result \<Rightarrow> unit act" where
  "audit session operation result =
    on_core (\<lambda>c. ((), c\<lparr>co_audit := snd (record_event session operation result None (co_audit c))\<rparr>))"

section \<open>Construction\<close>

definition make_serial :: "hsm_config \<Rightarrow> bytes" where
  "make_serial config =
    (let s = take 16 (cfg_serial_number (cfg_token config)) in s @ replicate (16 - length s) 0x20)"

definition slot_manager_new_with_config :: "pin_crypto \<Rightarrow> boot_env \<Rightarrow> hsm_config \<Rightarrow> (u64 \<times> token) list" where
  "slot_manager_new_with_config C env config =
    (let count = min (max (cfg_slot_count (cfg_token config)) 1) (2 ^ 64 - 1)
     in map (\<lambda>i. let slot_id = word_of_nat i in
          (slot_id, new_with_config_for_slot C (Some config) (be_lockout env slot_id) (be_token_state env slot_id)))
        [0 ..< count])"

definition build_object_store :: "boot_env \<Rightarrow> hsm_config \<Rightarrow> object_store hsm_result" where
  "build_object_store env config =
    (if \<not> cfg_persist_objects (cfg_token config) then Inr (object_store_new (be_object_keys env))
     else res_map (with_persistence (be_object_keys env)) (be_store env))"

definition try_new :: "abi_ctx \<Rightarrow> hsm_config \<Rightarrow> hsm_core hsm_result" where
  "try_new X config =
    (let env = x_boot X in
     if \<not> be_drbg_ok env then Inl GeneralError
     else
       res_bind (build_object_store env config) (\<lambda>objects.
       res_bind
         (if cfg_audit_enabled (cfg_audit config)
          then audit_log_with_path (x_audit X) (be_audit_path env) (be_audit_read env) (be_audit_files env)
          else Inr (audit_log_new (be_audit_files env)))
         (\<lambda>log.
          Inr \<lparr>co_tokens = slot_manager_new_with_config (x_pin X) env config,
            co_sessions = session_manager_new (be_session_keys env), co_objects = objects, co_audit = log,
            co_algorithm_config = cfg_algorithms config, co_serial_number = make_serial config,
            co_state_hmac_key = be_state_hmac_key env,
            co_persist_objects = cfg_persist_objects (cfg_token config)\<rparr>)))"

section \<open>Initialising and finalising\<close>

definition C_Initialize :: "abi_ctx \<Rightarrow> unit handler" where
  "C_Initialize X =
    catch_unwind (\<lambda>p.
      if pr_hsm p \<noteq> None then (Exit CKR_CRYPTOKI_ALREADY_INITIALIZED, p)
      else
        (let p1 = p\<lparr>pr_ciphers := reset_gcm_counters (pr_ciphers p), pr_post_failed := False\<rparr> in
         if \<not> be_post_ok (x_boot X) then (Exit CKR_GENERAL_ERROR, p1\<lparr>pr_post_failed := True\<rparr>)
         else
           (case be_config (x_boot X) of
              Inl _ \<Rightarrow> (Exit CKR_GENERAL_ERROR, p1)
            | Inr config \<Rightarrow>
               (case try_new X config of
                  Inl _ \<Rightarrow> (Panic, p1)
                | Inr core \<Rightarrow>
                    (Done (CKR_OK, None),
                     p1\<lparr>pr_init_pid := x_pid X,
                        pr_hsm := Some (core\<lparr>co_audit :=
                          snd (record_event 0 AuInitialize AuSuccess None (co_audit core))\<rparr>)\<rparr>)))))"

definition C_Finalize :: "abi_ctx \<Rightarrow> bool \<Rightarrow> unit handler" where
  "C_Finalize X reserved_null =
    catch_unwind (\<lambda>p.
      if \<not> reserved_null then (Exit CKR_ARGUMENTS_BAD, p)
      else
        (case pr_hsm p of
           None \<Rightarrow> (Exit CKR_CRYPTOKI_NOT_INITIALIZED, p)
         | Some core \<Rightarrow>
            (let log1 = snd (record_event 0 AuFinalize AuSuccess None (co_audit core));
                 log2 = snd (flush_log (x_audit X) (x_audit_io X) log1)
             in (Done (CKR_OK, None),
                 p\<lparr>pr_hsm := None, pr_init_pid := 0, pr_retired := Some (core\<lparr>co_audit := log2\<rparr>)\<rparr>))))"

end
