(* ===== verification/Abi_Session.thy ===== *)
theory Abi_Session
  imports Hsm_Core
begin

text \<open>
  The entry points for slots, tokens, mechanisms and sessions
  (\<open>src/src/pkcs11_abi/functions.rs\<close>, \<open>C_GetInfo\<close> to \<open>C_Logout\<close>).

  A pointer argument is \<open>None\<close> when it is null; a pointer with a length is the list of the bytes
  it points to. An output pointer is a boolean (whether it is null), and a pointer to a length or
  count is the value found there. The output of an entry point is what it stored; a list with a
  count is the list, when one was stored, and the count.
\<close>

abbreviation (input) MAX_PIN_BYTES :: nat where "MAX_PIN_BYTES \<equiv> 256"

type_synonym 'a out_list = "'a list option \<times> ck_ulong"

text \<open>The two-call convention: the count alone for a null buffer, an error and the count for a
  short one, the values and the count otherwise.\<close>

definition reply_list :: "bool \<Rightarrow> ck_ulong \<Rightarrow> 'a list \<Rightarrow> (ck_rv \<times> 'a out_list option) act" where
  "reply_list out_null count xs =
    (let n = word_of_nat (length xs) in
     if out_null then reply_with CKR_OK (None, n)
     else if unat count < length xs then reply_with CKR_BUFFER_TOO_SMALL (None, n)
     else reply_with CKR_OK (Some xs, n))"

definition pad_string :: "nat \<Rightarrow> bytes \<Rightarrow> bytes" where
  "pad_string n src = take n src @ replicate (n - length src) 0x20"

section \<open>Information\<close>

record ck_info =
  ci_cryptoki_version :: "byte \<times> byte"
  ci_manufacturer_id :: bytes
  ci_flags :: ck_ulong
  ci_library_description :: bytes
  ci_library_version :: "byte \<times> byte"

definition C_GetInfo :: "abi_ctx \<Rightarrow> bool \<Rightarrow> ck_info handler" where
  "C_GetInfo X info_null =
    catch_unwind (\<lambda>p.
      case get_hsm X p of
        (Done _, p1) \<Rightarrow>
          act_then (exit_if info_null CKR_ARGUMENTS_BAD)
            (reply_with CKR_OK
              \<lparr>ci_cryptoki_version = (3, 0), ci_manufacturer_id = pad_string 32 (ascii ''Craton HSM Project''),
               ci_flags = 0, ci_library_description = pad_string 32 (ascii ''Craton HSM Software HSM''),
               ci_library_version = (0, 1)\<rparr>) p1
      | (_, p1) \<Rightarrow> (Exit CKR_CRYPTOKI_NOT_INITIALIZED, p1))"

definition C_GetSlotList :: "abi_ctx \<Rightarrow> bool \<Rightarrow> bool \<Rightarrow> ck_ulong option \<Rightarrow> u64 out_list handler" where
  "C_GetSlotList X token_present list_null pul_count =
    catch_unwind (act_then (get_hsm X)
      (act_bind (act_some CKR_ARGUMENTS_BAD pul_count) (\<lambda>count.
       act_bind (core_get get_slot_ids) (\<lambda>slots. reply_list list_null count slots))))"

record ck_slot_info =
  cs_slot_description :: bytes
  cs_manufacturer_id :: bytes
  cs_flags :: ck_ulong
  cs_hardware_version :: "byte \<times> byte"
  cs_firmware_version :: "byte \<times> byte"

definition C_GetSlotInfo :: "abi_ctx \<Rightarrow> u64 \<Rightarrow> bool \<Rightarrow> ck_slot_info handler" where
  "C_GetSlotInfo X slot_id info_null =
    catch_unwind (act_then (get_hsm X)
      (act_then (exit_if info_null CKR_ARGUMENTS_BAD)
      (act_then (validate_slot slot_id)
        (reply_with CKR_OK
          \<lparr>cs_slot_description = pad_string 64 (ascii ''Craton HSM Virtual Slot''),
           cs_manufacturer_id = pad_string 32 (ascii ''Craton HSM Project''), cs_flags = CKF_SLOT_TOKEN_PRESENT,
           cs_hardware_version = (0, 1), cs_firmware_version = (0, 1)\<rparr>))))"

record ck_token_info =
  ct_label :: bytes
  ct_manufacturer_id :: bytes
  ct_model :: bytes
  ct_serial_number :: bytes
  ct_flags :: ck_ulong
  ct_max_session_count :: ck_ulong
  ct_session_count :: ck_ulong
  ct_max_rw_session_count :: ck_ulong
  ct_rw_session_count :: ck_ulong
  ct_max_pin_len :: ck_ulong
  ct_min_pin_len :: ck_ulong
  ct_total_public_memory :: ck_ulong
  ct_free_public_memory :: ck_ulong
  ct_total_private_memory :: ck_ulong
  ct_free_private_memory :: ck_ulong
  ct_hardware_version :: "byte \<times> byte"
  ct_firmware_version :: "byte \<times> byte"
  ct_utc_time :: bytes

definition token_info :: "bytes \<Rightarrow> token \<Rightarrow> ck_token_info" where
  "token_info serial t =
    \<lparr>ct_label = tk_label t, ct_manufacturer_id = pad_string 32 (ascii ''Craton HSM Project''),
     ct_model = pad_string 16 (ascii ''Craton HSM''), ct_serial_number = serial, ct_flags = token_flags t,
     ct_max_session_count = tk_max_sessions t, ct_session_count = tk_session_count t,
     ct_max_rw_session_count = tk_max_rw_sessions t, ct_rw_session_count = tk_rw_session_count t,
     ct_max_pin_len = word_of_nat (tk_pin_max_len t), ct_min_pin_len = word_of_nat (tk_pin_min_len t),
     ct_total_public_memory = CK_UNAVAILABLE_INFORMATION, ct_free_public_memory = CK_UNAVAILABLE_INFORMATION,
     ct_total_private_memory = CK_UNAVAILABLE_INFORMATION, ct_free_private_memory = CK_UNAVAILABLE_INFORMATION,
     ct_hardware_version = (0, 1), ct_firmware_version = (0, 1), ct_utc_time = replicate 16 0x20\<rparr>"

definition C_GetTokenInfo :: "abi_ctx \<Rightarrow> u64 \<Rightarrow> bool \<Rightarrow> ck_token_info handler" where
  "C_GetTokenInfo X slot_id info_null =
    catch_unwind (act_then (get_hsm X)
      (act_then (exit_if info_null CKR_ARGUMENTS_BAD)
      (act_bind (get_token slot_id) (\<lambda>token.
       act_bind (core_get co_serial_number) (\<lambda>serial.
       act_bind (on_token token (\<lambda>t. (token_info serial t, t))) (\<lambda>info. reply_with CKR_OK info))))))"

section \<open>Mechanisms\<close>

definition C_GetMechanismList :: "abi_ctx \<Rightarrow> u64 \<Rightarrow> bool \<Rightarrow> ck_ulong option \<Rightarrow> ck_ulong out_list handler" where
  "C_GetMechanismList X slot_id list_null pul_count =
    catch_unwind (act_then (get_hsm X)
      (act_bind (act_some CKR_ARGUMENTS_BAD pul_count) (\<lambda>count.
       act_then (validate_slot slot_id)
      (act_bind (core_get (\<lambda>c. supported_mechanisms_filtered (co_algorithm_config c)))
        (\<lambda>mechs. reply_list list_null count mechs)))))"

record ck_mechanism_info =
  mi_min_key_size :: ck_ulong
  mi_max_key_size :: ck_ulong
  mi_flags :: ck_ulong

definition mech_info :: "ck_ulong \<Rightarrow> ck_ulong \<Rightarrow> ck_ulong \<Rightarrow> ck_mechanism_info option" where
  "mech_info lo hi flags = Some \<lparr>mi_min_key_size = lo, mi_max_key_size = hi, mi_flags = flags\<rparr>"

definition mechanism_info :: "ck_ulong \<Rightarrow> ck_mechanism_info option" where
  "mechanism_info m =
    (if m = CKM_RSA_PKCS_KEY_PAIR_GEN then mech_info 2048 4096 CKF_GENERATE_KEY_PAIR_FLAG
     else if m \<in> set [CKM_RSA_PKCS, CKM_SHA256_RSA_PKCS, CKM_SHA384_RSA_PKCS, CKM_SHA512_RSA_PKCS]
     then mech_info 2048 4096 (CKF_SIGN_FLAG OR CKF_VERIFY_FLAG)
     else if m \<in> set [CKM_RSA_PKCS_PSS, CKM_SHA256_RSA_PKCS_PSS, CKM_SHA384_RSA_PKCS_PSS, CKM_SHA512_RSA_PKCS_PSS]
     then mech_info 2048 4096 (CKF_SIGN_FLAG OR CKF_VERIFY_FLAG)
     else if m = CKM_RSA_PKCS_OAEP then mech_info 2048 4096 (CKF_ENCRYPT_FLAG OR CKF_DECRYPT_FLAG)
     else if m = CKM_EC_KEY_PAIR_GEN then mech_info 256 384 CKF_GENERATE_KEY_PAIR_FLAG
     else if m \<in> set [CKM_ECDSA, CKM_ECDSA_SHA256, CKM_ECDSA_SHA384, CKM_ECDSA_SHA512]
     then mech_info 256 384 (CKF_SIGN_FLAG OR CKF_VERIFY_FLAG)
     else if m \<in> set [CKM_ECDH1_DERIVE, CKM_ECDH1_COFACTOR_DERIVE] then mech_info 256 384 CKF_DERIVE_FLAG
     else if m = CKM_EDDSA
     then mech_info 256 256 (CKF_SIGN_FLAG OR CKF_VERIFY_FLAG OR CKF_GENERATE_KEY_PAIR_FLAG)
     else if m = CKM_AES_KEY_GEN then mech_info 16 32 CKF_GENERATE_FLAG
     else if m \<in> set [CKM_AES_GCM, CKM_AES_CBC, CKM_AES_CBC_PAD, CKM_AES_CTR]
     then mech_info 16 32 (CKF_ENCRYPT_FLAG OR CKF_DECRYPT_FLAG)
     else if m \<in> set [CKM_AES_KEY_WRAP, CKM_AES_KEY_WRAP_KWP] then mech_info 16 32 (CKF_WRAP_FLAG OR CKF_UNWRAP_FLAG)
     else if m \<in> set [CKM_SHA_1, CKM_SHA256, CKM_SHA384, CKM_SHA512, CKM_SHA3_256, CKM_SHA3_384, CKM_SHA3_512]
     then mech_info 0 0 CKF_DIGEST_FLAG
     else if m \<in> set [CKM_ML_KEM_512, CKM_ML_KEM_768, CKM_ML_KEM_1024]
     then mech_info 512 1024 (CKF_GENERATE_KEY_PAIR_FLAG OR CKF_DERIVE_FLAG)
     else if m \<in> set [CKM_ML_DSA_44, CKM_ML_DSA_65, CKM_ML_DSA_87]
     then mech_info 44 87 (CKF_GENERATE_KEY_PAIR_FLAG OR CKF_SIGN_FLAG OR CKF_VERIFY_FLAG)
     else if m \<in> set [CKM_SLH_DSA_SHA2_128S, CKM_SLH_DSA_SHA2_256S]
     then mech_info 128 256 (CKF_GENERATE_KEY_PAIR_FLAG OR CKF_SIGN_FLAG OR CKF_VERIFY_FLAG)
     else if m = CKM_HYBRID_ML_DSA_ECDSA then mech_info 256 256 (CKF_SIGN_FLAG OR CKF_VERIFY_FLAG)
     else None)"

definition C_GetMechanismInfo :: "abi_ctx \<Rightarrow> u64 \<Rightarrow> ck_ulong \<Rightarrow> bool \<Rightarrow> ck_mechanism_info handler" where
  "C_GetMechanismInfo X slot_id mechanism_type info_null =
    catch_unwind (act_then (get_hsm X)
      (act_then (exit_if info_null CKR_ARGUMENTS_BAD)
      (act_then (validate_slot slot_id)
      (act_bind (act_some CKR_MECHANISM_INVALID (mechanism_info mechanism_type))
        (\<lambda>info. reply_with CKR_OK info)))))"

section \<open>Initialising tokens and PINs\<close>

definition C_InitToken :: "abi_ctx \<Rightarrow> u64 \<Rightarrow> bytes option \<Rightarrow> bytes option \<Rightarrow> unit handler" where
  "C_InitToken X slot_id p_pin p_label =
    catch_unwind (act_then (get_hsm X)
      (act_bind (act_some CKR_ARGUMENTS_BAD p_pin) (\<lambda>pin.
       act_bind (act_some CKR_ARGUMENTS_BAD p_label) (\<lambda>label.
       act_bind (get_token slot_id) (\<lambda>token.
       act_then (exit_if (length pin > MAX_PIN_BYTES) CKR_PIN_LEN_RANGE)
      (act_then (on_token_sessions token (\<lambda>t sm. ((), close_all_sessions (x_tid X) slot_id t sm)))
      (act_then (on_objects (\<lambda>os. ((), clear_objects (x_store X) os)))
      (act_then (on_objects (\<lambda>os. ((), clear_persist_key os)))
      (act_then (on_ciphers (\<lambda>s. ((), force_reset_all_counters s)))
      (act_bind (on_token token (init_token (x_pin X) (x_tok X) pin label))
        (\<lambda>r. act_then (act_try r) (reply CKR_OK))))))))))))"

definition C_InitPIN :: "abi_ctx \<Rightarrow> u64 \<Rightarrow> bytes option \<Rightarrow> unit handler" where
  "C_InitPIN X session p_pin =
    catch_unwind (act_then (get_hsm X)
      (act_bind (act_some CKR_ARGUMENTS_BAD p_pin) (\<lambda>pin.
       act_bind (get_sess session) (\<lambda>sess.
       act_bind (get_token (ss_slot_id sess)) (\<lambda>token.
       act_then (exit_if (\<not> state_is_so (ss_state sess)) CKR_USER_NOT_LOGGED_IN)
      (act_then (exit_if (length pin > MAX_PIN_BYTES) CKR_PIN_LEN_RANGE)
      (act_bind (on_token token (init_pin (x_pin X) (x_tok X) pin))
        (\<lambda>r. act_then (act_try r) (reply CKR_OK)))))))))"

definition C_SetPIN :: "abi_ctx \<Rightarrow> u64 \<Rightarrow> bytes option \<Rightarrow> bytes option \<Rightarrow> unit handler" where
  "C_SetPIN X session p_old_pin p_new_pin =
    catch_unwind (act_then (get_hsm X)
      (act_bind (act_some CKR_ARGUMENTS_BAD p_old_pin) (\<lambda>old_pin.
       act_bind (act_some CKR_ARGUMENTS_BAD p_new_pin) (\<lambda>new_pin.
       act_bind (get_sess session) (\<lambda>sess.
       act_bind (get_token (ss_slot_id sess)) (\<lambda>token.
       act_then (exit_if (length old_pin > MAX_PIN_BYTES \<or> length new_pin > MAX_PIN_BYTES) CKR_PIN_LEN_RANGE)
      (act_bind (on_token token (set_pin (x_pin X) (x_tok X) old_pin new_pin))
        (\<lambda>r. act_then (act_try r) (reply CKR_OK)))))))))"

section \<open>Sessions\<close>

definition C_OpenSession :: "abi_ctx \<Rightarrow> u64 \<Rightarrow> ck_ulong \<Rightarrow> bool \<Rightarrow> u64 handler" where
  "C_OpenSession X slot_id flags session_null =
    catch_unwind (act_then (get_hsm X)
      (act_then (exit_if session_null CKR_ARGUMENTS_BAD)
      (act_bind (get_token slot_id) (\<lambda>token.
       act_bind (on_token_sessions token (open_session (x_now X) slot_id flags)) (\<lambda>r.
       act_bind (act_try r) (\<lambda>handle. reply_with CKR_OK handle))))))"

definition C_CloseSession :: "abi_ctx \<Rightarrow> u64 \<Rightarrow> unit handler" where
  "C_CloseSession X session =
    catch_unwind (act_then (get_hsm X)
      (act_bind (get_sess session) (\<lambda>sess.
       act_bind (get_token (ss_slot_id sess)) (\<lambda>token.
       act_bind (on_token_sessions token (close_session (x_tid X) session)) (\<lambda>r.
       act_then (act_try r) (reply CKR_OK))))))"

definition C_CloseAllSessions :: "abi_ctx \<Rightarrow> u64 \<Rightarrow> unit handler" where
  "C_CloseAllSessions X slot_id =
    catch_unwind (act_then (get_hsm X)
      (act_bind (get_token slot_id) (\<lambda>token.
       act_then (on_token_sessions token (\<lambda>t sm. ((), close_all_sessions (x_tid X) slot_id t sm)))
        (reply CKR_OK))))"

definition C_GetSessionInfo :: "abi_ctx \<Rightarrow> u64 \<Rightarrow> bool \<Rightarrow> ck_session_info handler" where
  "C_GetSessionInfo X session info_null =
    catch_unwind (act_then (get_hsm X)
      (act_then (exit_if info_null CKR_ARGUMENTS_BAD)
      (act_bind (get_sess session) (\<lambda>sess. reply_with CKR_OK (session_get_info sess)))))"

text \<open>Login: the token checks the PIN, then every session of the slot follows, and a user login
  installs the object key and loads the persisted objects; the results of these later steps are
  ignored. The state between the steps is not visible to another entry point, so the token and the
  sessions change in one action.\<close>

definition login_slot :: "abi_ctx \<Rightarrow> u64 \<Rightarrow> ck_ulong \<Rightarrow> bytes \<Rightarrow> unit hsm_result act" where
  "login_slot X slot_id user_type pin =
    on_token_sessions slot_id (\<lambda>t sm.
      case login (x_pin X) (x_tok X) user_type pin t of
        (Inr _, t') \<Rightarrow> (Inr (), t', snd (login_all slot_id user_type sm))
      | (Inl e, t') \<Rightarrow> (Inl e, t', sm))"

definition load_token_objects :: "abi_ctx \<Rightarrow> u64 \<Rightarrow> bytes \<Rightarrow> unit act" where
  "load_token_objects X slot_id pin =
    act_bind (on_token slot_id (\<lambda>t. (unwrap_object_key (x_pin X) t pin, t))) (\<lambda>key.
      case key of
        None \<Rightarrow> act_ret ()
      | Some omk \<Rightarrow>
          act_then (on_objects (\<lambda>os. ((), set_persist_key omk os)))
            (on_objects (\<lambda>os. ((), snd (load_from_store (x_pin X) (x_codec X) (x_store X) os)))))"

definition login_done :: "abi_ctx \<Rightarrow> u64 \<Rightarrow> ck_ulong \<Rightarrow> bytes \<Rightarrow> u64 \<Rightarrow> unit hsm_result \<Rightarrow> (ck_rv \<times> unit option) act" where
  "login_done X session user_type pin slot_id r =
    (case r of
       Inr _ \<Rightarrow>
         act_bind (core_get co_persist_objects) (\<lambda>persist.
         act_then ((if persist \<and> user_type = CKU_USER then load_token_objects X slot_id pin else act_ret ())) (
         act_then (audit session (AuLogin user_type) AuSuccess) (
         reply CKR_OK)))
     | Inl e \<Rightarrow>
         act_then (audit session (AuLogin user_type) (AuFailure (err_to_rv e))) (
         reply (err_to_rv e)))"

definition C_Login :: "abi_ctx \<Rightarrow> u64 \<Rightarrow> ck_ulong \<Rightarrow> bytes option \<Rightarrow> unit handler" where
  "C_Login X session user_type p_pin =
    catch_unwind (
      act_then (get_hsm X) (
      act_bind (get_sess session) (\<lambda>sess.
      act_bind (get_token (ss_slot_id sess)) (\<lambda>token.
      act_bind (core_get (\<lambda>c. has_ro_sessions token (co_sessions c))) (\<lambda>ro.
      act_then (exit_if (user_type = CKU_SO \<and> ro) CKR_SESSION_READ_ONLY_EXISTS) (
      act_then (exit_if (length (opt_bytes p_pin) > MAX_PIN_BYTES) CKR_PIN_LEN_RANGE) (
      act_bind (login_slot X token user_type (opt_bytes p_pin)) (\<lambda>r.
      login_done X session user_type (opt_bytes p_pin) token r))))))))"

definition logout_slot :: "abi_ctx \<Rightarrow> u64 \<Rightarrow> unit hsm_result act" where
  "logout_slot X slot_id =
    on_token_sessions slot_id (\<lambda>t sm.
      case logout (x_tok X) t of
        (Inr _, t') \<Rightarrow> (Inr (), t', cancel_sessions_for_slot slot_id sm)
      | (Inl e, t') \<Rightarrow> (Inl e, t', sm))"

definition C_Logout :: "abi_ctx \<Rightarrow> u64 \<Rightarrow> unit handler" where
  "C_Logout X session =
    catch_unwind (act_then (get_hsm X)
      (act_bind (get_sess session) (\<lambda>sess.
       act_bind (get_token (ss_slot_id sess)) (\<lambda>token.
       act_bind (logout_slot X token) (\<lambda>r.
       act_then (act_try r)
      (act_then (on_objects (\<lambda>os. ((), clear_persist_key os)))
      (act_then (audit session AuLogout AuSuccess) (reply CKR_OK))))))))"

end
