(* ===== verification/Abi_Objects.thy ===== *)
theory Abi_Objects
  imports Abi_Session
begin

text \<open>
  The entry points for objects (\<open>src/src/pkcs11_abi/functions.rs\<close>, \<open>C_CreateObject\<close> to
  \<open>C_FindObjectsFinal\<close>, and \<open>C_CopyObject\<close>) and the parsing of attribute templates.

  A template of the caller is the list of its attributes, each with its type and the bytes its
  value pointer refers to, \<open>None\<close> for a null pointer. The cache of parsed RSA keys, which
  \<open>C_DestroyObject\<close> prunes, belongs to the backend.
\<close>

abbreviation (input) MAX_TEMPLATE_ATTRS :: nat where "MAX_TEMPLATE_ATTRS \<equiv> 256"
abbreviation (input) MAX_ATTR_VALUE_LEN :: nat where "MAX_ATTR_VALUE_LEN \<equiv> 65536"
abbreviation (input) MAX_FIND_OBJECTS_PER_CALL :: nat where "MAX_FIND_OBJECTS_PER_CALL \<equiv> 65536"

type_synonym raw_template = "(ck_ulong \<times> bytes option) list"

definition parse_ck_bbool :: "bytes \<Rightarrow> ck_rv + bool" where
  "parse_ck_bbool value = (if length value \<noteq> 1 then Inl CKR_ATTRIBUTE_VALUE_INVALID else Inr (value ! 0 \<noteq> 0))"

fun parse_attrs :: "raw_template \<Rightarrow> ck_rv + template" where
  "parse_attrs [] = Inr []"
| "parse_attrs ((attr_type, v) # attrs) =
    (if length (opt_bytes v) > MAX_ATTR_VALUE_LEN then Inl CKR_ATTRIBUTE_VALUE_INVALID
     else res_map ((#) (attr_type, opt_bytes v)) (parse_attrs attrs))"

definition parse_template :: "raw_template \<Rightarrow> ck_rv + template" where
  "parse_template attrs =
    (if length attrs > MAX_TEMPLATE_ATTRS then Inl CKR_ARGUMENTS_BAD else parse_attrs attrs)"

text \<open>A null template is an empty one where the entry point allows it.\<close>

definition parse_optional :: "raw_template option \<Rightarrow> ck_rv + template" where
  "parse_optional t = (case t of None \<Rightarrow> Inr [] | Some attrs \<Rightarrow> parse_template attrs)"

section \<open>Creating and destroying\<close>

definition is_key_template :: "template \<Rightarrow> bool" where
  "is_key_template tmpl =
    list_ex (\<lambda>(attr_type, value). attr_type = CKA_CLASS \<and> length value \<ge> 8 \<and>
      (le_word (take 8 value) :: ck_ulong) \<in> {CKO_PRIVATE_KEY, CKO_SECRET_KEY}) tmpl"

definition C_CreateObject :: "abi_ctx \<Rightarrow> u64 \<Rightarrow> raw_template option \<Rightarrow> bool \<Rightarrow> u64 handler" where
  "C_CreateObject X session p_template object_null =
    catch_unwind (
      act_then (get_hsm X) (
      act_bind (act_some CKR_ARGUMENTS_BAD p_template) (\<lambda>attrs.
      act_then (exit_if object_null CKR_ARGUMENTS_BAD) (
      act_bind (get_sess session) (\<lambda>sess.
      act_then (exit_if (\<not> session_is_rw sess) CKR_SESSION_READ_ONLY) (
      act_bind (act_rv (parse_template attrs)) (\<lambda>tmpl.
      act_then (exit_if (is_key_template tmpl \<and> \<not> state_is_logged_in (ss_state sess)) CKR_USER_NOT_LOGGED_IN) (
      act_bind (on_objects (create_object (x_pin X) (x_codec X) (x_store X) tmpl)) (\<lambda>r.
      act_bind (act_try r) (\<lambda>handle.
      act_then (audit session AuCreateObject AuSuccess) (
      reply_with CKR_OK handle)))))))))))"

definition C_DestroyObject :: "abi_ctx \<Rightarrow> u64 \<Rightarrow> u64 \<Rightarrow> unit handler" where
  "C_DestroyObject X session object =
    catch_unwind (
      act_then (get_hsm X) (
      act_bind (get_sess session) (\<lambda>sess.
      act_then (exit_if (\<not> session_is_rw sess) CKR_SESSION_READ_ONLY) (
      act_bind (lookup_object object) (\<lambda>found.
      act_bind (act_try found) (\<lambda>(addr, obj).
      act_then (exit_if (\<not> ob_destroyable obj) CKR_ATTRIBUTE_READ_ONLY) (
      act_bind (on_objects (destroy_object (x_pin X) (x_store X) object)) (\<lambda>r.
      act_then (act_try r) (
      act_then ((case ob_key_material obj of
             Some kb \<Rightarrow> on_ciphers (\<lambda>s. ((), remove_gcm_counter (x_aes X) kb s))
           | None \<Rightarrow> act_ret ())) (
      act_then (audit session AuDestroyObject AuSuccess) (
      reply CKR_OK)))))))))))"

definition C_GetObjectSize :: "abi_ctx \<Rightarrow> u64 \<Rightarrow> u64 \<Rightarrow> bool \<Rightarrow> ck_ulong handler" where
  "C_GetObjectSize X session object size_null =
    catch_unwind (
      act_then (get_hsm X) (
      act_then (exit_if size_null CKR_ARGUMENTS_BAD) (
      act_bind (get_sess session) (\<lambda>sess.
      act_bind (lookup_object object) (\<lambda>found.
      act_bind (act_try found) (\<lambda>(addr, obj).
      act_then (exit_if (ob_private obj \<and> \<not> state_is_logged_in (ss_state sess)) CKR_USER_NOT_LOGGED_IN) (
      act_bind (core_get (\<lambda>c. get_object_size (x_size_of X) object (co_objects c))) (\<lambda>r.
      act_bind (act_try r) (\<lambda>size_of.
      reply_with CKR_OK size_of)))))))))"

section \<open>Copying\<close>

definition copy_flag ::
  "bytes \<Rightarrow> (bool \<Rightarrow> stored_object) \<Rightarrow> ck_rv + stored_object" where
  "copy_flag value upd = res_map upd (parse_ck_bbool value)"

definition copy_attribute :: "stored_object \<Rightarrow> ck_ulong \<Rightarrow> bytes \<Rightarrow> ck_rv + stored_object" where
  "copy_attribute obj attr_type value =
    (if attr_type = CKA_CLASS then
       (if read_ck_ulong value = Some (ob_class obj) then Inr obj else Inl CKR_TEMPLATE_INCONSISTENT)
     else if attr_type = CKA_KEY_TYPE then
       (case ob_key_type obj of
          None \<Rightarrow> Inr obj
        | Some kt \<Rightarrow> if read_ck_ulong value = Some kt then Inr obj else Inl CKR_TEMPLATE_INCONSISTENT)
     else if attr_type = CKA_SENSITIVE then
       res_bind (parse_ck_bbool value) (\<lambda>requested.
         if ob_sensitive obj \<and> \<not> requested then Inl CKR_TEMPLATE_INCONSISTENT
         else Inr (obj\<lparr>ob_sensitive := requested\<rparr>))
     else if attr_type = CKA_EXTRACTABLE then
       res_bind (parse_ck_bbool value) (\<lambda>requested.
         if \<not> ob_extractable obj \<and> requested then Inl CKR_TEMPLATE_INCONSISTENT
         else Inr (obj\<lparr>ob_extractable := requested\<rparr>))
     else if attr_type = CKA_LABEL then Inr (obj\<lparr>ob_label := value\<rparr>)
     else if attr_type = CKA_ID then Inr (obj\<lparr>ob_id := value\<rparr>)
     else if attr_type = CKA_TOKEN then copy_flag value (\<lambda>b. obj\<lparr>ob_token_object := b\<rparr>)
     else if attr_type = CKA_PRIVATE then copy_flag value (\<lambda>b. obj\<lparr>ob_private := b\<rparr>)
     else if attr_type = CKA_MODIFIABLE then copy_flag value (\<lambda>b. obj\<lparr>ob_modifiable := b\<rparr>)
     else if attr_type = CKA_DESTROYABLE then copy_flag value (\<lambda>b. obj\<lparr>ob_destroyable := b\<rparr>)
     else if attr_type = CKA_ENCRYPT then copy_flag value (\<lambda>b. obj\<lparr>ob_can_encrypt := b\<rparr>)
     else if attr_type = CKA_DECRYPT then copy_flag value (\<lambda>b. obj\<lparr>ob_can_decrypt := b\<rparr>)
     else if attr_type = CKA_SIGN then copy_flag value (\<lambda>b. obj\<lparr>ob_can_sign := b\<rparr>)
     else if attr_type = CKA_VERIFY then copy_flag value (\<lambda>b. obj\<lparr>ob_can_verify := b\<rparr>)
     else if attr_type = CKA_WRAP then copy_flag value (\<lambda>b. obj\<lparr>ob_can_wrap := b\<rparr>)
     else if attr_type = CKA_UNWRAP then copy_flag value (\<lambda>b. obj\<lparr>ob_can_unwrap := b\<rparr>)
     else if attr_type = CKA_DERIVE then copy_flag value (\<lambda>b. obj\<lparr>ob_can_derive := b\<rparr>)
     else if attr_type \<in> set [CKA_VALUE, CKA_PRIVATE_EXPONENT, CKA_PRIME_1, CKA_PRIME_2, CKA_EXPONENT_1,
         CKA_EXPONENT_2, CKA_COEFFICIENT] then Inl CKR_ATTRIBUTE_READ_ONLY
     else Inr (obj\<lparr>ob_extra_attributes := AList.update attr_type value (ob_extra_attributes obj)\<rparr>))"

fun copy_attributes :: "raw_template \<Rightarrow> stored_object \<Rightarrow> ck_rv + stored_object" where
  "copy_attributes [] obj = Inr obj"
| "copy_attributes ((attr_type, v) # attrs) obj =
    (if length (opt_bytes v) > MAX_ATTR_VALUE_LEN then Inl CKR_ATTRIBUTE_VALUE_INVALID
     else res_bind (copy_attribute obj attr_type (opt_bytes v)) (copy_attributes attrs))"

definition C_CopyObject :: "abi_ctx \<Rightarrow> u64 \<Rightarrow> u64 \<Rightarrow> raw_template option \<Rightarrow> bool \<Rightarrow> u64 handler" where
  "C_CopyObject X session h_object p_template new_null =
    catch_unwind (
      act_then (get_hsm X) (
      act_then (exit_if new_null CKR_ARGUMENTS_BAD) (
      act_bind (get_sess session) (\<lambda>sess.
      act_then (exit_if (\<not> session_is_rw sess) CKR_SESSION_READ_ONLY) (
      act_bind (lookup_object h_object) (\<lambda>found.
      act_bind (act_rv (case found of Inl _ \<Rightarrow> Inl CKR_OBJECT_HANDLE_INVALID | Inr o1 \<Rightarrow> Inr o1)) (\<lambda>(addr, src_obj).
      act_then (exit_if (ob_private src_obj \<and> \<not> state_is_logged_in (ss_state sess)) CKR_USER_NOT_LOGGED_IN) (
      act_then (exit_if (\<not> ob_copyable src_obj) CKR_ATTRIBUTE_READ_ONLY) (
      act_bind (on_objects next_handle) (\<lambda>r.
      act_bind (act_try r) (\<lambda>new_handle.
      act_bind (act_rv (copy_attributes (case p_template of None \<Rightarrow> [] | Some attrs \<Rightarrow> take MAX_TEMPLATE_ATTRS attrs)
            (src_obj\<lparr>ob_handle := new_handle\<rparr>))) (\<lambda>new_obj.
      act_bind (on_objects (insert_object (x_pin X) (x_codec X) (x_store X) new_obj)) (\<lambda>r2.
      act_bind (act_try r2) (\<lambda>result_handle.
      reply_with CKR_OK result_handle))))))))))))))"

section \<open>Reading and writing attributes\<close>

text \<open>An attribute to read: its type, whether its value pointer is null, and the length found in it.
  What is stored: the bytes, when any are, and the new length.\<close>

type_synonym attr_query = "ck_ulong \<times> bool \<times> ck_ulong"
type_synonym attr_answer = "bytes option \<times> ck_ulong"

fun get_attributes ::
  "stored_object \<Rightarrow> bool \<Rightarrow> attr_query list \<Rightarrow> ck_rv \<Rightarrow> ck_rv \<times> attr_answer list" where
  "get_attributes obj is_logged_in [] rv = (rv, [])"
| "get_attributes obj is_logged_in ((attr_type, value_null, value_len) # attrs) rv =
    (let (rv1, answer) =
       (case read_attribute obj attr_type is_logged_in of
          Inr (Some value) \<Rightarrow>
            if value_null then (rv, (None, word_of_nat (length value)))
            else if unat value_len < length value then (CKR_BUFFER_TOO_SMALL, (None, word_of_nat (length value)))
            else (rv, (Some value, word_of_nat (length value)))
        | Inr None \<Rightarrow> (CKR_ATTRIBUTE_TYPE_INVALID, (None, CK_UNAVAILABLE_INFORMATION))
        | Inl e \<Rightarrow>
            ((if e = AttributeSensitive then CKR_ATTRIBUTE_SENSITIVE else CKR_GENERAL_ERROR),
             (None, CK_UNAVAILABLE_INFORMATION)));
         (rv2, answers) = get_attributes obj is_logged_in attrs rv1
     in (rv2, answer # answers))"

definition C_GetAttributeValue :: "abi_ctx \<Rightarrow> u64 \<Rightarrow> u64 \<Rightarrow> attr_query list option \<Rightarrow> attr_answer list handler" where
  "C_GetAttributeValue X session object p_template =
    catch_unwind (
      act_then (get_hsm X) (
      act_bind (act_some CKR_ARGUMENTS_BAD p_template) (\<lambda>attrs.
      act_then (exit_if (length attrs > MAX_TEMPLATE_ATTRS) CKR_ARGUMENTS_BAD) (
      act_bind (get_sess session) (\<lambda>sess.
      act_bind (lookup_object object) (\<lambda>found.
      act_bind (act_try found) (\<lambda>(addr, obj).
      act_then (exit_if (ob_private obj \<and> \<not> state_is_logged_in (ss_state sess)) CKR_USER_NOT_LOGGED_IN) (
      act_ret (case get_attributes obj (state_is_logged_in (ss_state sess)) attrs CKR_OK of
            (rv, answers) \<Rightarrow> (rv, Some answers))))))))))"

text \<open>Setting attributes stops at the first one that may not change; the ones before it are set.\<close>

fun set_attributes :: "template \<Rightarrow> stored_object \<Rightarrow> ck_rv \<times> stored_object" where
  "set_attributes [] obj = (CKR_OK, obj)"
| "set_attributes ((attr_type, value) # attrs) obj =
    (if attr_type = CKA_LABEL then set_attributes attrs (obj\<lparr>ob_label := value\<rparr>)
     else if attr_type = CKA_ID then set_attributes attrs (obj\<lparr>ob_id := value\<rparr>)
     else if attr_type = CKA_EC_POINT \<and> ob_key_type obj = Some CKK_ML_DSA then
       set_attributes attrs (obj\<lparr>ob_extra_attributes := AList.update CKA_EC_POINT value (ob_extra_attributes obj)\<rparr>)
     else (CKR_ATTRIBUTE_READ_ONLY, obj))"

definition C_SetAttributeValue :: "abi_ctx \<Rightarrow> u64 \<Rightarrow> u64 \<Rightarrow> raw_template option \<Rightarrow> unit handler" where
  "C_SetAttributeValue X session object p_template =
    catch_unwind (
      act_then (get_hsm X) (
      act_bind (act_some CKR_ARGUMENTS_BAD p_template) (\<lambda>attrs.
      act_bind (get_sess session) (\<lambda>sess.
      act_then (exit_if (\<not> session_is_rw sess) CKR_SESSION_READ_ONLY) (
      act_bind (lookup_object object) (\<lambda>found.
      act_bind (act_try found) (\<lambda>(addr, obj).
      act_then (exit_if (ob_private obj \<and> \<not> state_is_logged_in (ss_state sess)) CKR_USER_NOT_LOGGED_IN) (
      act_then (exit_if (\<not> ob_modifiable obj) CKR_ATTRIBUTE_READ_ONLY) (
      act_bind (act_rv (parse_template attrs)) (\<lambda>tmpl.
      act_then (update_object addr (\<lambda>o1. snd (set_attributes tmpl o1))) (
      reply (fst (set_attributes tmpl obj)))))))))))))"

section \<open>Searching\<close>

definition C_FindObjectsInit :: "abi_ctx \<Rightarrow> u64 \<Rightarrow> raw_template option \<Rightarrow> unit handler" where
  "C_FindObjectsInit X session p_template =
    catch_unwind (
      act_then (get_hsm X) (
      act_bind (get_sess session) (\<lambda>sess.
      act_then (exit_if (ss_find_context sess \<noteq> None) CKR_OPERATION_ACTIVE) (
      act_bind (act_rv (parse_optional p_template)) (\<lambda>tmpl.
      act_bind (core_get (\<lambda>c. find_objects tmpl (state_is_logged_in (ss_state sess)) (co_objects c))) (\<lambda>results.
      act_then (set_find_context session (Some \<lparr>fc_results = results, fc_position = 0\<rparr>)) (
      reply CKR_OK)))))))"

definition C_FindObjects :: "abi_ctx \<Rightarrow> u64 \<Rightarrow> bool \<Rightarrow> ck_ulong \<Rightarrow> bool \<Rightarrow> (u64 list \<times> ck_ulong) handler" where
  "C_FindObjects X session object_null max_count count_null =
    catch_unwind (
      act_then (get_hsm X) (
      act_then (exit_if (object_null \<or> count_null) CKR_ARGUMENTS_BAD) (
      act_bind (get_sess session) (\<lambda>sess.
      act_bind (act_some CKR_OPERATION_NOT_INITIALIZED (ss_find_context sess)) (\<lambda>ctx.
      (let max_count_usize = min (unat max_count) MAX_FIND_OBJECTS_PER_CALL;
               remaining = length (fc_results ctx) - fc_position ctx;
               to_return = min remaining max_count_usize
           in
           act_then (set_find_context session (Some (ctx\<lparr>fc_position := fc_position ctx + to_return\<rparr>))) (
           reply_with CKR_OK (take to_return (drop (fc_position ctx) (fc_results ctx)), word_of_nat to_return))))))))"

definition C_FindObjectsFinal :: "abi_ctx \<Rightarrow> u64 \<Rightarrow> unit handler" where
  "C_FindObjectsFinal X session =
    catch_unwind (
      act_then (get_hsm X) (
      act_bind (get_sess session) (\<lambda>sess.
      act_then (exit_if (ss_find_context sess = None) CKR_OPERATION_NOT_INITIALIZED) (
      act_then (set_find_context session None) (
      reply CKR_OK)))))"

end
