(* ===== verification/Abi_Cipher.thy ===== *)
theory Abi_Cipher
  imports Abi_Objects
begin

text \<open>
  The entry points for encryption, decryption and digests (\<open>src/src/pkcs11_abi/functions.rs\<close>),
  single-part and multi-part, with the helpers all key operations share.

  A single-part operation looks its key up again by handle; the final call of a multi-part
  operation uses the reference to the key object kept since the initialisation. A length query
  (null output pointer) leaves the operation in place.
\<close>

abbreviation (input) MAX_SINGLE_BUFFER :: nat where "MAX_SINGLE_BUFFER \<equiv> 67108864"
abbreviation (input) MAX_MULTIPART_ACCUMULATION :: nat where "MAX_MULTIPART_ACCUMULATION \<equiv> 67108864"

record ck_mechanism =
  mech_type :: ck_ulong
  mech_param :: "bytes option"

definition extract_mechanism_param :: "ck_mechanism \<Rightarrow> bytes" where
  "extract_mechanism_param m =
    (let bs = opt_bytes (mech_param m) in if length bs > MAX_SINGLE_BUFFER then [] else bs)"

text \<open>Ending an operation with an error code.\<close>

definition end_with :: "u64 \<Rightarrow> ck_rv \<Rightarrow> 'a act" where
  "end_with session rv = act_then (set_operation session None) (
                         act_exit rv)"

definition policy_check :: "ck_ulong \<Rightarrow> bool \<Rightarrow> unit act" where
  "policy_check mechanism for_signing =
    act_bind (core_get (\<lambda>c. validate_mechanism_for_policy mechanism (co_algorithm_config c) for_signing)) act_rv"

text \<open>Permission flag, key lifecycle and key size, in this order.\<close>

definition check_key :: "abi_ctx \<Rightarrow> ck_ulong \<Rightarrow> string \<Rightarrow> bool \<Rightarrow> stored_object \<Rightarrow> unit act" where
  "check_key X mechanism operation permitted obj =
    act_then (exit_if (\<not> permitted) CKR_KEY_FUNCTION_NOT_PERMITTED) (
    act_bind (act_nopanic (check_lifecycle (se_now (x_store X)) operation obj)) (\<lambda>lc.
    act_then (exit_if (\<not> is_ok lc) CKR_KEY_FUNCTION_NOT_PERMITTED) (
    act_bind (core_get co_algorithm_config) (\<lambda>cfg.
    act_try (enforce mechanism cfg (stored_key_bits obj))))))"

definition find_key :: "u64 \<Rightarrow> (obj_ref \<times> stored_object) act" where
  "find_key key =
    act_bind (lookup_object key) (\<lambda>found. act_rv (case found of Inl _ \<Rightarrow> Inl CKR_KEY_HANDLE_INVALID | Inr o1 \<Rightarrow> Inr o1))"

text \<open>The key object of a running operation, by handle, with its key material.\<close>

definition operation_key :: "u64 \<Rightarrow> u64 \<Rightarrow> (obj_ref \<times> stored_object) act" where
  "operation_key session key_handle =
    act_bind (lookup_object key_handle) (\<lambda>found.
      case found of Inl e \<Rightarrow> end_with session (err_to_rv e) | Inr o1 \<Rightarrow> act_ret o1)"

definition cached_key :: "u64 \<Rightarrow> u64 \<Rightarrow> obj_ref option \<Rightarrow> stored_object act" where
  "cached_key session key_handle cached_object =
    (case cached_object of
       Some addr \<Rightarrow> read_object addr
     | None \<Rightarrow> act_bind (operation_key session key_handle) (\<lambda>(addr, obj). act_ret obj))"

definition key_bytes_of :: "u64 \<Rightarrow> stored_object \<Rightarrow> bytes act" where
  "key_bytes_of session obj =
    (case ob_key_material obj of Some km \<Rightarrow> act_ret km | None \<Rightarrow> end_with session CKR_KEY_HANDLE_INVALID)"

text \<open>Storing a result and closing the operation, in the single-part calls: a short buffer keeps the
  operation, an error is audited.\<close>

definition store_result ::
  "u64 \<Rightarrow> audit_operation \<Rightarrow> ck_ulong \<Rightarrow> bytes hsm_result \<Rightarrow> (ck_rv \<times> byte out_list option) act" where
  "store_result session operation buf_len result =
    (case result of
       Inr out \<Rightarrow>
         if unat buf_len < length out then reply_with CKR_BUFFER_TOO_SMALL (None, word_of_nat (length out))
         else
           act_then (audit session operation AuSuccess) (
           act_then (set_operation session None) (
           reply_with CKR_OK (Some out, word_of_nat (length out))))
     | Inl e \<Rightarrow>
         act_then (audit session operation (AuFailure (err_to_rv e))) (
         act_then (set_operation session None) (
         reply (err_to_rv e))))"

section \<open>Encryption\<close>

definition zero_iv_rejected :: "ck_ulong \<Rightarrow> bytes \<Rightarrow> bool" where
  "zero_iv_rejected mechanism param =
    (if mechanism \<in> {CKM_AES_CBC, CKM_AES_CBC_PAD} then length param = 16 \<and> list_all (\<lambda>b. b = 0) param
     else if mechanism = CKM_AES_CTR then length param \<ge> 16 \<and> list_all (\<lambda>b. b = 0) (take 16 param)
     else False)"

definition C_EncryptInit :: "abi_ctx \<Rightarrow> u64 \<Rightarrow> ck_mechanism option \<Rightarrow> u64 \<Rightarrow> unit handler" where
  "C_EncryptInit X session p_mechanism key =
    catch_unwind (
      act_then (get_hsm X) (
      act_bind (act_some CKR_ARGUMENTS_BAD p_mechanism) (\<lambda>m.
      act_bind (get_sess session) (\<lambda>sess.
      act_then (exit_if (ss_active_operation sess \<noteq> None) CKR_OPERATION_ACTIVE) (
      act_then (exit_if (\<not> is_encrypt_mechanism (mech_type m)) CKR_MECHANISM_INVALID) (
      act_then (policy_check (mech_type m) False) (
      act_bind (find_key key) (\<lambda>(addr, obj).
      act_then (exit_if (ob_private obj \<and> \<not> state_is_logged_in (ss_state sess)) CKR_USER_NOT_LOGGED_IN) (
      act_then (check_key X (mech_type m) ''encrypt'' (ob_can_encrypt obj) obj) (
      act_then (exit_if (zero_iv_rejected (mech_type m) (extract_mechanism_param m)) CKR_MECHANISM_PARAM_INVALID) (
      act_then (set_operation session (Some (OpEncrypt (mech_type m) key (extract_mechanism_param m) [] (Some addr)))) (
      reply CKR_OK))))))))))))"

definition encrypt_estimate :: "ck_ulong \<Rightarrow> stored_object \<Rightarrow> nat \<Rightarrow> ck_rv + nat" where
  "encrypt_estimate mechanism obj n =
    (if mechanism = CKM_AES_GCM then Inr (n + 12 + 16)
     else if mechanism \<in> {CKM_AES_CBC, CKM_AES_CBC_PAD} then Inr (n + 16)
     else if mechanism = CKM_AES_CTR then Inr n
     else if mechanism = CKM_RSA_PKCS_OAEP then
       (case ob_modulus obj of Some m \<Rightarrow> Inr (length m) | None \<Rightarrow> Inl CKR_KEY_HANDLE_INVALID)
     else Inl CKR_MECHANISM_INVALID)"

text \<open>The AES modes that also exist as multi-part operations.\<close>

definition stream_encrypt ::
  "crypto_backend \<Rightarrow> ck_ulong \<Rightarrow> bytes \<Rightarrow> bytes \<Rightarrow> bytes \<Rightarrow> bytes hsm_result act" where
  "stream_encrypt B mechanism key_bytes param data =
    (if param = [] then act_ret (Inl MechanismParamInvalid)
     else if mechanism = CKM_AES_CTR then on_ciphers (cb_aes_ctr_encrypt B key_bytes param data)
     else on_ciphers (cb_aes_cbc_encrypt B key_bytes param data))"

definition run_encrypt ::
  "abi_ctx \<Rightarrow> u64 \<Rightarrow> u64 \<Rightarrow> ck_ulong \<Rightarrow> u64 \<Rightarrow> bytes \<Rightarrow> stored_object \<Rightarrow> bytes \<Rightarrow> bytes \<Rightarrow> bytes hsm_result act" where
  "run_encrypt X session slot_id mechanism key_handle param obj key_bytes data =
    (let B = x_backend X in
     if mechanism = CKM_AES_GCM then on_ciphers (cb_aes_256_gcm_encrypt B key_bytes data)
     else if mechanism \<in> {CKM_AES_CBC, CKM_AES_CBC_PAD, CKM_AES_CTR} then stream_encrypt B mechanism key_bytes param data
     else if mechanism = CKM_RSA_PKCS_OAEP then
       (case ob_modulus obj of
          None \<Rightarrow> end_with session CKR_KEY_HANDLE_INVALID
        | Some modulus \<Rightarrow>
           (case ob_public_exponent obj of
              None \<Rightarrow> end_with session CKR_KEY_HANDLE_INVALID
            | Some pub_exp \<Rightarrow>
               (case parse_oaep_hash param of
                  Inl rv \<Rightarrow> end_with session rv
                | Inr h \<Rightarrow> act_ret (cb_rsa_oaep_encrypt_with_handle B slot_id key_handle modulus pub_exp data h))))
     else end_with session CKR_MECHANISM_INVALID)"

definition C_Encrypt :: "abi_ctx \<Rightarrow> u64 \<Rightarrow> bytes option \<Rightarrow> bool \<Rightarrow> ck_ulong option \<Rightarrow> byte out_list handler" where
  "C_Encrypt X session p_data out_null pul_len =
    catch_unwind (
      act_then (get_hsm X) (
      act_bind (act_some CKR_ARGUMENTS_BAD p_data) (\<lambda>data.
      act_bind (act_some CKR_ARGUMENTS_BAD pul_len) (\<lambda>buf_len.
      act_bind (get_sess session) (\<lambda>sess.
      (case ss_active_operation sess of
             Some (OpEncrypt mechanism key_handle param _ _) \<Rightarrow>
               act_then ((if length data > MAX_SINGLE_BUFFER then end_with session CKR_DATA_LEN_RANGE else act_ret ())) (
               act_bind (operation_key session key_handle) (\<lambda>(addr, obj).
               act_bind (key_bytes_of session obj) (\<lambda>key_bytes.
               (if out_null then
                      (case encrypt_estimate mechanism obj (length data) of
                         Inl rv \<Rightarrow> end_with session rv
                       | Inr n \<Rightarrow> reply_with CKR_OK (None, word_of_nat n))
                    else
                      act_bind (run_encrypt X session (ss_slot_id sess) mechanism key_handle param obj key_bytes data)
                        (store_result session (AuEncrypt mechanism (is_fips_approved mechanism)) buf_len)))))
           | _ \<Rightarrow> act_exit CKR_OPERATION_NOT_INITIALIZED))))))"

definition encrypt_mechanism_supports_multipart :: "ck_ulong \<Rightarrow> bool" where
  "encrypt_mechanism_supports_multipart mechanism = (mechanism \<in> {CKM_AES_CBC, CKM_AES_CBC_PAD, CKM_AES_CTR})"

definition C_EncryptUpdate :: "abi_ctx \<Rightarrow> u64 \<Rightarrow> bytes option \<Rightarrow> bool \<Rightarrow> byte out_list handler" where
  "C_EncryptUpdate X session p_part len_null =
    catch_unwind (
      act_then (get_hsm X) (
      act_bind (act_some CKR_ARGUMENTS_BAD p_part) (\<lambda>part.
      act_then (exit_if len_null CKR_ARGUMENTS_BAD) (
      act_bind (get_sess session) (\<lambda>sess.
      (case ss_active_operation sess of
             Some (OpEncrypt mechanism key_handle param data cached) \<Rightarrow>
               if \<not> encrypt_mechanism_supports_multipart mechanism then end_with session CKR_MECHANISM_INVALID
               else if length data + length part > MAX_MULTIPART_ACCUMULATION then end_with session CKR_DATA_LEN_RANGE
               else
                 act_then (set_operation session (Some (OpEncrypt mechanism key_handle param (data @ part) cached))) (
                 reply_with CKR_OK (None, 0))
           | _ \<Rightarrow> act_exit CKR_OPERATION_NOT_INITIALIZED))))))"

definition C_EncryptFinal :: "abi_ctx \<Rightarrow> u64 \<Rightarrow> bool \<Rightarrow> ck_ulong option \<Rightarrow> byte out_list handler" where
  "C_EncryptFinal X session out_null pul_len =
    catch_unwind (
      act_then (get_hsm X) (
      act_bind (act_some CKR_ARGUMENTS_BAD pul_len) (\<lambda>buf_len.
      act_bind (get_sess session) (\<lambda>sess.
      (case ss_active_operation sess of
             Some (OpEncrypt mechanism key_handle param data cached) \<Rightarrow>
               if \<not> encrypt_mechanism_supports_multipart mechanism then end_with session CKR_MECHANISM_INVALID
               else if out_null then reply_with CKR_OK (None, word_of_nat (length data + 16))
               else if unat buf_len < length data + 16 then
                 reply_with CKR_BUFFER_TOO_SMALL (None, word_of_nat (length data + 16))
               else
                 act_bind (cached_key session key_handle cached) (\<lambda>obj.
                 act_bind (key_bytes_of session obj) (\<lambda>key_bytes.
                 act_bind (stream_encrypt (x_backend X) mechanism key_bytes param data) (\<lambda>r.
                 (case r of
                        Inl e \<Rightarrow> end_with session (err_to_rv e)
                      | Inr encrypted \<Rightarrow>
                          if length encrypted > unat buf_len then
                            act_then (set_operation session None) (
                            reply_with CKR_BUFFER_TOO_SMALL (None, word_of_nat (length encrypted)))
                          else
                            act_then (audit session (AuEncrypt mechanism (is_fips_approved mechanism)) AuSuccess) (
                            act_then (set_operation session None) (
                            reply_with CKR_OK (Some encrypted, word_of_nat (length encrypted))))))))
           | _ \<Rightarrow> act_exit CKR_OPERATION_NOT_INITIALIZED)))))"

section \<open>Decryption\<close>

definition C_DecryptInit :: "abi_ctx \<Rightarrow> u64 \<Rightarrow> ck_mechanism option \<Rightarrow> u64 \<Rightarrow> unit handler" where
  "C_DecryptInit X session p_mechanism key =
    catch_unwind (
      act_then (get_hsm X) (
      act_bind (act_some CKR_ARGUMENTS_BAD p_mechanism) (\<lambda>m.
      act_bind (get_sess session) (\<lambda>sess.
      act_then (exit_if (ss_active_operation sess \<noteq> None) CKR_OPERATION_ACTIVE) (
      act_then (exit_if (\<not> is_encrypt_mechanism (mech_type m)) CKR_MECHANISM_INVALID) (
      act_then (policy_check (mech_type m) False) (
      act_bind (find_key key) (\<lambda>(addr, obj).
      act_then (exit_if (ob_private obj \<and> \<not> state_is_logged_in (ss_state sess)) CKR_USER_NOT_LOGGED_IN) (
      act_then (check_key X (mech_type m) ''decrypt'' (ob_can_decrypt obj) obj) (
      act_then (set_operation session (Some (OpDecrypt (mech_type m) key (extract_mechanism_param m) [] (Some addr)))) (
      reply CKR_OK)))))))))))"

definition decrypt_estimate :: "ck_ulong \<Rightarrow> nat \<Rightarrow> ck_rv + nat" where
  "decrypt_estimate mechanism n =
    (if mechanism = CKM_AES_GCM then Inr (n - 28)
     else if mechanism \<in> {CKM_AES_CBC, CKM_AES_CBC_PAD, CKM_AES_CTR, CKM_RSA_PKCS_OAEP} then Inr n
     else Inl CKR_MECHANISM_INVALID)"

definition stream_decrypt :: "crypto_backend \<Rightarrow> ck_ulong \<Rightarrow> bytes \<Rightarrow> bytes \<Rightarrow> bytes \<Rightarrow> bytes hsm_result" where
  "stream_decrypt B mechanism key_bytes param data =
    (if param = [] then Inl MechanismParamInvalid
     else if mechanism = CKM_AES_CTR then cb_aes_ctr_decrypt B key_bytes param data
     else cb_aes_cbc_decrypt B key_bytes param data)"

definition run_decrypt ::
  "abi_ctx \<Rightarrow> u64 \<Rightarrow> u64 \<Rightarrow> ck_ulong \<Rightarrow> u64 \<Rightarrow> bytes \<Rightarrow> bytes \<Rightarrow> bytes \<Rightarrow> bytes hsm_result act" where
  "run_decrypt X session slot_id mechanism key_handle param key_bytes data =
    (let B = x_backend X in
     if mechanism = CKM_AES_GCM then act_ret (cb_aes_256_gcm_decrypt B key_bytes data)
     else if mechanism \<in> {CKM_AES_CBC, CKM_AES_CBC_PAD, CKM_AES_CTR} then
       act_ret (stream_decrypt B mechanism key_bytes param data)
     else if mechanism = CKM_RSA_PKCS_OAEP then
       (case parse_oaep_hash param of
          Inl rv \<Rightarrow> end_with session rv
        | Inr h \<Rightarrow> act_ret (cb_rsa_oaep_decrypt_with_handle B slot_id key_handle key_bytes data h))
     else end_with session CKR_MECHANISM_INVALID)"

definition C_Decrypt :: "abi_ctx \<Rightarrow> u64 \<Rightarrow> bytes option \<Rightarrow> bool \<Rightarrow> ck_ulong option \<Rightarrow> byte out_list handler" where
  "C_Decrypt X session p_encrypted_data out_null pul_len =
    catch_unwind (
      act_then (get_hsm X) (
      act_bind (act_some CKR_ARGUMENTS_BAD p_encrypted_data) (\<lambda>data.
      act_bind (act_some CKR_ARGUMENTS_BAD pul_len) (\<lambda>buf_len.
      act_bind (get_sess session) (\<lambda>sess.
      (case ss_active_operation sess of
             Some (OpDecrypt mechanism key_handle param _ _) \<Rightarrow>
               act_then ((if length data > MAX_SINGLE_BUFFER then end_with session CKR_DATA_LEN_RANGE else act_ret ())) (
               act_bind (operation_key session key_handle) (\<lambda>(addr, obj).
               act_bind (key_bytes_of session obj) (\<lambda>key_bytes.
               (if out_null then
                      (case decrypt_estimate mechanism (length data) of
                         Inl rv \<Rightarrow> end_with session rv
                       | Inr n \<Rightarrow> reply_with CKR_OK (None, word_of_nat n))
                    else
                      act_bind (run_decrypt X session (ss_slot_id sess) mechanism key_handle param key_bytes data)
                        (store_result session (AuDecrypt mechanism (is_fips_approved mechanism)) buf_len)))))
           | _ \<Rightarrow> act_exit CKR_OPERATION_NOT_INITIALIZED))))))"

definition C_DecryptUpdate :: "abi_ctx \<Rightarrow> u64 \<Rightarrow> bytes option \<Rightarrow> bool \<Rightarrow> byte out_list handler" where
  "C_DecryptUpdate X session p_encrypted_part len_null =
    catch_unwind (
      act_then (get_hsm X) (
      act_bind (act_some CKR_ARGUMENTS_BAD p_encrypted_part) (\<lambda>part.
      act_then (exit_if len_null CKR_ARGUMENTS_BAD) (
      act_bind (get_sess session) (\<lambda>sess.
      (case ss_active_operation sess of
             Some (OpDecrypt mechanism key_handle param data cached) \<Rightarrow>
               if \<not> encrypt_mechanism_supports_multipart mechanism then end_with session CKR_MECHANISM_INVALID
               else if length data + length part > MAX_MULTIPART_ACCUMULATION then end_with session CKR_DATA_LEN_RANGE
               else
                 act_then (set_operation session (Some (OpDecrypt mechanism key_handle param (data @ part) cached))) (
                 reply_with CKR_OK (None, 0))
           | _ \<Rightarrow> act_exit CKR_OPERATION_NOT_INITIALIZED))))))"

definition C_DecryptFinal :: "abi_ctx \<Rightarrow> u64 \<Rightarrow> bool \<Rightarrow> ck_ulong option \<Rightarrow> byte out_list handler" where
  "C_DecryptFinal X session out_null pul_len =
    catch_unwind (
      act_then (get_hsm X) (
      act_bind (act_some CKR_ARGUMENTS_BAD pul_len) (\<lambda>buf_len.
      act_bind (get_sess session) (\<lambda>sess.
      (case ss_active_operation sess of
             Some (OpDecrypt mechanism key_handle param data cached) \<Rightarrow>
               if \<not> encrypt_mechanism_supports_multipart mechanism then end_with session CKR_MECHANISM_INVALID
               else if out_null then reply_with CKR_OK (None, word_of_nat (length data))
               else if unat buf_len < length data then
                 reply_with CKR_BUFFER_TOO_SMALL (None, word_of_nat (length data))
               else
                 act_bind (cached_key session key_handle cached) (\<lambda>obj.
                 act_bind (key_bytes_of session obj) (\<lambda>key_bytes.
                 (case stream_decrypt (x_backend X) mechanism key_bytes param data of
                        Inl e \<Rightarrow> end_with session (err_to_rv e)
                      | Inr decrypted \<Rightarrow>
                          act_then (audit session (AuDecrypt mechanism (is_fips_approved mechanism)) AuSuccess) (
                          act_then (set_operation session None) (
                          reply_with CKR_OK (Some decrypted, word_of_nat (length decrypted)))))))
           | _ \<Rightarrow> act_exit CKR_OPERATION_NOT_INITIALIZED)))))"

section \<open>Digests\<close>

definition C_DigestInit :: "abi_ctx \<Rightarrow> u64 \<Rightarrow> ck_mechanism option \<Rightarrow> unit handler" where
  "C_DigestInit X session p_mechanism =
    catch_unwind (
      act_then (get_hsm X) (
      act_bind (act_some CKR_ARGUMENTS_BAD p_mechanism) (\<lambda>m.
      act_bind (get_sess session) (\<lambda>sess.
      act_then (exit_if (ss_active_operation sess \<noteq> None) CKR_OPERATION_ACTIVE) (
      act_then (exit_if (\<not> is_digest_mechanism (mech_type m)) CKR_MECHANISM_INVALID) (
      act_then (policy_check (mech_type m) False) (
      act_bind (act_try (cb_create_hasher (x_backend X) (mech_type m))) (\<lambda>h.
      act_then (set_operation session (Some (OpDigest (mech_type m) (Some h) []))) (
      reply CKR_OK)))))))))"

definition C_Digest :: "abi_ctx \<Rightarrow> u64 \<Rightarrow> bytes option \<Rightarrow> bool \<Rightarrow> ck_ulong option \<Rightarrow> byte out_list handler" where
  "C_Digest X session p_data out_null pul_len =
    catch_unwind (
      act_then (get_hsm X) (
      act_bind (act_some CKR_ARGUMENTS_BAD p_data) (\<lambda>data.
      act_bind (act_some CKR_ARGUMENTS_BAD pul_len) (\<lambda>buf_len.
      act_bind (get_sess session) (\<lambda>sess.
      (case ss_active_operation sess of
             Some (OpDigest mechanism _ accumulated_input) \<Rightarrow>
               if accumulated_input \<noteq> [] then end_with session CKR_OPERATION_ACTIVE
               else if length data > MAX_SINGLE_BUFFER then end_with session CKR_DATA_LEN_RANGE
               else
                 (case cb_compute_digest (x_backend X) mechanism data of
                    Inl e \<Rightarrow> end_with session (err_to_rv e)
                  | Inr digest_out \<Rightarrow>
                      if out_null then reply_with CKR_OK (None, word_of_nat (length digest_out))
                      else if unat buf_len < length digest_out then
                        reply_with CKR_BUFFER_TOO_SMALL (None, word_of_nat (length digest_out))
                      else
                        act_then (set_operation session None) (
                        reply_with CKR_OK (Some digest_out, word_of_nat (length digest_out))))
           | _ \<Rightarrow> act_exit CKR_OPERATION_NOT_INITIALIZED))))))"

definition C_DigestUpdate :: "abi_ctx \<Rightarrow> u64 \<Rightarrow> bytes option \<Rightarrow> unit handler" where
  "C_DigestUpdate X session p_part =
    catch_unwind (
      act_then (get_hsm X) (
      act_bind (act_some CKR_ARGUMENTS_BAD p_part) (\<lambda>part.
      act_bind (get_sess session) (\<lambda>sess.
      (case ss_active_operation sess of
             Some (OpDigest mechanism h accumulated_input) \<Rightarrow>
               if length accumulated_input + length part > MAX_MULTIPART_ACCUMULATION
               then end_with session CKR_DATA_LEN_RANGE
               else
                 act_then (set_operation session
                       (Some (OpDigest mechanism (map_option (hasher_update part) h) (accumulated_input @ part)))) (
                 reply CKR_OK)
           | _ \<Rightarrow> act_exit CKR_OPERATION_NOT_INITIALIZED)))))"

definition C_DigestKey :: "abi_ctx \<Rightarrow> u64 \<Rightarrow> u64 \<Rightarrow> unit handler" where
  "C_DigestKey X session key =
    catch_unwind (
      act_then (get_hsm X) (
      act_bind (get_sess session) (\<lambda>sess.
      (case ss_active_operation sess of
             Some (OpDigest mechanism h accumulated_input) \<Rightarrow>
               act_bind (find_key key) (\<lambda>(addr, key_obj).
               act_then (exit_if (ob_class key_obj \<noteq> CKO_SECRET_KEY) CKR_KEY_INDIGESTIBLE) (
               act_then (exit_if (ob_sensitive key_obj) CKR_KEY_INDIGESTIBLE) (
               act_bind (act_some CKR_KEY_INDIGESTIBLE (ob_key_material key_obj)) (\<lambda>key_bytes.
               act_then (set_operation session
                     (Some (OpDigest mechanism (map_option (hasher_update key_bytes) h) (accumulated_input @ key_bytes)))) (
               reply CKR_OK)))))
           | _ \<Rightarrow> act_exit CKR_OPERATION_NOT_INITIALIZED))))"

definition C_DigestFinal :: "abi_ctx \<Rightarrow> u64 \<Rightarrow> bool \<Rightarrow> ck_ulong option \<Rightarrow> byte out_list handler" where
  "C_DigestFinal X session out_null pul_len =
    catch_unwind (
      act_then (get_hsm X) (
      act_bind (act_some CKR_ARGUMENTS_BAD pul_len) (\<lambda>buf_len.
      act_bind (get_sess session) (\<lambda>sess.
      (case ss_active_operation sess of
             Some (OpDigest mechanism None _) \<Rightarrow> end_with session CKR_OPERATION_NOT_INITIALIZED
           | Some (OpDigest mechanism (Some h) _) \<Rightarrow>
               (let output_len = cb_hasher_output_len (x_backend X) h in
                if out_null then reply_with CKR_OK (None, word_of_nat output_len)
                else
                  act_then (set_operation session None) (
                  (if unat buf_len < output_len
                       then reply_with CKR_BUFFER_TOO_SMALL (None, word_of_nat output_len)
                       else
                         (let digest_out = cb_hasher_finalize (x_backend X) h
                          in reply_with CKR_OK (Some digest_out, word_of_nat (length digest_out))))))
           | _ \<Rightarrow> act_exit CKR_OPERATION_NOT_INITIALIZED)))))"

end
