(* ===== verification/Abi_Sign.thy ===== *)
theory Abi_Sign
  imports Abi_Cipher
begin

text \<open>
  The entry points for signatures (\<open>src/src/pkcs11_abi/functions.rs\<close>, \<open>C_SignInit\<close> to
  \<open>C_Verify\<close> and \<open>C_SignUpdate\<close> to \<open>C_VerifyFinal\<close>), and the saving and restoring of
  operations (\<open>C_GetOperationState\<close>, \<open>C_SetOperationState\<close>).

  A mechanism with a built-in hash feeds the parts of a multi-part operation to a hasher and
  keeps no copy of them; the others accumulate the parts.
\<close>

section \<open>Initialisation\<close>

definition sign_hasher :: "crypto_backend \<Rightarrow> ck_ulong \<Rightarrow> hasher option" where
  "sign_hasher B mechanism =
    Option.bind (sign_mechanism_to_digest_mechanism mechanism)
      (\<lambda>digest_mech. case cb_create_hasher B digest_mech of Inl _ \<Rightarrow> None | Inr h \<Rightarrow> Some h)"

definition C_SignInit :: "abi_ctx \<Rightarrow> u64 \<Rightarrow> ck_mechanism option \<Rightarrow> u64 \<Rightarrow> unit handler" where
  "C_SignInit X session p_mechanism key =
    catch_unwind (
      act_then (get_hsm X) (
      act_bind (act_some CKR_ARGUMENTS_BAD p_mechanism) (\<lambda>m.
      act_bind (get_sess session) (\<lambda>sess.
      act_then (exit_if (\<not> state_is_logged_in (ss_state sess)) CKR_USER_NOT_LOGGED_IN) (
      act_then (exit_if (ss_active_operation sess \<noteq> None) CKR_OPERATION_ACTIVE) (
      act_then (exit_if (mech_type m = CKM_SHA1_RSA_PKCS) CKR_MECHANISM_INVALID) (
      act_then (exit_if (\<not> is_sign_mechanism (mech_type m)) CKR_MECHANISM_INVALID) (
      act_then (policy_check (mech_type m) True) (
      act_bind (find_key key) (\<lambda>(addr, obj).
      act_then (check_key X (mech_type m) ''sign'' (ob_can_sign obj) obj) (
      act_then (set_operation session
            (Some (OpSign (mech_type m) key [] (sign_hasher (x_backend X) (mech_type m)) (Some addr)))) (
      reply CKR_OK))))))))))))"

definition C_VerifyInit :: "abi_ctx \<Rightarrow> u64 \<Rightarrow> ck_mechanism option \<Rightarrow> u64 \<Rightarrow> unit handler" where
  "C_VerifyInit X session p_mechanism key =
    catch_unwind (
      act_then (get_hsm X) (
      act_bind (act_some CKR_ARGUMENTS_BAD p_mechanism) (\<lambda>m.
      act_bind (get_sess session) (\<lambda>sess.
      act_then (exit_if (ss_active_operation sess \<noteq> None) CKR_OPERATION_ACTIVE) (
      act_then (exit_if (\<not> is_sign_mechanism (mech_type m)) CKR_MECHANISM_INVALID) (
      act_then (policy_check (mech_type m) False) (
      act_bind (find_key key) (\<lambda>(addr, obj).
      act_then (exit_if (ob_private obj \<and> \<not> state_is_logged_in (ss_state sess)) CKR_USER_NOT_LOGGED_IN) (
      act_then (check_key X (mech_type m) ''verify'' (ob_can_verify obj) obj) (
      act_then (set_operation session
            (Some (OpVerify (mech_type m) key [] (sign_hasher (x_backend X) (mech_type m)) (Some addr)))) (
      reply CKR_OK)))))))))))"

section \<open>Signing\<close>

definition estimated_signature_len :: "ck_ulong \<Rightarrow> stored_object \<Rightarrow> nat option" where
  "estimated_signature_len mechanism obj =
    (if is_pss_mechanism mechanism \<or>
        mechanism \<in> {CKM_RSA_PKCS, CKM_SHA256_RSA_PKCS, CKM_SHA384_RSA_PKCS, CKM_SHA512_RSA_PKCS} then
       (case ob_modulus_bits obj of
          Some bits \<Rightarrow> Some ((unat bits + 7) div 8)
        | None \<Rightarrow>
           (case ob_modulus obj of
              Some m \<Rightarrow> Some (length m)
            | None \<Rightarrow> map_option length (ob_key_material obj)))
     else if is_ecdsa_mechanism mechanism then
       Some (if is_p384_params (opt_bytes (ob_ec_params obj)) then 104 else 72)
     else if is_eddsa_mechanism mechanism then Some 64
     else if is_ml_dsa_mechanism mechanism then
       Some (if mechanism = CKM_ML_DSA_44 then 2420 else if mechanism = CKM_ML_DSA_65 then 3309
             else if mechanism = CKM_ML_DSA_87 then 4627 else 4672)
     else if is_slh_dsa_mechanism mechanism then Some 49856
     else if is_hybrid_mechanism mechanism then Some (49856 + 104)
     else None)"

definition reply_estimate :: "u64 \<Rightarrow> ck_ulong \<Rightarrow> stored_object \<Rightarrow> (ck_rv \<times> byte out_list option) act" where
  "reply_estimate session mechanism obj =
    (case estimated_signature_len mechanism obj of
       None \<Rightarrow> end_with session CKR_MECHANISM_INVALID
     | Some n \<Rightarrow> reply_with CKR_OK (None, word_of_nat n))"

definition C_Sign :: "abi_ctx \<Rightarrow> u64 \<Rightarrow> bytes option \<Rightarrow> bool \<Rightarrow> ck_ulong option \<Rightarrow> byte out_list handler" where
  "C_Sign X session p_data out_null pul_len =
    catch_unwind (
      act_then (get_hsm X) (
      act_bind (act_some CKR_ARGUMENTS_BAD p_data) (\<lambda>data.
      act_bind (act_some CKR_ARGUMENTS_BAD pul_len) (\<lambda>buf_len.
      act_bind (get_sess session) (\<lambda>sess.
      (case ss_active_operation sess of
             Some (OpSign mechanism key_handle _ _ _) \<Rightarrow>
               act_then ((if length data > MAX_SINGLE_BUFFER then end_with session CKR_DATA_LEN_RANGE else act_ret ())) (
               act_bind (operation_key session key_handle) (\<lambda>(addr, obj).
               act_bind (key_bytes_of session obj) (\<lambda>key_bytes.
               (if out_null then reply_estimate session mechanism obj
                    else
                      store_result session (AuSign mechanism (is_fips_approved mechanism)) buf_len
                        (sign_single_shot (x_backend X) (ss_slot_id sess) key_handle mechanism key_bytes data obj)))))
           | _ \<Rightarrow> act_exit CKR_OPERATION_NOT_INITIALIZED))))))"

definition C_SignUpdate :: "abi_ctx \<Rightarrow> u64 \<Rightarrow> bytes option \<Rightarrow> unit handler" where
  "C_SignUpdate X session p_part =
    catch_unwind (
      act_then (get_hsm X) (
      act_bind (act_some CKR_ARGUMENTS_BAD p_part) (\<lambda>part.
      act_bind (get_sess session) (\<lambda>sess.
      (case ss_active_operation sess of
             Some (OpSign mechanism key_handle data h cached) \<Rightarrow>
               if length data + length part > MAX_MULTIPART_ACCUMULATION then end_with session CKR_DATA_LEN_RANGE
               else
                 (case h of
                    Some h1 \<Rightarrow>
                      act_then (set_operation session
                            (Some (OpSign mechanism key_handle data (Some (hasher_update part h1)) cached))) (
                      reply CKR_OK)
                  | None \<Rightarrow>
                      if sign_mechanism_supports_multipart mechanism then end_with session CKR_GENERAL_ERROR
                      else
                        act_then (set_operation session (Some (OpSign mechanism key_handle (data @ part) None cached))) (
                        reply CKR_OK))
           | _ \<Rightarrow> act_exit CKR_OPERATION_NOT_INITIALIZED)))))"

definition C_SignFinal :: "abi_ctx \<Rightarrow> u64 \<Rightarrow> bool \<Rightarrow> ck_ulong option \<Rightarrow> byte out_list handler" where
  "C_SignFinal X session out_null pul_len =
    catch_unwind (
      act_then (get_hsm X) (
      act_bind (act_some CKR_ARGUMENTS_BAD pul_len) (\<lambda>buf_len.
      act_bind (get_sess session) (\<lambda>sess.
      (case ss_active_operation sess of
             Some (OpSign mechanism key_handle data h cached) \<Rightarrow>
               if out_null then
                 act_bind (operation_key session key_handle) (\<lambda>(addr, obj).
                 reply_estimate session mechanism obj)
               else
                 act_bind (cached_key session key_handle cached) (\<lambda>obj.
                 act_bind (key_bytes_of session obj) (\<lambda>key_bytes.
                 (case
                        (case h of
                           Some h1 \<Rightarrow> sign_prehashed (x_backend X) (ss_slot_id sess) key_handle mechanism key_bytes
                             (cb_hasher_finalize (x_backend X) h1) obj
                         | None \<Rightarrow> sign_single_shot (x_backend X) (ss_slot_id sess) key_handle mechanism key_bytes data obj)
                      of
                        Inl e \<Rightarrow> end_with session (err_to_rv e)
                      | Inr signature \<Rightarrow>
                          if unat buf_len < length signature then
                            act_then (set_operation session None) (
                            reply_with CKR_BUFFER_TOO_SMALL (None, word_of_nat (length signature)))
                          else
                            act_then (audit session (AuSign mechanism (is_fips_approved mechanism)) AuSuccess) (
                            act_then (set_operation session None) (
                            reply_with CKR_OK (Some signature, word_of_nat (length signature)))))))
           | _ \<Rightarrow> act_exit CKR_OPERATION_NOT_INITIALIZED)))))"

section \<open>Verifying\<close>

definition report_verified :: "u64 \<Rightarrow> ck_ulong \<Rightarrow> bool hsm_result \<Rightarrow> (ck_rv \<times> unit option) act" where
  "report_verified session mechanism result =
    (let operation = AuVerify mechanism (is_fips_approved mechanism) in
     act_then (set_operation session None) (
     (case result of
            Inr True \<Rightarrow> act_then (audit session operation AuSuccess) (
                                   reply CKR_OK)
          | Inr False \<Rightarrow>
              act_then (audit session operation (AuFailure CKR_SIGNATURE_INVALID)) (
              reply CKR_SIGNATURE_INVALID)
          | Inl e \<Rightarrow>
              act_then (audit session operation (AuFailure (err_to_rv e))) (
              reply (err_to_rv e)))))"

definition C_Verify :: "abi_ctx \<Rightarrow> u64 \<Rightarrow> bytes option \<Rightarrow> bytes option \<Rightarrow> unit handler" where
  "C_Verify X session p_data p_signature =
    catch_unwind (
      act_then (get_hsm X) (
      act_bind (act_some CKR_ARGUMENTS_BAD p_data) (\<lambda>data.
      act_bind (act_some CKR_ARGUMENTS_BAD p_signature) (\<lambda>signature.
      act_bind (get_sess session) (\<lambda>sess.
      (case ss_active_operation sess of
             Some (OpVerify mechanism key_handle _ _ _) \<Rightarrow>
               act_then ((if length data > MAX_SINGLE_BUFFER \<or> length signature > MAX_SINGLE_BUFFER
                    then end_with session CKR_DATA_LEN_RANGE else act_ret ())) (
               act_bind (operation_key session key_handle) (\<lambda>(addr, obj).
               report_verified session mechanism
                     (verify_single_shot (x_backend X) (ss_slot_id sess) key_handle mechanism data signature obj)))
           | _ \<Rightarrow> act_exit CKR_OPERATION_NOT_INITIALIZED))))))"

definition C_VerifyUpdate :: "abi_ctx \<Rightarrow> u64 \<Rightarrow> bytes option \<Rightarrow> unit handler" where
  "C_VerifyUpdate X session p_part =
    catch_unwind (
      act_then (get_hsm X) (
      act_bind (act_some CKR_ARGUMENTS_BAD p_part) (\<lambda>part.
      act_bind (get_sess session) (\<lambda>sess.
      (case ss_active_operation sess of
             Some (OpVerify mechanism key_handle data h cached) \<Rightarrow>
               if length data + length part > MAX_MULTIPART_ACCUMULATION then end_with session CKR_DATA_LEN_RANGE
               else
                 (case h of
                    Some h1 \<Rightarrow>
                      act_then (set_operation session
                            (Some (OpVerify mechanism key_handle data (Some (hasher_update part h1)) cached))) (
                      reply CKR_OK)
                  | None \<Rightarrow>
                      if sign_mechanism_supports_multipart mechanism then end_with session CKR_GENERAL_ERROR
                      else
                        act_then (set_operation session (Some (OpVerify mechanism key_handle (data @ part) None cached))) (
                        reply CKR_OK))
           | _ \<Rightarrow> act_exit CKR_OPERATION_NOT_INITIALIZED)))))"

definition C_VerifyFinal :: "abi_ctx \<Rightarrow> u64 \<Rightarrow> bytes option \<Rightarrow> unit handler" where
  "C_VerifyFinal X session p_signature =
    catch_unwind (
      act_then (get_hsm X) (
      act_bind (act_some CKR_ARGUMENTS_BAD p_signature) (\<lambda>signature.
      act_bind (get_sess session) (\<lambda>sess.
      (case ss_active_operation sess of
             Some (OpVerify mechanism key_handle data h cached) \<Rightarrow>
               act_then ((if length signature > MAX_SINGLE_BUFFER then end_with session CKR_DATA_LEN_RANGE else act_ret ())) (
               act_bind (cached_key session key_handle cached) (\<lambda>obj.
               report_verified session mechanism
                     (case h of
                        Some h1 \<Rightarrow> verify_prehashed (x_backend X) (ss_slot_id sess) key_handle mechanism
                          (cb_hasher_finalize (x_backend X) h1) signature obj
                      | None \<Rightarrow> verify_single_shot (x_backend X) (ss_slot_id sess) key_handle mechanism data
                          signature obj)))
           | _ \<Rightarrow> act_exit CKR_OPERATION_NOT_INITIALIZED)))))"

section \<open>Saving and restoring an operation\<close>

definition C_GetOperationState :: "abi_ctx \<Rightarrow> u64 \<Rightarrow> bool \<Rightarrow> ck_ulong option \<Rightarrow> byte out_list handler" where
  "C_GetOperationState X session out_null pul_len =
    catch_unwind (
      act_then (get_hsm X) (
      act_bind (act_some CKR_ARGUMENTS_BAD pul_len) (\<lambda>buf_len.
      act_bind (get_sess session) (\<lambda>sess.
      act_bind (act_some CKR_OPERATION_NOT_INITIALIZED (ss_active_operation sess)) (\<lambda>op.
      act_then (exit_if (case op of OpEncrypt _ _ _ _ _ \<Rightarrow> True | OpDecrypt _ _ _ _ _ \<Rightarrow> True | _ \<Rightarrow> False)
            CKR_STATE_UNSAVEABLE) (
      act_bind (core_get co_state_hmac_key) (\<lambda>key.
      act_bind (act_rv (case serialize_state (x_hmac X) key session (ss_slot_id sess) op of
            Inl _ \<Rightarrow> Inl CKR_STATE_UNSAVEABLE | Inr v \<Rightarrow> Inr v)) (\<lambda>state_blob.
      reply_list out_null buf_len state_blob))))))))"

text \<open>A hasher for a restored operation, with the saved data fed to it again.\<close>

definition refed_hasher :: "crypto_backend \<Rightarrow> ck_ulong \<Rightarrow> bytes \<Rightarrow> hasher option" where
  "refed_hasher B mechanism data =
    (case cb_create_hasher B mechanism of
       Inl _ \<Rightarrow> None
     | Inr h \<Rightarrow> Some (if data = [] then h else hasher_update data h))"

definition restore_operation ::
  "abi_ctx \<Rightarrow> object_store \<Rightarrow> u64 \<Rightarrow> restored_op \<Rightarrow> ck_rv + active_operation" where
  "restore_operation X os auth_key r =
    (case r of (op_type, mechanism, key_handle, _, data) \<Rightarrow>
      let resolved_key = (if auth_key \<noteq> 0 then auth_key else key_handle);
          h = refed_hasher (x_backend X) mechanism data in
      if op_type = OP_TYPE_DIGEST then
        (case h of None \<Rightarrow> Inl CKR_SAVED_STATE_INVALID | Some h1 \<Rightarrow> Inr (OpDigest mechanism (Some h1) data))
      else if op_type = OP_TYPE_SIGN then
        (if is_ok (get_object resolved_key os) then Inr (OpSign mechanism resolved_key data h None)
         else Inl CKR_KEY_HANDLE_INVALID)
      else if op_type = OP_TYPE_VERIFY then
        (if is_ok (get_object resolved_key os) then Inr (OpVerify mechanism resolved_key data h None)
         else Inl CKR_KEY_HANDLE_INVALID)
      else Inl CKR_SAVED_STATE_INVALID)"

definition C_SetOperationState :: "abi_ctx \<Rightarrow> u64 \<Rightarrow> bytes option \<Rightarrow> u64 \<Rightarrow> u64 \<Rightarrow> unit handler" where
  "C_SetOperationState X session p_state encryption_key auth_key =
    catch_unwind (
      act_then (get_hsm X) (
      act_bind (act_some CKR_ARGUMENTS_BAD p_state) (\<lambda>blob.
      act_then (exit_if (blob = []) CKR_ARGUMENTS_BAD) (
      act_then (exit_if (length blob > MAX_SINGLE_BUFFER) CKR_SAVED_STATE_INVALID) (
      act_bind (get_sess session) (\<lambda>sess.
      act_bind (core_get co_state_hmac_key) (\<lambda>key.
      act_bind (act_rv (case deserialize_state (x_hmac X) blob key session (ss_slot_id sess) of
            Inl _ \<Rightarrow> Inl CKR_SAVED_STATE_INVALID | Inr v \<Rightarrow> Inr v)) (\<lambda>restored.
      act_bind (core_get co_objects) (\<lambda>os.
      act_bind (act_rv (restore_operation X os auth_key restored)) (\<lambda>active_op.
      act_then (set_operation session (Some active_op)) (
      reply CKR_OK)))))))))))"

end
