(* ===== verification/Abi_Keys.thy ===== *)
theory Abi_Keys
  imports Abi_Sign
begin

text \<open>
  The entry points that make keys (\<open>src/src/pkcs11_abi/functions.rs\<close>: generation of keys and key
  pairs, wrapping, unwrapping, derivation), the random generator, and the functions the library
  does not support.
\<close>

section \<open>Templates of new keys\<close>

definition read_ulong_attr :: "template \<Rightarrow> ck_ulong \<Rightarrow> ck_ulong option" where
  "read_ulong_attr tmpl attr = Option.bind (map_of tmpl attr) read_ck_ulong"

definition new_date :: "bytes option \<Rightarrow> bytes \<Rightarrow> bytes option" where
  "new_date old value = (if length value = 8 then Some value else if value = [] then None else old)"

definition key_flag :: "bytes \<Rightarrow> (bool \<Rightarrow> stored_object) \<Rightarrow> ck_rv + stored_object" where
  "key_flag value upd = res_map upd (parse_ck_bbool value)"

text \<open>What the four kinds of templates have in common.\<close>

definition common_attribute :: "stored_object \<Rightarrow> ck_ulong \<Rightarrow> bytes \<Rightarrow> (ck_rv + stored_object) option" where
  "common_attribute obj attr_type value =
    (if attr_type = CKA_LABEL then Some (Inr (obj\<lparr>ob_label := value\<rparr>))
     else if attr_type = CKA_ID then Some (Inr (obj\<lparr>ob_id := value\<rparr>))
     else if attr_type = CKA_TOKEN then Some (key_flag value (\<lambda>b. obj\<lparr>ob_token_object := b\<rparr>))
     else None)"

definition dated_attribute :: "stored_object \<Rightarrow> ck_ulong \<Rightarrow> bytes \<Rightarrow> ck_rv + stored_object" where
  "dated_attribute obj attr_type value =
    (if attr_type = CKA_START_DATE then Inr (obj\<lparr>ob_start_date := new_date (ob_start_date obj) value\<rparr>)
     else if attr_type = CKA_END_DATE then Inr (obj\<lparr>ob_end_date := new_date (ob_end_date obj) value\<rparr>)
     else Inr obj)"

definition secret_attribute :: "stored_object \<Rightarrow> ck_ulong \<Rightarrow> bytes \<Rightarrow> ck_rv + stored_object" where
  "secret_attribute obj attr_type value =
    (case common_attribute obj attr_type value of
       Some r \<Rightarrow> r
     | None \<Rightarrow>
        if attr_type = CKA_PRIVATE then key_flag value (\<lambda>b. obj\<lparr>ob_private := b\<rparr>)
        else if attr_type = CKA_SENSITIVE then key_flag value (\<lambda>b. obj\<lparr>ob_sensitive := b\<rparr>)
        else if attr_type = CKA_EXTRACTABLE then key_flag value (\<lambda>b. obj\<lparr>ob_extractable := b\<rparr>)
        else if attr_type = CKA_ENCRYPT then key_flag value (\<lambda>b. obj\<lparr>ob_can_encrypt := b\<rparr>)
        else if attr_type = CKA_DECRYPT then key_flag value (\<lambda>b. obj\<lparr>ob_can_decrypt := b\<rparr>)
        else if attr_type = CKA_WRAP then key_flag value (\<lambda>b. obj\<lparr>ob_can_wrap := b\<rparr>)
        else if attr_type = CKA_UNWRAP then key_flag value (\<lambda>b. obj\<lparr>ob_can_unwrap := b\<rparr>)
        else dated_attribute obj attr_type value)"

definition pub_attribute :: "stored_object \<Rightarrow> ck_ulong \<Rightarrow> bytes \<Rightarrow> ck_rv + stored_object" where
  "pub_attribute obj attr_type value =
    (case common_attribute obj attr_type value of
       Some r \<Rightarrow> r
     | None \<Rightarrow>
        if attr_type = CKA_VERIFY then key_flag value (\<lambda>b. obj\<lparr>ob_can_verify := b\<rparr>)
        else if attr_type = CKA_ENCRYPT then key_flag value (\<lambda>b. obj\<lparr>ob_can_encrypt := b\<rparr>)
        else if attr_type = CKA_WRAP then key_flag value (\<lambda>b. obj\<lparr>ob_can_wrap := b\<rparr>)
        else dated_attribute obj attr_type value)"

definition priv_attribute :: "stored_object \<Rightarrow> ck_ulong \<Rightarrow> bytes \<Rightarrow> ck_rv + stored_object" where
  "priv_attribute obj attr_type value =
    (case common_attribute obj attr_type value of
       Some r \<Rightarrow> r
     | None \<Rightarrow>
        if attr_type = CKA_SENSITIVE then key_flag value (\<lambda>b. obj\<lparr>ob_sensitive := b\<rparr>)
        else if attr_type = CKA_EXTRACTABLE then key_flag value (\<lambda>b. obj\<lparr>ob_extractable := b\<rparr>)
        else if attr_type = CKA_SIGN then key_flag value (\<lambda>b. obj\<lparr>ob_can_sign := b\<rparr>)
        else if attr_type = CKA_DECRYPT then key_flag value (\<lambda>b. obj\<lparr>ob_can_decrypt := b\<rparr>)
        else if attr_type = CKA_UNWRAP then key_flag value (\<lambda>b. obj\<lparr>ob_can_unwrap := b\<rparr>)
        else if attr_type = CKA_DERIVE then key_flag value (\<lambda>b. obj\<lparr>ob_can_derive := b\<rparr>)
        else dated_attribute obj attr_type value)"

text \<open>Unwrapped and derived keys: sensitivity is inherited, extractability cannot be gained, and the
  usage flags are read by one of the two only.\<close>

definition inherited_attribute ::
  "bool \<Rightarrow> bool \<Rightarrow> stored_object \<Rightarrow> ck_ulong \<Rightarrow> bytes \<Rightarrow> ck_rv + stored_object" where
  "inherited_attribute usage parent_sensitive obj attr_type value =
    (case common_attribute obj attr_type value of
       Some r \<Rightarrow> r
     | None \<Rightarrow>
        if attr_type = CKA_SENSITIVE then
          res_bind (parse_ck_bbool value) (\<lambda>requested.
            if parent_sensitive \<and> \<not> requested then Inl CKR_TEMPLATE_INCONSISTENT
            else Inr (obj\<lparr>ob_sensitive := requested\<rparr>))
        else if attr_type = CKA_EXTRACTABLE then
          res_bind (parse_ck_bbool value) (\<lambda>requested.
            if \<not> ob_extractable obj \<and> requested then Inl CKR_TEMPLATE_INCONSISTENT
            else Inr (obj\<lparr>ob_extractable := requested\<rparr>))
        else if usage \<and> attr_type = CKA_ENCRYPT then key_flag value (\<lambda>b. obj\<lparr>ob_can_encrypt := b\<rparr>)
        else if usage \<and> attr_type = CKA_DECRYPT then key_flag value (\<lambda>b. obj\<lparr>ob_can_decrypt := b\<rparr>)
        else Inr obj)"

fun apply_key_template ::
  "(stored_object \<Rightarrow> ck_ulong \<Rightarrow> bytes \<Rightarrow> ck_rv + stored_object) \<Rightarrow> template \<Rightarrow> stored_object \<Rightarrow> ck_rv + stored_object" where
  "apply_key_template f [] obj = Inr obj"
| "apply_key_template f ((attr_type, value) # attrs) obj =
    res_bind (f obj attr_type value) (apply_key_template f attrs)"

definition apply_pub_template :: "template \<Rightarrow> stored_object \<Rightarrow> ck_rv + stored_object" where
  "apply_pub_template = apply_key_template pub_attribute"

definition apply_priv_template :: "template \<Rightarrow> stored_object \<Rightarrow> ck_rv + stored_object" where
  "apply_priv_template = apply_key_template priv_attribute"

section \<open>Generating keys\<close>

definition new_handle :: "u64 act" where
  "new_handle = act_bind (on_objects next_handle) act_try"

definition add_object :: "abi_ctx \<Rightarrow> stored_object \<Rightarrow> u64 act" where
  "add_object X obj = act_bind (on_objects (insert_object (x_pin X) (x_codec X) (x_store X) obj)) act_try"

definition new_secret_key :: "abi_ctx \<Rightarrow> u64 \<Rightarrow> bytes \<Rightarrow> nat \<Rightarrow> stored_object" where
  "new_secret_key X handle material len =
    (stored_object_new (se_now (x_store X)) handle CKO_SECRET_KEY)
      \<lparr>ob_key_type := Some CKK_AES, ob_key_material := Some material, ob_value_len := Some (word_of_nat len),
       ob_can_encrypt := True, ob_can_decrypt := True, ob_sensitive := True, ob_extractable := False\<rparr>"

definition C_GenerateKey ::
  "abi_ctx \<Rightarrow> u64 \<Rightarrow> ck_mechanism option \<Rightarrow> raw_template option \<Rightarrow> bool \<Rightarrow> u64 handler" where
  "C_GenerateKey X session p_mechanism p_template key_null =
    catch_unwind (
      act_then (get_hsm X) (
      act_bind (act_some CKR_ARGUMENTS_BAD p_mechanism) (\<lambda>m.
      act_then (exit_if key_null CKR_ARGUMENTS_BAD) (
      act_bind (get_sess session) (\<lambda>sess.
      act_then (exit_if (\<not> session_is_rw sess) CKR_SESSION_READ_ONLY) (
      act_then (exit_if (mech_type m \<noteq> CKM_AES_KEY_GEN) CKR_MECHANISM_INVALID) (
      act_then (policy_check (mech_type m) False) (
      act_bind (act_rv (parse_optional p_template)) (\<lambda>tmpl.
      (let key_len = (case read_ulong_attr tmpl CKA_VALUE_LEN of Some n \<Rightarrow> unat n | None \<Rightarrow> 32) in
           act_bind (core_get co_algorithm_config) (\<lambda>cfg.
           act_then (act_try (enforce (mech_type m) cfg (Some (saturating_mul32 (word_of_nat key_len) 8)))) (
           act_bind (act_try (cb_generate_aes_key (x_backend X) key_len (fips_approved_only cfg))) (\<lambda>key_material.
           act_bind (new_handle) (\<lambda>handle.
           act_bind (act_rv (apply_key_template secret_attribute tmpl
                 ((new_secret_key X handle key_material key_len)\<lparr>ob_private := True\<rparr>))) (\<lambda>obj.
           act_bind (add_object X obj) (\<lambda>h.
           act_then (audit session (AuGenerateKey (mech_type m) (word_of_nat key_len) (is_fips_approved (mech_type m))) AuSuccess) (
           reply_with CKR_OK handle)))))))))))))))))"

text \<open>The common end of key pair generation: a failed pairwise test puts the library into its error
  state; the two objects get their handles and templates before either is stored.\<close>

definition pairwise_gate :: "unit hsm_result \<Rightarrow> unit act" where
  "pairwise_gate result =
    (if is_ok result then act_ret () else act_then (set_post_failed) (
                                          act_exit CKR_GENERAL_ERROR))"

definition store_pair ::
  "abi_ctx \<Rightarrow> template \<Rightarrow> template \<Rightarrow> (u64 \<Rightarrow> stored_object) \<Rightarrow> (u64 \<Rightarrow> stored_object) \<Rightarrow> (u64 \<times> u64) act" where
  "store_pair X pub_template priv_template pub_key priv_key =
    act_bind (new_handle) (\<lambda>pub_handle.
    act_bind (act_rv (apply_pub_template pub_template (pub_key pub_handle))) (\<lambda>pub_obj.
    act_bind (new_handle) (\<lambda>priv_handle.
    act_bind (act_rv (apply_priv_template priv_template (priv_key priv_handle))) (\<lambda>priv_obj.
    act_bind (add_object X pub_obj) (\<lambda>h1.
    act_bind (add_object X priv_obj) (\<lambda>h2.
    act_ret (pub_handle, priv_handle)))))))"

definition new_public_key :: "abi_ctx \<Rightarrow> ck_ulong \<Rightarrow> u64 \<Rightarrow> stored_object" where
  "new_public_key X key_type handle =
    (stored_object_new (se_now (x_store X)) handle CKO_PUBLIC_KEY)
      \<lparr>ob_key_type := Some key_type, ob_private := False, ob_sensitive := False\<rparr>"

definition new_private_key :: "abi_ctx \<Rightarrow> ck_ulong \<Rightarrow> bytes \<Rightarrow> u64 \<Rightarrow> stored_object" where
  "new_private_key X key_type material handle =
    (stored_object_new (se_now (x_store X)) handle CKO_PRIVATE_KEY)
      \<lparr>ob_key_type := Some key_type, ob_key_material := Some material,
       ob_sensitive := True, ob_extractable := False, ob_private := True\<rparr>"

definition generate_rsa_keypair :: "abi_ctx \<Rightarrow> template \<Rightarrow> template \<Rightarrow> (u64 \<times> u64 \<times> u32) act" where
  "generate_rsa_keypair X pub_template priv_template =
    (let B = x_backend X;
         modulus_bits = (case read_ulong_attr pub_template CKA_MODULUS_BITS of Some n \<Rightarrow> ucast n | None \<Rightarrow> 2048) :: u32 in
     act_bind (core_get co_algorithm_config) (\<lambda>cfg.
     act_bind (act_try (cb_generate_rsa_key_pair B modulus_bits (fips_approved_only cfg))) (\<lambda>(private_key_der, modulus, pub_exp).
     act_then (pairwise_gate (rsa_pairwise_test B private_key_der modulus pub_exp)) (
     act_bind (store_pair X pub_template priv_template
           (\<lambda>h. (new_public_key X CKK_RSA h)
              \<lparr>ob_modulus := Some modulus, ob_modulus_bits := Some (ucast modulus_bits), ob_public_exponent := Some pub_exp,
               ob_can_verify := True, ob_can_encrypt := True\<rparr>)
           (\<lambda>h. (new_private_key X CKK_RSA private_key_der h)
              \<lparr>ob_modulus := Some modulus, ob_modulus_bits := Some (ucast modulus_bits), ob_public_exponent := Some pub_exp,
               ob_can_sign := True, ob_can_decrypt := True\<rparr>)) (\<lambda>(pub_handle, priv_handle).
     act_ret (pub_handle, priv_handle, modulus_bits))))))"

definition generate_ec_keypair :: "abi_ctx \<Rightarrow> template \<Rightarrow> template \<Rightarrow> (u64 \<times> u64 \<times> u32) act" where
  "generate_ec_keypair X pub_template priv_template =
    (let B = x_backend X; ec_params = opt_bytes (map_of pub_template CKA_EC_PARAMS); is_p384 = is_p384_params ec_params in
     act_bind (act_try (if is_p384 then cb_generate_ec_p384_key_pair B else cb_generate_ec_p256_key_pair B)) (\<lambda>(private_key, public_key).
     act_then (pairwise_gate (if is_p384 then ecdsa_p384_pairwise_test B private_key public_key
                        else ecdsa_p256_pairwise_test B private_key public_key)) (
     act_bind (store_pair X pub_template priv_template
           (\<lambda>h. (new_public_key X CKK_EC h)
              \<lparr>ob_ec_params := Some ec_params, ob_ec_point := Some public_key, ob_can_verify := True\<rparr>)
           (\<lambda>h. (new_private_key X CKK_EC private_key h)
              \<lparr>ob_ec_params := Some ec_params, ob_ec_point := Some public_key, ob_can_sign := True, ob_can_derive := True\<rparr>)) (\<lambda>(pub_handle, priv_handle).
     act_ret (pub_handle, priv_handle, (if is_p384 then 384 else 256))))))"

definition generate_ed25519_keypair :: "abi_ctx \<Rightarrow> template \<Rightarrow> template \<Rightarrow> (u64 \<times> u64 \<times> u32) act" where
  "generate_ed25519_keypair X pub_template priv_template =
    (let B = x_backend X in
     act_bind (act_try (cb_generate_ed25519_key_pair B)) (\<lambda>(private_key, public_key).
     act_then (pairwise_gate (ed25519_pairwise_test B private_key public_key)) (
     act_bind (store_pair X pub_template priv_template
           (\<lambda>h. (new_public_key X CKK_EC_EDWARDS h)
              \<lparr>ob_public_key_data := Some public_key, ob_ec_point := Some public_key, ob_can_verify := True\<rparr>)
           (\<lambda>h. (new_private_key X CKK_EC_EDWARDS private_key h)
              \<lparr>ob_public_key_data := Some public_key, ob_ec_point := Some public_key, ob_can_sign := True\<rparr>)) (\<lambda>(pub_handle, priv_handle).
     act_ret (pub_handle, priv_handle, 256)))))"

text \<open>The material, key type and size of a post-quantum pair, and the name its test gets.\<close>

definition pqc_material :: "crypto_backend \<Rightarrow> ck_ulong \<Rightarrow> ck_rv + (bytes \<times> bytes \<times> ck_ulong \<times> u32)" where
  "pqc_material B mechanism =
    (let lift = (\<lambda>r key_type bits. case r of Inl e \<Rightarrow> Inl (err_to_rv e) | Inr (sk, pk) \<Rightarrow> Inr (sk, pk, key_type, bits)) in
     case mechanism_to_ml_kem_variant mechanism of
       Some v \<Rightarrow> lift (cb_ml_kem_keygen B v) CKK_ML_KEM (case v of MlKem512 \<Rightarrow> 512 | MlKem768 \<Rightarrow> 768 | MlKem1024 \<Rightarrow> 1024)
     | None \<Rightarrow>
        (case mechanism_to_ml_dsa_variant mechanism of
           Some v \<Rightarrow> lift (cb_ml_dsa_keygen B v) CKK_ML_DSA (case v of MlDsa44 \<Rightarrow> 44 | MlDsa65 \<Rightarrow> 65 | MlDsa87 \<Rightarrow> 87)
         | None \<Rightarrow>
            (case mechanism_to_slh_dsa_variant mechanism of
               Some v \<Rightarrow> lift (cb_slh_dsa_keygen B v) CKK_SLH_DSA (case v of Sha2_128s \<Rightarrow> 128 | Sha2_256s \<Rightarrow> 256)
             | None \<Rightarrow> Inl CKR_MECHANISM_INVALID)))"

definition pqc_pairwise_test :: "crypto_backend \<Rightarrow> ck_ulong \<Rightarrow> ck_ulong \<Rightarrow> bytes \<Rightarrow> bytes \<Rightarrow> unit hsm_result option" where
  "pqc_pairwise_test B mechanism key_type private_key public_key =
    (if key_type = CKK_ML_KEM then
       map_option (\<lambda>v. ml_kem_pairwise_test B private_key public_key
         (case v of MlKem512 \<Rightarrow> ''ML-KEM-512'' | MlKem768 \<Rightarrow> ''ML-KEM-768'' | MlKem1024 \<Rightarrow> ''ML-KEM-1024''))
         (mechanism_to_ml_kem_variant mechanism)
     else if key_type = CKK_ML_DSA then
       map_option (\<lambda>v. ml_dsa_pairwise_test B private_key public_key
         (case v of MlDsa44 \<Rightarrow> ''ML-DSA-44'' | MlDsa65 \<Rightarrow> ''ML-DSA-65'' | MlDsa87 \<Rightarrow> ''ML-DSA-87''))
         (mechanism_to_ml_dsa_variant mechanism)
     else if key_type = CKK_SLH_DSA then
       map_option (\<lambda>v. slh_dsa_pairwise_test B private_key public_key
         (case v of Sha2_128s \<Rightarrow> ''SLH-DSA-SHA2-128s'' | Sha2_256s \<Rightarrow> ''SLH-DSA-SHA2-256s''))
         (mechanism_to_slh_dsa_variant mechanism)
     else Some (Inr ()))"

definition generate_pqc_keypair :: "abi_ctx \<Rightarrow> ck_ulong \<Rightarrow> template \<Rightarrow> template \<Rightarrow> (u64 \<times> u64 \<times> u32) act" where
  "generate_pqc_keypair X mechanism pub_template priv_template =
    (let B = x_backend X in
     act_bind (act_rv (pqc_material B mechanism)) (\<lambda>(private_key, public_key, key_type, key_bits).
     act_bind (act_nopanic (pqc_pairwise_test B mechanism key_type private_key public_key)) (\<lambda>tested.
     act_then (pairwise_gate tested) (
     act_bind (store_pair X pub_template priv_template
           (\<lambda>h. (new_public_key X key_type h)
              \<lparr>ob_public_key_data := Some public_key, ob_can_verify := (key_type \<noteq> CKK_ML_KEM),
               ob_can_derive := (key_type = CKK_ML_KEM)\<rparr>)
           (\<lambda>h. (new_private_key X key_type private_key h)
              \<lparr>ob_public_key_data := Some public_key, ob_can_sign := (key_type \<noteq> CKK_ML_KEM),
               ob_can_derive := (key_type = CKK_ML_KEM)\<rparr>)) (\<lambda>(pub_handle, priv_handle).
     act_ret (pub_handle, priv_handle, key_bits))))))"

definition C_GenerateKeyPair ::
  "abi_ctx \<Rightarrow> u64 \<Rightarrow> ck_mechanism option \<Rightarrow> raw_template option \<Rightarrow> raw_template option \<Rightarrow> bool \<Rightarrow> (u64 \<times> u64) handler" where
  "C_GenerateKeyPair X session p_mechanism p_pub p_priv handles_null =
    catch_unwind (
      act_then (get_hsm X) (
      act_bind (act_some CKR_ARGUMENTS_BAD p_mechanism) (\<lambda>m.
      act_then (exit_if handles_null CKR_ARGUMENTS_BAD) (
      act_bind (get_sess session) (\<lambda>sess.
      act_then (exit_if (\<not> session_is_rw sess) CKR_SESSION_READ_ONLY) (
      act_then (exit_if (\<not> is_keypair_gen_mechanism (mech_type m)) CKR_MECHANISM_INVALID) (
      act_then (policy_check (mech_type m) False) (
      act_bind (act_rv (parse_optional p_pub)) (\<lambda>pub_template.
      act_bind (act_rv (parse_optional p_priv)) (\<lambda>priv_template.
      act_bind (core_get co_algorithm_config) (\<lambda>cfg.
      act_then (act_try (enforce (mech_type m) cfg
            (if mech_type m = CKM_RSA_PKCS_KEY_PAIR_GEN then
               Some (case read_ulong_attr pub_template CKA_MODULUS_BITS of Some n \<Rightarrow> ucast n | None \<Rightarrow> 2048)
             else None))) (
      act_bind ((if mech_type m = CKM_RSA_PKCS_KEY_PAIR_GEN then generate_rsa_keypair X pub_template priv_template
             else if mech_type m = CKM_EC_KEY_PAIR_GEN then generate_ec_keypair X pub_template priv_template
             else if mech_type m = CKM_EDDSA then generate_ed25519_keypair X pub_template priv_template
             else if is_ml_kem_mechanism (mech_type m) \<or> is_ml_dsa_mechanism (mech_type m) \<or> is_slh_dsa_mechanism (mech_type m)
             then generate_pqc_keypair X (mech_type m) pub_template priv_template
             else act_exit CKR_MECHANISM_INVALID)) (\<lambda>(pub_handle, priv_handle, key_length).
      act_then (audit session (AuGenerateKeyPair (mech_type m) key_length (is_fips_approved (mech_type m))) AuSuccess) (
      reply_with CKR_OK (pub_handle, priv_handle)))))))))))))))"

section \<open>Wrapping, unwrapping, deriving\<close>

text \<open>A boolean kept among the extra attributes.\<close>

definition extra_flag :: "ck_ulong \<Rightarrow> stored_object \<Rightarrow> bool" where
  "extra_flag attr obj = (case map_of (ob_extra_attributes obj) attr of Some v \<Rightarrow> flag_value v | None \<Rightarrow> False)"

definition find_object :: "u64 \<Rightarrow> (obj_ref \<times> stored_object) act" where
  "find_object handle = act_bind (lookup_object handle) act_try"

definition enforce_size :: "ck_ulong \<Rightarrow> stored_object \<Rightarrow> unit act" where
  "enforce_size mechanism obj =
    act_bind (core_get co_algorithm_config) (\<lambda>cfg.
    act_try (enforce mechanism cfg (stored_key_bits obj)))"

definition C_WrapKey ::
  "abi_ctx \<Rightarrow> u64 \<Rightarrow> ck_mechanism option \<Rightarrow> u64 \<Rightarrow> u64 \<Rightarrow> bool \<Rightarrow> ck_ulong option \<Rightarrow> byte out_list handler" where
  "C_WrapKey X session p_mechanism wrapping_key key out_null pul_len =
    catch_unwind (
      act_then (get_hsm X) (
      act_bind (act_some CKR_ARGUMENTS_BAD p_mechanism) (\<lambda>m.
      act_bind (act_some CKR_ARGUMENTS_BAD pul_len) (\<lambda>buf_len.
      act_bind (get_sess session) (\<lambda>sess.
      act_then (exit_if (\<not> is_wrap_mechanism (mech_type m)) CKR_MECHANISM_INVALID) (
      act_then (policy_check (mech_type m) False) (
      act_bind (find_object wrapping_key) (\<lambda>(wk_addr, wk_obj).
      act_then (exit_if (ob_private wk_obj \<and> \<not> state_is_logged_in (ss_state sess)) CKR_USER_NOT_LOGGED_IN) (
      act_then (exit_if (\<not> ob_can_wrap wk_obj) CKR_KEY_FUNCTION_NOT_PERMITTED) (
      act_then (enforce_size (mech_type m) wk_obj) (
      act_bind (act_some CKR_KEY_HANDLE_INVALID (ob_key_material wk_obj)) (\<lambda>wk_bytes.
      act_bind (find_object key) (\<lambda>(key_addr, key_obj).
      act_then (exit_if (\<not> ob_extractable key_obj) (err_to_rv KeyFunctionNotPermitted)) (
      act_then (exit_if (extra_flag CKA_WRAP_WITH_TRUSTED key_obj \<and> \<not> extra_flag CKA_TRUSTED wk_obj)
            CKR_KEY_FUNCTION_NOT_PERMITTED) (
      act_bind (act_some CKR_KEY_HANDLE_INVALID (ob_key_material key_obj)) (\<lambda>key_bytes.
      act_bind (core_get co_algorithm_config) (\<lambda>cfg.
      act_bind (act_try (cb_aes_key_wrap (x_backend X) wk_bytes key_bytes (fips_approved_only cfg))) (\<lambda>wrapped.
      reply_list out_null buf_len wrapped))))))))))))))))))"

definition C_UnwrapKey ::
  "abi_ctx \<Rightarrow> u64 \<Rightarrow> ck_mechanism option \<Rightarrow> u64 \<Rightarrow> bytes option \<Rightarrow> raw_template option \<Rightarrow> bool \<Rightarrow> u64 handler" where
  "C_UnwrapKey X session p_mechanism unwrapping_key p_wrapped_key p_template key_null =
    catch_unwind (
      act_then (get_hsm X) (
      act_bind (act_some CKR_ARGUMENTS_BAD p_mechanism) (\<lambda>m.
      act_bind (act_some CKR_ARGUMENTS_BAD p_wrapped_key) (\<lambda>wrapped_data.
      act_then (exit_if key_null CKR_ARGUMENTS_BAD) (
      act_bind (get_sess session) (\<lambda>sess.
      act_then (exit_if (\<not> session_is_rw sess) CKR_SESSION_READ_ONLY) (
      act_then (exit_if (\<not> is_wrap_mechanism (mech_type m)) CKR_MECHANISM_INVALID) (
      act_then (policy_check (mech_type m) False) (
      act_bind (find_object unwrapping_key) (\<lambda>(uk_addr, uk_obj).
      act_then (exit_if (ob_private uk_obj \<and> \<not> state_is_logged_in (ss_state sess)) CKR_USER_NOT_LOGGED_IN) (
      act_then (exit_if (\<not> ob_can_unwrap uk_obj) CKR_KEY_FUNCTION_NOT_PERMITTED) (
      act_then (enforce_size (mech_type m) uk_obj) (
      act_bind (act_some CKR_KEY_HANDLE_INVALID (ob_key_material uk_obj)) (\<lambda>uk_bytes.
      act_then (exit_if (length wrapped_data > MAX_SINGLE_BUFFER) CKR_WRAPPED_KEY_LEN_RANGE) (
      act_bind (core_get co_algorithm_config) (\<lambda>cfg.
      act_bind (act_try (cb_aes_key_unwrap (x_backend X) uk_bytes wrapped_data (fips_approved_only cfg))) (\<lambda>unwrapped.
      act_bind (act_rv (parse_optional p_template)) (\<lambda>tmpl.
      act_bind (new_handle) (\<lambda>handle.
      act_bind (act_rv (apply_key_template (inherited_attribute True (ob_sensitive uk_obj)) tmpl
            (new_secret_key X handle unwrapped (length unwrapped)))) (\<lambda>obj.
      act_bind (add_object X obj) (\<lambda>h.
      reply_with CKR_OK handle)))))))))))))))))))))"

definition aes_size :: "nat \<Rightarrow> bool" where
  "aes_size n = (n = 16 \<or> n = 24 \<or> n = 32)"

definition C_DeriveKey ::
  "abi_ctx \<Rightarrow> u64 \<Rightarrow> ck_mechanism option \<Rightarrow> u64 \<Rightarrow> raw_template option \<Rightarrow> bool \<Rightarrow> u64 handler" where
  "C_DeriveKey X session p_mechanism base_key p_template key_null =
    catch_unwind (
      act_then (get_hsm X) (
      act_bind (act_some CKR_ARGUMENTS_BAD p_mechanism) (\<lambda>m.
      act_then (exit_if key_null CKR_ARGUMENTS_BAD) (
      act_bind (get_sess session) (\<lambda>sess.
      act_then (exit_if (\<not> session_is_rw sess) CKR_SESSION_READ_ONLY) (
      act_then (exit_if (\<not> is_derive_mechanism (mech_type m) \<and> \<not> is_kem_mechanism (mech_type m)) CKR_MECHANISM_INVALID) (
      act_then (policy_check (mech_type m) False) (
      act_bind (find_object base_key) (\<lambda>(bk_addr, bk_obj).
      act_then (exit_if (\<not> ob_can_derive bk_obj) CKR_KEY_FUNCTION_NOT_PERMITTED) (
      act_then (enforce_size (mech_type m) bk_obj) (
      act_bind (act_some CKR_KEY_HANDLE_INVALID (ob_key_material bk_obj)) (\<lambda>bk_bytes.
      act_then (exit_if (extract_mechanism_param m = []) CKR_MECHANISM_PARAM_INVALID) (
      act_bind (act_rv (parse_optional p_template)) (\<lambda>tmpl.
      (let requested_len = map_option unat (read_ulong_attr tmpl CKA_VALUE_LEN); mech_param = extract_mechanism_param m in
           act_then (exit_if (case requested_len of Some n \<Rightarrow> \<not> aes_size n | None \<Rightarrow> False) CKR_KEY_SIZE_RANGE) (
           act_bind (act_try
                 (case mechanism_to_ml_kem_variant (mech_type m) of
                    Some variant \<Rightarrow> cb_ml_kem_decapsulate (x_backend X) bk_bytes mech_param variant
                  | None \<Rightarrow>
                      if is_p384_params (opt_bytes (ob_ec_params bk_obj))
                      then cb_ecdh_p384 (x_backend X) bk_bytes mech_param requested_len
                      else cb_ecdh_p256 (x_backend X) bk_bytes mech_param requested_len)) (\<lambda>shared_secret.
           act_then (exit_if (\<not> aes_size (length shared_secret)) CKR_KEY_SIZE_RANGE) (
           act_bind (new_handle) (\<lambda>handle.
           act_bind (act_rv (apply_key_template (inherited_attribute False (ob_sensitive bk_obj)) tmpl
                 (new_secret_key X handle shared_secret (length shared_secret)))) (\<lambda>obj.
           act_bind (add_object X obj) (\<lambda>h.
           reply_with CKR_OK handle)))))))))))))))))))))"

section \<open>Random numbers and unsupported functions\<close>

definition C_SeedRandom :: "abi_ctx \<Rightarrow> u64 \<Rightarrow> unit handler" where
  "C_SeedRandom X session =
    catch_unwind (act_then (get_hsm X) (
                  act_bind (get_sess session) (\<lambda>sess.
                  reply CKR_RANDOM_SEED_NOT_SUPPORTED)))"

definition C_GenerateRandom :: "abi_ctx \<Rightarrow> u64 \<Rightarrow> bool \<Rightarrow> ck_ulong \<Rightarrow> bytes handler" where
  "C_GenerateRandom X session data_null random_len =
    catch_unwind (
      act_then (get_hsm X) (
      act_then (exit_if data_null CKR_ARGUMENTS_BAD) (
      act_then (exit_if (unat random_len > MAX_SINGLE_BUFFER) CKR_DATA_LEN_RANGE) (
      act_bind (get_sess session) (\<lambda>sess.
      act_then (audit session (AuGenerateRandom (ucast random_len)) AuSuccess) (
      reply_with CKR_OK (x_random X (unat random_len))))))))"

definition not_supported :: "unit handler" where
  "not_supported = catch_unwind (reply CKR_FUNCTION_NOT_SUPPORTED)"

end
