(* ===== verification/Abi_Relations.thy ===== *)
theory Abi_Relations
  imports Abi_Keys
begin

text \<open>
  Reasoning about entry points step by step. A relation between the state before and after that
  is reflexive and transitive holds of an entry point as soon as it holds of the elementary steps
  the entry point is made of. The locale \<open>abi_frame\<close> has one law for each elementary step and
  derives the relation for the entry points once; a property of the library is an interpretation.
  Opening and closing a session, logging in and initialising a token come in an extension, because some
  relations hold of these entry points as a whole and not of their single steps.
\<close>

named_theorems act_intros \<open>relations kept by actions\<close>

definition acts :: "(process \<Rightarrow> process \<Rightarrow> bool) \<Rightarrow> (process \<Rightarrow> 'a \<times> process) \<Rightarrow> bool" where
  "acts R m \<longleftrightarrow> (\<forall>p. R p (snd (m p)))"

lemma actsI: "(\<And>p. R p (snd (m p))) \<Longrightarrow> acts R m"
  by (simp add: acts_def)

lemma actsD: "acts R m \<Longrightarrow> R p (snd (m p))"
  by (simp add: acts_def)

section \<open>Elementary facts\<close>

lemma al_update_same: "map_of xs k = Some v \<Longrightarrow> AList.update k v xs = xs"
  by (induction xs) (auto split: if_splits)

lemma on_core_read: "on_core (\<lambda>c. (f c, c)) p = (case pr_hsm p of None \<Rightarrow> (Panic, p) | Some c \<Rightarrow> (Done (f c), p))"
  by (auto simp: on_core_def split: option.split)

lemma core_get_state [simp]: "snd (core_get f p) = p"
  by (simp add: core_get_def on_core_read split: option.split)

lemma get_hsm_state [simp]: "snd (get_hsm X p) = p"
  by (simp add: get_hsm_def)

lemma on_token_read: "snd (on_token slot_id (\<lambda>t. (f t, t)) p) = p"
  by (auto simp: on_token_def al_update_same split: option.split)

text \<open>The reference to a token is its slot.\<close>

lemma get_token_bind: "act_bind (get_token slot_id) f = act_then (validate_slot slot_id) (f slot_id)"
  by (rule ext) (auto simp: get_token_def validate_slot_def act_then_def act_bind_def core_get_def on_core_read
      act_try_def act_exit_def act_ret_def ok_or_def res_map_def split: option.split)

text \<open>Unfolding an action completely.\<close>

lemmas act_defs =
  catch_unwind_def act_then_def act_bind_def act_ret_def act_exit_def act_panic_def exit_if_def act_try_def act_rv_def
  act_some_def act_nopanic_def core_get_def on_core_def on_token_def on_token_sessions_def on_sessions_def on_objects_def
  get_sess_def get_session_def get_token_def validate_slot_def ok_or_def res_map_def

section \<open>Running an action\<close>

text \<open>Rewriting rules that run an action from a given state, one step at a time.\<close>

named_theorems act_run \<open>running actions\<close>

lemma run_pure [act_run]:
  "act_ret x p = (Done x, p)" "act_exit rv p = (Exit rv, p)"
  "act_bind (act_ret x) f p = f x p" "act_then (act_ret ()) n p = n p"
  "act_bind (act_exit rv) f p = (Exit rv, p)" "act_then (act_exit rv) n p = (Exit rv, p)"
  "act_then (exit_if b rv) n p = (if b then (Exit rv, p) else n p)"
  "act_then (if b then m1 else m2) n p = (if b then act_then m1 n p else act_then m2 n p)"
  "act_bind (if b then m3 else m4) f p = (if b then act_bind m3 f p else act_bind m4 f p)"
  by (simp_all add: act_then_def act_bind_def act_ret_def act_exit_def exit_if_def)

lemma run_result [act_run]:
  "act_bind (act_try r) f p = (case r of Inl e \<Rightarrow> (Exit (err_to_rv e), p) | Inr x \<Rightarrow> f x p)"
  "act_then (act_try u) n p = (case u of Inl e \<Rightarrow> (Exit (err_to_rv e), p) | Inr x \<Rightarrow> n p)"
  "act_bind (act_rv v) f p = (case v of Inl rv \<Rightarrow> (Exit rv, p) | Inr x \<Rightarrow> f x p)"
  "act_then (act_rv w) n p = (case w of Inl rv \<Rightarrow> (Exit rv, p) | Inr x \<Rightarrow> n p)"
  "act_bind (act_some rv y) f p = (case y of None \<Rightarrow> (Exit rv, p) | Some x \<Rightarrow> f x p)"
  "act_bind (act_nopanic y) f p = (case y of None \<Rightarrow> (Panic, p) | Some x \<Rightarrow> f x p)"
  by (simp_all add: act_then_def act_bind_def act_try_def act_rv_def act_some_def act_nopanic_def act_ret_def
      act_exit_def act_panic_def split: sum.split option.split)

lemma run_bind_assoc [act_run]:
  "act_bind (act_bind m f) g p = act_bind m (\<lambda>x. act_bind (f x) g) p"
  "act_bind (act_then u n) g p = act_then u (act_bind n g) p"
  "act_then (act_bind m k) n2 p = act_bind m (\<lambda>x. act_then (k x) n2) p"
  "act_then (act_then u v) n2 p = act_then u (act_then v n2) p"
  by (auto simp: act_then_def act_bind_def split: prod.split outcome.split)

lemma run_hsm [act_run]:
  "act_then (get_hsm X) n p =
    (if pr_post_failed p then (Exit CKR_GENERAL_ERROR, p)
     else if pr_init_pid p \<noteq> 0 \<and> pr_init_pid p \<noteq> x_pid X then (Exit CKR_CRYPTOKI_NOT_INITIALIZED, p)
     else if pr_hsm p = None then (Exit CKR_CRYPTOKI_NOT_INITIALIZED, p)
     else n p)"
  by (simp add: act_then_def act_bind_def get_hsm_def)

lemma run_core_get [act_run]:
  "pr_hsm p = Some c \<Longrightarrow> act_bind (core_get g) f p = f (g c) p"
  by (simp add: act_bind_def core_get_def on_core_read)

lemma run_get_sess [act_run]:
  "pr_hsm p = Some c \<Longrightarrow> act_bind (get_sess h) f p =
    (case map_of (sm_sessions (co_sessions c)) h of
       None \<Rightarrow> (Exit (err_to_rv SessionHandleInvalid), p) | Some s \<Rightarrow> f s p)"
  by (simp add: act_bind_def get_sess_def core_get_def on_core_read get_session_def ok_or_def act_try_def act_exit_def
      act_ret_def split: option.split)

lemma run_get_token [act_run]:
  "pr_hsm p = Some c \<Longrightarrow> act_bind (get_token sl) f p =
    (case map_of (co_tokens c) sl of None \<Rightarrow> (Exit (err_to_rv SlotIdInvalid), p) | Some t \<Rightarrow> f sl p)"
  "pr_hsm p = Some c \<Longrightarrow> act_then (validate_slot sl) n p =
    (case map_of (co_tokens c) sl of None \<Rightarrow> (Exit (err_to_rv SlotIdInvalid), p) | Some t \<Rightarrow> n p)"
  by (simp_all add: act_then_def act_bind_def get_token_def validate_slot_def core_get_def on_core_read ok_or_def res_map_def
      act_try_def act_exit_def act_ret_def split: option.split)

lemma run_on_token [act_run]:
  "pr_hsm p = Some c \<Longrightarrow> map_of (co_tokens c) sl = Some t \<Longrightarrow> act_bind (on_token sl g) f p =
    f (fst (g t)) (p\<lparr>pr_hsm := Some (c\<lparr>co_tokens := AList.update sl (snd (g t)) (co_tokens c)\<rparr>)\<rparr>)"
  "pr_hsm p = Some c \<Longrightarrow> map_of (co_tokens c) sl = Some t \<Longrightarrow> act_bind (on_token_sessions sl k) f p =
    f (fst (k t (co_sessions c))) (p\<lparr>pr_hsm := Some (c\<lparr>co_tokens := AList.update sl (fst (snd (k t (co_sessions c)))) (co_tokens c),
      co_sessions := snd (snd (k t (co_sessions c)))\<rparr>)\<rparr>)"
  "pr_hsm p = Some c \<Longrightarrow> map_of (co_tokens c) sl = Some t \<Longrightarrow> act_then (on_token_sessions sl u) n p =
    n (p\<lparr>pr_hsm := Some (c\<lparr>co_tokens := AList.update sl (fst (snd (u t (co_sessions c)))) (co_tokens c),
      co_sessions := snd (snd (u t (co_sessions c)))\<rparr>)\<rparr>)"
  by (simp_all add: act_then_def act_bind_def on_token_def on_token_sessions_def split: prod.split)

lemma run_on_objects [act_run]:
  "pr_hsm p = Some c \<Longrightarrow> act_bind (on_objects g) f p =
    f (fst (g (co_objects c))) (p\<lparr>pr_hsm := Some (c\<lparr>co_objects := snd (g (co_objects c))\<rparr>)\<rparr>)"
  "pr_hsm p = Some c \<Longrightarrow> act_then (on_objects u) n p =
    n (p\<lparr>pr_hsm := Some (c\<lparr>co_objects := snd (u (co_objects c))\<rparr>)\<rparr>)"
  by (simp_all add: act_then_def act_bind_def on_objects_def on_core_def split: prod.split)

lemma run_lookup [act_run]:
  "pr_hsm p = Some c \<Longrightarrow> act_bind (lookup_object h) f p =
    f (res_bind (get_object h (co_objects c)) (\<lambda>addr. res_map (Pair addr) (ok_or ObjectHandleInvalid (obj_at addr (co_objects c))))) p"
  by (simp add: lookup_object_def run_core_get)

lemma run_audit [act_run]:
  "pr_hsm p = Some c \<Longrightarrow> act_then (audit session operation result) n p =
    n (p\<lparr>pr_hsm := Some (c\<lparr>co_audit := snd (record_event session operation result None (co_audit c))\<rparr>)\<rparr>)"
  by (simp add: act_then_def act_bind_def audit_def on_core_def)

lemma run_set_operation [act_run]:
  "pr_hsm p = Some c \<Longrightarrow> map_of (sm_sessions (co_sessions c)) session = Some s \<Longrightarrow>
   act_then (set_operation session op) n p =
    n (p\<lparr>pr_hsm := Some (c\<lparr>co_sessions := put_sess session (s\<lparr>ss_active_operation := op\<rparr>) (co_sessions c)\<rparr>)\<rparr>)"
  "pr_hsm p = Some c \<Longrightarrow> map_of (sm_sessions (co_sessions c)) session = Some s \<Longrightarrow>
   act_then (set_find_context session ctx) n p =
    n (p\<lparr>pr_hsm := Some (c\<lparr>co_sessions := put_sess session (s\<lparr>ss_find_context := ctx\<rparr>) (co_sessions c)\<rparr>)\<rparr>)"
  by (simp_all add: act_then_def act_bind_def set_operation_def set_find_context_def on_sessions_def on_core_def)

lemma run_ciphers [act_run]:
  "act_bind (on_ciphers g) f p = f (fst (g (pr_ciphers p))) (p\<lparr>pr_ciphers := snd (g (pr_ciphers p))\<rparr>)"
  "act_then (on_ciphers u) n p = n (p\<lparr>pr_ciphers := snd (u (pr_ciphers p))\<rparr>)"
  by (simp_all add: act_then_def act_bind_def on_ciphers_def split: prod.split)

lemma run_catch:
  "body p = (Done r, q) \<Longrightarrow> catch_unwind body p = (r, q)"
  "body p = (Exit rv, q) \<Longrightarrow> catch_unwind body p = ((rv, None), q)"
  "body p = (Panic, q) \<Longrightarrow> catch_unwind body p = ((CKR_GENERAL_ERROR, None), q)"
  by (simp_all add: catch_unwind_def)

lemma catch_state: "snd (catch_unwind body p) = snd (body p)"
  by (simp add: catch_unwind_def split: prod.split outcome.split)

section \<open>Relations on states\<close>

locale act_relation =
  fixes R :: "process \<Rightarrow> process \<Rightarrow> bool"
  assumes R_refl: "R p p"
    and R_trans: "R p q \<Longrightarrow> R q r \<Longrightarrow> R p r"
begin

lemma acts_same: "(\<And>p. snd (m p) = p) \<Longrightarrow> acts R m"
  by (simp add: acts_def R_refl)

lemma acts_ret [act_intros]: "acts R (act_ret x)"
  by (rule acts_same) (simp add: act_ret_def)

lemma acts_exit [act_intros]: "acts R (act_exit rv)"
  by (rule acts_same) (simp add: act_exit_def)

lemma acts_panic [act_intros]: "acts R act_panic"
  by (rule acts_same) (simp add: act_panic_def)

lemma acts_bind [act_intros]:
  assumes "acts R m" "\<And>x. acts R (f x)"
  shows "acts R (act_bind m f)"
proof (rule actsI)
  fix p
  obtain r q where m: "m p = (r, q)" by (cases "m p")
  then have "R p q" using actsD [OF assms(1), of p] by simp
  then show "R p (snd (act_bind m f p))"
    using m actsD [OF assms(2)] by (cases r) (auto simp: act_bind_def intro: R_trans)
qed

lemma acts_then [act_intros]: "acts R m \<Longrightarrow> acts R n \<Longrightarrow> acts R (act_then m n)"
  by (simp add: act_then_def acts_bind)

lemma acts_if [act_intros]: "acts R m \<Longrightarrow> acts R n \<Longrightarrow> acts R (if c then m else n)"
  by simp

lemma acts_let [act_intros]: "acts R (f x) \<Longrightarrow> acts R (Let x f)"
  by simp

lemma acts_option [act_intros]: "acts R m \<Longrightarrow> (\<And>x. acts R (f x)) \<Longrightarrow> acts R (case_option m f y)"
  by (cases y) simp_all

lemma acts_sum [act_intros]: "(\<And>x. acts R (f x)) \<Longrightarrow> (\<And>x. acts R (g x)) \<Longrightarrow> acts R (case_sum f g y)"
  by (cases y) simp_all

lemma acts_prod [act_intros]: "(\<And>a b. acts R (f a b)) \<Longrightarrow> acts R (case_prod f y)"
  by (cases y) simp

lemma acts_bool [act_intros]: "acts R m \<Longrightarrow> acts R n \<Longrightarrow> acts R (case_bool m n y)"
  by (cases y) simp_all

lemma acts_op [act_intros]:
  "(\<And>a b c d e. acts R (f1 a b c d e)) \<Longrightarrow> (\<And>a b c d e. acts R (f2 a b c d e)) \<Longrightarrow>
   (\<And>a b c d e. acts R (f3 a b c d e)) \<Longrightarrow> (\<And>a b c d e. acts R (f4 a b c d e)) \<Longrightarrow>
   (\<And>a b c. acts R (f5 a b c)) \<Longrightarrow> acts R (case_active_operation f1 f2 f3 f4 f5 y)"
  by (cases y) simp_all

lemma acts_exit_if [act_intros]: "acts R (exit_if c rv)"
  by (simp add: exit_if_def acts_exit acts_ret)

lemma acts_try [act_intros]: "acts R (act_try r)"
  by (simp add: act_try_def acts_exit acts_ret split: sum.split)

lemma acts_rv [act_intros]: "acts R (act_rv r)"
  by (simp add: act_rv_def acts_exit acts_ret split: sum.split)

lemma acts_some [act_intros]: "acts R (act_some rv x)"
  by (simp add: act_some_def acts_exit acts_ret split: option.split)

lemma acts_nopanic [act_intros]: "acts R (act_nopanic x)"
  by (simp add: act_nopanic_def acts_panic acts_ret split: option.split)

lemma acts_core_get [act_intros]: "acts R (core_get f)"
  by (rule acts_same) simp

lemma acts_get_hsm [act_intros]: "acts R (get_hsm X)"
  by (rule acts_same) simp

lemma acts_token_read [act_intros]: "acts R (on_token slot_id (\<lambda>t. (f t, t)))"
  by (rule acts_same) (rule on_token_read)

lemma acts_lookups [act_intros]:
  "acts R (get_token slot_id)" "acts R (validate_slot slot_id)" "acts R (get_sess session)"
  "acts R (lookup_object object)" "acts R (read_object addr)" "acts R (find_key key)" "acts R (find_object object)"
  "acts R (policy_check mechanism b)" "acts R (check_key X mechanism name c obj)" "acts R (enforce_size mechanism obj)"
  unfolding get_token_def validate_slot_def get_sess_def lookup_object_def read_object_def find_key_def
    find_object_def policy_check_def check_key_def enforce_size_def
  by (intro act_intros)+

lemma acts_catch [act_intros]: "acts R m \<Longrightarrow> acts R (catch_unwind m)"
  by (auto simp: acts_def catch_unwind_def split: prod.split outcome.split) (metis snd_conv)+

lemma acts_reply_list [act_intros]: "acts R (reply_list b n xs)"
  unfolding reply_list_def by (intro act_intros)

end

section \<open>Entry points\<close>

text \<open>The elementary steps that change the state, with their laws.\<close>

locale abi_frame = act_relation +
  assumes R_set_operation [act_intros]: "acts R (set_operation session op)"
    and R_set_find_context [act_intros]: "acts R (set_find_context session ctx)"
    and R_audit [act_intros]: "acts R (audit session operation result)"
    and R_ciphers: "R p (p\<lparr>pr_ciphers := s\<rparr>)"
    and R_post_failed [act_intros]: "acts R set_post_failed"
    and R_init_pin [act_intros]: "acts R (on_token slot_id (init_pin C env pin))"
    and R_set_pin [act_intros]: "acts R (on_token slot_id (set_pin C env pin new_pin))"
    and R_close_all [act_intros]: "acts R (on_token_sessions slot_id (\<lambda>t sm. ((), close_all_sessions tid slot_id t sm)))"
    and R_logout [act_intros]: "acts R (logout_slot X slot_id)"
    and R_next_handle [act_intros]: "acts R (on_objects next_handle)"
    and R_create [act_intros]: "acts R (on_objects (create_object C J senv tmpl))"
    and R_insert [act_intros]: "acts R (on_objects (insert_object C J senv obj))"
    and R_destroy [act_intros]: "acts R (on_objects (destroy_object C senv object))"
    and R_clear [act_intros]: "acts R (on_objects (\<lambda>os. ((), clear_objects senv os)))"
    and R_clear_key [act_intros]: "acts R (on_objects (\<lambda>os. ((), clear_persist_key os)))"
    and R_set_key [act_intros]: "acts R (on_objects (\<lambda>os. ((), set_persist_key key os)))"
    and R_load [act_intros]: "acts R (on_objects (\<lambda>os. ((), snd (load_from_store C J senv os))))"
    and R_set_attributes [act_intros]: "acts R (update_object addr (\<lambda>obj. snd (set_attributes tmpl obj)))"
begin

lemma acts_on_ciphers [act_intros]: "acts R (on_ciphers f)"
  by (simp add: acts_def on_ciphers_def R_ciphers split: prod.split)

lemma acts_helpers [act_intros]:
  "acts R (end_with session rv)" "acts R (operation_key session key)" "acts R (cached_key session key cached)"
  "acts R (key_bytes_of session obj)" "acts R (store_result session operation buf_len r)"
  "acts R (stream_encrypt B mechanism key_bytes param data)"
  "acts R (reply_estimate session mechanism obj)" "acts R (report_verified session mechanism verdict)"
  "acts R new_handle" "acts R (add_object X obj)" "acts R (pairwise_gate tested)"
  unfolding end_with_def operation_key_def cached_key_def key_bytes_of_def store_result_def stream_encrypt_def
    reply_estimate_def report_verified_def new_handle_def add_object_def pairwise_gate_def
  by (intro act_intros)+

lemma acts_run_cipher [act_intros]:
  "acts R (run_encrypt X session slot_id mechanism key_handle param obj key_bytes data)"
  "acts R (run_decrypt X session slot_id mechanism key_handle param key_bytes data)"
  unfolding run_encrypt_def run_decrypt_def by (intro act_intros)+

lemma acts_store_pair [act_intros]: "acts R (store_pair X pub_template priv_template f g)"
  unfolding store_pair_def by (intro act_intros)

lemma acts_keypairs [act_intros]:
  "acts R (generate_rsa_keypair X pub_template priv_template)"
  "acts R (generate_ec_keypair X pub_template priv_template)"
  "acts R (generate_ed25519_keypair X pub_template priv_template)"
  "acts R (generate_pqc_keypair X mechanism pub_template priv_template)"
  unfolding generate_rsa_keypair_def generate_ec_keypair_def generate_ed25519_keypair_def generate_pqc_keypair_def
  by (intro act_intros)+

lemma acts_load_objects [act_intros]: "acts R (load_token_objects X slot_id pin)"
  unfolding load_token_objects_def by (intro act_intros)

lemma acts_login_done [act_intros]: "acts R (login_done X session user_type pin slot_id r)"
  unfolding login_done_def by (intro act_intros)

lemma acts_information:
  "acts R (C_GetSlotList X b c n)" "acts R (C_GetSlotInfo X slot_id b)" "acts R (C_GetTokenInfo X slot_id b)"
  "acts R (C_GetMechanismList X slot_id b n)" "acts R (C_GetMechanismInfo X slot_id m b)"
  "acts R (C_GetSessionInfo X session b)"
  unfolding C_GetSlotList_def C_GetSlotInfo_def C_GetTokenInfo_def C_GetMechanismList_def C_GetMechanismInfo_def
    C_GetSessionInfo_def
  by (intro act_intros)+

lemma acts_get_info: "acts R (C_GetInfo X b)"
  unfolding C_GetInfo_def
  by (rule acts_catch, rule actsI)
    (auto simp: get_hsm_def R_refl act_then_def act_bind_def exit_if_def act_exit_def act_ret_def)

lemma acts_pins: "acts R (C_InitPIN X session pin)" "acts R (C_SetPIN X session pin new_pin)"
  unfolding C_InitPIN_def C_SetPIN_def by (intro act_intros)+

lemma acts_sessions:
  "acts R (C_CloseAllSessions X slot_id)" "acts R (C_Logout X session)"
  unfolding C_CloseAllSessions_def C_Logout_def get_token_bind by (intro act_intros)+

lemma acts_objects:
  "acts R (C_CreateObject X session tmpl b)" "acts R (C_DestroyObject X session object)"
  "acts R (C_GetObjectSize X session object b)" "acts R (C_CopyObject X session object tmpl b)"
  "acts R (C_GetAttributeValue X session object queries)" "acts R (C_SetAttributeValue X session object tmpl)"
  "acts R (C_FindObjectsInit X session tmpl)" "acts R (C_FindObjects X session b n c)"
  "acts R (C_FindObjectsFinal X session)"
  unfolding C_CreateObject_def C_DestroyObject_def C_GetObjectSize_def C_CopyObject_def C_GetAttributeValue_def
    C_SetAttributeValue_def C_FindObjectsInit_def C_FindObjects_def C_FindObjectsFinal_def
  by (intro act_intros)+

lemma acts_ciphers:
  "acts R (C_EncryptInit X session m key)" "acts R (C_Encrypt X session data b n)"
  "acts R (C_EncryptUpdate X session data b)" "acts R (C_EncryptFinal X session b n)"
  "acts R (C_DecryptInit X session m key)" "acts R (C_Decrypt X session data b n)"
  "acts R (C_DecryptUpdate X session data b)" "acts R (C_DecryptFinal X session b n)"
  unfolding C_EncryptInit_def C_Encrypt_def C_EncryptUpdate_def C_EncryptFinal_def
    C_DecryptInit_def C_Decrypt_def C_DecryptUpdate_def C_DecryptFinal_def
  by (intro act_intros)+

lemma acts_digests:
  "acts R (C_DigestInit X session m)" "acts R (C_Digest X session data b n)" "acts R (C_DigestUpdate X session data)"
  "acts R (C_DigestKey X session key)" "acts R (C_DigestFinal X session b n)"
  unfolding C_DigestInit_def C_Digest_def C_DigestUpdate_def C_DigestKey_def C_DigestFinal_def
  by (intro act_intros)+

lemma acts_signatures:
  "acts R (C_SignInit X session m key)" "acts R (C_Sign X session data b n)" "acts R (C_SignUpdate X session data)"
  "acts R (C_SignFinal X session b n)" "acts R (C_VerifyInit X session m key)"
  "acts R (C_Verify X session data signature)" "acts R (C_VerifyUpdate X session data)"
  "acts R (C_VerifyFinal X session signature)"
  "acts R (C_GetOperationState X session b n)" "acts R (C_SetOperationState X session data k1 k2)"
  unfolding C_SignInit_def C_Sign_def C_SignUpdate_def C_SignFinal_def C_VerifyInit_def C_Verify_def
    C_VerifyUpdate_def C_VerifyFinal_def C_GetOperationState_def C_SetOperationState_def
  by (intro act_intros)+

lemma acts_keys:
  "acts R (C_GenerateKey X session m tmpl b)" "acts R (C_GenerateKeyPair X session m t1 t2 b)"
  "acts R (C_WrapKey X session m k1 k2 b n)" "acts R (C_UnwrapKey X session m k1 data tmpl b)"
  "acts R (C_DeriveKey X session m k1 tmpl b)" "acts R (C_SeedRandom X session)"
  "acts R (C_GenerateRandom X session b len)" "acts R not_supported"
  unfolding C_GenerateKey_def C_GenerateKeyPair_def C_WrapKey_def C_UnwrapKey_def C_DeriveKey_def C_SeedRandom_def
    C_GenerateRandom_def not_supported_def
  by (intro act_intros)+

lemmas acts_entry_points =
  acts_information acts_get_info acts_pins acts_sessions acts_objects acts_ciphers acts_digests acts_signatures acts_keys

end

locale abi_full = abi_frame +
  assumes R_open [act_intros]: "acts R (on_token_sessions slot_id (open_session now slot_id flags))"
    and R_close_session [act_intros]: "acts R (on_token_sessions slot_id (close_session tid session))"
    and R_login [act_intros]: "acts R (login_slot X slot_id user_type pin)"
    and R_init_token [act_intros]: "acts R (on_token slot_id (init_token C env pin label))"
begin

lemma acts_full:
  "acts R (C_OpenSession X slot_id flags b)" "acts R (C_CloseSession X session)"
  "acts R (C_Login X session user_type pin)" "acts R (C_InitToken X slot_id pin label)"
  unfolding C_OpenSession_def C_CloseSession_def C_Login_def C_InitToken_def get_token_bind by (intro act_intros)+

end

end
