(* ===== verification/Abi_System.thy ===== *)
theory Abi_System
  imports Abi_Relations
begin

text \<open>
  The library as a whole: every entry point as a call, and what any sequence of calls does. A
  process starts with nothing initialised; \<open>C_Initialize\<close> and \<open>C_Finalize\<close> are steps of their own.
  The locale \<open>abi_full\<close> lifts to any sequence of calls what its client shows of the elementary steps.
\<close>

section \<open>Calls\<close>

datatype (plugins only: code) abi_call =
    CallGetInfo bool
  | CallGetSlotList bool bool "ck_ulong option"
  | CallGetSlotInfo u64 bool
  | CallGetTokenInfo u64 bool
  | CallGetMechanismList u64 bool "ck_ulong option"
  | CallGetMechanismInfo u64 ck_ulong bool
  | CallInitToken u64 "bytes option" "bytes option"
  | CallInitPIN u64 "bytes option"
  | CallSetPIN u64 "bytes option" "bytes option"
  | CallOpenSession u64 ck_ulong bool
  | CallCloseSession u64
  | CallCloseAllSessions u64
  | CallGetSessionInfo u64 bool
  | CallLogin u64 ck_ulong "bytes option"
  | CallLogout u64
  | CallCreateObject u64 "raw_template option" bool
  | CallCopyObject u64 u64 "raw_template option" bool
  | CallDestroyObject u64 u64
  | CallGetObjectSize u64 u64 bool
  | CallGetAttributeValue u64 u64 "attr_query list option"
  | CallSetAttributeValue u64 u64 "raw_template option"
  | CallFindObjectsInit u64 "raw_template option"
  | CallFindObjects u64 bool ck_ulong bool
  | CallFindObjectsFinal u64
  | CallEncryptInit u64 "ck_mechanism option" u64
  | CallEncrypt u64 "bytes option" bool "ck_ulong option"
  | CallEncryptUpdate u64 "bytes option" bool
  | CallEncryptFinal u64 bool "ck_ulong option"
  | CallDecryptInit u64 "ck_mechanism option" u64
  | CallDecrypt u64 "bytes option" bool "ck_ulong option"
  | CallDecryptUpdate u64 "bytes option" bool
  | CallDecryptFinal u64 bool "ck_ulong option"
  | CallDigestInit u64 "ck_mechanism option"
  | CallDigest u64 "bytes option" bool "ck_ulong option"
  | CallDigestUpdate u64 "bytes option"
  | CallDigestKey u64 u64
  | CallDigestFinal u64 bool "ck_ulong option"
  | CallSignInit u64 "ck_mechanism option" u64
  | CallSign u64 "bytes option" bool "ck_ulong option"
  | CallSignUpdate u64 "bytes option"
  | CallSignFinal u64 bool "ck_ulong option"
  | CallVerifyInit u64 "ck_mechanism option" u64
  | CallVerify u64 "bytes option" "bytes option"
  | CallVerifyUpdate u64 "bytes option"
  | CallVerifyFinal u64 "bytes option"
  | CallGetOperationState u64 bool "ck_ulong option"
  | CallSetOperationState u64 "bytes option" u64 u64
  | CallGenerateKey u64 "ck_mechanism option" "raw_template option" bool
  | CallGenerateKeyPair u64 "ck_mechanism option" "raw_template option" "raw_template option" bool
  | CallWrapKey u64 "ck_mechanism option" u64 u64 bool "ck_ulong option"
  | CallUnwrapKey u64 "ck_mechanism option" u64 "bytes option" "raw_template option" bool
  | CallDeriveKey u64 "ck_mechanism option" u64 "raw_template option" bool
  | CallSeedRandom u64
  | CallGenerateRandom u64 bool ck_ulong

definition code_of :: "'o handler \<Rightarrow> process \<Rightarrow> ck_rv \<times> process" where
  "code_of h p = (case h p of ((rv, out), p') \<Rightarrow> (rv, p'))"

primrec run_call :: "abi_call \<Rightarrow> abi_ctx \<Rightarrow> process \<Rightarrow> ck_rv \<times> process" where
    "run_call (CallGetInfo a) = (\<lambda>X. code_of (C_GetInfo X a))"
  | "run_call (CallGetSlotList a b c) = (\<lambda>X. code_of (C_GetSlotList X a b c))"
  | "run_call (CallGetSlotInfo a b) = (\<lambda>X. code_of (C_GetSlotInfo X a b))"
  | "run_call (CallGetTokenInfo a b) = (\<lambda>X. code_of (C_GetTokenInfo X a b))"
  | "run_call (CallGetMechanismList a b c) = (\<lambda>X. code_of (C_GetMechanismList X a b c))"
  | "run_call (CallGetMechanismInfo a b c) = (\<lambda>X. code_of (C_GetMechanismInfo X a b c))"
  | "run_call (CallInitToken a b c) = (\<lambda>X. code_of (C_InitToken X a b c))"
  | "run_call (CallInitPIN a b) = (\<lambda>X. code_of (C_InitPIN X a b))"
  | "run_call (CallSetPIN a b c) = (\<lambda>X. code_of (C_SetPIN X a b c))"
  | "run_call (CallOpenSession a b c) = (\<lambda>X. code_of (C_OpenSession X a b c))"
  | "run_call (CallCloseSession a) = (\<lambda>X. code_of (C_CloseSession X a))"
  | "run_call (CallCloseAllSessions a) = (\<lambda>X. code_of (C_CloseAllSessions X a))"
  | "run_call (CallGetSessionInfo a b) = (\<lambda>X. code_of (C_GetSessionInfo X a b))"
  | "run_call (CallLogin a b c) = (\<lambda>X. code_of (C_Login X a b c))"
  | "run_call (CallLogout a) = (\<lambda>X. code_of (C_Logout X a))"
  | "run_call (CallCreateObject a b c) = (\<lambda>X. code_of (C_CreateObject X a b c))"
  | "run_call (CallCopyObject a b c d) = (\<lambda>X. code_of (C_CopyObject X a b c d))"
  | "run_call (CallDestroyObject a b) = (\<lambda>X. code_of (C_DestroyObject X a b))"
  | "run_call (CallGetObjectSize a b c) = (\<lambda>X. code_of (C_GetObjectSize X a b c))"
  | "run_call (CallGetAttributeValue a b c) = (\<lambda>X. code_of (C_GetAttributeValue X a b c))"
  | "run_call (CallSetAttributeValue a b c) = (\<lambda>X. code_of (C_SetAttributeValue X a b c))"
  | "run_call (CallFindObjectsInit a b) = (\<lambda>X. code_of (C_FindObjectsInit X a b))"
  | "run_call (CallFindObjects a b c d) = (\<lambda>X. code_of (C_FindObjects X a b c d))"
  | "run_call (CallFindObjectsFinal a) = (\<lambda>X. code_of (C_FindObjectsFinal X a))"
  | "run_call (CallEncryptInit a b c) = (\<lambda>X. code_of (C_EncryptInit X a b c))"
  | "run_call (CallEncrypt a b c d) = (\<lambda>X. code_of (C_Encrypt X a b c d))"
  | "run_call (CallEncryptUpdate a b c) = (\<lambda>X. code_of (C_EncryptUpdate X a b c))"
  | "run_call (CallEncryptFinal a b c) = (\<lambda>X. code_of (C_EncryptFinal X a b c))"
  | "run_call (CallDecryptInit a b c) = (\<lambda>X. code_of (C_DecryptInit X a b c))"
  | "run_call (CallDecrypt a b c d) = (\<lambda>X. code_of (C_Decrypt X a b c d))"
  | "run_call (CallDecryptUpdate a b c) = (\<lambda>X. code_of (C_DecryptUpdate X a b c))"
  | "run_call (CallDecryptFinal a b c) = (\<lambda>X. code_of (C_DecryptFinal X a b c))"
  | "run_call (CallDigestInit a b) = (\<lambda>X. code_of (C_DigestInit X a b))"
  | "run_call (CallDigest a b c d) = (\<lambda>X. code_of (C_Digest X a b c d))"
  | "run_call (CallDigestUpdate a b) = (\<lambda>X. code_of (C_DigestUpdate X a b))"
  | "run_call (CallDigestKey a b) = (\<lambda>X. code_of (C_DigestKey X a b))"
  | "run_call (CallDigestFinal a b c) = (\<lambda>X. code_of (C_DigestFinal X a b c))"
  | "run_call (CallSignInit a b c) = (\<lambda>X. code_of (C_SignInit X a b c))"
  | "run_call (CallSign a b c d) = (\<lambda>X. code_of (C_Sign X a b c d))"
  | "run_call (CallSignUpdate a b) = (\<lambda>X. code_of (C_SignUpdate X a b))"
  | "run_call (CallSignFinal a b c) = (\<lambda>X. code_of (C_SignFinal X a b c))"
  | "run_call (CallVerifyInit a b c) = (\<lambda>X. code_of (C_VerifyInit X a b c))"
  | "run_call (CallVerify a b c) = (\<lambda>X. code_of (C_Verify X a b c))"
  | "run_call (CallVerifyUpdate a b) = (\<lambda>X. code_of (C_VerifyUpdate X a b))"
  | "run_call (CallVerifyFinal a b) = (\<lambda>X. code_of (C_VerifyFinal X a b))"
  | "run_call (CallGetOperationState a b c) = (\<lambda>X. code_of (C_GetOperationState X a b c))"
  | "run_call (CallSetOperationState a b c d) = (\<lambda>X. code_of (C_SetOperationState X a b c d))"
  | "run_call (CallGenerateKey a b c d) = (\<lambda>X. code_of (C_GenerateKey X a b c d))"
  | "run_call (CallGenerateKeyPair a b c d e) = (\<lambda>X. code_of (C_GenerateKeyPair X a b c d e))"
  | "run_call (CallWrapKey a b c d e f) = (\<lambda>X. code_of (C_WrapKey X a b c d e f))"
  | "run_call (CallUnwrapKey a b c d e f) = (\<lambda>X. code_of (C_UnwrapKey X a b c d e f))"
  | "run_call (CallDeriveKey a b c d e) = (\<lambda>X. code_of (C_DeriveKey X a b c d e))"
  | "run_call (CallSeedRandom a) = (\<lambda>X. code_of (C_SeedRandom X a))"
  | "run_call (CallGenerateRandom a b c) = (\<lambda>X. code_of (C_GenerateRandom X a b c))"

text \<open>The entry points that change which sessions a token has or who is logged in.\<close>

definition session_call :: "abi_call \<Rightarrow> bool" where
  "session_call c =
    (case c of CallInitToken _ _ _ \<Rightarrow> True | CallOpenSession _ _ _ \<Rightarrow> True | CallCloseSession _ \<Rightarrow> True
     | CallLogin _ _ _ \<Rightarrow> True | _ \<Rightarrow> False)"

lemma code_of_state [simp]: "snd (code_of h p) = snd (h p)"
  by (simp add: code_of_def split: prod.split)

lemma acts_code: "acts R h \<Longrightarrow> acts R (code_of h)"
  by (simp add: acts_def)

context abi_frame
begin

lemma acts_call_frame: "\<not> session_call c \<Longrightarrow> acts R (run_call c X)"
  by (cases c) (simp_all add: session_call_def acts_code acts_entry_points)

end

context abi_full
begin

lemma acts_call: "acts R (run_call c X)"
  by (cases c) (simp_all add: acts_code acts_entry_points acts_full)

end

text \<open>Any sequence of calls, each in a context of its own.\<close>

inductive abi_run :: "process \<Rightarrow> process \<Rightarrow> bool" where
  run_nil: "abi_run p p"
| run_step: "abi_run p q \<Longrightarrow> run_call c X q = (rv, r) \<Longrightarrow> abi_run p r"

context abi_full
begin

lemma run_relation: "abi_run p q \<Longrightarrow> R p q"
proof (induction rule: abi_run.induct)
  case (run_nil p)
  then show ?case by (rule R_refl)
next
  case (run_step p q c X rv r)
  then have "R q r" using actsD [OF acts_call, of q c X] by simp
  with run_step.IH show ?case by (rule R_trans)
qed

end

end
