(* ===== verification/Abi_Consistency.thy ===== *)
theory Abi_Consistency
  imports Abi_System
begin

text \<open>
  The sessions agree with the tokens in every state the library reaches through its entry points:
  each token counts exactly the open sessions of its slot, and each session is in the state of the
  login of its token.
\<close>

section \<open>The invariant\<close>

definition core_ok :: "u64 list \<Rightarrow> nat \<Rightarrow> hsm_core \<Rightarrow> bool" where
  "core_ok keys n c \<longleftrightarrow>
     mgr_reach keys n (co_sessions c) \<and> table_wf (sm_sessions (co_sessions c)) \<and> distinct (map fst (co_tokens c)) \<and>
     (\<forall>sl t. map_of (co_tokens c) sl = Some t \<longrightarrow> slot_inv sl t (sm_sessions (co_sessions c)))"

definition process_ok :: "nat \<Rightarrow> process \<Rightarrow> bool" where
  "process_ok n p \<longleftrightarrow> (\<forall>c. pr_hsm p = Some c \<longrightarrow> (\<exists>keys. core_ok keys n c))"

definition agree :: "process \<Rightarrow> process \<Rightarrow> bool" where
  "agree p q \<longleftrightarrow> (\<forall>n. process_ok n p \<longrightarrow> process_ok n q)"

lemma core_ok_same:
  "core_ok keys n c \<Longrightarrow> co_tokens c' = co_tokens c \<Longrightarrow> co_sessions c' = co_sessions c \<Longrightarrow> core_ok keys n c'"
  by (simp add: core_ok_def)

lemma core_ok_step:
  assumes "core_ok keys n c" "mgr_reach keys m sm'" "table_wf (sm_sessions sm')" "slot_inv sl t' (sm_sessions sm')"
    "\<And>sl' u. sl' \<noteq> sl \<Longrightarrow> slot_inv sl' u (sm_sessions (co_sessions c)) \<Longrightarrow> slot_inv sl' u (sm_sessions sm')"
  shows "core_ok keys m (c\<lparr>co_tokens := AList.update sl t' (co_tokens c), co_sessions := sm'\<rparr>)"
  using assms by (auto simp: core_ok_def distinct_update update_conv)

lemma slot_inv_cong:
  "session_total t' = session_total t \<Longrightarrow> rw_session_total t' = rw_session_total t \<Longrightarrow>
   au_login (tk_auth t') = au_login (tk_auth t) \<Longrightarrow> slot_inv sl t' ss = slot_inv sl t ss"
  by (simp add: slot_inv_def slot_counted_def slot_logins_def)

lemma on_core_agrees:
  assumes "\<And>c. co_tokens (snd (f c)) = co_tokens c" "\<And>c. co_sessions (snd (f c)) = co_sessions c"
  shows "acts agree (on_core f)"
proof (rule actsI)
  fix p
  show "agree p (snd (on_core f p))"
    using assms by (auto simp: agree_def process_ok_def on_core_def split: option.split prod.split)
      (metis core_ok_same snd_conv)
qed

lemma on_objects_agrees: "acts agree (on_objects f)"
  unfolding on_objects_def by (rule on_core_agrees) (simp_all split: prod.split)

lemma on_token_agrees:
  assumes "\<And>t. session_total (snd (f t)) = session_total t" "\<And>t. rw_session_total (snd (f t)) = rw_session_total t"
    "\<And>t. au_login (tk_auth (snd (f t))) = au_login (tk_auth t)"
  shows "acts agree (on_token slot_id f)"
proof (rule actsI)
  fix p
  show "agree p (snd (on_token slot_id f p))"
  proof (cases "pr_hsm p")
    case (Some c)
    show ?thesis
    proof (cases "map_of (co_tokens c) slot_id")
      case (Some t)
      obtain x t' where f: "f t = (x, t')" by (cases "f t")
      have "core_ok keys n (c\<lparr>co_tokens := AList.update slot_id t' (co_tokens c)\<rparr>)" if ok: "core_ok keys n c" for keys n
      proof -
        have "slot_inv slot_id t' (sm_sessions (co_sessions c))"
          using ok Some slot_inv_cong [of t' t] assms [of t] f by (simp add: core_ok_def)
        then have "core_ok keys n (c\<lparr>co_tokens := AList.update slot_id t' (co_tokens c), co_sessions := co_sessions c\<rparr>)"
          using ok by (intro core_ok_step [OF ok]) (simp_all add: core_ok_def)
        then show ?thesis by simp
      qed
      then show ?thesis
        using f Some \<open>pr_hsm p = Some c\<close> by (auto simp: agree_def process_ok_def on_token_def)
    qed (use Some in \<open>simp add: agree_def on_token_def\<close>)
  qed (simp add: agree_def on_token_def)
qed

lemma on_token_sessions_agrees:
  assumes "\<And>c t x t' sm' keys n. map_of (co_tokens c) slot_id = Some t \<Longrightarrow> f t (co_sessions c) = (x, t', sm') \<Longrightarrow>
      core_ok keys n c \<Longrightarrow> core_ok keys n (c\<lparr>co_tokens := AList.update slot_id t' (co_tokens c), co_sessions := sm'\<rparr>)"
  shows "acts agree (on_token_sessions slot_id f)"
proof (rule actsI)
  fix p
  show "agree p (snd (on_token_sessions slot_id f p))"
    using assms by (auto simp: agree_def process_ok_def on_token_sessions_def split: option.split prod.split) metis
qed

lemma session_field_agrees:
  assumes "\<And>s. ss_slot_id (g s) = ss_slot_id s" "\<And>s. ss_state (g s) = ss_state s"
    "\<And>s. ss_handle (g s) = ss_handle s" "\<And>s. ss_closed (g s) = ss_closed s"
  shows "acts agree (on_sessions (\<lambda>sm. ((), case map_of (sm_sessions sm) h of None \<Rightarrow> sm | Some s \<Rightarrow> put_sess h (g s) sm)))"
proof (rule actsI)
  fix p
  have "core_ok keys n (c\<lparr>co_sessions := put_sess h (g s) (co_sessions c)\<rparr>)"
    if ok: "core_ok keys n c" and s: "map_of (sm_sessions (co_sessions c)) h = Some s" for keys n c s
  proof -
    let ?ss = "sm_sessions (co_sessions c)"
    have wf: "table_wf ?ss" and reach: "mgr_reach keys n (co_sessions c)" using ok by (simp_all add: core_ok_def)
    have "mgr_reach keys n (put_sess h (g s) (co_sessions c))"
      unfolding put_sess_def using reach s by (rule mgr_use)
    moreover have "table_wf (AList.update h (g s) ?ss)"
      using wf table_wf_lookup [OF wf s] assms by (intro table_wf_update) simp_all
    moreover have "slot_inv sl t (AList.update h (g s) ?ss)" if "slot_inv sl t ?ss" for sl t
      using s wf assms that by (intro session_update_inv [of ?ss h s]) simp_all
    ultimately show ?thesis using ok by (simp add: core_ok_def put_sess_def)
  qed
  then show "agree p (snd (on_sessions (\<lambda>sm. ((), case map_of (sm_sessions sm) h of None \<Rightarrow> sm | Some s \<Rightarrow> put_sess h (g s) sm)) p))"
    by (auto simp: agree_def process_ok_def on_sessions_def on_core_def split: option.splits) blast+
qed

section \<open>Steps\<close>

lemma token_counts_frame [simp]:
  "session_total (snd (init_pin C env pin t)) = session_total t"
  "rw_session_total (snd (init_pin C env pin t)) = rw_session_total t"
  "au_login (tk_auth (snd (init_pin C env pin t))) = au_login (tk_auth t)"
  "session_total (snd (set_pin C env pin new_pin t)) = session_total t"
  "rw_session_total (snd (set_pin C env pin new_pin t)) = rw_session_total t"
  "au_login (tk_auth (snd (set_pin C env pin new_pin t))) = au_login (tk_auth t)"
  by (auto simp: session_total_def rw_session_total_def init_pin_def set_pin_def set_pin_user_def set_pin_so_def
      user_pin_failure_def so_pin_failure_def Let_def split: sum.splits option.splits login_state.splits)

lemma login_state_public: "l \<noteq> SoLoggedIn \<Longrightarrow> l \<noteq> UserLoggedIn \<Longrightarrow> l = Public"
  by (cases l) simp_all

lemma login_frame:
  "session_total (snd (login C env ut pin t)) = session_total t"
  "rw_session_total (snd (login C env ut pin t)) = rw_session_total t"
  "fst (login C env ut pin t) = Inl e \<Longrightarrow> au_login (tk_auth (snd (login C env ut pin t))) = au_login (tk_auth t)"
  "fst (login C env ut pin t) = Inr u \<Longrightarrow> au_login (tk_auth t) = Public \<and> (ut = CKU_USER \<or> ut = CKU_SO) \<and>
    au_login (tk_auth (snd (login C env ut pin t))) = role_of ut"
  by (auto simp: session_total_def rw_session_total_def login_def login_user_def login_so_def user_pin_failure_def
      so_pin_failure_def role_of_def Let_def intro: login_state_public split: sum.splits option.splits if_splits)

lemma logout_frame:
  "session_total (snd (logout env t)) = session_total t" "rw_session_total (snd (logout env t)) = rw_session_total t"
  "fst (logout env t) = Inl e \<Longrightarrow> snd (logout env t) = t"
  "fst (logout env t) = Inr u \<Longrightarrow> au_login (tk_auth (snd (logout env t))) = Public"
  by (auto simp: session_total_def rw_session_total_def logout_def)

lemma init_token_frame:
  "fst (init_token C env pin label t) = Inl e \<Longrightarrow> au_login (tk_auth (snd (init_token C env pin label t))) = au_login (tk_auth t)"
  "fst (init_token C env pin label t) = Inl e \<Longrightarrow> session_total (snd (init_token C env pin label t)) = session_total t"
  "fst (init_token C env pin label t) = Inl e \<Longrightarrow> rw_session_total (snd (init_token C env pin label t)) = rw_session_total t"
  "fst (init_token C env pin label t) = Inr u \<Longrightarrow> session_total (snd (init_token C env pin label t)) = 0"
  "fst (init_token C env pin label t) = Inr u \<Longrightarrow> rw_session_total (snd (init_token C env pin label t)) = 0"
  by (auto simp: session_total_def rw_session_total_def init_token_def init_token_failure_def init_token_commit_def Let_def
      split: sum.splits option.splits if_splits)

lemma close_all_step:
  assumes "core_ok keys n c" "map_of (co_tokens c) sl = Some t" "close_all_sessions tid sl t (co_sessions c) = (t', sm')"
  shows "core_ok keys n (c\<lparr>co_tokens := AList.update sl t' (co_tokens c), co_sessions := sm'\<rparr>)"
proof (rule core_ok_step [OF assms(1)])
  have inv: "slot_inv sl t (sm_sessions (co_sessions c))" using assms(1,2) by (simp add: core_ok_def)
  show "mgr_reach keys n sm'" using mgr_close_all [of keys n "co_sessions c" tid sl t] assms(1,3) by (simp add: core_ok_def)
  show "table_wf (sm_sessions sm')" using close_all_sessions_table_wf [OF assms(3)] assms(1) by (simp add: core_ok_def)
  show "slot_inv sl t' (sm_sessions sm')" by (rule close_all_sessions_inv(1) [OF assms(3) inv])
  show "slot_inv sl' u (sm_sessions sm')" if "sl' \<noteq> sl" "slot_inv sl' u (sm_sessions (co_sessions c))" for sl' u
    by (rule close_all_sessions_other_slot [OF assms(3) that(2,1)])
qed

lemma logout_step:
  assumes "core_ok keys n c" "map_of (co_tokens c) sl = Some t" "logout env t = (Inr u, t')"
  shows "core_ok keys n (c\<lparr>co_tokens := AList.update sl t' (co_tokens c),
    co_sessions := cancel_sessions_for_slot sl (co_sessions c)\<rparr>)"
proof (rule core_ok_step [OF assms(1)])
  have inv: "slot_inv sl t (sm_sessions (co_sessions c))" using assms(1,2) by (simp add: core_ok_def)
  have t': "session_total t' = session_total t" "rw_session_total t' = rw_session_total t" "au_login (tk_auth t') = Public"
    using logout_frame [of env t] assms(3) by auto
  show "mgr_reach keys n (cancel_sessions_for_slot sl (co_sessions c))" using assms(1) by (simp add: core_ok_def mgr_cancel)
  show "table_wf (sm_sessions (cancel_sessions_for_slot sl (co_sessions c)))"
    using assms(1) by (simp add: cancel_sessions_table_wf core_ok_def)
  show "slot_inv sl t' (sm_sessions (cancel_sessions_for_slot sl (co_sessions c)))"
    by (rule cancel_sessions_inv(1) [OF inv t'])
  show "slot_inv sl' u (sm_sessions (cancel_sessions_for_slot sl (co_sessions c)))"
    if "sl' \<noteq> sl" "slot_inv sl' u (sm_sessions (co_sessions c))" for sl' u
    using cancel_sessions_inv(2) [OF inv t' that(1)] that(2) by simp
qed

lemma token_same_step:
  assumes "core_ok keys n c" "map_of (co_tokens c) sl = Some t" "slot_inv sl t' (sm_sessions (co_sessions c))"
  shows "core_ok keys n (c\<lparr>co_tokens := AList.update sl t' (co_tokens c), co_sessions := co_sessions c\<rparr>)"
  by (rule core_ok_step [OF assms(1)]) (use assms in \<open>simp_all add: core_ok_def\<close>)

interpretation agreement: abi_frame agree
proof unfold_locales
  show "agree p p" for p by (simp add: agree_def)
  show "agree p r" if "agree p q" "agree q r" for p q r using that by (simp add: agree_def)
  show "acts agree (set_operation session op)" for session op
    unfolding set_operation_def by (rule session_field_agrees) simp_all
  show "acts agree (set_find_context session ctx)" for session ctx
    unfolding set_find_context_def by (rule session_field_agrees) simp_all
  show "acts agree (audit session operation result)" for session operation result
    unfolding audit_def by (rule on_core_agrees) simp_all
  show "agree p (p\<lparr>pr_ciphers := s\<rparr>)" for p s by (simp add: agree_def process_ok_def)
  show "acts agree set_post_failed" by (rule actsI) (simp add: set_post_failed_def agree_def process_ok_def)
  show "acts agree (on_token slot_id (init_pin C env pin))" "acts agree (on_token slot_id (set_pin C env pin new_pin))"
    for slot_id C env pin new_pin by (rule on_token_agrees; simp)+
  show "acts agree (on_token_sessions slot_id (\<lambda>t sm. ((), close_all_sessions tid slot_id t sm)))" for slot_id tid
    by (rule on_token_sessions_agrees) (auto intro: close_all_step)
  show "acts agree (logout_slot X slot_id)" for X slot_id
    unfolding logout_slot_def
  proof (rule on_token_sessions_agrees)
    fix c t x t' sm' keys n
    assume t: "map_of (co_tokens c) slot_id = Some t" and ok: "core_ok keys n c"
      and step: "(case logout (x_tok X) t of
          (Inl e, t') \<Rightarrow> (Inl e, t', co_sessions c)
        | (Inr u, t') \<Rightarrow> (Inr (), t', cancel_sessions_for_slot slot_id (co_sessions c))) = (x, t', sm')"
    obtain r t1 where lo: "logout (x_tok X) t = (r, t1)" by (cases "logout (x_tok X) t")
    show "core_ok keys n (c\<lparr>co_tokens := AList.update slot_id t' (co_tokens c), co_sessions := sm'\<rparr>)"
    proof (cases r)
      case (Inl e)
      then have "t' = t" "sm' = co_sessions c" using step lo logout_frame(3) [of "x_tok X" t e] by auto
      then show ?thesis using token_same_step [OF ok t] ok t by (simp add: core_ok_def)
    next
      case (Inr u)
      then show ?thesis using logout_step [OF ok t] lo step by auto
    qed
  qed
qed (rule on_objects_agrees | simp add: update_object_def on_objects_agrees)+

section \<open>Opening, closing, logging in, initialising\<close>

lemma mgr_reach_mono: "mgr_reach keys n sm \<Longrightarrow> mgr_reach keys (Suc n) sm"
  using mgr_open [of keys n sm 0 0 0] by (simp add: open_session_def)

lemma process_ok_mono: "process_ok n p \<Longrightarrow> process_ok (Suc n) p"
  unfolding process_ok_def core_ok_def by (blast intro: mgr_reach_mono)

lemma C_OpenSession_state:
  assumes "pr_hsm p = Some c" "q = snd (C_OpenSession X sl flags b p)" "q \<noteq> p"
  shows "\<exists>t r t' sm'. map_of (co_tokens c) sl = Some t \<and> open_session (x_now X) sl flags t (co_sessions c) = (r, t', sm') \<and>
    pr_hsm q = Some (c\<lparr>co_tokens := AList.update sl t' (co_tokens c), co_sessions := sm'\<rparr>)"
  using assms by (auto simp: C_OpenSession_def get_hsm_def act_defs split: option.splits sum.splits prod.splits if_splits)

lemma C_OpenSession_ok:
  assumes "process_ok n p" "Suc n < 2 ^ 64"
  shows "process_ok (Suc n) (snd (C_OpenSession X sl flags b p))"
proof (cases "snd (C_OpenSession X sl flags b p) = p")
  case True
  then show ?thesis using process_ok_mono [OF assms(1)] by simp
next
  case False
  show ?thesis
  proof (cases "pr_hsm p")
    case None
    then show ?thesis using False by (auto simp: C_OpenSession_def get_hsm_def act_defs split: if_splits)
  next
    case (Some c)
    obtain t r t' sm' where t: "map_of (co_tokens c) sl = Some t"
        and op: "open_session (x_now X) sl flags t (co_sessions c) = (r, t', sm')"
        and q: "pr_hsm (snd (C_OpenSession X sl flags b p)) = Some (c\<lparr>co_tokens := AList.update sl t' (co_tokens c), co_sessions := sm'\<rparr>)"
      using C_OpenSession_state [OF Some refl False] by blast
    obtain keys where ok: "core_ok keys n c" using assms(1) Some by (auto simp: process_ok_def)
    have inv: "slot_inv sl t (sm_sessions (co_sessions c))" using ok t by (simp add: core_ok_def)
    have fresh: "map_of (sm_sessions (co_sessions c)) (fst (session_next ULong64 (sm_handle_alloc (co_sessions c)))) = None"
      using next_handle_fresh [OF mgr_reach_inv assms(2)] ok assms(2) by (auto simp: core_ok_def)
    have "core_ok keys (Suc n) (c\<lparr>co_tokens := AList.update sl t' (co_tokens c), co_sessions := sm'\<rparr>)"
    proof (rule core_ok_step [OF ok])
      show "mgr_reach keys (Suc n) sm'"
        using mgr_open [of keys n "co_sessions c" "x_now X" sl flags t] ok op by (simp add: core_ok_def)
      show "table_wf (sm_sessions sm')" using open_session_table_wf [OF op] ok by (simp add: core_ok_def)
      show "slot_inv sl t' (sm_sessions sm')" by (rule open_session_inv [OF op inv fresh])
      show "slot_inv sl' u (sm_sessions sm')" if "sl' \<noteq> sl" "slot_inv sl' u (sm_sessions (co_sessions c))" for sl' u
        by (rule open_session_other_slot [OF op that(2,1) fresh])
    qed
    then show ?thesis using q by (auto simp: process_ok_def)
  qed
qed

lemma C_CloseSession_agrees: "acts agree (C_CloseSession X session)"
proof (rule actsI)
  fix p
  let ?q = "snd (C_CloseSession X session p)"
  show "agree p ?q"
  proof (cases "?q = p")
    case False
    obtain c where c: "pr_hsm p = Some c"
      using False by (cases "pr_hsm p") (auto simp: C_CloseSession_def get_hsm_def act_defs split: if_splits)
    obtain s t r t' sm' where s: "map_of (sm_sessions (co_sessions c)) session = Some s"
        and t: "map_of (co_tokens c) (ss_slot_id s) = Some t"
        and cl: "close_session (x_tid X) session t (co_sessions c) = (r, t', sm')"
        and q: "pr_hsm ?q = Some (c\<lparr>co_tokens := AList.update (ss_slot_id s) t' (co_tokens c), co_sessions := sm'\<rparr>)"
      using False c by (auto simp: C_CloseSession_def get_hsm_def act_defs split: option.splits sum.splits prod.splits if_splits)
    have "core_ok keys n (c\<lparr>co_tokens := AList.update (ss_slot_id s) t' (co_tokens c), co_sessions := sm'\<rparr>)"
      if ok: "core_ok keys n c" for keys n
    proof (rule core_ok_step [OF ok])
      have wf: "table_wf (sm_sessions (co_sessions c))" and inv: "slot_inv (ss_slot_id s) t (sm_sessions (co_sessions c))"
        using ok t by (simp_all add: core_ok_def)
      show "mgr_reach keys n sm'"
        using mgr_close [of keys n "co_sessions c" "x_tid X" session t] ok cl by (simp add: core_ok_def)
      show "table_wf (sm_sessions sm')"
        using cl s wf by (auto simp: close_session_def Let_def table_wf_delete split: prod.splits)
      show "slot_inv (ss_slot_id s) t' (sm_sessions sm')" by (rule close_session_inv(2) [OF cl wf s inv])
      show "slot_inv sl' u (sm_sessions sm')" if "sl' \<noteq> ss_slot_id s" "slot_inv sl' u (sm_sessions (co_sessions c))" for sl' u
        by (rule close_session_other_slot [OF cl wf s that(2,1)])
    qed
    then show ?thesis using q c by (auto simp: agree_def process_ok_def)
  qed (simp add: agree_def)
qed

lemma login_step:
  assumes "core_ok keys n c" "map_of (co_tokens c) sl = Some t" "ut = CKU_SO \<longrightarrow> \<not> has_ro_sessions sl (co_sessions c)"
    "login C env ut pin t = (r, t')"
  shows "core_ok keys n (c\<lparr>co_tokens := AList.update sl t' (co_tokens c),
    co_sessions := (case r of Inr _ \<Rightarrow> snd (login_all sl ut (co_sessions c)) | Inl _ \<Rightarrow> co_sessions c)\<rparr>)"
proof (cases r)
  have inv: "slot_inv sl t (sm_sessions (co_sessions c))" and wf: "table_wf (sm_sessions (co_sessions c))"
    using assms(1,2) by (simp_all add: core_ok_def)
  note fr = login_frame [of C env ut pin t, unfolded assms(4) fst_conv snd_conv]
  case (Inl e)
  then have "slot_inv sl t' (sm_sessions (co_sessions c))" using inv slot_inv_cong [of t' t] fr(1,2,3) by simp
  then show ?thesis using token_same_step [OF assms(1,2)] Inl by simp
next
  have inv: "slot_inv sl t (sm_sessions (co_sessions c))" and wf: "table_wf (sm_sessions (co_sessions c))"
    using assms(1,2) by (simp_all add: core_ok_def)
  note fr = login_frame [of C env ut pin t, unfolded assms(4) fst_conv snd_conv]
  case (Inr u)
  obtain r1 sm' where la: "login_all sl ut (co_sessions c) = (r1, sm')" by (cases "login_all sl ut (co_sessions c)")
  have p: "au_login (tk_auth t) = Public" and role: "au_login (tk_auth t') = role_of ut"
      and ut: "ut = CKU_USER \<or> ut = CKU_SO \<and> \<not> has_ro_sessions sl (co_sessions c)"
    using fr(4) [OF Inr] assms(3) by auto
  note li = login_all_inv [OF inv wf p ut la fr(1,2) role]
  have "core_ok keys n (c\<lparr>co_tokens := AList.update sl t' (co_tokens c), co_sessions := sm'\<rparr>)"
  proof (rule core_ok_step [OF assms(1) _ li(3,2)])
    show "mgr_reach keys n sm'" using mgr_login [of keys n "co_sessions c" sl ut] assms(1) la by (simp add: core_ok_def)
    show "slot_inv sl' u (sm_sessions sm')" if "sl' \<noteq> sl" "slot_inv sl' u (sm_sessions (co_sessions c))" for sl' u
      using li(4) [OF that(1)] that(2) by simp
  qed
  then show ?thesis using Inr la by simp
qed

lemma login_slot_agrees:
  assumes c: "pr_hsm p = Some c" and t: "map_of (co_tokens c) sl = Some t"
    and ro: "ut = CKU_SO \<longrightarrow> \<not> has_ro_sessions sl (co_sessions c)"
  shows "agree p (snd (login_slot X sl ut pin p))"
proof -
  obtain r t' where lo: "login (x_pin X) (x_tok X) ut pin t = (r, t')" by (cases "login (x_pin X) (x_tok X) ut pin t")
  have "core_ok keys n (c\<lparr>co_tokens := AList.update sl t' (co_tokens c),
      co_sessions := (case r of Inr _ \<Rightarrow> snd (login_all sl ut (co_sessions c)) | Inl _ \<Rightarrow> co_sessions c)\<rparr>)"
    if "core_ok keys n c" for keys n
    by (rule login_step [OF that t ro lo])
  then show ?thesis
    using c t lo by (cases r) (auto simp: agree_def process_ok_def login_slot_def on_token_sessions_def)
qed

lemma C_Login_agrees: "acts agree (C_Login X session ut pin)"
proof (rule actsI)
  fix p
  let ?q = "snd (C_Login X session ut pin p)"
  show "agree p ?q"
  proof (cases "?q = p")
    case False
    obtain c where c: "pr_hsm p = Some c"
      using False by (cases "pr_hsm p") (auto simp: C_Login_def catch_state act_run)
    obtain s t where s: "map_of (sm_sessions (co_sessions c)) session = Some s"
        and t: "map_of (co_tokens c) (ss_slot_id s) = Some t"
      using False c by (auto simp: C_Login_def catch_state act_run split: if_splits option.splits)
    let ?sl = "ss_slot_id s"
    have ro: "ut = CKU_SO \<longrightarrow> \<not> has_ro_sessions ?sl (co_sessions c)"
        and q: "?q = snd (act_bind (login_slot X ?sl ut (opt_bytes pin)) (login_done X session ut (opt_bytes pin) ?sl) p)"
      using False c s t by (auto simp: C_Login_def catch_state act_run split: if_splits)
    obtain o1 p1 where ls: "login_slot X ?sl ut (opt_bytes pin) p = (o1, p1)"
      by (cases "login_slot X ?sl ut (opt_bytes pin) p")
    have "agree p p1" using login_slot_agrees [OF c t ro, of X "opt_bytes pin"] ls by simp
    moreover have "agree p1 ?q"
      using ls q actsD [OF agreement.acts_login_done]
      by (cases o1) (simp_all add: act_bind_def agreement.R_refl)
    ultimately show ?thesis by (rule agreement.R_trans)
  qed (simp add: agree_def)
qed

lemma init_token_step:
  assumes "core_ok keys n c" "map_of (co_tokens c) sl = Some t" "filter (in_slot sl) (sm_sessions (co_sessions c)) = []"
  shows "core_ok keys n (c\<lparr>co_tokens := AList.update sl (snd (init_token C env pin label t)) (co_tokens c)\<rparr>)"
proof -
  let ?t = "snd (init_token C env pin label t)" and ?ss = "sm_sessions (co_sessions c)"
  have none: "\<not> in_slot sl x" if "x \<in> set ?ss" for x using assms(3) that by (simp add: filter_empty_conv)
  have "slot_inv sl t ?ss" using assms(1,2) by (simp add: core_ok_def)
  then have "session_total t = 0" "rw_session_total t = 0"
    using none by (auto simp: slot_inv_def slot_counted_def filter_empty_conv)
  then have "session_total ?t = 0" "rw_session_total ?t = 0"
    using init_token_frame [of C env pin label t] by (cases "fst (init_token C env pin label t)"; simp)+
  then have "slot_inv sl ?t ?ss" using none by (auto simp: slot_inv_def slot_counted_def slot_logins_def filter_empty_conv)
  then show ?thesis using token_same_step [OF assms(1,2)] by simp
qed

lemma C_InitToken_state:
  assumes "snd (C_InitToken X sl pin label p) \<noteq> p"
  shows "\<exists>c t pin1 label1 t1 sm1. pr_hsm p = Some c \<and> map_of (co_tokens c) sl = Some t \<and>
    close_all_sessions (x_tid X) sl t (co_sessions c) = (t1, sm1) \<and>
    pr_hsm (snd (C_InitToken X sl pin label p)) = Some (c\<lparr>co_tokens :=
        AList.update sl (snd (init_token (x_pin X) (x_tok X) pin1 label1 t1)) (AList.update sl t1 (co_tokens c)),
      co_sessions := sm1, co_objects := clear_persist_key (clear_objects (x_store X) (co_objects c))\<rparr>)"
proof -
  obtain c where c: "pr_hsm p = Some c"
    using assms by (cases "pr_hsm p") (auto simp: C_InitToken_def catch_state act_run)
  obtain pin1 label1 t where s: "pin = Some pin1" "label = Some label1" and t: "map_of (co_tokens c) sl = Some t"
    using assms c by (auto simp: C_InitToken_def catch_state act_run split: if_splits option.splits)
  obtain t1 sm1 where cl: "close_all_sessions (x_tid X) sl t (co_sessions c) = (t1, sm1)"
    by (cases "close_all_sessions (x_tid X) sl t (co_sessions c)")
  show ?thesis
    using assms c s t cl
    by (intro exI [of _ c] exI [of _ t] exI [of _ pin1] exI [of _ label1] exI [of _ t1] exI [of _ sm1])
      (auto simp: C_InitToken_def catch_state act_run update_conv split: if_splits sum.split)
qed

lemma C_InitToken_agrees: "acts agree (C_InitToken X sl pin label)"
proof (rule actsI)
  fix p
  let ?q = "snd (C_InitToken X sl pin label p)"
  show "agree p ?q"
  proof (cases "?q = p")
    case False
    obtain c t pin1 label1 t1 sm1 where c: "pr_hsm p = Some c" and t: "map_of (co_tokens c) sl = Some t"
        and cl: "close_all_sessions (x_tid X) sl t (co_sessions c) = (t1, sm1)"
        and q: "pr_hsm ?q = Some (c\<lparr>co_tokens :=
            AList.update sl (snd (init_token (x_pin X) (x_tok X) pin1 label1 t1)) (AList.update sl t1 (co_tokens c)),
          co_sessions := sm1, co_objects := clear_persist_key (clear_objects (x_store X) (co_objects c))\<rparr>)"
      using False C_InitToken_state by metis
    have "core_ok keys n (the (pr_hsm ?q))" if ok: "core_ok keys n c" for keys n
    proof -
      let ?c1 = "c\<lparr>co_tokens := AList.update sl t1 (co_tokens c), co_sessions := sm1\<rparr>"
      have "slot_inv sl t (sm_sessions (co_sessions c))" using ok t by (simp add: core_ok_def)
      then have "filter (in_slot sl) (sm_sessions sm1) = []" by (rule close_all_sessions_inv(2) [OF cl])
      then have "core_ok keys n (?c1\<lparr>co_tokens := AList.update sl (snd (init_token (x_pin X) (x_tok X) pin1 label1 t1)) (co_tokens ?c1)\<rparr>)"
        by (intro init_token_step [OF close_all_step [OF ok t cl]]) (simp_all add: update_conv)
      then show ?thesis using q by (simp add: core_ok_def)
    qed
    then show ?thesis using q c by (auto simp: agree_def process_ok_def)
  qed (simp add: agree_def)
qed

section \<open>Initialising\<close>

lemma new_token_counts:
  "session_total (new_with_config_for_slot C config l f) = 0" "rw_session_total (new_with_config_for_slot C config l f) = 0"
  by (simp_all add: new_with_config_for_slot_def token_of_auth_def restore_token_state_def session_total_def
      rw_session_total_def Let_def split: option.split)

lemma new_slots_distinct: "distinct (map fst (slot_manager_new_with_config C env config))"
proof -
  have "inj_on (word_of_nat :: nat \<Rightarrow> u64) {0 ..< m}" if "m \<le> 2 ^ 64" for m
    by (rule inj_on_inverseI [of _ unat]) (use that in \<open>simp add: unat_of_nat\<close>)
  then show ?thesis by (simp add: slot_manager_new_with_config_def Let_def distinct_map comp_def)
qed

lemma new_slot_token:
  assumes "map_of (slot_manager_new_with_config C env config) sl = Some t"
  shows "session_total t = 0" "rw_session_total t = 0"
  using map_of_SomeD [OF assms] new_token_counts by (auto simp: slot_manager_new_with_config_def Let_def)

lemma try_new_ok:
  assumes "try_new X config = Inr c"
  shows "core_ok (be_session_keys (x_boot X)) 0 c"
proof -
  have c: "co_tokens c = slot_manager_new_with_config (x_pin X) (x_boot X) config"
      "co_sessions c = session_manager_new (be_session_keys (x_boot X))"
    using assms by (auto simp: try_new_def res_bind_def Let_def split: if_splits sum.splits)
  have empty: "sm_sessions (session_manager_new ks) = []" for ks by (simp add: session_manager_new_def)
  have "slot_inv sl t []" if "map_of (co_tokens c) sl = Some t" for sl t
    using new_slot_token that c(1) by (simp add: slot_inv_def slot_counted_def slot_logins_def)
  then show ?thesis
    using new_slots_distinct by (simp add: core_ok_def c empty mgr_new table_wf_def)
qed

lemma process_ok_le: "process_ok m p \<Longrightarrow> m \<le> n \<Longrightarrow> process_ok n p"
  by (induction n) (auto simp: le_Suc_eq process_ok_mono)

lemma C_Initialize_ok: "process_ok n p \<Longrightarrow> process_ok n (snd (C_Initialize X p))"
proof (cases "pr_hsm p")
  case None
  have "process_ok 0 (snd (C_Initialize X p))"
    using None by (auto simp: C_Initialize_def catch_unwind_def process_ok_def Let_def dest: try_new_ok split: sum.split)
      (metis core_ok_same hsm_core.select_convs(1,2) hsm_core.surjective hsm_core.update_convs(4) try_new_ok)
  then show ?thesis by (rule process_ok_le) simp
qed (simp add: C_Initialize_def catch_unwind_def)

lemma C_Finalize_ok: "process_ok n p \<Longrightarrow> process_ok n (snd (C_Finalize X r p))"
  by (auto simp: C_Finalize_def catch_unwind_def process_ok_def Let_def split: option.split)

section \<open>Every reachable state\<close>

definition process_new :: process where
  "process_new = \<lparr>pr_hsm = None, pr_post_failed = False, pr_init_pid = 0, pr_ciphers = cipher_state_new, pr_retired = None\<rparr>"

text \<open>The states of a process after a number of calls.\<close>

inductive abi_reach :: "nat \<Rightarrow> process \<Rightarrow> bool" where
  reach_new: "abi_reach 0 process_new"
| reach_initialize: "abi_reach n p \<Longrightarrow> C_Initialize X p = (r, q) \<Longrightarrow> abi_reach n q"
| reach_finalize: "abi_reach n p \<Longrightarrow> C_Finalize X b p = (r, q) \<Longrightarrow> abi_reach n q"
| reach_call: "abi_reach n p \<Longrightarrow> run_call c X p = (rv, q) \<Longrightarrow> abi_reach (Suc n) q"

lemma run_call_ok:
  assumes "process_ok n p" "Suc n < 2 ^ 64"
  shows "process_ok (Suc n) (snd (run_call c X p))"
proof (cases "\<exists>sl flags b. c = CallOpenSession sl flags b")
  case True
  then show ?thesis using C_OpenSession_ok [OF assms] by auto
next
  case False
  then have "acts agree (run_call c X)"
    using agreement.acts_call_frame [of c X]
    by (cases c) (auto simp: session_call_def acts_code C_CloseSession_agrees C_Login_agrees C_InitToken_agrees)
  then have "process_ok n (snd (run_call c X p))" using assms(1) by (simp add: acts_def agree_def)
  then show ?thesis by (rule process_ok_mono)
qed

lemma reach_ok: "abi_reach n p \<Longrightarrow> n < 2 ^ 64 \<Longrightarrow> process_ok n p"
proof (induction rule: abi_reach.induct)
  case reach_new
  then show ?case by (simp add: process_ok_def process_new_def)
next
  case (reach_initialize n p X r q)
  then show ?case using C_Initialize_ok [of n p X] by simp
next
  case (reach_finalize n p X b r q)
  then show ?case using C_Finalize_ok [of n p X b] by simp
next
  case (reach_call n p c X rv q)
  then show ?case using run_call_ok [of n p c X] by simp
qed

end
