(* ===== verification/Abi_Protection.thy ===== *)
theory Abi_Protection
  imports Abi_Consistency
begin

text \<open>
  Keys that may not leave the library. The protection of a key object, its key material and the
  flags \<open>CKA_SENSITIVE\<close>, \<open>CKA_EXTRACTABLE\<close> and \<open>CKA_PRIVATE\<close>, is fixed when the object is
  created: no entry point changes it. A sealed key, one that is sensitive and not extractable, is
  therefore refused by every entry point that hands out key material, for as long as it exists.
\<close>

section \<open>The relation on object stores\<close>

definition sealed :: "stored_object \<Rightarrow> bool" where
  "sealed obj \<longleftrightarrow> ob_sensitive obj \<and> \<not> ob_extractable obj"

definition same_protection :: "stored_object \<Rightarrow> stored_object \<Rightarrow> bool" where
  "same_protection obj obj' \<longleftrightarrow>
     ob_key_material obj' = ob_key_material obj \<and> ob_sensitive obj' = ob_sensitive obj \<and>
     ob_extractable obj' = ob_extractable obj \<and> ob_private obj' = ob_private obj"

definition heap_bounded :: "object_store \<Rightarrow> bool" where
  "heap_bounded os \<longleftrightarrow> (\<forall>a \<in> fst ` set (os_heap os). a < os_next_addr os)"

definition keeps :: "object_store \<Rightarrow> object_store \<Rightarrow> bool" where
  "keeps os os' \<longleftrightarrow> (heap_bounded os \<longrightarrow> heap_bounded os' \<and>
     (\<forall>a obj. obj_at a os = Some obj \<longrightarrow> (\<exists>obj'. obj_at a os' = Some obj' \<and> same_protection obj obj')))"

lemma same_protection_refl [simp]: "same_protection obj obj"
  by (simp add: same_protection_def)

lemma keeps_trans: "keeps os1 os2 \<Longrightarrow> keeps os2 os3 \<Longrightarrow> keeps os1 os3"
  unfolding keeps_def same_protection_def by (metis (no_types, lifting))

lemma keeps_same: "os_heap os' = os_heap os \<Longrightarrow> os_next_addr os' = os_next_addr os \<Longrightarrow> keeps os os'"
  by (auto simp: keeps_def heap_bounded_def obj_at_def)

lemma keeps_insert: "keeps os (map_insert h obj os)"
proof -
  have "obj_at a (map_insert h obj os) = obj_at a os" if "heap_bounded os" "obj_at a os = Some x" for a x
    using that by (force simp: heap_bounded_def obj_at_def map_insert_def dest: map_of_SomeD)
  moreover have "heap_bounded (map_insert h obj os)" if "heap_bounded os"
    using that by (auto simp: heap_bounded_def map_insert_def update_conv' dom_update less_Suc_eq)
  ultimately show ?thesis by (auto simp: keeps_def)
qed

lemma keeps_write: "obj_at a os = Some obj \<Longrightarrow> same_protection obj obj' \<Longrightarrow> keeps os (write_obj a obj' os)"
  by (force simp: keeps_def heap_bounded_def obj_at_def write_obj_def dom_update dest: map_of_SomeD)

lemma store_frame [simp]:
  "os_heap (snd (next_handle os)) = os_heap os" "os_next_addr (snd (next_handle os)) = os_next_addr os"
  "os_heap (persist_object C J env obj os) = os_heap os" "os_next_addr (persist_object C J env obj os) = os_next_addr os"
  "os_heap (unpersist_object C env h os) = os_heap os" "os_next_addr (unpersist_object C env h os) = os_next_addr os"
  by (auto simp: next_handle_def persist_object_def unpersist_object_def get_store_key_def generate_store_key_def Let_def
      split: option.splits prod.splits)

lemma keeps_create: "keeps os (snd (create_object C J env tmpl os))"
proof -
  have k: "keeps os (map_insert h obj (persist_object C J env obj os1))"
    if "os_heap os1 = os_heap os" "os_next_addr os1 = os_next_addr os" for h obj os1
    by (rule keeps_trans [OF keeps_same keeps_insert]) (simp_all add: that)
  have nh: "os_heap os1 = os_heap os \<and> os_next_addr os1 = os_next_addr os" if "next_handle os = (r, os1)" for r os1
    using store_frame(1,2) [of os] that by simp
  show ?thesis
    using nh by (auto simp: create_object_def keeps_same k split: option.split prod.split sum.split)
qed

lemma keeps_insert_object: "keeps os (snd (insert_object C J env obj os))"
  by (auto simp: insert_object_def keeps_same intro: keeps_trans [OF keeps_same keeps_insert])

lemma keeps_destroy: "keeps os (snd (destroy_object C env h os))"
  by (auto simp: destroy_object_def keeps_same map_remove_def split: option.split)

lemma keeps_load_entries: "keeps os (snd (load_entries C J env store key keys n os))"
proof (induction keys arbitrary: n os)
  case (Cons k keys)
  have "keeps os (load_object k obj os)" for obj
    unfolding load_object_def by (rule keeps_trans [OF keeps_same keeps_insert]) simp_all
  then show ?case
    using Cons.IH by (auto simp: keeps_same intro: keeps_trans split: sum.split option.split)
qed (simp add: keeps_same)

lemma keeps_load: "keeps os (snd (load_from_store C J env os))"
  by (simp add: load_from_store_def keeps_same keeps_load_entries split: option.split sum.split)

lemma set_attributes_protection: "same_protection obj (snd (set_attributes tmpl obj))"
  by (induction tmpl obj rule: set_attributes.induct) (simp_all add: same_protection_def)

section \<open>Every entry point keeps the protection of the keys\<close>

definition guards :: "process \<Rightarrow> process \<Rightarrow> bool" where
  "guards p q \<longleftrightarrow>
     (case pr_hsm p of
        None \<Rightarrow> pr_hsm q = None
      | Some c \<Rightarrow> (\<exists>c'. pr_hsm q = Some c' \<and> keeps (co_objects c) (co_objects c')))"

lemma guards_core: "(\<And>c. keeps (co_objects c) (co_objects (snd (f c)))) \<Longrightarrow> acts guards (on_core f)"
  by (auto simp: acts_def guards_def on_core_def split: option.split prod.split) (metis snd_conv)

lemma guards_objects: "(\<And>os. keeps os (snd (f os))) \<Longrightarrow> acts guards (on_objects f)"
  unfolding on_objects_def by (rule guards_core) (simp split: prod.split, metis snd_conv)

lemma guards_sessions: "acts guards (on_sessions f)"
  unfolding on_sessions_def by (rule guards_core) (simp add: keeps_same split: prod.split)

lemma guards_token: "acts guards (on_token sl f)" "acts guards (on_token_sessions sl g)"
  by (auto simp: acts_def guards_def on_token_def on_token_sessions_def keeps_same split: option.split prod.split)

interpretation protection: abi_full guards
proof unfold_locales
  show "guards p r" if "guards p q" "guards q r" for p q r
    using that by (auto simp: guards_def intro: keeps_trans split: option.splits)
  show "acts guards (update_object addr (\<lambda>obj. snd (set_attributes tmpl obj)))" for addr tmpl
    unfolding update_object_def
    by (rule guards_objects) (auto simp: keeps_same intro: keeps_write set_attributes_protection split: option.split)
  show "guards p p" "guards p (p\<lparr>pr_ciphers := s\<rparr>)" for p s by (simp_all add: guards_def keeps_same split: option.split)
  show "acts guards (on_objects (\<lambda>os. ((), snd (load_from_store C J senv os))))" for C J senv
    by (rule guards_objects) (simp add: keeps_load)
  show "acts guards set_post_failed" by (simp add: acts_def guards_def set_post_failed_def keeps_same split: option.split)
qed (auto simp: set_operation_def set_find_context_def audit_def logout_slot_def login_slot_def
      clear_objects_def clear_persist_key_def set_persist_key_def
    intro!: guards_objects guards_core guards_sessions guards_token keeps_same keeps_create keeps_insert_object
      keeps_destroy)

lemma run_guards:
  assumes "abi_run p q" "pr_hsm p = Some c" "heap_bounded (co_objects c)" "obj_at a (co_objects c) = Some obj"
  obtains c' obj' where "pr_hsm q = Some c'" "heap_bounded (co_objects c')" "obj_at a (co_objects c') = Some obj'"
    "same_protection obj obj'"
proof -
  obtain c' where "pr_hsm q = Some c'" "keeps (co_objects c) (co_objects c')"
    using protection.run_relation [OF assms(1)] assms(2) by (auto simp: guards_def)
  then show ?thesis using assms(3,4) that unfolding keeps_def by blast
qed

lemma reach_heap_bounded: "abi_reach n p \<Longrightarrow> pr_hsm p = Some c \<Longrightarrow> heap_bounded (co_objects c)"
proof (induction arbitrary: c rule: abi_reach.induct)
  case reach_new
  then show ?case by (simp add: process_new_def)
next
  case (reach_initialize n p X r q)
  show ?case
  proof (cases "pr_hsm p")
    case None
    have "heap_bounded (co_objects c1)" if "try_new X config = Inr c1" for config c1
      using that by (auto simp: try_new_def build_object_store_def with_persistence_def object_store_new_def heap_bounded_def
          res_bind_def res_map_def Let_def split: if_splits sum.splits)
    then show ?thesis
      using reach_initialize.hyps(2) reach_initialize.prems None
      by (auto simp: C_Initialize_def catch_unwind_def Let_def split: if_splits sum.splits)
  next
    case (Some c1)
    then show ?thesis using reach_initialize by (simp add: C_Initialize_def catch_unwind_def)
  qed
next
  case (reach_finalize n p X b r q)
  then show ?case by (auto simp: C_Finalize_def catch_unwind_def Let_def split: if_splits option.splits)
next
  case (reach_call n p call X rv q)
  have g: "guards p q" using actsD [OF protection.acts_call, of p call X] reach_call.hyps(2) by simp
  show ?case
  proof (cases "pr_hsm p")
    case None
    then show ?thesis using g reach_call.prems by (simp add: guards_def)
  next
    case (Some c1)
    then show ?thesis using g reach_call.IH reach_call.prems by (auto simp: guards_def keeps_def)
  qed
qed

section \<open>A sealed key is refused\<close>

lemma sealed_not_read: "sealed obj \<Longrightarrow> \<exists>e. read_attribute obj CKA_VALUE is_logged_in = Inl e"
  by (simp add: read_attribute_def sealed_def)

lemma get_attributes_Cons:
  "\<exists>x rv1. snd (get_attributes obj b (q # attrs) rv) = x # snd (get_attributes obj b attrs rv1)"
proof -
  obtain t n l where q: "q = (t, n, l)" by (cases q)
  show ?thesis unfolding q by (simp add: Let_def split: prod.split) (metis snd_conv)
qed

lemma get_attributes_sealed:
  assumes "sealed obj" "i < length attrs" "fst (attrs ! i) = CKA_VALUE"
  shows "i < length (snd (get_attributes obj b attrs rv)) \<and>
    snd (get_attributes obj b attrs rv) ! i = (None, CK_UNAVAILABLE_INFORMATION)"
  using assms(2,3)
proof (induction attrs arbitrary: i rv)
  case (Cons q attrs)
  obtain t n l where q: "q = (t, n, l)" by (cases q)
  show ?case
  proof (cases i)
    case 0
    obtain e where "read_attribute obj CKA_VALUE b = Inl e" using sealed_not_read [OF assms(1)] by blast
    then show ?thesis using 0 Cons.prems q by (simp add: Let_def split: prod.split)
  next
    case (Suc j)
    obtain x rv1 where "snd (get_attributes obj b (q # attrs) rv) = x # snd (get_attributes obj b attrs rv1)"
      using get_attributes_Cons by blast
    then show ?thesis using Suc Cons by simp
  qed
qed simp

text \<open>The handler of a key looks it up by its handle.\<close>

lemma lookup_denoted:
  assumes "map_of (os_objects os) h = Some a" "obj_at a os = Some obj"
  shows "res_bind (get_object h os) (\<lambda>addr. res_map (Pair addr) (ok_or ObjectHandleInvalid (obj_at addr os))) = Inr (a, obj)"
  using assms by (simp add: get_object_def)

lemma get_value_refused:
  assumes "pr_hsm q = Some c" "map_of (os_objects (co_objects c)) h = Some a" "obj_at a (co_objects c) = Some obj" "sealed obj"
    "fst (C_GetAttributeValue X session h (Some attrs) q) = (rv, Some answers)" "i < length attrs" "fst (attrs ! i) = CKA_VALUE"
  shows "answers ! i = (None, CK_UNAVAILABLE_INFORMATION)"
proof -
  note found = lookup_denoted [OF assms(2,3)]
  obtain s where s: "map_of (sm_sessions (co_sessions c)) session = Some s"
    using assms(1,5) by (auto simp: C_GetAttributeValue_def catch_unwind_def act_run split: if_splits option.splits)
  have "answers = snd (get_attributes obj (state_is_logged_in (ss_state s)) attrs CKR_OK)"
    using assms(1,5) s found by (auto simp: C_GetAttributeValue_def catch_unwind_def act_run split: if_splits prod.splits)
  then show ?thesis using get_attributes_sealed [OF assms(4,6,7)] by simp
qed

lemma wrap_refused:
  assumes "pr_hsm q = Some c" "map_of (os_objects (co_objects c)) h = Some a" "obj_at a (co_objects c) = Some obj" "sealed obj"
  shows "snd (fst (C_WrapKey X session m wk h b n q)) = None"
  using assms
  by (auto simp: C_WrapKey_def catch_unwind_def act_run find_object_def policy_check_def enforce_size_def lookup_denoted [OF assms(2,3)]
      sealed_def split: if_splits option.splits sum.splits prod.splits)

lemma digest_refused:
  assumes "pr_hsm q = Some c" "map_of (os_objects (co_objects c)) h = Some a" "obj_at a (co_objects c) = Some obj" "sealed obj"
  shows "fst (fst (C_DigestKey X session h q)) \<noteq> CKR_OK \<and> snd (C_DigestKey X session h q) = q"
  using assms
  by (auto simp: C_DigestKey_def catch_unwind_def act_run find_key_def lookup_denoted [OF assms(2,3)] sealed_def
      split: option.split active_operation.split)

lemma copy_attribute_sealed:
  "copy_attribute obj attr_type v = Inr obj' \<Longrightarrow> sealed obj \<Longrightarrow> sealed obj' \<and> ob_key_material obj' = ob_key_material obj"
  by (auto simp: copy_attribute_def copy_flag_def sealed_def res_bind_eq_Inr res_map_def split: if_splits option.splits sum.splits)

lemma copy_attributes_sealed:
  "copy_attributes tmpl obj = Inr obj' \<Longrightarrow> sealed obj \<Longrightarrow> sealed obj' \<and> ob_key_material obj' = ob_key_material obj"
proof (induction tmpl obj rule: copy_attributes.induct)
  case (2 attr_type v attrs obj)
  then obtain obj1 where "copy_attribute obj attr_type (opt_bytes v) = Inr obj1" "copy_attributes attrs obj1 = Inr obj'"
    by (auto simp: res_bind_eq_Inr split: if_splits)
  then show ?case using 2 copy_attribute_sealed by (metis (no_types, lifting) copy_attributes.simps(2) not_le res_bind_simps(2) sum.distinct(1))
qed simp

lemma copy_sealed:
  assumes "pr_hsm q = Some c" "map_of (os_objects (co_objects c)) h = Some a" "obj_at a (co_objects c) = Some obj" "sealed obj"
    "C_CopyObject X session h tmpl b q = ((CKR_OK, Some h'), q')"
  shows "\<exists>c' obj'. pr_hsm q' = Some c' \<and> os_lookup (co_objects c') h' = Some obj' \<and> sealed obj' \<and>
    ob_key_material obj' = ob_key_material obj"
proof -
  obtain r os1 where nr: "next_handle (co_objects c) = (r, os1)" by (cases "next_handle (co_objects c)")
  obtain nh where "r = Inr nh"
    using assms(1,5) nr
    by (auto simp: C_CopyObject_def catch_unwind_def act_run lookup_denoted [OF assms(2,3)] split: if_splits option.splits sum.splits)
  with nr have nx: "next_handle (co_objects c) = (Inr nh, os1)" by simp
  obtain obj' where cp: "copy_attributes (case tmpl of None \<Rightarrow> [] | Some attrs \<Rightarrow> take MAX_TEMPLATE_ATTRS attrs)
      (obj\<lparr>ob_handle := nh\<rparr>) = Inr obj'"
    using assms(1,5) nx
    by (auto simp: C_CopyObject_def catch_unwind_def act_run lookup_denoted [OF assms(2,3)] split: if_splits option.splits sum.splits)
  have s: "sealed obj'" "ob_key_material obj' = ob_key_material obj"
    using copy_attributes_sealed [OF cp] assms(4) by (simp_all add: sealed_def)
  have "h' = ob_handle obj' \<and> pr_hsm q' = Some (c\<lparr>co_objects := map_insert (ob_handle obj') obj'
      (persist_object (x_pin X) (x_codec X) (x_store X) obj' os1)\<rparr>)"
    using assms(1,5) nx cp
    by (auto simp: C_CopyObject_def catch_unwind_def act_run lookup_denoted [OF assms(2,3)] insert_object_def
        split: if_splits option.splits sum.splits)
  then show ?thesis using s by (auto simp: os_lookup_def map_insert_def obj_at_def)
qed

end
