(* ===== verification/Signing.thy ===== *)
theory Signing
  imports Crypto_Backend
begin

text \<open>
  The signing and RSA encryption routines of the default backend (\<open>src/src/crypto/sign.rs\<close>) and the
  caches of parsed RSA keys they work on. The crates for RSA, ECDSA and Ed25519 are records of
  functions; a parsed key is a byte string the crate understands. A random number generator is the
  stream it will deliver, or the error of creating it; a generator that fails later ends the process.

  Each RSA routine exists twice in the source: with a key parsed through the cache indexed by the
  digest of the encoding, and with a key found through the cache indexed by slot and handle. The second
  part shows that both compute what the routine without any cache computes, as long as the entries of
  the caches stem from the keys they are used for.
\<close>

section \<open>Third-party code\<close>

type_synonym rng = "bytes hsm_result"

record rsa_crate =
  rsa_from_pkcs8_der :: "bytes \<Rightarrow> bytes option"
  rsa_modulus_bits :: "bytes \<Rightarrow> nat"
  rsa_public_new :: "nat \<Rightarrow> nat \<Rightarrow> bytes option"
  rsa_sign_pkcs1v15 :: "hash_alg \<Rightarrow> bytes \<Rightarrow> bytes \<Rightarrow> bytes"
  rsa_pkcs1v15_signature :: "bytes \<Rightarrow> bytes option"
  rsa_verify_pkcs1v15 :: "hash_alg \<Rightarrow> bytes \<Rightarrow> bytes \<Rightarrow> bytes \<Rightarrow> bool"
  rsa_sign_pss :: "hash_alg \<Rightarrow> bytes \<Rightarrow> bytes \<Rightarrow> bytes \<Rightarrow> bytes"
  rsa_pss_signature :: "bytes \<Rightarrow> bytes option"
  rsa_verify_pss :: "hash_alg \<Rightarrow> bytes \<Rightarrow> bytes \<Rightarrow> bytes \<Rightarrow> bool"
  rsa_encrypt_oaep :: "oaep_hash \<Rightarrow> bytes \<Rightarrow> bytes \<Rightarrow> bytes \<Rightarrow> bytes option"
  rsa_decrypt_oaep :: "oaep_hash \<Rightarrow> bytes \<Rightarrow> bytes \<Rightarrow> bytes option"
  rsa_sign_digest :: "hash_alg \<Rightarrow> bytes \<Rightarrow> bytes \<Rightarrow> bytes option"
  rsa_verify_digest :: "hash_alg \<Rightarrow> bytes \<Rightarrow> bytes \<Rightarrow> bytes \<Rightarrow> bool"
  rsa_sign_pss_digest :: "hash_alg \<Rightarrow> bytes \<Rightarrow> bytes \<Rightarrow> bytes \<Rightarrow> bytes option"
  rsa_verify_pss_digest :: "hash_alg \<Rightarrow> bytes \<Rightarrow> bytes \<Rightarrow> bytes \<Rightarrow> bool"

record ecdsa_crate =
  ec_signing_key :: "bytes \<Rightarrow> bytes option"
  ec_sign :: "bytes \<Rightarrow> bytes \<Rightarrow> bytes \<Rightarrow> bytes"
  ec_sign_digest :: "bytes \<Rightarrow> bytes \<Rightarrow> bytes \<Rightarrow> bytes option"
  ec_verifying_key :: "bytes \<Rightarrow> bytes option"
  ec_signature :: "bytes \<Rightarrow> bytes option"
  ec_verify :: "bytes \<Rightarrow> bytes \<Rightarrow> bytes \<Rightarrow> bool"
  ec_verify_digest :: "bytes \<Rightarrow> bytes \<Rightarrow> bytes \<Rightarrow> bool"

record ed25519_crate =
  ed_sign :: "bytes \<Rightarrow> bytes \<Rightarrow> bytes"
  ed_verifying_key :: "bytes \<Rightarrow> bytes option"
  ed_verify :: "bytes \<Rightarrow> bytes \<Rightarrow> bytes \<Rightarrow> bool"

section \<open>Caches\<close>

text \<open>An indexed map keeps its entries in the order of their insertion; the least recently used entry
  is the first.\<close>

abbreviation (input) RSA_KEY_CACHE_MAX :: nat where "RSA_KEY_CACHE_MAX \<equiv> 64"

definition lru_insert :: "'k \<Rightarrow> 'v \<Rightarrow> ('k \<times> 'v) list \<Rightarrow> ('k \<times> 'v) list" where
  "lru_insert key value m =
    AList.update key value (if key \<notin> fst ` set m \<and> length m \<ge> RSA_KEY_CACHE_MAX then tl m else m)"

definition lru_get :: "'k \<Rightarrow> ('k \<times> 'v) list \<Rightarrow> 'v option \<times> ('k \<times> 'v) list" where
  "lru_get key m =
    (case map_of m key of
       None \<Rightarrow> (None, m)
     | Some value \<Rightarrow> (Some value, AList.delete key m @ [(key, value)]))"

record rsa_caches =
  rca_der :: "(bytes \<times> bytes) list"
  rca_priv :: "((u64 \<times> u64) \<times> bytes) list"
  rca_pub :: "((u64 \<times> u64) \<times> bytes) list"

definition rsa_caches_new :: rsa_caches where
  "rsa_caches_new = \<lparr>rca_der = [], rca_priv = [], rca_pub = []\<rparr>"

definition evict_cached_keys :: "u64 \<Rightarrow> u64 \<Rightarrow> rsa_caches \<Rightarrow> rsa_caches" where
  "evict_cached_keys slot_id handle cs =
    cs\<lparr>rca_priv := AList.delete (slot_id, handle) (rca_priv cs), rca_pub := AList.delete (slot_id, handle) (rca_pub cs)\<rparr>"

definition clear_rsa_key_cache :: "rsa_caches \<Rightarrow> rsa_caches" where
  "clear_rsa_key_cache cs = rsa_caches_new"

definition parse_rsa_private_key :: "rsa_crate \<Rightarrow> (bytes \<Rightarrow> bytes) \<Rightarrow> bytes \<Rightarrow> rsa_caches \<Rightarrow> bytes hsm_result \<times> rsa_caches" where
  "parse_rsa_private_key R sha256 der cs =
    (case lru_get (sha256 der) (rca_der cs) of
       (Some key, m) \<Rightarrow> (Inr key, cs\<lparr>rca_der := m\<rparr>)
     | (None, m) \<Rightarrow>
        (case rsa_from_pkcs8_der R der of
           None \<Rightarrow> (Inl KeyHandleInvalid, cs)
         | Some key \<Rightarrow> (Inr key, cs\<lparr>rca_der := lru_insert (sha256 der) key (rca_der cs)\<rparr>)))"

definition get_or_parse_private_key :: "rsa_crate \<Rightarrow> u64 \<Rightarrow> u64 \<Rightarrow> bytes \<Rightarrow> rsa_caches \<Rightarrow> bytes hsm_result \<times> rsa_caches" where
  "get_or_parse_private_key R slot_id handle der cs =
    (case lru_get (slot_id, handle) (rca_priv cs) of
       (Some key, m) \<Rightarrow> (Inr key, cs\<lparr>rca_priv := m\<rparr>)
     | (None, m) \<Rightarrow>
        (case rsa_from_pkcs8_der R der of
           None \<Rightarrow> (Inl KeyHandleInvalid, cs)
         | Some key \<Rightarrow> (Inr key, cs\<lparr>rca_priv := lru_insert (slot_id, handle) key (rca_priv cs)\<rparr>)))"

definition be_nat :: "bytes \<Rightarrow> nat" where
  "be_nat bs = foldl (\<lambda>acc b. acc * 256 + unat b) 0 bs"

definition build_public_key :: "rsa_crate \<Rightarrow> bytes \<Rightarrow> bytes \<Rightarrow> bytes hsm_result" where
  "build_public_key R modulus public_exponent = ok_or KeyHandleInvalid (rsa_public_new R (be_nat modulus) (be_nat public_exponent))"

definition get_or_build_public_key ::
  "rsa_crate \<Rightarrow> u64 \<Rightarrow> u64 \<Rightarrow> bytes \<Rightarrow> bytes \<Rightarrow> rsa_caches \<Rightarrow> bytes hsm_result \<times> rsa_caches" where
  "get_or_build_public_key R slot_id handle modulus public_exponent cs =
    (case lru_get (slot_id, handle) (rca_pub cs) of
       (Some key, m) \<Rightarrow> (Inr key, cs\<lparr>rca_pub := m\<rparr>)
     | (None, m) \<Rightarrow>
        (case build_public_key R modulus public_exponent of
           Inl e \<Rightarrow> (Inl e, cs)
         | Inr key \<Rightarrow> (Inr key, cs\<lparr>rca_pub := lru_insert (slot_id, handle) key (rca_pub cs)\<rparr>)))"

section \<open>Validation\<close>

abbreviation (input) RSA_MIN_MODULUS_BITS :: nat where "RSA_MIN_MODULUS_BITS \<equiv> 2048"
abbreviation (input) SIGN_MAX_DATA_SIZE :: nat where "SIGN_MAX_DATA_SIZE \<equiv> 67108864"

definition validate_data_size :: "bytes \<Rightarrow> unit hsm_result" where
  "validate_data_size data = (if length data > SIGN_MAX_DATA_SIZE then Inl DataLenRange else Inr ())"

definition hash_len :: "hash_alg \<Rightarrow> nat" where
  "hash_len h = (case h of Sha256 \<Rightarrow> 32 | Sha384 \<Rightarrow> 48 | Sha512 \<Rightarrow> 64)"

definition validate_digest_length :: "bytes \<Rightarrow> hash_alg \<Rightarrow> unit hsm_result" where
  "validate_digest_length digest hash = (if length digest \<noteq> hash_len hash then Inl DataLenRange else Inr ())"

definition validate_rsa_private_key_size :: "rsa_crate \<Rightarrow> bytes \<Rightarrow> unit hsm_result" where
  "validate_rsa_private_key_size R key = (if rsa_modulus_bits R key < RSA_MIN_MODULUS_BITS then Inl KeySizeRange else Inr ())"

text \<open>The number of bits of a big-endian integer, from its bytes.\<close>

definition byte_bits :: "byte \<Rightarrow> nat" where
  "byte_bits b = length (takeWhile (\<lambda>i. 2 ^ i \<le> unat b) [0 ..< 8])"

definition modulus_bits_of :: "bytes \<Rightarrow> nat" where
  "modulus_bits_of modulus =
    (let significant_bytes = dropWhile (\<lambda>b. b = 0) modulus in
     case significant_bytes of
       [] \<Rightarrow> 0
     | b # bs \<Rightarrow> length bs * 8 + byte_bits b)"

definition validate_rsa_public_key_size :: "bytes \<Rightarrow> unit hsm_result" where
  "validate_rsa_public_key_size modulus = (if modulus_bits_of modulus < RSA_MIN_MODULUS_BITS then Inl KeySizeRange else Inr ())"

section \<open>The routines on a parsed key\<close>

definition pkcs1v15_sign_with :: "rsa_crate \<Rightarrow> hash_alg option \<Rightarrow> bytes \<Rightarrow> bytes \<Rightarrow> bytes hsm_result" where
  "pkcs1v15_sign_with R hash data key =
    (case hash of Some h \<Rightarrow> Inr (rsa_sign_pkcs1v15 R h key data) | None \<Rightarrow> Inl MechanismParamInvalid)"

definition pkcs1v15_verify_with :: "rsa_crate \<Rightarrow> hash_alg option \<Rightarrow> bytes \<Rightarrow> bytes \<Rightarrow> bytes \<Rightarrow> bool hsm_result" where
  "pkcs1v15_verify_with R hash data signature key =
    (case hash of
       Some h \<Rightarrow> res_map (rsa_verify_pkcs1v15 R h key data) (ok_or SignatureInvalid (rsa_pkcs1v15_signature R signature))
     | None \<Rightarrow> Inl MechanismParamInvalid)"

definition pss_sign_with :: "rsa_crate \<Rightarrow> rng \<Rightarrow> hash_alg \<Rightarrow> bytes \<Rightarrow> bytes \<Rightarrow> bytes hsm_result" where
  "pss_sign_with R rng hash data key = res_map (\<lambda>stream. rsa_sign_pss R hash stream key data) rng"

definition pss_verify_with :: "rsa_crate \<Rightarrow> hash_alg \<Rightarrow> bytes \<Rightarrow> bytes \<Rightarrow> bytes \<Rightarrow> bool hsm_result" where
  "pss_verify_with R hash data signature key =
    res_map (rsa_verify_pss R hash key data) (ok_or SignatureInvalid (rsa_pss_signature R signature))"

definition oaep_encrypt_with :: "rsa_crate \<Rightarrow> rng \<Rightarrow> oaep_hash \<Rightarrow> bytes \<Rightarrow> bytes \<Rightarrow> bytes hsm_result" where
  "oaep_encrypt_with R rng hash plaintext key =
    res_bind rng (\<lambda>stream. ok_or GeneralError (rsa_encrypt_oaep R hash stream key plaintext))"

definition oaep_decrypt_with :: "rsa_crate \<Rightarrow> oaep_hash \<Rightarrow> bytes \<Rightarrow> bytes \<Rightarrow> bytes hsm_result" where
  "oaep_decrypt_with R hash ciphertext key = ok_or EncryptedDataInvalid (rsa_decrypt_oaep R hash key ciphertext)"

definition pkcs1v15_sign_digest_with :: "rsa_crate \<Rightarrow> hash_alg \<Rightarrow> bytes \<Rightarrow> bytes \<Rightarrow> bytes hsm_result" where
  "pkcs1v15_sign_digest_with R hash digest key = ok_or GeneralError (rsa_sign_digest R hash key digest)"

definition pkcs1v15_verify_digest_with :: "rsa_crate \<Rightarrow> hash_alg \<Rightarrow> bytes \<Rightarrow> bytes \<Rightarrow> bytes \<Rightarrow> bool hsm_result" where
  "pkcs1v15_verify_digest_with R hash digest signature key = Inr (rsa_verify_digest R hash key digest signature)"

definition pss_sign_digest_with :: "rsa_crate \<Rightarrow> rng \<Rightarrow> hash_alg \<Rightarrow> bytes \<Rightarrow> bytes \<Rightarrow> bytes hsm_result" where
  "pss_sign_digest_with R rng hash digest key =
    res_bind rng (\<lambda>stream. ok_or GeneralError (rsa_sign_pss_digest R hash stream key digest))"

definition pss_verify_digest_with :: "rsa_crate \<Rightarrow> hash_alg \<Rightarrow> bytes \<Rightarrow> bytes \<Rightarrow> bytes \<Rightarrow> bool hsm_result" where
  "pss_verify_digest_with R hash digest signature key =
    res_map (rsa_verify_pss_digest R hash key digest) (ok_or SignatureInvalid (rsa_pss_signature R signature))"

section \<open>The RSA routines\<close>

text \<open>The common frame: check the input, obtain the key, check its size, compute.\<close>

definition with_private_key ::
  "rsa_crate \<Rightarrow> unit hsm_result \<Rightarrow> (rsa_caches \<Rightarrow> bytes hsm_result \<times> rsa_caches) \<Rightarrow> (bytes \<Rightarrow> 'a hsm_result) \<Rightarrow>
   rsa_caches \<Rightarrow> 'a hsm_result \<times> rsa_caches" where
  "with_private_key R checked get_key body cs =
    (case checked of
       Inl e \<Rightarrow> (Inl e, cs)
     | Inr _ \<Rightarrow>
        (case get_key cs of
           (Inl e, cs1) \<Rightarrow> (Inl e, cs1)
         | (Inr key, cs1) \<Rightarrow> (res_bind (validate_rsa_private_key_size R key) (\<lambda>_. body key), cs1)))"

definition with_public_key ::
  "unit hsm_result \<Rightarrow> bytes \<Rightarrow> (rsa_caches \<Rightarrow> bytes hsm_result \<times> rsa_caches) \<Rightarrow> (bytes \<Rightarrow> 'a hsm_result) \<Rightarrow>
   rsa_caches \<Rightarrow> 'a hsm_result \<times> rsa_caches" where
  "with_public_key checked modulus get_key body cs =
    (case res_bind checked (\<lambda>_. validate_rsa_public_key_size modulus) of
       Inl e \<Rightarrow> (Inl e, cs)
     | Inr _ \<Rightarrow>
        (case get_key cs of
           (Inl e, cs1) \<Rightarrow> (Inl e, cs1)
         | (Inr key, cs1) \<Rightarrow> (body key, cs1)))"

definition rsa_pkcs1v15_sign ::
  "rsa_crate \<Rightarrow> (bytes \<Rightarrow> bytes) \<Rightarrow> bytes \<Rightarrow> bytes \<Rightarrow> hash_alg option \<Rightarrow> rsa_caches \<Rightarrow> bytes hsm_result \<times> rsa_caches" where
  "rsa_pkcs1v15_sign R sha256 private_key_der data hash =
    with_private_key R (validate_data_size data) (parse_rsa_private_key R sha256 private_key_der) (pkcs1v15_sign_with R hash data)"

definition rsa_pkcs1v15_sign_cached ::
  "rsa_crate \<Rightarrow> u64 \<Rightarrow> u64 \<Rightarrow> bytes \<Rightarrow> bytes \<Rightarrow> hash_alg option \<Rightarrow> rsa_caches \<Rightarrow> bytes hsm_result \<times> rsa_caches" where
  "rsa_pkcs1v15_sign_cached R slot_id handle private_key_der data hash =
    with_private_key R (validate_data_size data) (get_or_parse_private_key R slot_id handle private_key_der)
      (pkcs1v15_sign_with R hash data)"

definition rsa_pkcs1v15_verify :: "rsa_crate \<Rightarrow> bytes \<Rightarrow> bytes \<Rightarrow> bytes \<Rightarrow> bytes \<Rightarrow> hash_alg option \<Rightarrow> bool hsm_result" where
  "rsa_pkcs1v15_verify R modulus public_exponent data signature hash =
    res_bind (validate_data_size data) (\<lambda>_.
    res_bind (validate_rsa_public_key_size modulus) (\<lambda>_.
    res_bind (build_public_key R modulus public_exponent) (pkcs1v15_verify_with R hash data signature)))"

definition rsa_pkcs1v15_verify_cached ::
  "rsa_crate \<Rightarrow> u64 \<Rightarrow> u64 \<Rightarrow> bytes \<Rightarrow> bytes \<Rightarrow> bytes \<Rightarrow> bytes \<Rightarrow> hash_alg option \<Rightarrow> rsa_caches \<Rightarrow> bool hsm_result \<times> rsa_caches" where
  "rsa_pkcs1v15_verify_cached R slot_id handle modulus public_exponent data signature hash =
    with_public_key (validate_data_size data) modulus (get_or_build_public_key R slot_id handle modulus public_exponent)
      (pkcs1v15_verify_with R hash data signature)"

definition rsa_pss_sign ::
  "rsa_crate \<Rightarrow> (bytes \<Rightarrow> bytes) \<Rightarrow> rng \<Rightarrow> bytes \<Rightarrow> bytes \<Rightarrow> hash_alg \<Rightarrow> rsa_caches \<Rightarrow> bytes hsm_result \<times> rsa_caches" where
  "rsa_pss_sign R sha256 rng private_key_der data hash =
    with_private_key R (validate_data_size data) (parse_rsa_private_key R sha256 private_key_der) (pss_sign_with R rng hash data)"

definition rsa_pss_sign_cached ::
  "rsa_crate \<Rightarrow> rng \<Rightarrow> u64 \<Rightarrow> u64 \<Rightarrow> bytes \<Rightarrow> bytes \<Rightarrow> hash_alg \<Rightarrow> rsa_caches \<Rightarrow> bytes hsm_result \<times> rsa_caches" where
  "rsa_pss_sign_cached R rng slot_id handle private_key_der data hash =
    with_private_key R (validate_data_size data) (get_or_parse_private_key R slot_id handle private_key_der)
      (pss_sign_with R rng hash data)"

definition rsa_pss_verify :: "rsa_crate \<Rightarrow> bytes \<Rightarrow> bytes \<Rightarrow> bytes \<Rightarrow> bytes \<Rightarrow> hash_alg \<Rightarrow> bool hsm_result" where
  "rsa_pss_verify R modulus public_exponent data signature hash =
    res_bind (validate_data_size data) (\<lambda>_.
    res_bind (validate_rsa_public_key_size modulus) (\<lambda>_.
    res_bind (build_public_key R modulus public_exponent) (pss_verify_with R hash data signature)))"

definition rsa_pss_verify_cached ::
  "rsa_crate \<Rightarrow> u64 \<Rightarrow> u64 \<Rightarrow> bytes \<Rightarrow> bytes \<Rightarrow> bytes \<Rightarrow> bytes \<Rightarrow> hash_alg \<Rightarrow> rsa_caches \<Rightarrow> bool hsm_result \<times> rsa_caches" where
  "rsa_pss_verify_cached R slot_id handle modulus public_exponent data signature hash =
    with_public_key (validate_data_size data) modulus (get_or_build_public_key R slot_id handle modulus public_exponent)
      (pss_verify_with R hash data signature)"

definition rsa_oaep_encrypt :: "rsa_crate \<Rightarrow> rng \<Rightarrow> bytes \<Rightarrow> bytes \<Rightarrow> bytes \<Rightarrow> oaep_hash \<Rightarrow> bytes hsm_result" where
  "rsa_oaep_encrypt R rng modulus public_exponent plaintext hash =
    res_bind (validate_rsa_public_key_size modulus) (\<lambda>_.
    res_bind (build_public_key R modulus public_exponent) (oaep_encrypt_with R rng hash plaintext))"

definition rsa_oaep_encrypt_cached ::
  "rsa_crate \<Rightarrow> rng \<Rightarrow> u64 \<Rightarrow> u64 \<Rightarrow> bytes \<Rightarrow> bytes \<Rightarrow> bytes \<Rightarrow> oaep_hash \<Rightarrow> rsa_caches \<Rightarrow> bytes hsm_result \<times> rsa_caches" where
  "rsa_oaep_encrypt_cached R rng slot_id handle modulus public_exponent plaintext hash =
    with_public_key (Inr ()) modulus (get_or_build_public_key R slot_id handle modulus public_exponent)
      (oaep_encrypt_with R rng hash plaintext)"

definition rsa_oaep_decrypt ::
  "rsa_crate \<Rightarrow> (bytes \<Rightarrow> bytes) \<Rightarrow> bytes \<Rightarrow> bytes \<Rightarrow> oaep_hash \<Rightarrow> rsa_caches \<Rightarrow> bytes hsm_result \<times> rsa_caches" where
  "rsa_oaep_decrypt R sha256 private_key_der ciphertext hash =
    with_private_key R (Inr ()) (parse_rsa_private_key R sha256 private_key_der) (oaep_decrypt_with R hash ciphertext)"

definition rsa_oaep_decrypt_cached ::
  "rsa_crate \<Rightarrow> u64 \<Rightarrow> u64 \<Rightarrow> bytes \<Rightarrow> bytes \<Rightarrow> oaep_hash \<Rightarrow> rsa_caches \<Rightarrow> bytes hsm_result \<times> rsa_caches" where
  "rsa_oaep_decrypt_cached R slot_id handle private_key_der ciphertext hash =
    with_private_key R (Inr ()) (get_or_parse_private_key R slot_id handle private_key_der) (oaep_decrypt_with R hash ciphertext)"

definition rsa_pkcs1v15_sign_prehashed ::
  "rsa_crate \<Rightarrow> (bytes \<Rightarrow> bytes) \<Rightarrow> bytes \<Rightarrow> bytes \<Rightarrow> hash_alg \<Rightarrow> rsa_caches \<Rightarrow> bytes hsm_result \<times> rsa_caches" where
  "rsa_pkcs1v15_sign_prehashed R sha256 private_key_der digest hash =
    with_private_key R (validate_digest_length digest hash) (parse_rsa_private_key R sha256 private_key_der)
      (pkcs1v15_sign_digest_with R hash digest)"

definition rsa_pkcs1v15_sign_prehashed_cached ::
  "rsa_crate \<Rightarrow> u64 \<Rightarrow> u64 \<Rightarrow> bytes \<Rightarrow> bytes \<Rightarrow> hash_alg \<Rightarrow> rsa_caches \<Rightarrow> bytes hsm_result \<times> rsa_caches" where
  "rsa_pkcs1v15_sign_prehashed_cached R slot_id handle private_key_der digest hash =
    with_private_key R (validate_digest_length digest hash) (get_or_parse_private_key R slot_id handle private_key_der)
      (pkcs1v15_sign_digest_with R hash digest)"

definition rsa_pkcs1v15_verify_prehashed :: "rsa_crate \<Rightarrow> bytes \<Rightarrow> bytes \<Rightarrow> bytes \<Rightarrow> bytes \<Rightarrow> hash_alg \<Rightarrow> bool hsm_result" where
  "rsa_pkcs1v15_verify_prehashed R modulus public_exponent digest signature hash =
    res_bind (validate_digest_length digest hash) (\<lambda>_.
    res_bind (validate_rsa_public_key_size modulus) (\<lambda>_.
    res_bind (build_public_key R modulus public_exponent) (pkcs1v15_verify_digest_with R hash digest signature)))"

definition rsa_pkcs1v15_verify_prehashed_cached ::
  "rsa_crate \<Rightarrow> u64 \<Rightarrow> u64 \<Rightarrow> bytes \<Rightarrow> bytes \<Rightarrow> bytes \<Rightarrow> bytes \<Rightarrow> hash_alg \<Rightarrow> rsa_caches \<Rightarrow> bool hsm_result \<times> rsa_caches" where
  "rsa_pkcs1v15_verify_prehashed_cached R slot_id handle modulus public_exponent digest signature hash =
    with_public_key (validate_digest_length digest hash) modulus (get_or_build_public_key R slot_id handle modulus public_exponent)
      (pkcs1v15_verify_digest_with R hash digest signature)"

definition rsa_pss_sign_prehashed ::
  "rsa_crate \<Rightarrow> (bytes \<Rightarrow> bytes) \<Rightarrow> rng \<Rightarrow> bytes \<Rightarrow> bytes \<Rightarrow> hash_alg \<Rightarrow> rsa_caches \<Rightarrow> bytes hsm_result \<times> rsa_caches" where
  "rsa_pss_sign_prehashed R sha256 rng private_key_der digest hash =
    with_private_key R (validate_digest_length digest hash) (parse_rsa_private_key R sha256 private_key_der)
      (pss_sign_digest_with R rng hash digest)"

definition rsa_pss_sign_prehashed_cached ::
  "rsa_crate \<Rightarrow> rng \<Rightarrow> u64 \<Rightarrow> u64 \<Rightarrow> bytes \<Rightarrow> bytes \<Rightarrow> hash_alg \<Rightarrow> rsa_caches \<Rightarrow> bytes hsm_result \<times> rsa_caches" where
  "rsa_pss_sign_prehashed_cached R rng slot_id handle private_key_der digest hash =
    with_private_key R (validate_digest_length digest hash) (get_or_parse_private_key R slot_id handle private_key_der)
      (pss_sign_digest_with R rng hash digest)"

definition rsa_pss_verify_prehashed :: "rsa_crate \<Rightarrow> bytes \<Rightarrow> bytes \<Rightarrow> bytes \<Rightarrow> bytes \<Rightarrow> hash_alg \<Rightarrow> bool hsm_result" where
  "rsa_pss_verify_prehashed R modulus public_exponent digest signature hash =
    res_bind (validate_digest_length digest hash) (\<lambda>_.
    res_bind (validate_rsa_public_key_size modulus) (\<lambda>_.
    res_bind (build_public_key R modulus public_exponent) (pss_verify_digest_with R hash digest signature)))"

definition rsa_pss_verify_prehashed_cached ::
  "rsa_crate \<Rightarrow> u64 \<Rightarrow> u64 \<Rightarrow> bytes \<Rightarrow> bytes \<Rightarrow> bytes \<Rightarrow> bytes \<Rightarrow> hash_alg \<Rightarrow> rsa_caches \<Rightarrow> bool hsm_result \<times> rsa_caches" where
  "rsa_pss_verify_prehashed_cached R slot_id handle modulus public_exponent digest signature hash =
    with_public_key (validate_digest_length digest hash) modulus (get_or_build_public_key R slot_id handle modulus public_exponent)
      (pss_verify_digest_with R hash digest signature)"

section \<open>ECDSA and Ed25519\<close>

definition ecdsa_sign_on :: "ecdsa_crate \<Rightarrow> rng \<Rightarrow> bytes \<Rightarrow> bytes \<Rightarrow> bytes hsm_result" where
  "ecdsa_sign_on E rng private_key_bytes data =
    res_bind (validate_data_size data) (\<lambda>_.
    res_bind (ok_or KeyHandleInvalid (ec_signing_key E private_key_bytes)) (\<lambda>key.
    res_map (\<lambda>stream. ec_sign E stream key data) rng))"

definition ecdsa_verify_on :: "ecdsa_crate \<Rightarrow> bytes \<Rightarrow> bytes \<Rightarrow> bytes \<Rightarrow> bool hsm_result" where
  "ecdsa_verify_on E public_key_sec1 data signature_der =
    res_bind (validate_data_size data) (\<lambda>_.
    res_bind (ok_or KeyHandleInvalid (ec_verifying_key E public_key_sec1)) (\<lambda>key.
    res_map (ec_verify E key data) (ok_or SignatureInvalid (ec_signature E signature_der))))"

definition ecdsa_sign_digest_on :: "ecdsa_crate \<Rightarrow> hash_alg \<Rightarrow> rng \<Rightarrow> bytes \<Rightarrow> bytes \<Rightarrow> bytes hsm_result" where
  "ecdsa_sign_digest_on E hash rng private_key_bytes digest =
    res_bind (validate_digest_length digest hash) (\<lambda>_.
    res_bind (ok_or KeyHandleInvalid (ec_signing_key E private_key_bytes)) (\<lambda>key.
    res_bind rng (\<lambda>stream. ok_or GeneralError (ec_sign_digest E stream key digest))))"

definition ecdsa_verify_digest_on :: "ecdsa_crate \<Rightarrow> hash_alg \<Rightarrow> bytes \<Rightarrow> bytes \<Rightarrow> bytes \<Rightarrow> bool hsm_result" where
  "ecdsa_verify_digest_on E hash public_key_sec1 digest signature_der =
    res_bind (validate_digest_length digest hash) (\<lambda>_.
    res_bind (ok_or KeyHandleInvalid (ec_verifying_key E public_key_sec1)) (\<lambda>key.
    res_map (ec_verify_digest E key digest) (ok_or SignatureInvalid (ec_signature E signature_der))))"

definition ecdsa_p256_sign :: "ecdsa_crate \<Rightarrow> rng \<Rightarrow> bytes \<Rightarrow> bytes \<Rightarrow> bytes hsm_result" where
  "ecdsa_p256_sign p256 = ecdsa_sign_on p256"

definition ecdsa_p256_verify :: "ecdsa_crate \<Rightarrow> bytes \<Rightarrow> bytes \<Rightarrow> bytes \<Rightarrow> bool hsm_result" where
  "ecdsa_p256_verify p256 = ecdsa_verify_on p256"

definition ecdsa_p384_sign :: "ecdsa_crate \<Rightarrow> rng \<Rightarrow> bytes \<Rightarrow> bytes \<Rightarrow> bytes hsm_result" where
  "ecdsa_p384_sign p384 = ecdsa_sign_on p384"

definition ecdsa_p384_verify :: "ecdsa_crate \<Rightarrow> bytes \<Rightarrow> bytes \<Rightarrow> bytes \<Rightarrow> bool hsm_result" where
  "ecdsa_p384_verify p384 = ecdsa_verify_on p384"

definition ecdsa_p256_sign_prehashed :: "ecdsa_crate \<Rightarrow> rng \<Rightarrow> bytes \<Rightarrow> bytes \<Rightarrow> bytes hsm_result" where
  "ecdsa_p256_sign_prehashed p256 = ecdsa_sign_digest_on p256 Sha256"

definition ecdsa_p256_verify_prehashed :: "ecdsa_crate \<Rightarrow> bytes \<Rightarrow> bytes \<Rightarrow> bytes \<Rightarrow> bool hsm_result" where
  "ecdsa_p256_verify_prehashed p256 = ecdsa_verify_digest_on p256 Sha256"

definition ecdsa_p384_sign_prehashed :: "ecdsa_crate \<Rightarrow> rng \<Rightarrow> bytes \<Rightarrow> bytes \<Rightarrow> bytes hsm_result" where
  "ecdsa_p384_sign_prehashed p384 = ecdsa_sign_digest_on p384 Sha384"

definition ecdsa_p384_verify_prehashed :: "ecdsa_crate \<Rightarrow> bytes \<Rightarrow> bytes \<Rightarrow> bytes \<Rightarrow> bool hsm_result" where
  "ecdsa_p384_verify_prehashed p384 = ecdsa_verify_digest_on p384 Sha384"

definition ed25519_sign :: "ed25519_crate \<Rightarrow> bytes \<Rightarrow> bytes \<Rightarrow> bytes hsm_result" where
  "ed25519_sign D private_key_bytes data =
    res_bind (validate_data_size data) (\<lambda>_.
    if length private_key_bytes \<noteq> 32 then Inl KeyHandleInvalid else Inr (ed_sign D private_key_bytes data))"

definition ed25519_verify :: "ed25519_crate \<Rightarrow> bytes \<Rightarrow> bytes \<Rightarrow> bytes \<Rightarrow> bool hsm_result" where
  "ed25519_verify D public_key_bytes data signature_bytes =
    res_bind (validate_data_size data) (\<lambda>_.
    if length public_key_bytes \<noteq> 32 then Inl KeyHandleInvalid
    else
      res_bind (ok_or KeyHandleInvalid (ed_verifying_key D public_key_bytes)) (\<lambda>key.
      if length signature_bytes \<noteq> 64 then Inl SignatureInvalid else Inr (ed_verify D key data signature_bytes)))"

section \<open>The caches change no result\<close>

text \<open>A use of the RSA routines: the key by its encoding alone, or also by slot and handle; and the
  eviction of a destroyed object.\<close>

datatype rsa_key_ref = ByEncoding | ByHandle u64 u64

datatype rsa_op =
    SignPkcs1 rsa_key_ref bytes bytes "hash_alg option"
  | SignPss rsa_key_ref rng bytes bytes hash_alg
  | DecryptOaep rsa_key_ref bytes bytes oaep_hash
  | SignPkcs1Digest rsa_key_ref bytes bytes hash_alg
  | SignPssDigest rsa_key_ref rng bytes bytes hash_alg
  | VerifyPkcs1 u64 u64 bytes bytes bytes bytes "hash_alg option"
  | VerifyPss u64 u64 bytes bytes bytes bytes hash_alg
  | EncryptOaep u64 u64 rng bytes bytes bytes oaep_hash
  | VerifyPkcs1Digest u64 u64 bytes bytes bytes bytes hash_alg
  | VerifyPssDigest u64 u64 bytes bytes bytes bytes hash_alg
  | Evict u64 u64

datatype rsa_answer = Output "bytes hsm_result" | Verdict "bool hsm_result" | Evicted

fun run_rsa :: "rsa_crate \<Rightarrow> (bytes \<Rightarrow> bytes) \<Rightarrow> rsa_op \<Rightarrow> rsa_caches \<Rightarrow> rsa_answer \<times> rsa_caches" where
  "run_rsa R sha256 (SignPkcs1 ByEncoding der data h) cs = map_prod Output id (rsa_pkcs1v15_sign R sha256 der data h cs)"
| "run_rsa R sha256 (SignPkcs1 (ByHandle s o') der data h) cs = map_prod Output id (rsa_pkcs1v15_sign_cached R s o' der data h cs)"
| "run_rsa R sha256 (SignPss ByEncoding rng der data h) cs = map_prod Output id (rsa_pss_sign R sha256 rng der data h cs)"
| "run_rsa R sha256 (SignPss (ByHandle s o') rng der data h) cs = map_prod Output id (rsa_pss_sign_cached R rng s o' der data h cs)"
| "run_rsa R sha256 (DecryptOaep ByEncoding der ct h) cs = map_prod Output id (rsa_oaep_decrypt R sha256 der ct h cs)"
| "run_rsa R sha256 (DecryptOaep (ByHandle s o') der ct h) cs = map_prod Output id (rsa_oaep_decrypt_cached R s o' der ct h cs)"
| "run_rsa R sha256 (SignPkcs1Digest ByEncoding der d h) cs = map_prod Output id (rsa_pkcs1v15_sign_prehashed R sha256 der d h cs)"
| "run_rsa R sha256 (SignPkcs1Digest (ByHandle s o') der d h) cs = map_prod Output id (rsa_pkcs1v15_sign_prehashed_cached R s o' der d h cs)"
| "run_rsa R sha256 (SignPssDigest ByEncoding rng der d h) cs = map_prod Output id (rsa_pss_sign_prehashed R sha256 rng der d h cs)"
| "run_rsa R sha256 (SignPssDigest (ByHandle s o') rng der d h) cs = map_prod Output id (rsa_pss_sign_prehashed_cached R rng s o' der d h cs)"
| "run_rsa R sha256 (VerifyPkcs1 s o' n e data sig h) cs = map_prod Verdict id (rsa_pkcs1v15_verify_cached R s o' n e data sig h cs)"
| "run_rsa R sha256 (VerifyPss s o' n e data sig h) cs = map_prod Verdict id (rsa_pss_verify_cached R s o' n e data sig h cs)"
| "run_rsa R sha256 (EncryptOaep s o' rng n e pt h) cs = map_prod Output id (rsa_oaep_encrypt_cached R rng s o' n e pt h cs)"
| "run_rsa R sha256 (VerifyPkcs1Digest s o' n e d sig h) cs = map_prod Verdict id (rsa_pkcs1v15_verify_prehashed_cached R s o' n e d sig h cs)"
| "run_rsa R sha256 (VerifyPssDigest s o' n e d sig h) cs = map_prod Verdict id (rsa_pss_verify_prehashed_cached R s o' n e d sig h cs)"
| "run_rsa R sha256 (Evict s o') cs = (Evicted, evict_cached_keys s o' cs)"

text \<open>The same without caches: a private key is parsed at every use, and the public routines are
  those of the source that take no handle.\<close>

definition plain_private :: "rsa_crate \<Rightarrow> unit hsm_result \<Rightarrow> bytes \<Rightarrow> (bytes \<Rightarrow> 'a hsm_result) \<Rightarrow> 'a hsm_result" where
  "plain_private R checked der body =
    res_bind checked (\<lambda>_. res_bind (ok_or KeyHandleInvalid (rsa_from_pkcs8_der R der)) (\<lambda>key.
      res_bind (validate_rsa_private_key_size R key) (\<lambda>_. body key)))"

fun plain_rsa :: "rsa_crate \<Rightarrow> rsa_op \<Rightarrow> rsa_answer" where
  "plain_rsa R (SignPkcs1 _ der data h) = Output (plain_private R (validate_data_size data) der (pkcs1v15_sign_with R h data))"
| "plain_rsa R (SignPss _ rng der data h) = Output (plain_private R (validate_data_size data) der (pss_sign_with R rng h data))"
| "plain_rsa R (DecryptOaep _ der ct h) = Output (plain_private R (Inr ()) der (oaep_decrypt_with R h ct))"
| "plain_rsa R (SignPkcs1Digest _ der d h) =
    Output (plain_private R (validate_digest_length d h) der (pkcs1v15_sign_digest_with R h d))"
| "plain_rsa R (SignPssDigest _ rng der d h) =
    Output (plain_private R (validate_digest_length d h) der (pss_sign_digest_with R rng h d))"
| "plain_rsa R (VerifyPkcs1 _ _ n e data sig h) = Verdict (rsa_pkcs1v15_verify R n e data sig h)"
| "plain_rsa R (VerifyPss _ _ n e data sig h) = Verdict (rsa_pss_verify R n e data sig h)"
| "plain_rsa R (EncryptOaep _ _ rng n e pt h) = Output (rsa_oaep_encrypt R rng n e pt h)"
| "plain_rsa R (VerifyPkcs1Digest _ _ n e d sig h) = Verdict (rsa_pkcs1v15_verify_prehashed R n e d sig h)"
| "plain_rsa R (VerifyPssDigest _ _ n e d sig h) = Verdict (rsa_pss_verify_prehashed R n e d sig h)"
| "plain_rsa R (Evict _ _) = Evicted"

fun run_rsas :: "rsa_crate \<Rightarrow> (bytes \<Rightarrow> bytes) \<Rightarrow> rsa_op list \<Rightarrow> rsa_caches \<Rightarrow> rsa_answer list \<times> rsa_caches" where
  "run_rsas R sha256 [] cs = ([], cs)"
| "run_rsas R sha256 (x # xs) cs =
    (let (a, cs1) = run_rsa R sha256 x cs; (as, cs2) = run_rsas R sha256 xs cs1 in (a # as, cs2))"

text \<open>The keys a use mentions, and uses in which a handle names one key until it is evicted.\<close>

fun op_private :: "rsa_op \<Rightarrow> (rsa_key_ref \<times> bytes) option" where
  "op_private (SignPkcs1 k der _ _) = Some (k, der)"
| "op_private (SignPss k _ der _ _) = Some (k, der)"
| "op_private (DecryptOaep k der _ _) = Some (k, der)"
| "op_private (SignPkcs1Digest k der _ _) = Some (k, der)"
| "op_private (SignPssDigest k _ der _ _) = Some (k, der)"
| "op_private _ = None"

fun op_public :: "rsa_op \<Rightarrow> ((u64 \<times> u64) \<times> bytes \<times> bytes) option" where
  "op_public (VerifyPkcs1 s o' n e _ _ _) = Some ((s, o'), n, e)"
| "op_public (VerifyPss s o' n e _ _ _) = Some ((s, o'), n, e)"
| "op_public (EncryptOaep s o' _ n e _ _) = Some ((s, o'), n, e)"
| "op_public (VerifyPkcs1Digest s o' n e _ _ _) = Some ((s, o'), n, e)"
| "op_public (VerifyPssDigest s o' n e _ _ _) = Some ((s, o'), n, e)"
| "op_public _ = None"

type_synonym key_book = "((u64 \<times> u64) \<rightharpoonup> bytes) \<times> ((u64 \<times> u64) \<rightharpoonup> bytes \<times> bytes)"

definition book_ok :: "rsa_op \<Rightarrow> key_book \<Rightarrow> bool" where
  "book_ok x b \<longleftrightarrow>
     (\<forall>s o' der. op_private x = Some (ByHandle s o', der) \<longrightarrow> fst b (s, o') = None \<or> fst b (s, o') = Some der) \<and>
     (\<forall>k ne. op_public x = Some (k, ne) \<longrightarrow> snd b k = None \<or> snd b k = Some ne)"

definition book_next :: "rsa_op \<Rightarrow> key_book \<Rightarrow> key_book" where
  "book_next x b =
    (case x of
       Evict s o' \<Rightarrow> ((fst b)((s, o') := None), (snd b)((s, o') := None))
     | _ \<Rightarrow>
        (case op_private x of Some (ByHandle s o', der) \<Rightarrow> (fst b)((s, o') \<mapsto> der) | _ \<Rightarrow> fst b,
         case op_public x of Some (k, ne) \<Rightarrow> (snd b)(k \<mapsto> ne) | None \<Rightarrow> snd b))"

fun handles_consistent :: "rsa_op list \<Rightarrow> key_book \<Rightarrow> bool" where
  "handles_consistent [] b = True"
| "handles_consistent (x # xs) b \<longleftrightarrow> book_ok x b \<and> handles_consistent xs (book_next x b)"

definition encodings :: "rsa_op list \<Rightarrow> bytes set" where
  "encodings xs = {der. \<exists>x \<in> set xs. op_private x = Some (ByEncoding, der)}"

text \<open>Bounded caches whose entries stem from the keys they are found under.\<close>

definition lru_ok :: "('k \<times> 'v) list \<Rightarrow> bool" where
  "lru_ok m \<longleftrightarrow> length m \<le> RSA_KEY_CACHE_MAX \<and> distinct (map fst m)"

definition caches_ok :: "rsa_crate \<Rightarrow> (bytes \<Rightarrow> bytes) \<Rightarrow> bytes set \<Rightarrow> key_book \<Rightarrow> rsa_caches \<Rightarrow> bool" where
  "caches_ok R sha256 D b cs \<longleftrightarrow>
     lru_ok (rca_der cs) \<and> lru_ok (rca_priv cs) \<and> lru_ok (rca_pub cs) \<and>
     (\<forall>d key. map_of (rca_der cs) d = Some key \<longrightarrow> (\<exists>der \<in> D. d = sha256 der \<and> rsa_from_pkcs8_der R der = Some key)) \<and>
     (\<forall>k key. map_of (rca_priv cs) k = Some key \<longrightarrow> (\<exists>der. fst b k = Some der \<and> rsa_from_pkcs8_der R der = Some key)) \<and>
     (\<forall>k key. map_of (rca_pub cs) k = Some key \<longrightarrow> (\<exists>n e. snd b k = Some (n, e) \<and> build_public_key R n e = Inr key))"

subsection \<open>The caches\<close>

lemma map_of_tl:
  "distinct (map fst m) \<Longrightarrow> map_of (tl m) k = Some v \<Longrightarrow> map_of m k = Some v"
  by (cases m) (auto dest: map_of_SomeD simp: rev_image_eqI)

lemma lru_insert_ok:
  assumes "lru_ok m"
  shows "lru_ok (lru_insert k v m)"
proof -
  have "distinct (map fst (tl m))" using assms by (simp add: lru_ok_def map_tl distinct_tl)
  then show ?thesis
    using assms by (auto simp: lru_ok_def lru_insert_def distinct_update length_alist_update)
qed

lemma lru_insert_lookup:
  assumes "lru_ok m" "map_of (lru_insert k v m) k' = Some v'"
  shows "k' = k \<and> v' = v \<or> map_of m k' = Some v'"
  using assms map_of_tl [of m k' v'] by (simp add: lru_insert_def lru_ok_def update_conv' split: if_splits)

lemma lru_insert_all:
  assumes "lru_ok m" "\<forall>k v. map_of m k = Some v \<longrightarrow> Q k v" "Q k v"
  shows "\<forall>k' v'. map_of (lru_insert k v m) k' = Some v' \<longrightarrow> Q k' v'"
  using assms lru_insert_lookup [OF assms(1)] by blast

lemma lru_get_spec:
  assumes "lru_ok m"
  shows "\<exists>m'. lru_get k m = (map_of m k, m') \<and> lru_ok m' \<and> map_of m' = map_of m"
proof (cases "map_of m k")
  case (Some v)
  then have "k \<in> fst ` set m" by (metis map_of_eq_None_iff option.distinct(1))
  then have "length (AList.delete k m) < length m" by (auto simp: AList.delete_eq intro!: length_filter_less)
  moreover have "distinct (map fst (AList.delete k m @ [(k, v)]))"
    using assms by (auto simp: lru_ok_def delete_keys distinct_removeAll simp flip: set_map)
  moreover have "map_of (AList.delete k m @ [(k, v)]) = map_of m"
    using Some by (auto simp: fun_eq_iff map_add_def delete_conv' split: option.split)
  ultimately show ?thesis using assms Some by (simp add: lru_get_def lru_ok_def)
qed (use assms in \<open>simp add: lru_get_def\<close>)

lemma lru_delete_ok: "lru_ok m \<Longrightarrow> lru_ok (AList.delete k m)"
  using length_delete_le [of k m] by (simp add: lru_ok_def distinct_delete)

subsection \<open>Keys from the caches\<close>

lemma caches_okD:
  assumes "caches_ok R sha256 D b cs"
  shows "map_of (rca_priv cs) k = Some key \<Longrightarrow> fst b k = Some der \<Longrightarrow> rsa_from_pkcs8_der R der = Some key"
    and "map_of (rca_pub cs) k = Some key \<Longrightarrow> snd b k = Some (n, e) \<Longrightarrow> build_public_key R n e = Inr key"
  using assms unfolding caches_ok_def by fastforce+

lemma parse_rsa_private_key_plain:
  assumes "caches_ok R sha256 D b cs" "inj_on sha256 D" "der \<in> D"
  shows "\<exists>cs'. parse_rsa_private_key R sha256 der cs = (ok_or KeyHandleInvalid (rsa_from_pkcs8_der R der), cs') \<and>
    caches_ok R sha256 D b cs'"
proof -
  have "lru_ok (rca_der cs)" using assms(1) by (simp add: caches_ok_def)
  then obtain m where m: "lru_get (sha256 der) (rca_der cs) = (map_of (rca_der cs) (sha256 der), m)" "lru_ok m"
      "map_of m = map_of (rca_der cs)" using lru_get_spec [of "rca_der cs" "sha256 der"] by auto
  show ?thesis
  proof (cases "map_of (rca_der cs) (sha256 der)")
    case None
    show ?thesis
    proof (cases "rsa_from_pkcs8_der R der")
      case (Some key)
      have "caches_ok R sha256 D b (cs\<lparr>rca_der := lru_insert (sha256 der) key (rca_der cs)\<rparr>)"
        using assms(1,3) Some lru_insert_all [of "rca_der cs"
            "\<lambda>d key. \<exists>der \<in> D. d = sha256 der \<and> rsa_from_pkcs8_der R der = Some key" "sha256 der" key]
        unfolding caches_ok_def by (simp add: lru_insert_ok) blast
      then show ?thesis using None Some m by (simp add: parse_rsa_private_key_def ok_or_def)
    qed (use None m assms(1) in \<open>simp add: parse_rsa_private_key_def ok_or_def\<close>)
  next
    case (Some key)
    then obtain der' where "der' \<in> D" "sha256 der = sha256 der'" "rsa_from_pkcs8_der R der' = Some key"
      using assms(1) unfolding caches_ok_def by blast
    then have "rsa_from_pkcs8_der R der = Some key" using assms(2,3) by (auto dest: inj_onD)
    moreover have "caches_ok R sha256 D b (cs\<lparr>rca_der := m\<rparr>)" using assms(1) m by (simp add: caches_ok_def)
    ultimately show ?thesis using Some m by (simp add: parse_rsa_private_key_def ok_or_def)
  qed
qed

lemma get_or_parse_private_key_plain:
  assumes "caches_ok R sha256 D b cs" "fst b (s, h) = Some der"
  shows "\<exists>cs'. get_or_parse_private_key R s h der cs = (ok_or KeyHandleInvalid (rsa_from_pkcs8_der R der), cs') \<and>
    caches_ok R sha256 D b cs'"
proof -
  have "lru_ok (rca_priv cs)" using assms(1) by (simp add: caches_ok_def)
  then obtain m where m: "lru_get (s, h) (rca_priv cs) = (map_of (rca_priv cs) (s, h), m)" "lru_ok m"
      "map_of m = map_of (rca_priv cs)" using lru_get_spec [of "rca_priv cs" "(s, h)"] by auto
  show ?thesis
  proof (cases "map_of (rca_priv cs) (s, h)")
    case None
    show ?thesis
    proof (cases "rsa_from_pkcs8_der R der")
      case (Some key)
      have "caches_ok R sha256 D b (cs\<lparr>rca_priv := lru_insert (s, h) key (rca_priv cs)\<rparr>)"
        using assms Some lru_insert_all [of "rca_priv cs"
            "\<lambda>k key. \<exists>der. fst b k = Some der \<and> rsa_from_pkcs8_der R der = Some key" "(s, h)" key]
        unfolding caches_ok_def by (simp add: lru_insert_ok)
      then show ?thesis using None Some m by (simp add: get_or_parse_private_key_def ok_or_def)
    qed (use None m assms(1) in \<open>simp add: get_or_parse_private_key_def ok_or_def\<close>)
  next
    case (Some key)
    then have "rsa_from_pkcs8_der R der = Some key" using caches_okD(1) [OF assms(1)] assms(2) by blast
    moreover have "caches_ok R sha256 D b (cs\<lparr>rca_priv := m\<rparr>)" using assms(1) m by (simp add: caches_ok_def)
    ultimately show ?thesis using Some m by (simp add: get_or_parse_private_key_def ok_or_def)
  qed
qed

lemma get_or_build_public_key_plain:
  assumes "caches_ok R sha256 D b cs" "snd b (s, h) = Some (n, e)"
  shows "\<exists>cs'. get_or_build_public_key R s h n e cs = (build_public_key R n e, cs') \<and> caches_ok R sha256 D b cs'"
proof -
  have "lru_ok (rca_pub cs)" using assms(1) by (simp add: caches_ok_def)
  then obtain m where m: "lru_get (s, h) (rca_pub cs) = (map_of (rca_pub cs) (s, h), m)" "lru_ok m"
      "map_of m = map_of (rca_pub cs)" using lru_get_spec [of "rca_pub cs" "(s, h)"] by auto
  show ?thesis
  proof (cases "map_of (rca_pub cs) (s, h)")
    case None
    show ?thesis
    proof (cases "build_public_key R n e")
      case (Inr key)
      have "caches_ok R sha256 D b (cs\<lparr>rca_pub := lru_insert (s, h) key (rca_pub cs)\<rparr>)"
        using assms Inr lru_insert_all [of "rca_pub cs"
            "\<lambda>k key. \<exists>n e. snd b k = Some (n, e) \<and> build_public_key R n e = Inr key" "(s, h)" key]
        unfolding caches_ok_def by (simp add: lru_insert_ok)
      then show ?thesis using None Inr m by (simp add: get_or_build_public_key_def)
    qed (use None m assms(1) in \<open>simp add: get_or_build_public_key_def\<close>)
  next
    case (Some key)
    then have "build_public_key R n e = Inr key" using caches_okD(2) [OF assms(1)] assms(2) by blast
    moreover have "caches_ok R sha256 D b (cs\<lparr>rca_pub := m\<rparr>)" using assms(1) m by (simp add: caches_ok_def)
    ultimately show ?thesis using Some m by (simp add: get_or_build_public_key_def)
  qed
qed

lemma with_private_key_plain:
  assumes "P cs" "\<exists>cs'. get_key cs = (ok_or KeyHandleInvalid (rsa_from_pkcs8_der R der), cs') \<and> P cs'"
  shows "\<exists>cs'. with_private_key R checked get_key body cs = (plain_private R checked der body, cs') \<and> P cs'"
  using assms
  by (auto simp: with_private_key_def plain_private_def ok_or_def res_bind_def split: sum.splits option.splits)

lemma with_public_key_plain:
  assumes "P cs" "\<exists>cs'. get_key cs = (build_public_key R n e, cs') \<and> P cs'"
  shows "\<exists>cs'. with_public_key checked n get_key body cs =
      (res_bind checked (\<lambda>_. res_bind (validate_rsa_public_key_size n) (\<lambda>_. res_bind (build_public_key R n e) body)), cs') \<and> P cs'"
  using assms by (auto simp: with_public_key_def res_bind_def split: sum.splits)

subsection \<open>Runs\<close>

lemma op_keys:
  obtains (priv) k der where "op_private x = Some (k, der)" "op_public x = None" "\<forall>s h. x \<noteq> Evict s h"
  | (pub) s h n e where "op_public x = Some ((s, h), n, e)" "op_private x = None" "\<forall>s h. x \<noteq> Evict s h"
  | (evict) s h where "x = Evict s h"
  by (cases x) auto

lemma caches_ok_mono:
  assumes "caches_ok R sha256 D b cs" "fst b \<subseteq>\<^sub>m fst b'" "snd b \<subseteq>\<^sub>m snd b'"
  shows "caches_ok R sha256 D b' cs"
proof -
  have "fst b k = Some v \<Longrightarrow> fst b' k = Some v" for k v using assms(2) by (force simp: map_le_def)
  moreover have "snd b k = Some v \<Longrightarrow> snd b' k = Some v" for k v using assms(3) by (force simp: map_le_def)
  ultimately show ?thesis using assms(1) unfolding caches_ok_def by meson
qed

lemma book_next_eq:
  assumes "\<forall>s h. x \<noteq> Evict s h"
  shows "book_next x b = (case op_private x of Some (ByHandle s o', der) \<Rightarrow> (fst b)((s, o') \<mapsto> der) | _ \<Rightarrow> fst b,
         case op_public x of Some (k, ne) \<Rightarrow> (snd b)(k \<mapsto> ne) | None \<Rightarrow> snd b)"
  using assms by (cases x) (simp_all add: book_next_def)

lemma caches_ok_book:
  assumes "caches_ok R sha256 D b cs" "book_ok x b" "\<forall>s h. x \<noteq> Evict s h"
  shows "caches_ok R sha256 D (book_next x b) cs"
proof (rule caches_ok_mono [OF assms(1)])
  show "fst b \<subseteq>\<^sub>m fst (book_next x b)" "snd b \<subseteq>\<^sub>m snd (book_next x b)"
    using assms(2)
    by (auto simp: book_next_eq [OF assms(3)] book_ok_def map_le_def split: option.splits rsa_key_ref.splits)
qed

lemma caches_ok_evict:
  "caches_ok R sha256 D b cs \<Longrightarrow> caches_ok R sha256 D (book_next (Evict s h) b) (evict_cached_keys s h cs)"
  by (auto simp: caches_ok_def book_next_def evict_cached_keys_def lru_delete_ok delete_conv')

lemmas private_routines =
  rsa_pkcs1v15_sign_def rsa_pkcs1v15_sign_cached_def rsa_pss_sign_def rsa_pss_sign_cached_def rsa_oaep_decrypt_def
  rsa_oaep_decrypt_cached_def rsa_pkcs1v15_sign_prehashed_def rsa_pkcs1v15_sign_prehashed_cached_def
  rsa_pss_sign_prehashed_def rsa_pss_sign_prehashed_cached_def

lemmas public_routines =
  rsa_pkcs1v15_verify_cached_def rsa_pss_verify_cached_def rsa_oaep_encrypt_cached_def
  rsa_pkcs1v15_verify_prehashed_cached_def rsa_pss_verify_prehashed_cached_def
  rsa_pkcs1v15_verify_def rsa_pss_verify_def rsa_oaep_encrypt_def rsa_pkcs1v15_verify_prehashed_def rsa_pss_verify_prehashed_def

lemma run_private_plain:
  assumes "op_private x = Some (k, der)" "P cs"
    and "\<And>get_key. get_key = (case k of ByEncoding \<Rightarrow> parse_rsa_private_key R sha256 der
        | ByHandle s h \<Rightarrow> get_or_parse_private_key R s h der) \<Longrightarrow>
      \<exists>cs'. get_key cs = (ok_or KeyHandleInvalid (rsa_from_pkcs8_der R der), cs') \<and> P cs'"
  shows "\<exists>cs'. run_rsa R sha256 x cs = (plain_rsa R x, cs') \<and> P cs'"
proof -
  define get_key where "get_key = (case k of ByEncoding \<Rightarrow> parse_rsa_private_key R sha256 der
        | ByHandle s h \<Rightarrow> get_or_parse_private_key R s h der)"
  note w = with_private_key_plain [where P = P and cs = cs and get_key = get_key, OF assms(2) assms(3) [OF get_key_def]]
  have *: "\<exists>cs'. map_prod Output id (with_private_key R checked get_key body cs) =
      (Output (plain_private R checked der body), cs') \<and> P cs'" for checked body
    using w [of checked body] by auto
  show ?thesis
    using assms(1) *
    by (cases x; cases k) (auto simp: get_key_def private_routines)
qed

lemma run_public_plain:
  assumes "op_public x = Some ((s, h), n, e)" "P cs"
    and "\<exists>cs'. get_or_build_public_key R s h n e cs = (build_public_key R n e, cs') \<and> P cs'"
  shows "\<exists>cs'. run_rsa R sha256 x cs = (plain_rsa R x, cs') \<and> P cs'"
proof -
  note w = with_public_key_plain [where P = P and cs = cs and get_key = "get_or_build_public_key R s h n e", OF assms(2,3)]
  show ?thesis
    using assms(1)
  proof (cases x)
    case (VerifyPkcs1 s' h' n' e' data sig hash)
    then show ?thesis
      using assms(1) w [of "validate_data_size data" "pkcs1v15_verify_with R hash data sig"] by (auto simp: public_routines)
  next
    case (VerifyPss s' h' n' e' data sig hash)
    then show ?thesis
      using assms(1) w [of "validate_data_size data" "pss_verify_with R hash data sig"] by (auto simp: public_routines)
  next
    case (EncryptOaep s' h' rng n' e' pt hash)
    then show ?thesis
      using assms(1) w [of "Inr ()" "oaep_encrypt_with R rng hash pt"] by (auto simp: public_routines)
  next
    case (VerifyPkcs1Digest s' h' n' e' d sig hash)
    then show ?thesis
      using assms(1) w [of "validate_digest_length d hash" "pkcs1v15_verify_digest_with R hash d sig"]
      by (auto simp: public_routines)
  next
    case (VerifyPssDigest s' h' n' e' d sig hash)
    then show ?thesis
      using assms(1) w [of "validate_digest_length d hash" "pss_verify_digest_with R hash d sig"]
      by (auto simp: public_routines)
  qed auto
qed

lemma book_next_keys:
  assumes "\<forall>s h. x \<noteq> Evict s h"
  shows "op_private x = Some (ByHandle s h, der) \<Longrightarrow> fst (book_next x b) (s, h) = Some der"
    and "op_public x = Some (k, ne) \<Longrightarrow> snd (book_next x b) k = Some ne"
  by (simp_all add: book_next_eq [OF assms])

lemma run_rsa_plain:
  assumes "caches_ok R sha256 D b cs" "book_ok x b" "inj_on sha256 D" "encodings [x] \<subseteq> D"
  shows "\<exists>cs'. run_rsa R sha256 x cs = (plain_rsa R x, cs') \<and> caches_ok R sha256 D (book_next x b) cs'"
proof (cases x rule: op_keys)
  case (priv k der)
  have ok: "caches_ok R sha256 D (book_next x b) cs" using caches_ok_book [OF assms(1,2)] priv(3) by simp
  show ?thesis
  proof (rule run_private_plain [where P = "caches_ok R sha256 D (book_next x b)", OF priv(1) ok], goal_cases)
    case (1 get_key)
    then show ?case
    proof (cases k)
      case ByEncoding
      then have "der \<in> D" using assms(4) priv(1) by (auto simp: encodings_def)
      then show ?thesis using parse_rsa_private_key_plain [OF ok assms(3)] 1 ByEncoding by simp
    next
      case (ByHandle s h)
      then have "fst (book_next x b) (s, h) = Some der" using book_next_keys(1) [OF priv(3)] priv(1) by simp
      then show ?thesis using get_or_parse_private_key_plain [OF ok] 1 ByHandle by simp
    qed
  qed
next
  case (pub s h n e)
  have ok: "caches_ok R sha256 D (book_next x b) cs" using caches_ok_book [OF assms(1,2)] pub(3) by simp
  have "snd (book_next x b) (s, h) = Some (n, e)" using book_next_keys(2) [OF pub(3,1)] .
  then show ?thesis
    using run_public_plain [where P = "caches_ok R sha256 D (book_next x b)", OF pub(1) ok]
      get_or_build_public_key_plain [OF ok] by blast
next
  case (evict s h)
  then show ?thesis using caches_ok_evict [OF assms(1)] by simp
qed

lemma run_rsas_plain:
  assumes "caches_ok R sha256 D b cs" "handles_consistent xs b" "inj_on sha256 D" "encodings xs \<subseteq> D"
  shows "\<exists>cs' b'. run_rsas R sha256 xs cs = (map (plain_rsa R) xs, cs') \<and> caches_ok R sha256 D b' cs'"
  using assms(1,2,4)
proof (induction xs arbitrary: b cs)
  case (Cons x xs)
  have "encodings [x] \<subseteq> D" "encodings xs \<subseteq> D" using Cons.prems(3) by (auto simp: encodings_def)
  with run_rsa_plain [OF Cons.prems(1) _ assms(3), of x] Cons.prems(2) obtain cs1 where
    x: "run_rsa R sha256 x cs = (plain_rsa R x, cs1)" "caches_ok R sha256 D (book_next x b) cs1" by auto
  with Cons.IH [OF x(2)] Cons.prems(2) \<open>encodings xs \<subseteq> D\<close> obtain cs2 b' where
    "run_rsas R sha256 xs cs1 = (map (plain_rsa R) xs, cs2)" "caches_ok R sha256 D b' cs2" by auto
  then show ?case using x(1) by (cases b') auto
qed auto

text \<open>\<^bold>\<open>C9\<close> The caches of parsed RSA keys change no result: over any sequence of signatures,
  verifications, encryptions and decryptions, with keys named by their encoding or by slot and handle, and
  of evictions, every call returns what it returns without a cache, and each cache holds at most 64 keys,
  provided that SHA-256 does not collide on the encodings in use and that a handle names one key until it is
  evicted.\<close>

theorem rsa_caches_transparent:
  assumes "inj_on sha256 (encodings xs)" "handles_consistent xs (Map.empty, Map.empty)"
    and "run_rsas R sha256 xs rsa_caches_new = (answers, cs)"
  shows "answers = map (plain_rsa R) xs \<and>
    length (rca_der cs) \<le> 64 \<and> length (rca_priv cs) \<le> 64 \<and> length (rca_pub cs) \<le> 64"
proof -
  have "caches_ok R sha256 (encodings xs) (Map.empty, Map.empty) rsa_caches_new"
    by (simp add: caches_ok_def rsa_caches_new_def lru_ok_def)
  from run_rsas_plain [OF this assms(2,1)] assms(3) obtain b where
    "answers = map (plain_rsa R) xs" "caches_ok R sha256 (encodings xs) b cs" by auto
  then show ?thesis by (simp add: caches_ok_def lru_ok_def)
qed

definition sample_rsa :: rsa_crate where
  "sample_rsa =
    \<lparr>rsa_from_pkcs8_der = (\<lambda>der. if der = [] then None else Some der), rsa_modulus_bits = (\<lambda>_. 2048),
     rsa_public_new = (\<lambda>n e. Some []), rsa_sign_pkcs1v15 = (\<lambda>h key data. key @ data), rsa_pkcs1v15_signature = Some,
     rsa_verify_pkcs1v15 = (\<lambda>h key data sig. sig = key @ data), rsa_sign_pss = (\<lambda>h stream key data. key @ data),
     rsa_pss_signature = Some, rsa_verify_pss = (\<lambda>h key data sig. sig = key @ data),
     rsa_encrypt_oaep = (\<lambda>h stream key pt. Some pt), rsa_decrypt_oaep = (\<lambda>h key ct. Some ct),
     rsa_sign_digest = (\<lambda>h key d. Some (key @ d)), rsa_verify_digest = (\<lambda>h key d sig. sig = key @ d),
     rsa_sign_pss_digest = (\<lambda>h stream key d. Some (key @ d)), rsa_verify_pss_digest = (\<lambda>h key d sig. sig = key @ d)\<rparr>"

definition sample_uses :: "rsa_op list" where
  "sample_uses =
    [SignPkcs1 (ByHandle 0 5) [1] [9] (Some Sha256), SignPkcs1 ByEncoding [1] [9] (Some Sha256), Evict 0 5,
     SignPkcs1 (ByHandle 0 5) [2] [9] (Some Sha256)]"

theorem rsa_caches_transparent_witness:
  "inj_on id (encodings sample_uses) \<and> handles_consistent sample_uses (Map.empty, Map.empty) \<and>
   fst (run_rsas sample_rsa id sample_uses rsa_caches_new) =
     [Output (Inr [1, 9]), Output (Inr [1, 9]), Evicted, Output (Inr [2, 9])]"
proof -
  have ok: "inj_on id (encodings sample_uses)" "handles_consistent sample_uses (Map.empty, Map.empty)"
    by (simp_all add: sample_uses_def book_ok_def book_next_def)
  have "fst (run_rsas sample_rsa id sample_uses rsa_caches_new) = map (plain_rsa sample_rsa) sample_uses"
    using rsa_caches_transparent [OF ok, of sample_rsa] by (cases "run_rsas sample_rsa id sample_uses rsa_caches_new") simp
  also have "\<dots> = [Output (Inr [1, 9]), Output (Inr [1, 9]), Evicted, Output (Inr [2, 9])]"
    by (simp add: sample_uses_def plain_private_def validate_data_size_def validate_rsa_private_key_size_def sample_rsa_def
        pkcs1v15_sign_with_def ok_or_def)
  finally show ?thesis using ok by simp
qed

end
