(* ===== verification/Entropy_Health.thy ===== *)
theory Entropy_Health
  imports Hsm_Error
begin

text \<open>
  The health tests of the entropy source (\<open>src/src/crypto/entropy_health.rs\<close>): the repetition count
  test, the adaptive proportion test, the start-up test, the process-wide monitor with its sticky
  error flag, and the generator that passes every byte of the operating system through it.

  A function that indexes the sample window returns \<open>None\<close> for the panic of an index out of
  range. What the operating system delivers is an argument: the bytes of the start-up test and
  the bytes of each read.
\<close>

section \<open>The monitor of one source\<close>

abbreviation (input) REPETITION_COUNT_CUTOFF :: u32 where "REPETITION_COUNT_CUTOFF \<equiv> 41"
abbreviation (input) ADAPTIVE_PROPORTION_WINDOW :: nat where "ADAPTIVE_PROPORTION_WINDOW \<equiv> 1024"
abbreviation (input) ADAPTIVE_PROPORTION_CUTOFF :: u32 where "ADAPTIVE_PROPORTION_CUTOFF \<equiv> 670"
abbreviation (input) STARTUP_SAMPLES :: nat where "STARTUP_SAMPLES \<equiv> 1024"

record entropy_monitor =
  em_last_sample :: byte
  em_repetition_count :: u32
  em_first_sample_seen :: bool
  em_window :: bytes
  em_window_pos :: nat
  em_window_value :: byte
  em_window_count :: u32
  em_window_initialized :: bool
  em_startup_passed :: bool

definition entropy_monitor_new :: entropy_monitor where
  "entropy_monitor_new =
    \<lparr>em_last_sample = 0, em_repetition_count = 0, em_first_sample_seen = False,
     em_window = replicate ADAPTIVE_PROPORTION_WINDOW 0, em_window_pos = 0, em_window_value = 0, em_window_count = 0,
     em_window_initialized = False, em_startup_passed = False\<rparr>"

definition repetition_count_test :: "byte \<Rightarrow> entropy_monitor \<Rightarrow> unit hsm_result \<times> entropy_monitor" where
  "repetition_count_test sample m =
    (if \<not> em_first_sample_seen m then
       (Inr (), m\<lparr>em_last_sample := sample, em_repetition_count := 1, em_first_sample_seen := True\<rparr>)
     else if sample = em_last_sample m then
       (let m' = m\<lparr>em_repetition_count := em_repetition_count m + 1\<rparr> in
        if em_repetition_count m' \<ge> REPETITION_COUNT_CUTOFF then (Inl GeneralError, m') else (Inr (), m'))
     else (Inr (), m\<lparr>em_last_sample := sample, em_repetition_count := 1\<rparr>))"

definition adaptive_proportion_test :: "byte \<Rightarrow> entropy_monitor \<Rightarrow> (unit hsm_result \<times> entropy_monitor) option" where
  "adaptive_proportion_test sample m =
    (if \<not> em_window_initialized m then
       Some (Inr (), m\<lparr>em_window_value := sample, em_window_count := 1, em_window := (em_window m)[0 := sample],
         em_window_pos := 1, em_window_initialized := True\<rparr>)
     else if em_window_pos m \<ge> ADAPTIVE_PROPORTION_WINDOW then None
     else
       (let m1 = m\<lparr>em_window := (em_window m)[em_window_pos m := sample], em_window_pos := em_window_pos m + 1\<rparr>;
            m2 = (if sample = em_window_value m1 then m1\<lparr>em_window_count := em_window_count m1 + 1\<rparr> else m1)
        in if em_window_count m2 \<ge> ADAPTIVE_PROPORTION_CUTOFF then Some (Inl GeneralError, m2)
           else if em_window_pos m2 \<ge> ADAPTIVE_PROPORTION_WINDOW
           then Some (Inr (), m2\<lparr>em_window_pos := 0, em_window_initialized := False\<rparr>)
           else Some (Inr (), m2)))"

definition feed_sample_unchecked :: "byte \<Rightarrow> entropy_monitor \<Rightarrow> (unit hsm_result \<times> entropy_monitor) option" where
  "feed_sample_unchecked sample m =
    (case repetition_count_test sample m of
       (Inl e, m1) \<Rightarrow> Some (Inl e, m1)
     | (Inr _, m1) \<Rightarrow> adaptive_proportion_test sample m1)"

fun feed_all :: "bytes \<Rightarrow> entropy_monitor \<Rightarrow> (unit hsm_result \<times> entropy_monitor) option" where
  "feed_all [] m = Some (Inr (), m)"
| "feed_all (b # bs) m =
    (case feed_sample_unchecked b m of
       None \<Rightarrow> None
     | Some (Inl e, m') \<Rightarrow> Some (Inl e, m')
     | Some (Inr _, m') \<Rightarrow> feed_all bs m')"

definition startup_test :: "bytes \<Rightarrow> entropy_monitor \<Rightarrow> (unit hsm_result \<times> entropy_monitor) option" where
  "startup_test entropy_bytes m =
    (if length entropy_bytes < STARTUP_SAMPLES then Some (Inl GeneralError, m)
     else
       (case feed_all (take STARTUP_SAMPLES entropy_bytes)
               (m\<lparr>em_repetition_count := 0, em_first_sample_seen := False, em_window_pos := 0,
                  em_window_initialized := False\<rparr>) of
          None \<Rightarrow> None
        | Some (Inl e, m') \<Rightarrow> Some (Inl e, m')
        | Some (Inr _, m') \<Rightarrow> Some (Inr (), m'\<lparr>em_startup_passed := True\<rparr>)))"

definition feed_sample :: "byte \<Rightarrow> entropy_monitor \<Rightarrow> (unit hsm_result \<times> entropy_monitor) option" where
  "feed_sample sample m =
    (if \<not> em_startup_passed m then Some (Inl GeneralError, m) else feed_sample_unchecked sample m)"

definition observe :: "bytes \<Rightarrow> entropy_monitor \<Rightarrow> (unit hsm_result \<times> entropy_monitor) option" where
  "observe bytes m = (if \<not> em_startup_passed m then Some (Inl GeneralError, m) else feed_all bytes m)"

section \<open>The monitor of the process\<close>

text \<open>The monitor is created at its first use, from the start-up bytes.\<close>

record entropy_global =
  eg_error :: bool
  eg_monitor :: "entropy_monitor option"

definition entropy_global_new :: entropy_global where
  "entropy_global_new = \<lparr>eg_error = False, eg_monitor = None\<rparr>"

definition force_monitor :: "bytes \<Rightarrow> entropy_global \<Rightarrow> (entropy_monitor \<times> entropy_global) option" where
  "force_monitor startup g =
    (case eg_monitor g of
       Some m \<Rightarrow> Some (m, g)
     | None \<Rightarrow>
        (case startup_test startup entropy_monitor_new of
           None \<Rightarrow> None
         | Some (r, m) \<Rightarrow> Some (m, \<lparr>eg_error = eg_error g \<or> \<not> is_ok r, eg_monitor = Some m\<rparr>)))"

definition global_observe :: "bytes \<Rightarrow> bytes \<Rightarrow> entropy_global \<Rightarrow> (unit hsm_result \<times> entropy_global) option" where
  "global_observe startup bytes g =
    (if eg_error g then Some (Inl GeneralError, g)
     else
       (case force_monitor startup g of
          None \<Rightarrow> None
        | Some (m, g1) \<Rightarrow>
           if eg_error g1 then Some (Inl GeneralError, g1)
           else
             (case observe bytes m of
                None \<Rightarrow> None
              | Some (Inr _, m') \<Rightarrow> Some (Inr (), g1\<lparr>eg_monitor := Some m'\<rparr>)
              | Some (Inl e, m') \<Rightarrow> Some (Inl e, \<lparr>eg_error = True, eg_monitor = Some m'\<rparr>))))"

text \<open>Filling a buffer aborts the process when the bytes are not healthy.\<close>

datatype 'a fate = Returns 'a | Aborts | Panics

definition monitored_fill :: "bytes \<Rightarrow> bytes \<Rightarrow> entropy_global \<Rightarrow> (bytes \<times> entropy_global) fate" where
  "monitored_fill startup os_bytes g =
    (case global_observe startup os_bytes g of
       None \<Rightarrow> Panics
     | Some (Inl _, _) \<Rightarrow> Aborts
     | Some (Inr _, g') \<Rightarrow> Returns (os_bytes, g'))"

definition monitored_try_fill :: "bytes \<Rightarrow> bytes \<Rightarrow> entropy_global \<Rightarrow> (bytes option \<times> entropy_global) fate" where
  "monitored_try_fill startup os_bytes g =
    (case global_observe startup os_bytes g of
       None \<Rightarrow> Panics
     | Some (Inl _, g') \<Rightarrow> Returns (None, g')
     | Some (Inr _, g') \<Rightarrow> Returns (Some os_bytes, g'))"

text \<open>A sequence of reads: which of them the monitor accepts.\<close>

fun observe_run :: "bytes \<Rightarrow> bytes list \<Rightarrow> entropy_global \<Rightarrow> (bool list \<times> entropy_global) option" where
  "observe_run startup [] g = Some ([], g)"
| "observe_run startup (r # rs) g =
    (case global_observe startup r g of
       None \<Rightarrow> None
     | Some (res, g') \<Rightarrow> map_option (\<lambda>(oks, g''). (is_ok res # oks, g'')) (observe_run startup rs g'))"

section \<open>What the tests accept\<close>

text \<open>The two tests on a whole stream: no 41 equal consecutive bytes, and in each window of 1024
  bytes fewer than 670 bytes equal to its first one.\<close>

definition stuck_at :: "bytes \<Rightarrow> nat \<Rightarrow> bool" where
  "stuck_at xs i \<longleftrightarrow> i + 41 \<le> length xs \<and> (\<forall>j < 41. xs ! (i + j) = xs ! i)"

definition window_at :: "bytes \<Rightarrow> nat \<Rightarrow> bytes" where
  "window_at xs k = take 1024 (drop (1024 * k) xs)"

definition biased_at :: "bytes \<Rightarrow> nat \<Rightarrow> bool" where
  "biased_at xs k \<longleftrightarrow> 1024 * k < length xs \<and> count_list (window_at xs k) (xs ! (1024 * k)) \<ge> 670"

definition healthy :: "bytes \<Rightarrow> bool" where
  "healthy xs \<longleftrightarrow> (\<forall>i. \<not> stuck_at xs i) \<and> (\<forall>k. \<not> biased_at xs k)"

text \<open>The length of the run of equal bytes at the end.\<close>

definition run_length :: "bytes \<Rightarrow> nat" where
  "run_length xs = length (takeWhile (\<lambda>x. x = last xs) (rev xs))"

lemma run_length_snoc:
  "run_length (xs @ [b]) = (if xs \<noteq> [] \<and> last xs = b then Suc (run_length xs) else 1)"
  by (cases xs rule: rev_cases) (auto simp: run_length_def)

lemma run_length_le: "run_length xs \<le> length xs"
  unfolding run_length_def using length_takeWhile_le [of _ "rev xs"] by simp

lemma run_length_nth:
  assumes "j < run_length xs"
  shows "xs ! (length xs - Suc j) = last xs"
proof -
  have l: "j < length xs" using assms run_length_le [of xs] by simp
  have "rev xs ! j = last xs"
    using nth_mem [OF assms [unfolded run_length_def]] takeWhile_nth [OF assms [unfolded run_length_def]]
    by (metis set_takeWhileD)
  then show ?thesis using l by (simp add: rev_nth)
qed

lemma run_length_ge:
  assumes "n \<le> length xs" "\<And>j. j < n \<Longrightarrow> xs ! (length xs - Suc j) = last xs"
  shows "n \<le> run_length xs"
proof -
  have "length (takeWhile (\<lambda>x. x = last xs) (rev xs)) \<ge> n"
    using assms by (intro length_takeWhile_less_P_nth) (simp_all add: rev_nth)
  then show ?thesis by (simp add: run_length_def)
qed

lemma stuck_snoc:
  "(\<exists>i. stuck_at (xs @ [b]) i) \<longleftrightarrow> (\<exists>i. stuck_at xs i) \<or> 41 \<le> run_length (xs @ [b])"
proof (intro iffI)
  let ?ys = "xs @ [b]"
  assume "\<exists>i. stuck_at ?ys i"
  then obtain i where i: "i + 41 \<le> length ?ys" "\<forall>j < 41. ?ys ! (i + j) = ?ys ! i" by (auto simp: stuck_at_def)
  show "(\<exists>i. stuck_at xs i) \<or> 41 \<le> run_length ?ys"
  proof (cases "i + 41 = length ?ys")
    case True
    have last: "last ?ys = ?ys ! i" using i(2) [rule_format, of 40] True by (simp add: nth_append)
    have "41 \<le> run_length ?ys"
    proof (rule run_length_ge)
      fix j :: nat assume j: "j < 41"
      have "length ?ys - Suc j = i + (40 - j)" using True j by simp
      then show "?ys ! (length ?ys - Suc j) = last ?ys" using i(2) last by simp
    qed (use True in simp)
    then show ?thesis by simp
  next
    case False
    then have n: "i + 41 \<le> length xs" using i(1) by simp
    then have "stuck_at xs i" using i(2) by (auto simp: stuck_at_def nth_append)
    then show ?thesis by blast
  qed
next
  let ?ys = "xs @ [b]"
  assume "(\<exists>i. stuck_at xs i) \<or> 41 \<le> run_length ?ys"
  then show "\<exists>i. stuck_at ?ys i"
  proof
    assume "\<exists>i. stuck_at xs i"
    then obtain i where "stuck_at xs i" ..
    then have "stuck_at ?ys i" by (auto simp: stuck_at_def nth_append)
    then show ?thesis ..
  next
    assume r: "41 \<le> run_length ?ys"
    have l: "41 \<le> length ?ys" using r run_length_le [of ?ys] by simp
    have "?ys ! (length ?ys - 41 + j) = last ?ys" if "j < 41" for j
      using run_length_nth [of "40 - j" ?ys] r that l by (simp add: Suc_diff_le)
    then have "stuck_at ?ys (length ?ys - 41)" using l by (force simp: stuck_at_def)
    then show ?thesis by blast
  qed
qed

text \<open>The number of bytes of the last window that equal its first one.\<close>

definition window_hits :: "bytes \<Rightarrow> nat" where
  "window_hits xs = (let k = (length xs - 1) div 1024 in count_list (window_at xs k) (xs ! (1024 * k)))"

lemma window_before: "0 < w \<Longrightarrow> w * k + w \<le> n \<Longrightarrow> k < n div (w :: nat)"
  using div_le_mono [of "w * Suc k" n w] by simp

lemma window_inside:
  assumes "0 < w" "n mod w \<noteq> (0 :: nat)"
  shows "w * (n div w) < n" "(n - 1) div w = n div w"
proof -
  have n: "n = w * (n div w) + n mod w" by simp
  then show "w * (n div w) < n" using assms(2) by linarith
  have "n - 1 = (n mod w - 1) + w * (n div w)" using n assms(2) by linarith
  then have "(n - 1) div w = ((n mod w - 1) + w * (n div w)) div w" by metis
  also have "\<dots> = (n mod w - 1) div w + n div w" using assms(1) by simp
  also have "\<dots> = n div w" using assms(1) mod_less_divisor [of w n] by (simp add: less_imp_diff_less)
  finally show "(n - 1) div w = n div w" .
qed

lemma window_at_snoc:
  "window_at (xs @ [b]) k =
    (if k = length xs div 1024 then window_at xs k @ [b] else window_at xs k)"
proof (cases "length xs" "1024 * k" rule: linorder_cases)
  case less
  then have "length xs div 1024 < k" by (simp add: div_less_iff_less_mult mult.commute)
  with less show ?thesis by (simp add: window_at_def)
next
  case equal
  then show ?thesis by (simp add: window_at_def)
next
  case greater
  then show ?thesis
  proof (cases "length xs - 1024 * k < 1024")
    case True
    then have "k = length xs div 1024" using greater by (intro div_nat_eqI [symmetric]) simp_all
    then show ?thesis using True greater by (simp add: window_at_def)
  next
    case False
    then have "k < length xs div 1024" using greater window_before [of 1024 k "length xs"] by simp
    then show ?thesis using False greater by (simp add: window_at_def)
  qed
qed

lemma window_start_le: "w * (n div w) \<le> (n :: nat)"
  by (metis mult.commute div_times_less_eq_dividend)

lemma biased_snoc:
  "(\<exists>k. biased_at (xs @ [b]) k) \<longleftrightarrow> (\<exists>k. biased_at xs k) \<or> 670 \<le> window_hits (xs @ [b])"
proof -
  let ?ys = "xs @ [b]" and ?k = "length xs div 1024"
  have hits: "window_hits ?ys = count_list (window_at ?ys ?k) (?ys ! (1024 * ?k))" by (simp add: window_hits_def Let_def)
  have at: "biased_at ?ys ?k \<longleftrightarrow> 670 \<le> window_hits ?ys"
    using window_start_le [of "length xs"] by (auto simp: biased_at_def hits le_imp_less_Suc)
  have other: "biased_at ?ys k \<longleftrightarrow> biased_at xs k" if "k \<noteq> ?k" for k
  proof -
    have "1024 * k \<noteq> length xs" using that by auto
    then show ?thesis using that by (auto simp: biased_at_def window_at_snoc nth_append)
  qed
  have grow: "biased_at xs ?k \<Longrightarrow> biased_at ?ys ?k"
    by (auto simp: biased_at_def window_at_snoc nth_append)
  show ?thesis using at other grow by metis
qed

lemma healthy_Nil: "healthy []"
  by (simp add: healthy_def stuck_at_def biased_at_def)

lemma healthy_snoc:
  "healthy (xs @ [b]) \<longleftrightarrow> healthy xs \<and> run_length (xs @ [b]) < 41 \<and> window_hits (xs @ [b]) < 670"
  using stuck_snoc [of xs b] biased_snoc [of xs b] unfolding healthy_def by (metis not_le)

lemma healthy_appendD: "healthy (xs @ ys) \<Longrightarrow> healthy xs"
proof (induction ys rule: rev_induct)
  case (snoc y ys)
  then show ?case using healthy_snoc [of "xs @ ys" y] by simp
qed simp

lemma window_hits_snoc:
  "window_hits (xs @ [b]) =
    (if length xs mod 1024 = 0 then 1
     else if b = xs ! (1024 * (length xs div 1024)) then Suc (window_hits xs) else window_hits xs)"
proof -
  let ?k = "length xs div 1024"
  have hits: "window_hits (xs @ [b]) = count_list (window_at xs ?k @ [b]) ((xs @ [b]) ! (1024 * ?k))"
    by (simp add: window_hits_def Let_def window_at_snoc)
  show ?thesis
  proof (cases "length xs mod 1024 = 0")
    case True
    then have "1024 * ?k = length xs" by auto
    then show ?thesis using True hits by (simp add: window_at_def)
  next
    case False
    then have "1024 * ?k < length xs" by (simp add: window_inside)
    moreover have "(length xs - 1) div 1024 = ?k" using False by (intro window_inside(2)) simp_all
    ultimately show ?thesis using False hits by (simp add: window_hits_def Let_def nth_append)
  qed
qed

section \<open>The monitor computes the specification\<close>

definition tracks :: "bytes \<Rightarrow> entropy_monitor \<Rightarrow> bool" where
  "tracks xs m \<longleftrightarrow>
     em_first_sample_seen m = (xs \<noteq> []) \<and>
     (xs \<noteq> [] \<longrightarrow> em_last_sample m = last xs \<and> unat (em_repetition_count m) = run_length xs) \<and>
     em_window_initialized m = (length xs mod 1024 \<noteq> 0) \<and>
     (length xs mod 1024 \<noteq> 0 \<longrightarrow>
       em_window_pos m = length xs mod 1024 \<and> em_window_value m = xs ! (1024 * (length xs div 1024)) \<and>
       unat (em_window_count m) = window_hits xs)"

lemma healthy_bounds:
  assumes "healthy xs"
  shows "run_length xs < 41" "xs \<noteq> [] \<Longrightarrow> window_hits xs < 670"
  using assms by (cases xs rule: rev_cases; simp add: healthy_snoc run_length_def)+

lemma unat_next: "unat x < 2 ^ 31 \<Longrightarrow> unat (x + 1 :: u32) = Suc (unat x)"
  by (simp add: unat_word_ariths)

lemma cutoff_iff: "(41 :: u32) \<le> c \<longleftrightarrow> 41 \<le> unat c" "(670 :: u32) \<le> c \<longleftrightarrow> 670 \<le> unat c"
  by (simp_all add: word_le_nat_alt)

lemma repetition_count_tracks:
  assumes "healthy xs" "tracks xs m" "repetition_count_test b m = (r, m1)"
  shows "is_ok r \<longleftrightarrow> run_length (xs @ [b]) < 41"
    "is_ok r \<Longrightarrow> em_first_sample_seen m1 \<and> em_last_sample m1 = b \<and> unat (em_repetition_count m1) = run_length (xs @ [b])"
    "em_window_initialized m1 = em_window_initialized m" "em_window_pos m1 = em_window_pos m"
    "em_window_value m1 = em_window_value m" "em_window_count m1 = em_window_count m"
    "em_startup_passed m1 = em_startup_passed m"
  using assms healthy_bounds(1) [OF assms(1)]
  by (auto simp: repetition_count_test_def tracks_def run_length_snoc unat_next cutoff_iff Let_def split: if_splits)

lemma window_next:
  assumes "n mod 1024 \<noteq> (0 :: nat)"
  shows "Suc n mod 1024 = (if Suc (n mod 1024) = 1024 then 0 else Suc (n mod 1024))"
    "Suc n mod 1024 \<noteq> 0 \<Longrightarrow> Suc n div 1024 = n div 1024"
  using assms by (simp_all add: mod_Suc div_Suc)

lemma adaptive_proportion_tracks:
  assumes "healthy xs" "em_window_initialized m = (length xs mod 1024 \<noteq> 0)"
    "length xs mod 1024 \<noteq> 0 \<longrightarrow> em_window_pos m = length xs mod 1024 \<and>
       em_window_value m = xs ! (1024 * (length xs div 1024)) \<and> unat (em_window_count m) = window_hits xs"
  shows "\<exists>r m'. adaptive_proportion_test b m = Some (r, m') \<and> (is_ok r \<longleftrightarrow> window_hits (xs @ [b]) < 670) \<and>
    (is_ok r \<longrightarrow> em_window_initialized m' = (length (xs @ [b]) mod 1024 \<noteq> 0) \<and>
       (length (xs @ [b]) mod 1024 \<noteq> 0 \<longrightarrow> em_window_pos m' = length (xs @ [b]) mod 1024 \<and>
          em_window_value m' = (xs @ [b]) ! (1024 * (length (xs @ [b]) div 1024)) \<and>
          unat (em_window_count m') = window_hits (xs @ [b]))) \<and>
    em_first_sample_seen m' = em_first_sample_seen m \<and> em_last_sample m' = em_last_sample m \<and>
    em_repetition_count m' = em_repetition_count m \<and> em_startup_passed m' = em_startup_passed m"
proof (cases "length xs mod 1024 = 0")
  case True
  then have "1024 * (length xs div 1024) = length xs" by auto
  moreover have "Suc (length xs) mod 1024 = 1" "Suc (length xs) div 1024 = length xs div 1024"
    using True by (simp_all add: mod_Suc div_Suc)
  ultimately show ?thesis using True assms(2) by (simp add: adaptive_proportion_test_def window_hits_snoc)
next
  case False
  let ?p = "length xs mod 1024"
  have "xs \<noteq> []" using False by auto
  then have small: "window_hits xs < 670" by (rule healthy_bounds(2) [OF assms(1)])
  have p: "?p < 1024" "1024 * (length xs div 1024) < length xs" using False by (simp_all add: window_inside)
  note nx = window_next [OF False]
  show ?thesis
    using False assms(2,3) small p nx
    by (auto simp: adaptive_proportion_test_def window_hits_snoc unat_next cutoff_iff Let_def nth_append)
qed

lemma feed_tracks:
  assumes "healthy xs" "tracks xs m"
  shows "\<exists>r m'. feed_sample_unchecked b m = Some (r, m') \<and> (is_ok r \<longleftrightarrow> healthy (xs @ [b])) \<and>
    (is_ok r \<longrightarrow> tracks (xs @ [b]) m') \<and> em_startup_passed m' = em_startup_passed m"
proof -
  obtain r m1 where rc: "repetition_count_test b m = (r, m1)" by (cases "repetition_count_test b m")
  note rt = repetition_count_tracks [OF assms rc]
  show ?thesis
  proof (cases r)
    case (Inl e)
    then show ?thesis using rc rt(1,7) by (simp add: feed_sample_unchecked_def healthy_snoc)
  next
    case (Inr u)
    have w: "em_window_initialized m1 = (length xs mod 1024 \<noteq> 0)"
      "length xs mod 1024 \<noteq> 0 \<longrightarrow> em_window_pos m1 = length xs mod 1024 \<and>
        em_window_value m1 = xs ! (1024 * (length xs div 1024)) \<and> unat (em_window_count m1) = window_hits xs"
      using assms(2) rt by (simp_all add: tracks_def)
    show ?thesis
      using adaptive_proportion_tracks [OF assms(1) w, of b] rc rt Inr assms(1)
      by (auto simp: feed_sample_unchecked_def healthy_snoc tracks_def)
  qed
qed

lemma feed_all_tracks:
  assumes "healthy xs" "tracks xs m"
  shows "\<exists>r m'. feed_all bs m = Some (r, m') \<and> (is_ok r \<longleftrightarrow> healthy (xs @ bs)) \<and> (is_ok r \<longrightarrow> tracks (xs @ bs) m') \<and>
    em_startup_passed m' = em_startup_passed m"
  using assms
proof (induction bs arbitrary: xs m)
  case (Cons b bs)
  obtain r m1 where f: "feed_sample_unchecked b m = Some (r, m1)" "is_ok r \<longleftrightarrow> healthy (xs @ [b])"
      "is_ok r \<longrightarrow> tracks (xs @ [b]) m1" "em_startup_passed m1 = em_startup_passed m"
    using feed_tracks [OF Cons.prems] by blast
  show ?case
  proof (cases r)
    case (Inl e)
    then have "\<not> healthy (xs @ b # bs)" using f(2) healthy_appendD [of "xs @ [b]" bs] by auto
    then show ?thesis using f Inl by simp
  next
    case (Inr u)
    then show ?thesis using f Cons.IH [of "xs @ [b]" m1] by simp
  qed
qed simp

lemma tracks_start: "\<not> em_first_sample_seen m \<Longrightarrow> \<not> em_window_initialized m \<Longrightarrow> tracks [] m"
  by (simp add: tracks_def)

lemma startup_tracks:
  assumes "length startup = 1024"
  shows "\<exists>r m. startup_test startup entropy_monitor_new = Some (r, m) \<and> (is_ok r \<longleftrightarrow> healthy startup) \<and>
    (is_ok r \<longrightarrow> tracks startup m \<and> em_startup_passed m)"
proof -
  let ?m0 = "entropy_monitor_new\<lparr>em_repetition_count := 0, em_first_sample_seen := False, em_window_pos := 0,
      em_window_initialized := False\<rparr>"
  have "tracks [] ?m0" by (rule tracks_start) simp_all
  from feed_all_tracks [OF healthy_Nil this, of startup] obtain r m where
    f: "feed_all startup ?m0 = Some (r, m)" "is_ok r \<longleftrightarrow> healthy startup" "is_ok r \<longrightarrow> tracks startup m" by auto
  show ?thesis
    using assms f by (cases r) (simp_all add: startup_test_def tracks_def)
qed

text \<open>The state of the process after the start-up bytes and the stream \<open>xs\<close> of observed bytes.\<close>

definition global_tracks :: "bytes \<Rightarrow> bytes \<Rightarrow> entropy_global \<Rightarrow> bool" where
  "global_tracks startup xs g \<longleftrightarrow>
     (if eg_error g then \<not> healthy (startup @ xs)
      else (eg_monitor g = None \<and> xs = []) \<or>
        (\<exists>m. eg_monitor g = Some m \<and> healthy (startup @ xs) \<and> tracks (startup @ xs) m \<and> em_startup_passed m))"

lemma force_monitor_tracks:
  assumes "length startup = 1024" "global_tracks startup xs g" "\<not> eg_error g"
  shows "\<exists>m g1. force_monitor startup g = Some (m, g1) \<and> eg_monitor g1 = Some m \<and>
    (eg_error g1 \<longrightarrow> \<not> healthy (startup @ xs)) \<and>
    (\<not> eg_error g1 \<longrightarrow> healthy (startup @ xs) \<and> tracks (startup @ xs) m \<and> em_startup_passed m)"
proof (cases "eg_monitor g")
  case None
  then have "xs = []" using assms(2,3) by (simp add: global_tracks_def)
  then show ?thesis
    using startup_tracks [OF assms(1)] None assms(3) by (auto simp: force_monitor_def)
next
  case (Some m)
  then show ?thesis using assms(2,3) by (simp add: force_monitor_def global_tracks_def)
qed

lemma global_observe_tracks:
  assumes "length startup = 1024" "global_tracks startup xs g"
  shows "\<exists>r g'. global_observe startup bs g = Some (r, g') \<and> (is_ok r \<longleftrightarrow> healthy (startup @ xs @ bs)) \<and>
    global_tracks startup (xs @ bs) g'"
proof (cases "eg_error g")
  case True
  then have "\<not> healthy (startup @ xs @ bs)"
    using assms(2) healthy_appendD [of "startup @ xs" bs] by (auto simp: global_tracks_def)
  then show ?thesis using True by (simp add: global_observe_def global_tracks_def)
next
  case False
  obtain m g1 where fm: "force_monitor startup g = Some (m, g1)" "eg_monitor g1 = Some m"
      "eg_error g1 \<longrightarrow> \<not> healthy (startup @ xs)"
      "\<not> eg_error g1 \<longrightarrow> healthy (startup @ xs) \<and> tracks (startup @ xs) m \<and> em_startup_passed m"
    using force_monitor_tracks [OF assms False] by blast
  show ?thesis
  proof (cases "eg_error g1")
    case True
    then have "\<not> healthy (startup @ xs @ bs)" using fm(3) healthy_appendD [of "startup @ xs" bs] by auto
    then show ?thesis using True False fm by (simp add: global_observe_def global_tracks_def)
  next
    case no_error: False
    then have h: "healthy (startup @ xs)" "tracks (startup @ xs) m" and p: "em_startup_passed m" using fm(4) by simp_all
    obtain r m' where "feed_all bs m = Some (r, m')" "is_ok r \<longleftrightarrow> healthy (startup @ xs @ bs)"
        "is_ok r \<longrightarrow> tracks (startup @ xs @ bs) m'" "em_startup_passed m' = em_startup_passed m"
      using feed_all_tracks [OF h, of bs] by auto
    then show ?thesis
      using False no_error fm(1) p by (cases r) (simp_all add: global_observe_def observe_def global_tracks_def)
  qed
qed

lemma observe_run_tracks:
  assumes "length startup = 1024" "global_tracks startup xs g"
  shows "\<exists>oks g'. observe_run startup rs g = Some (oks, g') \<and> length oks = length rs \<and>
    (\<forall>i < length rs. oks ! i \<longleftrightarrow> healthy (startup @ xs @ concat (take (Suc i) rs)))"
  using assms(2)
proof (induction rs arbitrary: xs g)
  case (Cons r rs)
  obtain res g1 where g: "global_observe startup r g = Some (res, g1)" "is_ok res \<longleftrightarrow> healthy (startup @ xs @ r)"
      "global_tracks startup (xs @ r) g1"
    using global_observe_tracks [OF assms(1) Cons.prems] by blast
  obtain oks g' where o: "observe_run startup rs g1 = Some (oks, g')" "length oks = length rs"
      "\<forall>i < length rs. oks ! i \<longleftrightarrow> healthy (startup @ (xs @ r) @ concat (take (Suc i) rs))"
    using Cons.IH [OF g(3)] by blast
  have "(is_ok res # oks) ! i \<longleftrightarrow> healthy (startup @ xs @ concat (take (Suc i) (r # rs)))" if "i < length (r # rs)" for i
    using that g(2) o(3) by (cases i) simp_all
  then show ?case using g(1) o(1,2) by auto
qed simp

text \<open>A stream without two equal neighbours is healthy.\<close>

lemma count_adj: "distinct_adj xs \<Longrightarrow> 2 * count_list xs x \<le> length xs + 1"
  by (induction xs rule: induct_list012) (auto simp: distinct_adj_Cons)

lemma distinct_adj_healthy:
  assumes "distinct_adj xs"
  shows "healthy xs"
proof -
  have "\<not> stuck_at xs i" for i
  proof
    assume "stuck_at xs i"
    then have "Suc i < length xs" and "\<forall>j < 41. xs ! (i + j) = xs ! i" by (simp_all add: stuck_at_def)
    from this(1) this(2) [rule_format, of 1] show False using distinct_adj_nth [OF assms, of i] by simp
  qed
  moreover have "\<not> biased_at xs k" for k
  proof -
    have "distinct_adj (window_at xs k)"
      using assms by (auto simp: window_at_def distinct_adj_conv_nth)
    moreover have "length (window_at xs k) \<le> 1024" by (simp add: window_at_def)
    ultimately have "2 * count_list (window_at xs k) x \<le> 1025" for x
      using count_adj [of "window_at xs k" x] by linarith
    from this [of "xs ! (1024 * k)"] show ?thesis by (simp add: biased_at_def)
  qed
  ultimately show ?thesis by (simp add: healthy_def)
qed

text \<open>\<^bold>\<open>C10\<close> The health monitor of the process never panics and accepts a read exactly when the
  whole stream of bytes up to it, start-up bytes included, has no 41 equal consecutive bytes and no
  window of 1024 bytes with 670 or more bytes equal to its first one; once a read is refused, every
  later one is.\<close>

theorem entropy_monitor_exact:
  assumes "length startup = 1024"
  shows "\<exists>oks g. observe_run startup rs entropy_global_new = Some (oks, g) \<and> length oks = length rs \<and>
    (\<forall>i < length rs. oks ! i \<longleftrightarrow> healthy (startup @ concat (take (Suc i) rs))) \<and>
    (\<forall>i j. i < j \<longrightarrow> j < length rs \<longrightarrow> \<not> oks ! i \<longrightarrow> \<not> oks ! j)"
proof -
  have "global_tracks startup [] entropy_global_new" by (simp add: global_tracks_def entropy_global_new_def)
  from observe_run_tracks [OF assms this, of rs] obtain oks g where
    o: "observe_run startup rs entropy_global_new = Some (oks, g)" "length oks = length rs"
      "\<forall>i < length rs. oks ! i \<longleftrightarrow> healthy (startup @ concat (take (Suc i) rs))" by auto
  have "\<not> oks ! j" if "i < j" "j < length rs" "\<not> oks ! i" for i j
  proof -
    have "take (Suc j) rs = take (Suc i) rs @ take (j - i) (drop (Suc i) rs)"
      using that(1) by (simp flip: take_add)
    then have "startup @ concat (take (Suc j) rs) = (startup @ concat (take (Suc i) rs)) @ concat (take (j - i) (drop (Suc i) rs))"
      by simp
    then show ?thesis using that o(3) healthy_appendD by (metis (no_types, lifting) order.strict_trans)
  qed
  then show ?thesis using o by blast
qed

theorem entropy_monitor_exact_witness:
  "length (replicate 1024 0 :: bytes) = 1024 \<and>
   (\<exists>g. observe_run (replicate 1024 0) [[1]] entropy_global_new = Some ([False], g))"
proof -
  let ?startup = "replicate 1024 0 :: bytes"
  obtain oks g where o: "observe_run ?startup [[1]] entropy_global_new = Some (oks, g)" "length oks = 1"
      "oks ! 0 \<longleftrightarrow> healthy (?startup @ [1])"
    using entropy_monitor_exact [of ?startup "[[1]]"] by auto
  have "stuck_at (?startup @ [1]) 0" by (simp add: stuck_at_def nth_append)
  then have "\<not> oks ! 0" using o(3) by (auto simp: healthy_def)
  then have "oks = [False]" using o(2) by (cases oks) simp_all
  then show ?thesis using o(1) by auto
qed

end
