(* ===== verification/Hmac_Drbg.thy ===== *)
theory Hmac_Drbg
  imports Entropy_Health
begin

text \<open>
  The HMAC deterministic random bit generator (\<open>src/src/crypto/drbg.rs\<close>), seeded and reseeded through
  the health monitor. HMAC-SHA-256 is the argument \<open>hmac\<close> of key and message; what the code relies
  on is that its result has 32 bytes.
\<close>

section \<open>Operations\<close>

abbreviation (input) RESEED_INTERVAL :: u64 where "RESEED_INTERVAL \<equiv> 281474976710656"

record hmac_drbg =
  dr_key :: bytes
  dr_value :: bytes
  dr_reseed_counter :: u64
  dr_last_output :: bytes
  dr_has_output :: bool

definition drbg_update :: "(bytes \<Rightarrow> bytes \<Rightarrow> bytes) \<Rightarrow> bytes option \<Rightarrow> hmac_drbg \<Rightarrow> hmac_drbg" where
  "drbg_update hmac provided_data d =
    (let k1 = hmac (dr_key d) (dr_value d @ [0x00] @ (case provided_data of Some data \<Rightarrow> data | None \<Rightarrow> []));
         v1 = hmac k1 (dr_value d)
     in case provided_data of
          None \<Rightarrow> d\<lparr>dr_key := k1, dr_value := v1\<rparr>
        | Some data \<Rightarrow>
            if data = [] then d\<lparr>dr_key := k1, dr_value := v1\<rparr>
            else (let k2 = hmac k1 (v1 @ [0x01] @ data) in d\<lparr>dr_key := k2, dr_value := hmac k2 v1\<rparr>))"

definition drbg_new :: "(bytes \<Rightarrow> bytes \<Rightarrow> bytes) \<Rightarrow> bytes \<Rightarrow> bytes \<Rightarrow> entropy_global \<Rightarrow> (hmac_drbg \<times> entropy_global) fate" where
  "drbg_new hmac startup os_bytes g =
    (case monitored_fill startup os_bytes g of
       Returns (seed, g') \<Rightarrow>
         Returns ((drbg_update hmac (Some seed)
           \<lparr>dr_key = replicate 32 0, dr_value = replicate 32 1, dr_reseed_counter = 0, dr_last_output = replicate 32 0,
            dr_has_output = False\<rparr>)\<lparr>dr_reseed_counter := 1\<rparr>, g')
     | Aborts \<Rightarrow> Aborts
     | Panics \<Rightarrow> Panics)"

definition drbg_reseed :: "(bytes \<Rightarrow> bytes \<Rightarrow> bytes) \<Rightarrow> bytes \<Rightarrow> bytes \<Rightarrow> hmac_drbg \<times> entropy_global \<Rightarrow> (hmac_drbg \<times> entropy_global) fate" where
  "drbg_reseed hmac startup os_bytes s =
    (case s of (d, g) \<Rightarrow>
      (case monitored_fill startup os_bytes g of
         Returns (entropy, g') \<Rightarrow> Returns ((drbg_update hmac (Some entropy) d)\<lparr>dr_reseed_counter := 1\<rparr>, g')
       | Aborts \<Rightarrow> Aborts
       | Panics \<Rightarrow> Panics))"

definition health_check :: "bytes \<Rightarrow> hmac_drbg \<Rightarrow> unit hsm_result" where
  "health_check current d = (if current = dr_last_output d then Inl GeneralError else Inr ())"

text \<open>The output loop, by the number of bytes still to produce.\<close>

function generate_loop :: "(bytes \<Rightarrow> bytes \<Rightarrow> bytes) \<Rightarrow> nat \<Rightarrow> hmac_drbg \<Rightarrow> bytes hsm_result \<times> hmac_drbg" where
  "generate_loop hmac remaining d =
    (if remaining = 0 then (Inr [], d)
     else
       (let v = hmac (dr_key d) (dr_value d);
            d1 = d\<lparr>dr_value := v\<rparr>
        in case (if dr_has_output d1 then health_check v d1 else Inr ()) of
             Inl e \<Rightarrow> (Inl e, d1)
           | Inr _ \<Rightarrow>
               (let copy_len = min remaining 32 in
                case generate_loop hmac (remaining - copy_len) (d1\<lparr>dr_last_output := v, dr_has_output := True\<rparr>) of
                  (Inl e, d2) \<Rightarrow> (Inl e, d2)
                | (Inr out, d2) \<Rightarrow> (Inr (take copy_len v @ out), d2))))"
  by pat_completeness auto
termination
  by (relation "measure (\<lambda>(hmac, remaining, d). remaining)") auto

declare generate_loop.simps [simp del]

text \<open>Generating reads fresh entropy at each call, twice when the counter is past the interval.\<close>

definition drbg_generate ::
  "(bytes \<Rightarrow> bytes \<Rightarrow> bytes) \<Rightarrow> bytes \<Rightarrow> bytes \<Rightarrow> bytes \<Rightarrow> nat \<Rightarrow> hmac_drbg \<times> entropy_global \<Rightarrow>
   (bytes hsm_result \<times> hmac_drbg \<times> entropy_global) fate" where
  "drbg_generate hmac startup os1 os2 n s =
    (case (if dr_reseed_counter (fst s) > RESEED_INTERVAL then drbg_reseed hmac startup os1 s else Returns s) of
       Aborts \<Rightarrow> Aborts
     | Panics \<Rightarrow> Panics
     | Returns s1 \<Rightarrow>
        (case drbg_reseed hmac startup os2 s1 of
           Aborts \<Rightarrow> Aborts
         | Panics \<Rightarrow> Panics
         | Returns (d2, g2) \<Rightarrow>
            (case generate_loop hmac n d2 of
               (Inl e, d3) \<Rightarrow> Returns (Inl e, d3, g2)
             | (Inr out, d3) \<Rightarrow>
                 (let d4 = drbg_update hmac None d3
                  in Returns (Inr out, d4\<lparr>dr_reseed_counter := dr_reseed_counter d4 + 1\<rparr>, g2)))))"

text \<open>The random number generator handed to the crates aborts the process on a failure.\<close>

definition drbg_fill_bytes ::
  "(bytes \<Rightarrow> bytes \<Rightarrow> bytes) \<Rightarrow> bytes \<Rightarrow> bytes \<Rightarrow> bytes \<Rightarrow> nat \<Rightarrow> hmac_drbg \<times> entropy_global \<Rightarrow>
   (bytes \<times> hmac_drbg \<times> entropy_global) fate" where
  "drbg_fill_bytes hmac startup os1 os2 n s =
    (case drbg_generate hmac startup os1 os2 n s of
       Aborts \<Rightarrow> Aborts
     | Panics \<Rightarrow> Panics
     | Returns (Inl _, _) \<Rightarrow> Aborts
     | Returns (Inr out, s') \<Rightarrow> Returns (out, s'))"

section \<open>The output\<close>

definition hmac_sized :: "(bytes \<Rightarrow> bytes \<Rightarrow> bytes) \<Rightarrow> bool" where
  "hmac_sized hmac \<longleftrightarrow> (\<forall>k m. length (hmac k m) = 32)"

text \<open>The reference: block \<open>i\<close> is the (i + 1)-fold application of the HMAC to the value.\<close>

definition drbg_block :: "(bytes \<Rightarrow> bytes \<Rightarrow> bytes) \<Rightarrow> bytes \<Rightarrow> bytes \<Rightarrow> nat \<Rightarrow> bytes" where
  "drbg_block hmac k v i = (hmac k ^^ Suc i) v"

definition block_count :: "nat \<Rightarrow> nat" where
  "block_count n = (n + 31) div 32"

definition stuck_output :: "(bytes \<Rightarrow> bytes \<Rightarrow> bytes) \<Rightarrow> nat \<Rightarrow> hmac_drbg \<Rightarrow> bool" where
  "stuck_output hmac n d \<longleftrightarrow>
     (n > 0 \<and> dr_has_output d \<and> drbg_block hmac (dr_key d) (dr_value d) 0 = dr_last_output d) \<or>
     (\<exists>i. Suc i < block_count n \<and>
        drbg_block hmac (dr_key d) (dr_value d) (Suc i) = drbg_block hmac (dr_key d) (dr_value d) i)"

lemma block_count_step: "0 < n \<Longrightarrow> block_count n = Suc (block_count (n - min n 32))"
  by (cases "n \<le> 32") (auto simp: block_count_def min_def le_div_geq)

lemma block_shift: "drbg_block hmac k (hmac k v) i = drbg_block hmac k v (Suc i)"
  by (simp add: drbg_block_def funpow_swap1 del: funpow.simps) (simp add: funpow_swap1)

lemma block_count_0 [simp]: "block_count 0 = 0"
  by (simp add: block_count_def)

lemma stuck_step:
  assumes "0 < n" "d2 = d\<lparr>dr_value := hmac (dr_key d) (dr_value d), dr_last_output := hmac (dr_key d) (dr_value d), dr_has_output := True\<rparr>"
    "\<not> (dr_has_output d \<and> hmac (dr_key d) (dr_value d) = dr_last_output d)"
  shows "stuck_output hmac n d \<longleftrightarrow> stuck_output hmac (n - min n 32) d2"
proof -
  let ?b = "drbg_block hmac (dr_key d) (dr_value d)" and ?m = "n - min n 32"
  have first: "?b 0 = hmac (dr_key d) (dr_value d)" by (simp add: drbg_block_def)
  have pos: "min n 32 < n \<longleftrightarrow> 0 < block_count ?m" by (auto simp: block_count_def)
  have "(\<exists>i. Suc i < Suc (block_count ?m) \<and> ?b (Suc i) = ?b i) \<longleftrightarrow>
      (0 < block_count ?m \<and> ?b 1 = ?b 0) \<or> (\<exists>i. Suc i < block_count ?m \<and> ?b (Suc (Suc i)) = ?b (Suc i))"
    by (cases "block_count ?m") (simp_all add: Ex_less_Suc2)
  then show ?thesis
    using assms(1,3) by (auto simp: stuck_output_def assms(2) block_count_step block_shift first pos)
qed

lemma generate_loop_spec:
  assumes "hmac_sized hmac"
  shows "fst (generate_loop hmac n d) =
      (if stuck_output hmac n d then Inl GeneralError
       else Inr (take n (concat (map (drbg_block hmac (dr_key d) (dr_value d)) [0 ..< block_count n]))))"
proof (induction n arbitrary: d rule: less_induct)
  case (less n)
  show ?case
  proof (cases "n = 0")
    case False
    let ?v = "hmac (dr_key d) (dr_value d)" and ?m = "n - min n 32"
    let ?d2 = "d\<lparr>dr_value := ?v, dr_last_output := ?v, dr_has_output := True\<rparr>"
    let ?b = "drbg_block hmac (dr_key d) (dr_value d)"
    have v: "length ?v = 32" using assms by (simp add: hmac_sized_def)
    have b0: "?b 0 = ?v" by (simp add: drbg_block_def)
    show ?thesis
    proof (cases "dr_has_output d \<and> ?v = dr_last_output d")
      case True
      then have "stuck_output hmac n d" using False b0 by (simp add: stuck_output_def)
      then show ?thesis using True False by (simp add: generate_loop.simps [of hmac n] health_check_def Let_def)
    next
      case ok: False
      have IH: "fst (generate_loop hmac ?m ?d2) =
          (if stuck_output hmac ?m ?d2 then Inl GeneralError
           else Inr (take ?m (concat (map (drbg_block hmac (dr_key d) ?v) [0 ..< block_count ?m]))))"
        using less.IH [of ?m ?d2] False by simp
      have "map ?b [0 ..< block_count n] = ?v # map (drbg_block hmac (dr_key d) ?v) [0 ..< block_count ?m]"
        using False by (simp add: block_count_step b0 block_shift upt_conv_Cons map_Suc_upt [symmetric] comp_def del: upt_Suc)
      then have out: "take n (concat (map ?b [0 ..< block_count n])) =
          take (min n 32) ?v @ take ?m (concat (map (drbg_block hmac (dr_key d) ?v) [0 ..< block_count ?m]))"
        using v by (simp add: min_def)
      have st: "stuck_output hmac n d \<longleftrightarrow> stuck_output hmac ?m ?d2" using False ok by (intro stuck_step) simp_all
      obtain r d3 where gl: "generate_loop hmac ?m ?d2 = (r, d3)" by (cases "generate_loop hmac ?m ?d2")
      have "generate_loop hmac n d = (case r of Inl e \<Rightarrow> (Inl e, d3) | Inr x \<Rightarrow> (Inr (take (min n 32) ?v @ x), d3))"
        using False ok gl by (simp add: generate_loop.simps [of hmac n] health_check_def Let_def)
      then show ?thesis using IH gl st out by (auto split: if_splits)
    qed
  qed (simp add: generate_loop.simps stuck_output_def)
qed

lemma blocks_length:
  assumes "hmac_sized hmac"
  shows "length (concat (map (drbg_block hmac k v) [0 ..< m])) = 32 * m"
  using assms by (induction m) (simp_all add: drbg_block_def hmac_sized_def)

lemma block_count_ge: "n \<le> 32 * block_count n"
  using mult_div_mod_eq [of 32 "n + 31"] mod_less_divisor [of 32 "n + 31"] unfolding block_count_def by linarith

text \<open>Key and value after the reseeding of a call.\<close>

definition reseeded :: "(bytes \<Rightarrow> bytes \<Rightarrow> bytes) \<Rightarrow> bytes \<Rightarrow> bytes \<Rightarrow> hmac_drbg \<Rightarrow> hmac_drbg" where
  "reseeded hmac os1 os2 d =
    drbg_update hmac (Some os2) (if dr_reseed_counter d > RESEED_INTERVAL then drbg_update hmac (Some os1) d else d)"

lemma update_ignores_counter:
  "drbg_update hmac data (d\<lparr>dr_reseed_counter := c\<rparr>) = (drbg_update hmac data d)\<lparr>dr_reseed_counter := c\<rparr>"
  by (simp add: drbg_update_def Let_def split: option.split)

lemma reseed_Returns:
  assumes "drbg_reseed hmac startup os s = Returns s'"
  shows "fst s' = (drbg_update hmac (Some os) (fst s))\<lparr>dr_reseed_counter := 1\<rparr>"
  using assms by (auto simp: drbg_reseed_def monitored_fill_def split: prod.splits fate.splits option.splits sum.splits)

lemma stuck_ignores_counter [simp]: "stuck_output hmac n (d\<lparr>dr_reseed_counter := c\<rparr>) = stuck_output hmac n d"
  by (simp add: stuck_output_def)

text \<open>The output from a state: the blocks of the generator, unless one repeats.\<close>

definition drbg_output :: "(bytes \<Rightarrow> bytes \<Rightarrow> bytes) \<Rightarrow> nat \<Rightarrow> hmac_drbg \<Rightarrow> bytes hsm_result" where
  "drbg_output hmac n d =
    (if stuck_output hmac n d then Inl GeneralError
     else Inr (take n (concat (map (drbg_block hmac (dr_key d) (dr_value d)) [0 ..< block_count n]))))"

lemma output_ignores_counter [simp]: "drbg_output hmac n (d\<lparr>dr_reseed_counter := c\<rparr>) = drbg_output hmac n d"
  by (simp add: drbg_output_def)

lemma generate_loop_output: "hmac_sized hmac \<Longrightarrow> fst (generate_loop hmac n d) = drbg_output hmac n d"
  unfolding drbg_output_def by (rule generate_loop_spec)

lemma drbg_output_length:
  assumes "hmac_sized hmac" "drbg_output hmac n d = Inr out"
  shows "length out = n"
proof -
  have "n \<le> length (concat (map (drbg_block hmac (dr_key d) (dr_value d)) [0 ..< block_count n]))"
    using blocks_length [OF assms(1)] block_count_ge by metis
  then show ?thesis using assms(2) by (auto simp: drbg_output_def split: if_splits)
qed

lemma drbg_generate_length:
  assumes "hmac_sized hmac" "drbg_generate hmac startup os1 os2 n s = Returns (Inr out, d', g')"
  shows "length out = n"
proof -
  have "\<exists>d2 d3. generate_loop hmac n d2 = (Inr out, d3)"
    using assms(2) by (auto simp: drbg_generate_def Let_def split: fate.splits prod.splits sum.splits if_splits)
  then show ?thesis using drbg_output_length [OF assms(1)] generate_loop_output [OF assms(1)] by (metis fst_conv)
qed

text \<open>A reseed returns exactly when the entropy read so far is healthy, and ends the process
  otherwise.\<close>

lemma reseed_tracks:
  assumes "length startup = 1024" "global_tracks startup xs g"
  shows "if healthy (startup @ xs @ os)
    then \<exists>g'. drbg_reseed hmac startup os (d, g) = Returns ((drbg_update hmac (Some os) d)\<lparr>dr_reseed_counter := 1\<rparr>, g') \<and>
      global_tracks startup (xs @ os) g'
    else drbg_reseed hmac startup os (d, g) = Aborts"
proof -
  obtain r g' where "global_observe startup os g = Some (r, g')" "is_ok r \<longleftrightarrow> healthy (startup @ xs @ os)"
      "global_tracks startup (xs @ os) g'"
    using global_observe_tracks [OF assms] by blast
  then show ?thesis by (cases r) (auto simp: drbg_reseed_def monitored_fill_def)
qed

text \<open>The part of a call after the reseeding that is due when the counter is past the interval.\<close>

definition generate_after :: "(bytes \<Rightarrow> bytes \<Rightarrow> bytes) \<Rightarrow> bytes \<Rightarrow> bytes \<Rightarrow> nat \<Rightarrow> hmac_drbg \<times> entropy_global \<Rightarrow>
   (bytes hsm_result \<times> hmac_drbg \<times> entropy_global) fate" where
  "generate_after hmac startup os2 n s1 =
    (case drbg_reseed hmac startup os2 s1 of
       Aborts \<Rightarrow> Aborts
     | Panics \<Rightarrow> Panics
     | Returns (d2, g2) \<Rightarrow>
        (case generate_loop hmac n d2 of
           (Inl e, d3) \<Rightarrow> Returns (Inl e, d3, g2)
         | (Inr out, d3) \<Rightarrow>
             (let d4 = drbg_update hmac None d3
              in Returns (Inr out, d4\<lparr>dr_reseed_counter := dr_reseed_counter d4 + 1\<rparr>, g2))))"

lemma drbg_generate_eq:
  "drbg_generate hmac startup os1 os2 n (d, g) =
    (case (if dr_reseed_counter d > RESEED_INTERVAL then drbg_reseed hmac startup os1 (d, g) else Returns (d, g)) of
       Aborts \<Rightarrow> Aborts | Panics \<Rightarrow> Panics | Returns s1 \<Rightarrow> generate_after hmac startup os2 n s1)"
  unfolding drbg_generate_def generate_after_def by (simp split: fate.split)

lemma generate_after_spec:
  assumes "hmac_sized hmac" "length startup = 1024" "global_tracks startup xs g"
  shows "if healthy (startup @ xs @ os2)
    then \<exists>d' g'. generate_after hmac startup os2 n (d, g) =
        Returns (drbg_output hmac n (drbg_update hmac (Some os2) d), d', g') \<and> global_tracks startup (xs @ os2) g'
    else generate_after hmac startup os2 n (d, g) = Aborts"
proof (cases "healthy (startup @ xs @ os2)")
  case True
  define d2 where "d2 = (drbg_update hmac (Some os2) d)\<lparr>dr_reseed_counter := 1\<rparr>"
  obtain g' where g': "drbg_reseed hmac startup os2 (d, g) = Returns (d2, g')" "global_tracks startup (xs @ os2) g'"
    using True reseed_tracks [OF assms(2,3), of os2 hmac d] by (auto simp: d2_def)
  have "\<exists>d'. generate_after hmac startup os2 n (d, g) = Returns (fst (generate_loop hmac n d2), d', g')"
    using g'(1) unfolding generate_after_def by (auto simp: Let_def split: prod.split sum.split)
  then show ?thesis using True g'(2) generate_loop_output [OF assms(1)] by (auto simp: d2_def)
next
  case False
  then show ?thesis using reseed_tracks [OF assms(2,3), of os2 hmac d] by (simp add: generate_after_def)
qed

text \<open>\<^bold>\<open>C11\<close> A call for \<open>n\<close> bytes never panics. It returns exactly when the entropy it reads
  keeps the stream of the source healthy, and ends the process otherwise. When it returns, it yields the
  first \<open>n\<close> bytes of the output of the HMAC generator of SP 800-90A, from the key and value reseeded with
  the fresh entropy of this call, or the error if a block equals the block before it, the last block of the
  previous call included.\<close>

theorem drbg_generate_spec:
  fixes os1 os2 :: bytes and d :: hmac_drbg
  assumes "hmac_sized hmac" "length startup = 1024" "global_tracks startup xs g"
  defines "fresh \<equiv> (if dr_reseed_counter d > RESEED_INTERVAL then os1 else []) @ os2"
  shows "(if healthy (startup @ xs @ fresh)
     then \<exists>d' g'. drbg_generate hmac startup os1 os2 n (d, g) = Returns (drbg_output hmac n (reseeded hmac os1 os2 d), d', g') \<and>
       global_tracks startup (xs @ fresh) g'
     else drbg_generate hmac startup os1 os2 n (d, g) = Aborts) \<and>
    (\<forall>out. drbg_output hmac n (reseeded hmac os1 os2 d) = Inr out \<longrightarrow> length out = n)"
proof (rule conjI)
  show "\<forall>out. drbg_output hmac n (reseeded hmac os1 os2 d) = Inr out \<longrightarrow> length out = n"
    using drbg_output_length [OF assms(1)] by blast
  show "if healthy (startup @ xs @ fresh)
     then \<exists>d' g'. drbg_generate hmac startup os1 os2 n (d, g) = Returns (drbg_output hmac n (reseeded hmac os1 os2 d), d', g') \<and>
       global_tracks startup (xs @ fresh) g'
     else drbg_generate hmac startup os1 os2 n (d, g) = Aborts"
  proof (cases "dr_reseed_counter d > RESEED_INTERVAL")
    case past: True
    note first = reseed_tracks [OF assms(2,3), of os1 hmac d]
    show ?thesis
    proof (cases "healthy (startup @ xs @ os1)")
      case True
      define d1 where "d1 = (drbg_update hmac (Some os1) d)\<lparr>dr_reseed_counter := 1\<rparr>"
      obtain g1 where g1: "drbg_reseed hmac startup os1 (d, g) = Returns (d1, g1)" "global_tracks startup (xs @ os1) g1"
        using first True by (auto simp: d1_def)
      have "drbg_output hmac n (drbg_update hmac (Some os2) d1) = drbg_output hmac n (reseeded hmac os1 os2 d)"
        using past by (simp add: d1_def reseeded_def update_ignores_counter)
      then show ?thesis
        using generate_after_spec [OF assms(1,2) g1(2), of os2 n d1] past g1(1)
        by (auto simp: drbg_generate_eq fresh_def split: if_splits)
    next
      case False
      then have "\<not> healthy (startup @ xs @ os1 @ os2)" using healthy_appendD [of "startup @ xs @ os1" os2] by auto
      then show ?thesis using past False first by (simp add: drbg_generate_eq fresh_def)
    qed
  next
    case False
    then show ?thesis
      using generate_after_spec [OF assms(1-3), of os2 n d] by (simp add: drbg_generate_eq fresh_def reseeded_def)
  qed
qed

definition fold_hmac :: "bytes \<Rightarrow> bytes \<Rightarrow> bytes" where
  "fold_hmac k m = replicate 31 0 @ [last m + 1]"

definition sample_drbg :: hmac_drbg where
  "sample_drbg = \<lparr>dr_key = replicate 32 0, dr_value = replicate 32 1, dr_reseed_counter = 1, dr_last_output = replicate 32 0,
     dr_has_output = False\<rparr>"

text \<open>A start-up read that counts through all bytes.\<close>

definition counting_bytes :: "nat \<Rightarrow> bytes" where
  "counting_bytes n = map word_of_nat [0 ..< n]"

lemma counting_distinct: "distinct_adj (counting_bytes n)"
  by (simp add: distinct_adj_conv_nth counting_bytes_def)

lemma counting_start: "distinct_adj (counting_bytes 1024 @ [0, 1, 2])"
proof -
  have "last (counting_bytes 1024) = 255" by (simp add: counting_bytes_def last_map)
  then show ?thesis using counting_distinct [of 1024] by (simp add: distinct_adj_append_iff)
qed

theorem drbg_generate_spec_witness:
  "hmac_sized fold_hmac \<and>
   (\<exists>out d' g'. drbg_generate fold_hmac (counting_bytes 1024) [] [0, 1, 2] 40 (sample_drbg, entropy_global_new) =
        Returns (Inr out, d', g') \<and> length out = 40)"
proof -
  have sized: "hmac_sized fold_hmac" by (simp add: hmac_sized_def fold_hmac_def)
  have len: "length (counting_bytes 1024) = 1024" by (simp add: counting_bytes_def)
  have tr: "global_tracks (counting_bytes 1024) [] entropy_global_new" by (simp add: global_tracks_def entropy_global_new_def)
  have h: "healthy (counting_bytes 1024 @ [] @ (if dr_reseed_counter sample_drbg > RESEED_INTERVAL then [] else []) @ [0, 1, 2])"
    using distinct_adj_healthy [OF counting_start] by simp
  have ns: "\<not> stuck_output fold_hmac 40 (reseeded fold_hmac [] [0, 1, 2] sample_drbg)"
    by (auto simp: stuck_output_def block_count_def reseeded_def sample_drbg_def drbg_update_def drbg_block_def fold_hmac_def Let_def)
  note spec = drbg_generate_spec [OF sized len tr, where ?os1.0 = "[]" and d = sample_drbg and ?os2.0 = "[0, 1, 2]" and n = 40]
  obtain out where out: "drbg_output fold_hmac 40 (reseeded fold_hmac [] [0, 1, 2] sample_drbg) = Inr out"
    using ns unfolding drbg_output_def by (simp only: if_False)
  then have "length out = 40" using conjunct2 [OF spec] by blast
  moreover obtain d' g' where "drbg_generate fold_hmac (counting_bytes 1024) [] [0, 1, 2] 40 (sample_drbg, entropy_global_new) =
      Returns (Inr out, d', g')"
    using conjunct1 [OF spec] unfolding if_P [OF h] out by blast
  ultimately show ?thesis using sized by blast
qed

end
