(* ===== verification/Key_Ops.thy ===== *)
theory Key_Ops
  imports Signing Hmac_Drbg
begin

text \<open>
  Key generation (\<open>src/src/crypto/keygen.rs\<close>), AES key wrapping (\<open>src/src/crypto/wrap.rs\<close>) and
  key agreement (\<open>src/src/crypto/derive.rs\<close>) of the default backend. The crates for AES key wrap,
  the elliptic curves and HKDF are records of functions.

  The properties: wrapping and unwrapping are inverse and accept exactly the documented sizes; the two
  parties of a key agreement do not derive the same key.
\<close>

section \<open>Key generation\<close>

text \<open>A fresh generator is seeded and asked once for the bytes of the key.\<close>

definition generate_random_bytes ::
  "(bytes \<Rightarrow> bytes \<Rightarrow> bytes) \<Rightarrow> bytes \<Rightarrow> bytes \<Rightarrow> bytes \<Rightarrow> nat \<Rightarrow> entropy_global \<Rightarrow> (bytes hsm_result \<times> entropy_global) fate" where
  "generate_random_bytes hmac startup os_seed os_reseed n g =
    (case drbg_new hmac startup os_seed g of
       Aborts \<Rightarrow> Aborts
     | Panics \<Rightarrow> Panics
     | Returns (d, g1) \<Rightarrow>
        (case drbg_generate hmac startup [] os_reseed n (d, g1) of
           Aborts \<Rightarrow> Aborts
         | Panics \<Rightarrow> Panics
         | Returns (r, d', g2) \<Rightarrow> Returns (r, g2)))"

text \<open>In the routines that follow, the outcome of this function is an argument: a function from the
  requested length to the bytes or the error.\<close>

definition generate_aes_key :: "(nat \<Rightarrow> bytes hsm_result) \<Rightarrow> nat \<Rightarrow> bool \<Rightarrow> bytes hsm_result" where
  "generate_aes_key random key_len_bytes fips_mode =
    (if key_len_bytes \<notin> {16, 24, 32} then Inl KeySizeRange
     else if fips_mode \<and> key_len_bytes = 16 then Inl MechanismParamInvalid
     else random key_len_bytes)"

record rsa_keygen =
  rk_new :: "bytes \<Rightarrow> nat \<Rightarrow> bytes option"
  rk_modulus :: "bytes \<Rightarrow> bytes"
  rk_exponent :: "bytes \<Rightarrow> bytes"
  rk_to_pkcs8_der :: "bytes \<Rightarrow> bytes option"

definition generate_rsa_key_pair :: "rsa_keygen \<Rightarrow> rng \<Rightarrow> u32 \<Rightarrow> bool \<Rightarrow> (bytes \<times> bytes \<times> bytes) hsm_result" where
  "generate_rsa_key_pair K rng modulus_bits fips_mode =
    (if modulus_bits \<notin> {2048, 3072, 4096} then Inl KeySizeRange
     else if fips_mode \<and> modulus_bits < 3072 then Inl MechanismParamInvalid
     else
       res_bind rng (\<lambda>stream.
       res_bind (ok_or GeneralError (rk_new K stream (unat modulus_bits))) (\<lambda>private_key.
       res_bind (ok_or GeneralError (rk_to_pkcs8_der K private_key)) (\<lambda>der.
       Inr (der, rk_modulus K private_key, rk_exponent K private_key)))))"

text \<open>A curve: random secret keys, parsing, the uncompressed point of a secret key, and the shared
  secret of a secret key and a public key.\<close>

record curve_crate =
  cv_random :: "bytes \<Rightarrow> bytes"
  cv_secret_key :: "bytes \<Rightarrow> bytes option"
  cv_public_key :: "bytes \<Rightarrow> bytes option"
  cv_point :: "bytes \<Rightarrow> bytes"
  cv_diffie_hellman :: "bytes \<Rightarrow> bytes \<Rightarrow> bytes"

definition generate_ec_key_pair_on :: "curve_crate \<Rightarrow> rng \<Rightarrow> (bytes \<times> bytes) hsm_result" where
  "generate_ec_key_pair_on E rng = res_map (\<lambda>stream. (cv_random E stream, cv_point E (cv_random E stream))) rng"

definition generate_ec_p256_key_pair :: "curve_crate \<Rightarrow> rng \<Rightarrow> (bytes \<times> bytes) hsm_result" where
  "generate_ec_p256_key_pair p256 rng = generate_ec_key_pair_on p256 rng"

definition generate_ec_p384_key_pair :: "curve_crate \<Rightarrow> rng \<Rightarrow> (bytes \<times> bytes) hsm_result" where
  "generate_ec_p384_key_pair p384 rng = generate_ec_key_pair_on p384 rng"

definition generate_ed25519_key_pair :: "(bytes \<Rightarrow> bytes) \<Rightarrow> (bytes \<Rightarrow> bytes) \<Rightarrow> rng \<Rightarrow> (bytes \<times> bytes) hsm_result" where
  "generate_ed25519_key_pair generate verifying_key rng =
    res_map (\<lambda>stream. (generate stream, verifying_key (generate stream))) rng"

section \<open>Key wrapping\<close>

record kw_crate =
  kw_wrap :: "bytes \<Rightarrow> bytes \<Rightarrow> bytes option"
  kw_unwrap :: "bytes \<Rightarrow> bytes \<Rightarrow> bytes option"

definition aes_key_wrap :: "kw_crate \<Rightarrow> bytes \<Rightarrow> bytes \<Rightarrow> bool \<Rightarrow> bytes hsm_result" where
  "aes_key_wrap W wrapping_key key_to_wrap fips_mode =
    (if length key_to_wrap mod 8 \<noteq> 0 \<or> length key_to_wrap < 16 then Inl DataLenRange
     else if fips_mode \<and> length wrapping_key = 16 then Inl KeySizeRange
     else if length wrapping_key \<in> {16, 24, 32} then ok_or GeneralError (kw_wrap W wrapping_key key_to_wrap)
     else Inl KeySizeRange)"

definition aes_key_unwrap :: "kw_crate \<Rightarrow> bytes \<Rightarrow> bytes \<Rightarrow> bool \<Rightarrow> bytes hsm_result" where
  "aes_key_unwrap W wrapping_key wrapped_key fips_mode =
    (if length wrapped_key mod 8 \<noteq> 0 \<or> length wrapped_key < 24 then Inl DataLenRange
     else if fips_mode \<and> length wrapping_key = 16 then Inl KeySizeRange
     else if length wrapping_key \<in> {16, 24, 32} then ok_or EncryptedDataInvalid (kw_unwrap W wrapping_key wrapped_key)
     else Inl KeySizeRange)"

section \<open>Key agreement\<close>

abbreviation (input) MAX_OKM_LEN :: nat where "MAX_OKM_LEN \<equiv> 64"

definition HKDF_SALT :: bytes where
  "HKDF_SALT = ascii ''CratonHSM-ECDH-HKDF-Salt-v1''"

definition P256_OID :: bytes where
  "P256_OID = [0x06, 0x08, 0x2A, 0x86, 0x48, 0xCE, 0x3D, 0x03, 0x01, 0x07]"

type_synonym hkdf_fn = "bytes \<Rightarrow> bytes \<Rightarrow> bytes \<Rightarrow> nat \<Rightarrow> bytes option"

definition u32_be :: "u32 \<Rightarrow> bytes" where
  "u32_be x = rev (u32_le x)"

definition validate_okm_len :: "nat \<Rightarrow> unit hsm_result" where
  "validate_okm_len len = (if len = 0 \<or> len > MAX_OKM_LEN then Inl KeySizeRange else Inr ())"

definition apply_hkdf :: "hkdf_fn \<Rightarrow> bytes \<Rightarrow> bytes \<Rightarrow> nat \<Rightarrow> bytes hsm_result" where
  "apply_hkdf hkdf ikm info okm_len = ok_or GeneralError (hkdf HKDF_SALT ikm info okm_len)"

definition ecdh_info :: "bytes \<Rightarrow> nat \<Rightarrow> bytes \<Rightarrow> bytes \<Rightarrow> bytes" where
  "ecdh_info oid derived_len our_pk_bytes peer_public_key_sec1 =
    oid @ u32_be (word_of_nat derived_len) @ our_pk_bytes @ peer_public_key_sec1"

definition ecdh_on :: "curve_crate \<Rightarrow> hkdf_fn \<Rightarrow> bytes \<Rightarrow> bytes \<Rightarrow> bytes \<Rightarrow> nat \<Rightarrow> bytes hsm_result" where
  "ecdh_on E hkdf oid private_key_bytes peer_public_key_sec1 derived_len =
    res_bind (validate_okm_len derived_len) (\<lambda>_.
    res_bind (ok_or KeyHandleInvalid (cv_secret_key E private_key_bytes)) (\<lambda>secret_key.
    res_bind (ok_or ArgumentsBad (cv_public_key E peer_public_key_sec1)) (\<lambda>peer_public.
      apply_hkdf hkdf (cv_diffie_hellman E secret_key peer_public)
        (ecdh_info oid derived_len (cv_point E secret_key) peer_public_key_sec1) derived_len)))"

definition ecdh_p256 :: "curve_crate \<Rightarrow> hkdf_fn \<Rightarrow> bytes \<Rightarrow> bytes \<Rightarrow> nat option \<Rightarrow> bytes hsm_result" where
  "ecdh_p256 p256 hkdf private_key_bytes peer_public_key_sec1 okm_len =
    ecdh_on p256 hkdf P256_OID private_key_bytes peer_public_key_sec1 (case okm_len of Some n \<Rightarrow> n | None \<Rightarrow> 32)"

definition ecdh_p384 :: "curve_crate \<Rightarrow> hkdf_fn \<Rightarrow> bytes \<Rightarrow> bytes \<Rightarrow> nat option \<Rightarrow> bytes hsm_result" where
  "ecdh_p384 p384 hkdf private_key_bytes peer_public_key_sec1 okm_len =
    ecdh_on p384 hkdf P384_OID private_key_bytes peer_public_key_sec1 (case okm_len of Some n \<Rightarrow> n | None \<Rightarrow> 48)"

section \<open>Sizes of generated keys\<close>

text \<open>What a seeded generator delivers has the length asked for, or the process ends.\<close>

lemma generate_random_bytes_length:
  assumes "hmac_sized hmac" "generate_random_bytes hmac startup os_seed os_reseed n g = Returns (Inr out, g')"
  shows "length out = n"
  using assms drbg_generate_length [OF assms(1)]
  by (auto simp: generate_random_bytes_def split: fate.splits prod.splits)

section \<open>Wrapping round trip\<close>

text \<open>The documented behaviour of the key wrap crate (RFC 3394).\<close>

definition kw_law :: "kw_crate \<Rightarrow> bool" where
  "kw_law W \<longleftrightarrow>
     (\<forall>kek key. length kek \<in> {16, 24, 32} \<longrightarrow> length key mod 8 = 0 \<longrightarrow> 16 \<le> length key \<longrightarrow>
       (\<exists>w. kw_wrap W kek key = Some w \<and> length w = length key + 8 \<and> kw_unwrap W kek w = Some key))"

definition kek_allowed :: "bytes \<Rightarrow> bool \<Rightarrow> bool" where
  "kek_allowed kek fips_mode \<longleftrightarrow> length kek \<in> {16, 24, 32} \<and> (fips_mode \<longrightarrow> length kek \<noteq> 16)"

lemma aes_key_wrap_roundtrip:
  assumes "kw_law W"
  shows "(\<exists>w. aes_key_wrap W kek key fips = Inr w \<and> length w = length key + 8 \<and> aes_key_unwrap W kek w fips = Inr key) \<longleftrightarrow>
    length key mod 8 = 0 \<and> 16 \<le> length key \<and> kek_allowed kek fips"
proof
  assume "length key mod 8 = 0 \<and> 16 \<le> length key \<and> kek_allowed kek fips"
  moreover from this obtain w where "kw_wrap W kek key = Some w" "length w = length key + 8" "kw_unwrap W kek w = Some key"
    using assms unfolding kw_law_def kek_allowed_def by meson
  ultimately show "\<exists>w. aes_key_wrap W kek key fips = Inr w \<and> length w = length key + 8 \<and> aes_key_unwrap W kek w fips = Inr key"
    by (auto simp: aes_key_wrap_def aes_key_unwrap_def kek_allowed_def ok_or_def)
qed (auto simp: aes_key_wrap_def kek_allowed_def split: if_splits)

section \<open>The two parties of a key agreement\<close>

text \<open>The documented behaviour of a curve: two key pairs have a common secret, the point of a secret
  key parses, and points have one length and tell their keys apart.\<close>

definition agreement_law :: "curve_crate \<Rightarrow> bool" where
  "agreement_law E \<longleftrightarrow>
     (\<forall>a. \<exists>A. cv_public_key E (cv_point E a) = Some A) \<and>
     (\<forall>a b A B. cv_public_key E (cv_point E a) = Some A \<longrightarrow> cv_public_key E (cv_point E b) = Some B \<longrightarrow>
        cv_diffie_hellman E a B = cv_diffie_hellman E b A) \<and>
     (\<forall>a b. length (cv_point E a) = length (cv_point E b))"

definition hkdf_law :: "hkdf_fn \<Rightarrow> bool" where
  "hkdf_law hkdf \<longleftrightarrow> (\<forall>salt ikm info n. n \<le> 8160 \<longrightarrow> (\<exists>okm. hkdf salt ikm info n = Some okm \<and> length okm = n))"

lemma ecdh_info_order:
  assumes "length A = length B"
  shows "ecdh_info oid n A B = ecdh_info oid n B A \<longleftrightarrow> A = B"
  using assms by (auto simp: ecdh_info_def)

lemma ecdh_on_both:
  assumes "agreement_law E" "hkdf_law hkdf" "0 < n" "n \<le> 64"
    and "cv_secret_key E ka = Some a" "cv_secret_key E kb = Some b"
  defines "A \<equiv> cv_point E a" and "B \<equiv> cv_point E b"
  shows "\<exists>PB da db. cv_public_key E B = Some PB \<and>
    ecdh_on E hkdf oid ka B n = Inr da \<and> ecdh_on E hkdf oid kb A n = Inr db \<and> length da = n \<and> length db = n \<and>
    hkdf HKDF_SALT (cv_diffie_hellman E a PB) (ecdh_info oid n A B) n = Some da \<and>
    hkdf HKDF_SALT (cv_diffie_hellman E a PB) (ecdh_info oid n B A) n = Some db"
proof -
  obtain PA PB where p: "cv_public_key E A = Some PA" "cv_public_key E B = Some PB"
    using assms(1) unfolding agreement_law_def A_def B_def by blast
  then have z: "cv_diffie_hellman E b PA = cv_diffie_hellman E a PB"
    using assms(1) unfolding agreement_law_def A_def B_def by metis
  have "n \<le> 8160" using assms(4) by simp
  then obtain da db where
    "hkdf HKDF_SALT (cv_diffie_hellman E a PB) (ecdh_info oid n A B) n = Some da" "length da = n"
    "hkdf HKDF_SALT (cv_diffie_hellman E a PB) (ecdh_info oid n B A) n = Some db" "length db = n"
    using assms(2) unfolding hkdf_law_def by meson
  then show ?thesis
    using assms(3-6) p z by (auto simp: ecdh_on_def validate_okm_len_def ok_or_def apply_hkdf_def A_def B_def)
qed

text \<open>Two derived keys that are equal only through a collision of HKDF: the same secret, expanded
  for two different contexts.\<close>

definition equal_only_by_collision :: "hkdf_fn \<Rightarrow> bytes \<Rightarrow> nat \<Rightarrow> bytes \<Rightarrow> bytes \<Rightarrow> bool" where
  "equal_only_by_collision hkdf oid n da db \<longleftrightarrow>
     (da = db \<longrightarrow> (\<exists>z A B. ecdh_info oid n A B \<noteq> ecdh_info oid n B A \<and>
        hkdf HKDF_SALT z (ecdh_info oid n A B) n = hkdf HKDF_SALT z (ecdh_info oid n B A) n))"

lemma ecdh_on_disagree:
  assumes "agreement_law E" "hkdf_law hkdf" "0 < n" "n \<le> 64"
    and "cv_secret_key E ka = Some a" "cv_secret_key E kb = Some b" "cv_point E a \<noteq> cv_point E b"
  shows "\<exists>da db. ecdh_on E hkdf oid ka (cv_point E b) n = Inr da \<and> ecdh_on E hkdf oid kb (cv_point E a) n = Inr db \<and>
    length da = n \<and> length db = n \<and> equal_only_by_collision hkdf oid n da db"
proof -
  have "length (cv_point E a) = length (cv_point E b)" using assms(1) by (simp add: agreement_law_def)
  then have "ecdh_info oid n (cv_point E a) (cv_point E b) \<noteq> ecdh_info oid n (cv_point E b) (cv_point E a)"
    using ecdh_info_order assms(7) by blast
  with ecdh_on_both [OF assms(1-6), of oid] show ?thesis unfolding equal_only_by_collision_def by (metis (no_types))
qed


text \<open>A curve with one-byte keys and points, and an expansion that keeps the end of the context.\<close>

definition sample_curve :: curve_crate where
  "sample_curve = \<lparr>cv_random = (\<lambda>stream. take 1 (stream @ [0])), cv_secret_key = (\<lambda>k. if length k = 1 then Some k else None),
     cv_public_key = (\<lambda>p. if length p = 1 then Some p else None), cv_point = (\<lambda>k. take 1 (k @ [0])),
     cv_diffie_hellman = (\<lambda>a B. [hd (a @ [0]) + hd (B @ [0])])\<rparr>"

definition sample_hkdf :: hkdf_fn where
  "sample_hkdf salt ikm info n = Some (take n (rev info @ ikm @ replicate n 0))"

lemma sample_curve_law: "agreement_law sample_curve"
  by (auto simp: agreement_law_def sample_curve_def hd_append add.commute)

lemma sample_hkdf_law: "hkdf_law sample_hkdf"
  by (auto simp: hkdf_law_def sample_hkdf_def)


end
