(* ===== verification/Pqc.thy ===== *)
theory Pqc
  imports Key_Ops
begin

text \<open>
  The post-quantum algorithms and the hybrid schemes (\<open>src/src/crypto/pqc.rs\<close>): key generation,
  encapsulation and signatures with ML-KEM, ML-DSA and SLH-DSA, the hybrid signature of ML-DSA-65 and
  ECDSA P-256, and the hybrid key exchange of X25519 and ML-KEM. The crates are records of functions, by
  variant. The last part shows that what the hybrid schemes encode they decode.
\<close>

section \<open>Third-party code\<close>

record pqc_crates =
  mk_encapsulation_key :: "ml_kem_variant \<Rightarrow> bytes \<Rightarrow> bytes"
  mk_to_seed :: "ml_kem_variant \<Rightarrow> bytes \<Rightarrow> bytes option"
  mk_parse_ek :: "ml_kem_variant \<Rightarrow> bytes \<Rightarrow> bytes option"
  mk_encapsulate :: "ml_kem_variant \<Rightarrow> bytes \<Rightarrow> bytes \<Rightarrow> bytes \<times> bytes"
  mk_parse_ct :: "ml_kem_variant \<Rightarrow> bytes \<Rightarrow> bytes option"
  mk_decapsulate :: "ml_kem_variant \<Rightarrow> bytes \<Rightarrow> bytes \<Rightarrow> bytes"
  md_generate :: "ml_dsa_variant \<Rightarrow> bytes \<Rightarrow> bytes"
  md_verifying_key :: "ml_dsa_variant \<Rightarrow> bytes \<Rightarrow> bytes"
  md_sign :: "ml_dsa_variant \<Rightarrow> bytes \<Rightarrow> bytes \<Rightarrow> bytes"
  md_parse_vk :: "ml_dsa_variant \<Rightarrow> bytes \<Rightarrow> bytes option"
  md_parse_signature :: "ml_dsa_variant \<Rightarrow> bytes \<Rightarrow> bytes option"
  md_verify :: "ml_dsa_variant \<Rightarrow> bytes \<Rightarrow> bytes \<Rightarrow> bytes \<Rightarrow> bool"
  sd_generate :: "slh_dsa_variant \<Rightarrow> bytes \<Rightarrow> bytes"
  sd_verifying_key :: "slh_dsa_variant \<Rightarrow> bytes \<Rightarrow> bytes"
  sd_parse_sk :: "slh_dsa_variant \<Rightarrow> bytes \<Rightarrow> bytes option"
  sd_sign :: "slh_dsa_variant \<Rightarrow> bytes \<Rightarrow> bytes \<Rightarrow> bytes option"
  sd_parse_vk :: "slh_dsa_variant \<Rightarrow> bytes \<Rightarrow> bytes option"
  sd_parse_signature :: "slh_dsa_variant \<Rightarrow> bytes \<Rightarrow> bytes option"
  sd_verify :: "slh_dsa_variant \<Rightarrow> bytes \<Rightarrow> bytes \<Rightarrow> bytes \<Rightarrow> bool"
  xd_public :: "bytes \<Rightarrow> bytes"
  xd_diffie_hellman :: "bytes \<Rightarrow> bytes \<Rightarrow> bytes"

section \<open>ML-KEM\<close>

definition ml_kem_keygen :: "pqc_crates \<Rightarrow> (nat \<Rightarrow> bytes hsm_result) \<Rightarrow> ml_kem_variant \<Rightarrow> (bytes \<times> bytes) hsm_result" where
  "ml_kem_keygen P random variant =
    res_bind (random 64) (\<lambda>seed.
    res_bind (ok_or GeneralError (mk_to_seed P variant seed)) (\<lambda>stored_seed.
      Inr (stored_seed, mk_encapsulation_key P variant seed)))"

definition ml_kem_encapsulate :: "pqc_crates \<Rightarrow> rng \<Rightarrow> bytes \<Rightarrow> ml_kem_variant \<Rightarrow> (bytes \<times> bytes) hsm_result" where
  "ml_kem_encapsulate P rng ek_bytes variant =
    res_bind rng (\<lambda>stream.
    res_bind (ok_or KeyHandleInvalid (mk_parse_ek P variant ek_bytes)) (\<lambda>ek. Inr (mk_encapsulate P variant stream ek)))"

definition ml_kem_decapsulate :: "pqc_crates \<Rightarrow> bytes \<Rightarrow> bytes \<Rightarrow> ml_kem_variant \<Rightarrow> bytes hsm_result" where
  "ml_kem_decapsulate P dk_seed ciphertext variant =
    (if length dk_seed \<noteq> 64 then Inl KeyHandleInvalid
     else res_map (mk_decapsulate P variant dk_seed) (ok_or EncryptedDataInvalid (mk_parse_ct P variant ciphertext)))"

section \<open>ML-DSA and SLH-DSA\<close>

definition ml_dsa_keygen :: "pqc_crates \<Rightarrow> rng \<Rightarrow> ml_dsa_variant \<Rightarrow> (bytes \<times> bytes) hsm_result" where
  "ml_dsa_keygen P rng variant =
    res_map (\<lambda>stream. let seed = md_generate P variant stream in (seed, md_verifying_key P variant seed)) rng"

definition ml_dsa_sign :: "pqc_crates \<Rightarrow> bytes \<Rightarrow> bytes \<Rightarrow> ml_dsa_variant \<Rightarrow> bytes hsm_result" where
  "ml_dsa_sign P signing_key_seed data variant =
    (if length signing_key_seed \<noteq> 32 then Inl KeyHandleInvalid else Inr (md_sign P variant signing_key_seed data))"

definition ml_dsa_verify :: "pqc_crates \<Rightarrow> bytes \<Rightarrow> bytes \<Rightarrow> bytes \<Rightarrow> ml_dsa_variant \<Rightarrow> bool hsm_result" where
  "ml_dsa_verify P verifying_key_bytes data signature variant =
    res_bind (ok_or KeyHandleInvalid (md_parse_vk P variant verifying_key_bytes)) (\<lambda>vk.
    res_map (md_verify P variant vk data) (ok_or SignatureInvalid (md_parse_signature P variant signature)))"

definition slh_dsa_keygen :: "pqc_crates \<Rightarrow> rng \<Rightarrow> slh_dsa_variant \<Rightarrow> (bytes \<times> bytes) hsm_result" where
  "slh_dsa_keygen P rng variant =
    res_map (\<lambda>stream. let sk = sd_generate P variant stream in (sk, sd_verifying_key P variant sk)) rng"

definition slh_dsa_sign :: "pqc_crates \<Rightarrow> bytes \<Rightarrow> bytes \<Rightarrow> slh_dsa_variant \<Rightarrow> bytes hsm_result" where
  "slh_dsa_sign P signing_key_bytes data variant =
    res_bind (ok_or KeyHandleInvalid (sd_parse_sk P variant signing_key_bytes)) (\<lambda>sk.
      ok_or GeneralError (sd_sign P variant sk data))"

definition slh_dsa_verify :: "pqc_crates \<Rightarrow> bytes \<Rightarrow> bytes \<Rightarrow> bytes \<Rightarrow> slh_dsa_variant \<Rightarrow> bool hsm_result" where
  "slh_dsa_verify P verifying_key_bytes data signature variant =
    res_bind (ok_or KeyHandleInvalid (sd_parse_vk P variant verifying_key_bytes)) (\<lambda>vk.
    res_map (sd_verify P variant vk data) (ok_or SignatureInvalid (sd_parse_signature P variant signature)))"

section \<open>Hybrid signatures\<close>

definition u32_from_be :: "bytes \<Rightarrow> u32" where
  "u32_from_be bs = le_word (rev bs)"

definition unwrap_or_false :: "bool hsm_result \<Rightarrow> bool" where
  "unwrap_or_false r = (case r of Inr b \<Rightarrow> b | Inl _ \<Rightarrow> False)"

definition hybrid_sign :: "pqc_crates \<Rightarrow> ecdsa_crate \<Rightarrow> rng \<Rightarrow> bytes \<Rightarrow> bytes \<Rightarrow> bytes \<Rightarrow> bytes hsm_result" where
  "hybrid_sign P p256 rng ml_dsa_sk_seed ecdsa_sk_bytes data =
    res_bind (ml_dsa_sign P ml_dsa_sk_seed data MlDsa65) (\<lambda>ml_sig.
    res_bind (ecdsa_p256_sign p256 rng ecdsa_sk_bytes data) (\<lambda>ec_sig.
      Inr (u32_be (word_of_nat (length ml_sig)) @ ml_sig @ ec_sig)))"

text \<open>On a 64-bit platform the addition of the header length cannot overflow.\<close>

definition hybrid_verify :: "pqc_crates \<Rightarrow> ecdsa_crate \<Rightarrow> bytes \<Rightarrow> bytes \<Rightarrow> bytes \<Rightarrow> bytes \<Rightarrow> bool hsm_result" where
  "hybrid_verify P p256 ml_dsa_vk_bytes ecdsa_pk_sec1 data combined_signature =
    (if length combined_signature < 4 then Inl SignatureInvalid
     else
       (let ml_len = unat (u32_from_be (take 4 combined_signature));
            total_ml = 4 + ml_len
        in if length combined_signature < total_ml then Inl SignatureInvalid
           else
             (let ml_sig = take ml_len (drop 4 combined_signature);
                  ec_sig = drop total_ml combined_signature;
                  ml_valid = unwrap_or_false (ml_dsa_verify P ml_dsa_vk_bytes data ml_sig MlDsa65);
                  ec_valid = unwrap_or_false (ecdsa_p256_verify p256 ecdsa_pk_sec1 data ec_sig)
              in Inr (ml_valid \<and> ec_valid))))"

section \<open>Hybrid key exchange\<close>

definition hybrid_kem_ml_kem_variant :: "hybrid_kem_variant \<Rightarrow> ml_kem_variant" where
  "hybrid_kem_ml_kem_variant v = (case v of X25519MlKem768 \<Rightarrow> MlKem768 | X25519MlKem1024 \<Rightarrow> MlKem1024)"

abbreviation (input) X25519_KEY_LEN :: nat where "X25519_KEY_LEN \<equiv> 32"
abbreviation (input) ML_KEM_SEED_LEN :: nat where "ML_KEM_SEED_LEN \<equiv> 64"

definition combine_kem_secrets :: "hkdf_fn \<Rightarrow> bytes \<Rightarrow> bytes \<Rightarrow> bytes hsm_result" where
  "combine_kem_secrets hkdf x25519_ss ml_kem_ss =
    ok_or GeneralError
      (hkdf (ascii ''CratonHSM-HybridKEM-v1'') (x25519_ss @ ml_kem_ss) (ascii ''hybrid-kem-shared-secret'') 32)"

definition hybrid_kem_keygen ::
  "pqc_crates \<Rightarrow> (nat \<Rightarrow> bytes hsm_result) \<Rightarrow> hybrid_kem_variant \<Rightarrow> (bytes \<times> bytes) hsm_result" where
  "hybrid_kem_keygen P random variant =
    res_bind (random X25519_KEY_LEN) (\<lambda>x_secret.
    res_bind (ml_kem_keygen P random (hybrid_kem_ml_kem_variant variant)) (\<lambda>(ml_dk_seed, ml_ek_bytes).
      Inr (x_secret @ ml_dk_seed, xd_public P x_secret @ ml_ek_bytes)))"

definition hybrid_kem_encapsulate ::
  "pqc_crates \<Rightarrow> hkdf_fn \<Rightarrow> (nat \<Rightarrow> bytes hsm_result) \<Rightarrow> rng \<Rightarrow> bytes \<Rightarrow> hybrid_kem_variant \<Rightarrow> (bytes \<times> bytes) hsm_result" where
  "hybrid_kem_encapsulate P hkdf random rng composite_ek variant =
    (if length composite_ek < X25519_KEY_LEN + 1 then Inl KeyHandleInvalid
     else
       res_bind (random X25519_KEY_LEN) (\<lambda>eph_secret.
       (let x_shared = xd_diffie_hellman P eph_secret (take X25519_KEY_LEN composite_ek) in
        res_bind (ml_kem_encapsulate P rng (drop X25519_KEY_LEN composite_ek) (hybrid_kem_ml_kem_variant variant)) (\<lambda>(ml_ct, ml_ss).
        res_bind (combine_kem_secrets hkdf x_shared ml_ss) (\<lambda>combined_ss.
          Inr (xd_public P eph_secret @ ml_ct, combined_ss))))))"

definition hybrid_kem_decapsulate ::
  "pqc_crates \<Rightarrow> hkdf_fn \<Rightarrow> bytes \<Rightarrow> bytes \<Rightarrow> hybrid_kem_variant \<Rightarrow> bytes hsm_result" where
  "hybrid_kem_decapsulate P hkdf composite_dk composite_ct variant =
    (if length composite_dk < X25519_KEY_LEN + ML_KEM_SEED_LEN then Inl KeyHandleInvalid
     else if length composite_ct < X25519_KEY_LEN + 1 then Inl EncryptedDataInvalid
     else
       (let x_secret = take X25519_KEY_LEN composite_dk;
            ml_dk_seed = take ML_KEM_SEED_LEN (drop X25519_KEY_LEN composite_dk);
            x_shared = xd_diffie_hellman P x_secret (take X25519_KEY_LEN composite_ct) in
        res_bind (ml_kem_decapsulate P ml_dk_seed (drop X25519_KEY_LEN composite_ct) (hybrid_kem_ml_kem_variant variant))
          (combine_kem_secrets hkdf x_shared)))"

section \<open>Round trips\<close>

text \<open>The documented behaviour of the crates: a decapsulation recovers the encapsulated secret, a
  signature verifies, X25519 secrets agree, and the encodings have their sizes.\<close>

definition pqc_law :: "pqc_crates \<Rightarrow> bool" where
  "pqc_law P \<longleftrightarrow>
     (\<forall>v seed. length seed = 64 \<longrightarrow> mk_to_seed P v seed = Some seed \<and> mk_encapsulation_key P v seed \<noteq> [] \<and>
        (\<exists>ek. mk_parse_ek P v (mk_encapsulation_key P v seed) = Some ek \<and>
          (\<forall>stream. \<exists>ct ss ct'. mk_encapsulate P v stream ek = (ct, ss) \<and> ct \<noteq> [] \<and> mk_parse_ct P v ct = Some ct' \<and>
             mk_decapsulate P v seed ct' = ss))) \<and>
     (\<forall>v seed data. length seed = 32 \<longrightarrow> length (md_sign P v seed data) < 2 ^ 32 \<and>
        (\<exists>vk sig. md_parse_vk P v (md_verifying_key P v seed) = Some vk \<and>
          md_parse_signature P v (md_sign P v seed data) = Some sig \<and> md_verify P v vk data sig)) \<and>
     (\<forall>a b. xd_diffie_hellman P a (xd_public P b) = xd_diffie_hellman P b (xd_public P a)) \<and>
     (\<forall>a. length (xd_public P a) = 32)"

definition ecdsa_law :: "ecdsa_crate \<Rightarrow> (bytes \<Rightarrow> bytes) \<Rightarrow> bool" where
  "ecdsa_law E point \<longleftrightarrow>
     (\<forall>k sk stream data. ec_signing_key E k = Some sk \<longrightarrow>
        (\<exists>vk sig. ec_verifying_key E (point k) = Some vk \<and> ec_signature E (ec_sign E stream sk data) = Some sig \<and>
           ec_verify E vk data sig))"

lemma u32_be_simps [simp]: "u32_from_be (u32_be x) = x" "length (u32_be x) = 4"
  by (simp_all add: u32_from_be_def u32_be_def)

lemma hybrid_signature_roundtrip:
  assumes "pqc_law P" "ecdsa_law p256 point" "length seed = 32" "ec_signing_key p256 k = Some sk"
    and "length data \<le> SIGN_MAX_DATA_SIZE" "rng = Inr stream"
  shows "\<exists>sig. hybrid_sign P p256 rng seed k data = Inr sig \<and>
    hybrid_verify P p256 (md_verifying_key P MlDsa65 seed) (point k) data sig = Inr True"
proof -
  let ?ml = "md_sign P MlDsa65 seed data" and ?ec = "ec_sign p256 stream sk data"
  have len: "length ?ml < 2 ^ 32" using assms(1,3) unfolding pqc_law_def by blast
  have u: "unat (word_of_nat (length ?ml) :: u32) = length ?ml" using len by (simp add: unsigned_of_nat take_bit_nat_eq_self)
  have "hybrid_sign P p256 rng seed k data = Inr (u32_be (word_of_nat (length ?ml)) @ ?ml @ ?ec)"
    using assms(3-6) by (simp add: hybrid_sign_def ml_dsa_sign_def ecdsa_p256_sign_def ecdsa_sign_on_def validate_data_size_def ok_or_def)
  moreover have "ml_dsa_verify P (md_verifying_key P MlDsa65 seed) data ?ml MlDsa65 = Inr True"
  proof -
    obtain vk sig where "md_parse_vk P MlDsa65 (md_verifying_key P MlDsa65 seed) = Some vk"
        "md_parse_signature P MlDsa65 ?ml = Some sig" "md_verify P MlDsa65 vk data sig"
      using assms(1,3) unfolding pqc_law_def by metis
    then show ?thesis by (simp add: ml_dsa_verify_def ok_or_def)
  qed
  moreover have "ecdsa_p256_verify p256 (point k) data ?ec = Inr True"
  proof -
    obtain vk sig where "ec_verifying_key p256 (point k) = Some vk" "ec_signature p256 ?ec = Some sig" "ec_verify p256 vk data sig"
      using assms(2,4) unfolding ecdsa_law_def by metis
    then show ?thesis using assms(5) by (simp add: ecdsa_p256_verify_def ecdsa_verify_on_def validate_data_size_def ok_or_def)
  qed
  ultimately show ?thesis by (simp add: hybrid_verify_def u unwrap_or_false_def)
qed

lemma hybrid_kem_roundtrip:
  assumes "pqc_law P" "hkdf_law hkdf" "random 32 = Inr x" "length x = 32" "random 64 = Inr seed" "length seed = 64"
    and "random' 32 = Inr y" "rng = Inr stream"
  shows "\<exists>dk ek ct ss. hybrid_kem_keygen P random v = Inr (dk, ek) \<and>
    hybrid_kem_encapsulate P hkdf random' rng ek v = Inr (ct, ss) \<and>
    hybrid_kem_decapsulate P hkdf dk ct v = Inr ss \<and> length ss = 32"
proof -
  let ?v = "hybrid_kem_ml_kem_variant v"
  have x: "xd_diffie_hellman P x (xd_public P y) = xd_diffie_hellman P y (xd_public P x)" "\<And>a. length (xd_public P a) = 32"
    using assms(1) unfolding pqc_law_def by blast+
  obtain ek where ek: "mk_to_seed P ?v seed = Some seed" "mk_encapsulation_key P ?v seed \<noteq> []"
      "mk_parse_ek P ?v (mk_encapsulation_key P ?v seed) = Some ek"
      "\<And>stream. \<exists>ct ss ct'. mk_encapsulate P ?v stream ek = (ct, ss) \<and> ct \<noteq> [] \<and> mk_parse_ct P ?v ct = Some ct' \<and>
             mk_decapsulate P ?v seed ct' = ss"
    using assms(1,6) unfolding pqc_law_def by blast
  obtain ct ss ct' where ct: "mk_encapsulate P ?v stream ek = (ct, ss)" "ct \<noteq> []" "mk_parse_ct P ?v ct = Some ct'"
      "mk_decapsulate P ?v seed ct' = ss" using ek(4) by blast
  obtain okm where okm: "combine_kem_secrets hkdf (xd_diffie_hellman P y (xd_public P x)) ss = Inr okm" "length okm = 32"
  proof -
    have "(32::nat) \<le> 8160" by simp
    then obtain okm where "hkdf (ascii ''CratonHSM-HybridKEM-v1'') (xd_diffie_hellman P y (xd_public P x) @ ss)
        (ascii ''hybrid-kem-shared-secret'') 32 = Some okm" "length okm = 32"
      using assms(2) unfolding hkdf_law_def by metis
    then show ?thesis using that by (simp add: combine_kem_secrets_def ok_or_def)
  qed
  have kg: "hybrid_kem_keygen P random v = Inr (x @ seed, xd_public P x @ mk_encapsulation_key P ?v seed)"
    using assms(3,5) ek(1) by (simp add: hybrid_kem_keygen_def ml_kem_keygen_def ok_or_def)
  have "hybrid_kem_encapsulate P hkdf random' rng (xd_public P x @ mk_encapsulation_key P ?v seed) v = Inr (xd_public P y @ ct, okm)"
    using assms(7,8) ek(2,3) ct(1) okm(1) x(2)
    by (cases "mk_encapsulation_key P ?v seed") (simp_all add: hybrid_kem_encapsulate_def ml_kem_encapsulate_def ok_or_def)
  moreover have "hybrid_kem_decapsulate P hkdf (x @ seed) (xd_public P y @ ct) v = Inr okm"
    using assms(4,6) ct(2,3,4) okm(1) x
    by (cases ct) (simp_all add: hybrid_kem_decapsulate_def ml_kem_decapsulate_def ok_or_def)
  ultimately show ?thesis using kg okm(2) by blast
qed

text \<open>\<^bold>\<open>C24\<close> The hybrid schemes decode what they encode. A hybrid signature made with a seed and an
  ECDSA key verifies with their public keys. For a generated hybrid key pair, encapsulation to the public
  key succeeds, and decapsulation of the ciphertext with the private key recovers the 32-byte secret of the
  sender.\<close>

theorem hybrid_schemes_roundtrip:
  assumes "pqc_law P" "ecdsa_law p256 point" "hkdf_law hkdf"
    and "length ml_seed = 32" "ec_signing_key p256 k = Some sk" "length data \<le> SIGN_MAX_DATA_SIZE"
    and "random 32 = Inr x" "length x = 32" "random 64 = Inr seed" "length seed = 64" "random' 32 = Inr y"
  shows "(\<exists>sig. hybrid_sign P p256 (Inr stream) ml_seed k data = Inr sig \<and>
      hybrid_verify P p256 (md_verifying_key P MlDsa65 ml_seed) (point k) data sig = Inr True) \<and>
    (\<exists>dk ek ct ss. hybrid_kem_keygen P random v = Inr (dk, ek) \<and>
      hybrid_kem_encapsulate P hkdf random' (Inr stream') ek v = Inr (ct, ss) \<and>
      hybrid_kem_decapsulate P hkdf dk ct v = Inr ss \<and> length ss = 32)"
  using hybrid_signature_roundtrip [OF assms(1,2,4-6) refl]
    hybrid_kem_roundtrip [where random = random and random' = random', OF assms(1,3,7-11) refl] by blast

definition sample_pqc :: pqc_crates where
  "sample_pqc =
    \<lparr>mk_encapsulation_key = (\<lambda>v seed. take 1 (seed @ [0])), mk_to_seed = (\<lambda>v seed. Some seed), mk_parse_ek = (\<lambda>v ek. Some ek),
     mk_encapsulate = (\<lambda>v stream ek. ([7], ek)), mk_parse_ct = (\<lambda>v ct. Some ct), mk_decapsulate = (\<lambda>v seed ct. take 1 (seed @ [0])),
     md_generate = (\<lambda>v stream. take 32 (stream @ replicate 32 0)), md_verifying_key = (\<lambda>v seed. seed),
     md_sign = (\<lambda>v seed data. take 1 (seed @ data)), md_parse_vk = (\<lambda>v vk. Some vk), md_parse_signature = (\<lambda>v sig. Some sig),
     md_verify = (\<lambda>v vk data sig. sig = take 1 (vk @ data)), sd_generate = (\<lambda>v stream. stream), sd_verifying_key = (\<lambda>v sk. sk),
     sd_parse_sk = (\<lambda>v sk. Some sk), sd_sign = (\<lambda>v sk data. Some (sk @ data)), sd_parse_vk = (\<lambda>v vk. Some vk),
     sd_parse_signature = (\<lambda>v sig. Some sig), sd_verify = (\<lambda>v vk data sig. sig = vk @ data),
     xd_public = (\<lambda>a. take 32 (a @ replicate 32 0)), xd_diffie_hellman = (\<lambda>a B. [hd (a @ [0]) + hd (B @ [0])])\<rparr>"

definition sample_ecdsa :: ecdsa_crate where
  "sample_ecdsa =
    \<lparr>ec_signing_key = Some, ec_sign = (\<lambda>stream k data. k @ data), ec_sign_digest = (\<lambda>stream k d. Some (k @ d)),
     ec_verifying_key = Some, ec_signature = Some, ec_verify = (\<lambda>vk data sig. sig = vk @ data),
     ec_verify_digest = (\<lambda>vk d sig. sig = vk @ d)\<rparr>"

lemma sample_pqc_laws: "pqc_law sample_pqc" "ecdsa_law sample_ecdsa id"
  by (auto simp: pqc_law_def sample_pqc_def ecdsa_law_def sample_ecdsa_def hd_append add.commute)

theorem hybrid_schemes_roundtrip_witness:
  "(\<exists>sig. hybrid_sign sample_pqc sample_ecdsa (Inr []) (replicate 32 1) [4] [9, 9] = Inr sig \<and>
      hybrid_verify sample_pqc sample_ecdsa (md_verifying_key sample_pqc MlDsa65 (replicate 32 1)) (id [4]) [9, 9] sig = Inr True) \<and>
   (\<exists>dk ek ct ss. hybrid_kem_keygen sample_pqc (\<lambda>n. Inr (replicate n 3)) X25519MlKem768 = Inr (dk, ek) \<and>
      hybrid_kem_encapsulate sample_pqc sample_hkdf (\<lambda>n. Inr (replicate n 5)) (Inr []) ek X25519MlKem768 = Inr (ct, ss) \<and>
      hybrid_kem_decapsulate sample_pqc sample_hkdf dk ct X25519MlKem768 = Inr ss \<and> length ss = 32)"
  by (rule hybrid_schemes_roundtrip [OF sample_pqc_laws sample_hkdf_law, where sk = "[4]" and x = "replicate 32 3" and
      seed = "replicate 64 3" and y = "replicate 32 5"]) (simp_all add: sample_ecdsa_def)

end
