(* ===== verification/Rustcrypto_Backend.thy ===== *)
theory Rustcrypto_Backend
  imports Pqc
begin

text \<open>
  The default backend (\<open>src/src/crypto/rustcrypto_backend.rs\<close>) and the methods it inherits from
  the trait (\<open>src/src/crypto/backend.rs\<close>): a value of the backend interface, built from the crates and
  from the random values the calls draw. The methods with a handle work on the caches of RSA keys in the source;
  here they are the routines without a cache, which compute the same by \<open>Signing\<close>.
\<close>

record crates =
  cr_rsa :: rsa_crate
  cr_rsa_keygen :: rsa_keygen
  cr_ecdsa_p256 :: ecdsa_crate
  cr_ecdsa_p384 :: ecdsa_crate
  cr_curve_p256 :: curve_crate
  cr_curve_p384 :: curve_crate
  cr_ed25519 :: ed25519_crate
  cr_ed25519_generate :: "bytes \<Rightarrow> bytes"
  cr_ed25519_public :: "bytes \<Rightarrow> bytes"
  cr_aes :: aes_prims
  cr_key_wrap :: kw_crate
  cr_hkdf :: hkdf_fn
  cr_digest :: digest_fn
  cr_pqc :: pqc_crates

text \<open>What a call draws: the stream of a new generator, the bytes of a fresh one, a nonce prefix.\<close>

record draws =
  dw_rng :: rng
  dw_bytes :: "nat \<Rightarrow> bytes hsm_result"
  dw_nonce_prefix :: "bytes hsm_result"

definition rust_signing :: "crates \<Rightarrow> draws \<Rightarrow> signing_ops" where
  "rust_signing K w =
    (let R = cr_rsa K in
     \<lparr>sg_rsa_pkcs1v15_sign = (\<lambda>der data h. plain_private R (validate_data_size data) der (pkcs1v15_sign_with R h data)),
      sg_rsa_pkcs1v15_sign_with_handle =
        (\<lambda>slot handle der data h. plain_private R (validate_data_size data) der (pkcs1v15_sign_with R h data)),
      sg_rsa_pkcs1v15_verify = rsa_pkcs1v15_verify R,
      sg_rsa_pkcs1v15_verify_with_handle = (\<lambda>slot handle. rsa_pkcs1v15_verify R),
      sg_rsa_pss_sign_with_handle =
        (\<lambda>slot handle der data h. plain_private R (validate_data_size data) der (pss_sign_with R (dw_rng w) h data)),
      sg_rsa_pss_verify_with_handle = (\<lambda>slot handle. rsa_pss_verify R),
      sg_ecdsa_p256_sign = ecdsa_p256_sign (cr_ecdsa_p256 K) (dw_rng w),
      sg_ecdsa_p256_verify = ecdsa_p256_verify (cr_ecdsa_p256 K),
      sg_ecdsa_p384_sign = ecdsa_p384_sign (cr_ecdsa_p384 K) (dw_rng w),
      sg_ecdsa_p384_verify = ecdsa_p384_verify (cr_ecdsa_p384 K),
      sg_ed25519_sign = ed25519_sign (cr_ed25519 K),
      sg_ed25519_verify = ed25519_verify (cr_ed25519 K),
      sg_ml_dsa_sign = ml_dsa_sign (cr_pqc K),
      sg_ml_dsa_verify = ml_dsa_verify (cr_pqc K),
      sg_slh_dsa_sign = slh_dsa_sign (cr_pqc K),
      sg_slh_dsa_verify = slh_dsa_verify (cr_pqc K),
      sg_hybrid_sign = hybrid_sign (cr_pqc K) (cr_ecdsa_p256 K) (dw_rng w),
      sg_hybrid_verify = hybrid_verify (cr_pqc K) (cr_ecdsa_p256 K)\<rparr>)"

definition rust_prehash :: "crates \<Rightarrow> draws \<Rightarrow> prehash_ops" where
  "rust_prehash K w =
    (let R = cr_rsa K in
     \<lparr>ph_rsa_pkcs1v15_sign =
        (\<lambda>slot handle der digest h. plain_private R (validate_digest_length digest h) der (pkcs1v15_sign_digest_with R h digest)),
      ph_rsa_pkcs1v15_verify = (\<lambda>slot handle. rsa_pkcs1v15_verify_prehashed R),
      ph_rsa_pss_sign =
        (\<lambda>slot handle der digest h. plain_private R (validate_digest_length digest h) der (pss_sign_digest_with R (dw_rng w) h digest)),
      ph_rsa_pss_verify = (\<lambda>slot handle. rsa_pss_verify_prehashed R),
      ph_ecdsa_p256_sign = ecdsa_p256_sign_prehashed (cr_ecdsa_p256 K) (dw_rng w),
      ph_ecdsa_p256_verify = ecdsa_p256_verify_prehashed (cr_ecdsa_p256 K),
      ph_ecdsa_p384_sign = ecdsa_p384_sign_prehashed (cr_ecdsa_p384 K) (dw_rng w),
      ph_ecdsa_p384_verify = ecdsa_p384_verify_prehashed (cr_ecdsa_p384 K)\<rparr>)"

definition rustcrypto_backend :: "crates \<Rightarrow> draws \<Rightarrow> crypto_backend" where
  "rustcrypto_backend K w =
    \<lparr>cb_signing = rust_signing K w,
     cb_prehash = rust_prehash K w,
     cb_aes_256_gcm_encrypt = aes_256_gcm_encrypt (cr_aes K) (dw_nonce_prefix w),
     cb_aes_256_gcm_decrypt = aes_256_gcm_decrypt (cr_aes K),
     cb_aes_cbc_encrypt = aes_cbc_encrypt (cr_aes K),
     cb_aes_cbc_decrypt = aes_cbc_decrypt (cr_aes K),
     cb_aes_ctr_encrypt = aes_ctr_encrypt (cr_aes K),
     cb_aes_ctr_decrypt = aes_ctr_decrypt (cr_aes K),
     cb_rsa_oaep_encrypt_with_handle = (\<lambda>slot handle. rsa_oaep_encrypt (cr_rsa K) (dw_rng w)),
     cb_rsa_oaep_decrypt_with_handle =
       (\<lambda>slot handle der ciphertext h. plain_private (cr_rsa K) (Inr ()) der (oaep_decrypt_with (cr_rsa K) h ciphertext)),
     cb_generate_aes_key = generate_aes_key (dw_bytes w),
     cb_generate_rsa_key_pair = generate_rsa_key_pair (cr_rsa_keygen K) (dw_rng w),
     cb_generate_ec_p256_key_pair = generate_ec_p256_key_pair (cr_curve_p256 K) (dw_rng w),
     cb_generate_ec_p384_key_pair = generate_ec_p384_key_pair (cr_curve_p384 K) (dw_rng w),
     cb_generate_ed25519_key_pair = generate_ed25519_key_pair (cr_ed25519_generate K) (cr_ed25519_public K) (dw_rng w),
     cb_ml_kem_keygen = ml_kem_keygen (cr_pqc K) (dw_bytes w),
     cb_ml_dsa_keygen = ml_dsa_keygen (cr_pqc K) (dw_rng w),
     cb_slh_dsa_keygen = slh_dsa_keygen (cr_pqc K) (dw_rng w),
     cb_compute_digest = compute_digest (cr_digest K),
     cb_create_hasher = create_hasher,
     cb_hasher_output_len = (\<lambda>h. case digest_output_len (hs_mechanism h) of Inr n \<Rightarrow> n | Inl _ \<Rightarrow> 0),
     cb_hasher_finalize = hasher_finalize (cr_digest K),
     cb_aes_key_wrap = aes_key_wrap (cr_key_wrap K),
     cb_aes_key_unwrap = aes_key_unwrap (cr_key_wrap K),
     cb_ecdh_p256 = ecdh_p256 (cr_curve_p256 K) (cr_hkdf K),
     cb_ecdh_p384 = ecdh_p384 (cr_curve_p384 K) (cr_hkdf K),
     cb_ml_kem_encapsulate = ml_kem_encapsulate (cr_pqc K) (dw_rng w),
     cb_ml_kem_decapsulate = ml_kem_decapsulate (cr_pqc K)\<rparr>"

section \<open>The backend and the caches\<close>

text \<open>A method with a handle returns what the routine of the source with its cache returns: one use
  of the caches, in any state of them that stems from consistent uses.\<close>

lemma backend_sign_with_handle_cached:
  assumes "caches_ok (cr_rsa K) sha256 D b cs" "fst b (slot, handle) = Some der"
  shows "fst (rsa_pkcs1v15_sign_cached (cr_rsa K) slot handle der data h cs) =
    sg_rsa_pkcs1v15_sign_with_handle (cb_signing (rustcrypto_backend K w)) slot handle der data h"
  using with_private_key_plain [where P = "\<lambda>_. True" and cs = cs and get_key = "get_or_parse_private_key (cr_rsa K) slot handle der"
      and R = "cr_rsa K" and der = der and checked = "validate_data_size data" and body = "pkcs1v15_sign_with (cr_rsa K) h data"]
    get_or_parse_private_key_plain [OF assms]
  by (auto simp: rsa_pkcs1v15_sign_cached_def rustcrypto_backend_def rust_signing_def Let_def)

lemma backend_verify_with_handle_cached:
  assumes "caches_ok (cr_rsa K) sha256 D b cs" "snd b (slot, handle) = Some (n, e)"
  shows "fst (rsa_pkcs1v15_verify_cached (cr_rsa K) slot handle n e data sig h cs) =
    sg_rsa_pkcs1v15_verify_with_handle (cb_signing (rustcrypto_backend K w)) slot handle n e data sig h"
  using with_public_key_plain [where P = "\<lambda>_. True" and cs = cs and get_key = "get_or_build_public_key (cr_rsa K) slot handle n e"
      and R = "cr_rsa K" and n = n and e = e and checked = "validate_data_size data" and body = "pkcs1v15_verify_with (cr_rsa K) h data sig"]
    get_or_build_public_key_plain [OF assms]
  by (auto simp: rsa_pkcs1v15_verify_cached_def rsa_pkcs1v15_verify_def rustcrypto_backend_def rust_signing_def Let_def)

end
