(* ===== verification/Conditional_Test.thy ===== *)
theory Conditional_Test
  imports Rustcrypto_Backend
begin

text \<open>
  The framework of conditional self-tests (\<open>src/src/crypto/conditional_test.rs\<close>): a test per
  algorithm family before its first use, with the families that have passed and an error state that no later
  test leaves. A test calls the backend several times; \<open>B i\<close> is the backend of its call number \<open>i\<close>, so that
  the calls may draw different random values. The AES tests work on the process-wide cipher state.
\<close>

section \<open>Families and state\<close>

datatype algorithm_family =
    FamSha256 | FamSha384 | FamSha512 | FamSha3_256 | FamSha3_384 | FamSha3_512 | FamSha1
  | FamHmacSha256 | FamHmacSha384 | FamHmacSha512
  | FamAesGcm | FamAesCbc | FamAesCtr
  | FamRsaPkcs1 | FamRsaPss | FamEcdsaP256 | FamEcdsaP384 | FamEd25519
  | FamRsaOaep | FamAesKeyWrap | FamEcdhP256 | FamEcdhP384
  | FamMlDsa44 | FamMlDsa65 | FamMlDsa87 | FamMlKem512 | FamMlKem768 | FamMlKem1024
  | FamSlhDsaSha2_128s | FamSlhDsaSha2_256s | FamHybridMlDsaEcdsa
  | FamDrbg

record conditional_self_test =
  cst_passed :: "algorithm_family list"
  cst_error_state :: bool

definition conditional_self_test_new :: conditional_self_test where
  "conditional_self_test_new = \<lparr>cst_passed = [], cst_error_state = False\<rparr>"

definition is_error_state :: "conditional_self_test \<Rightarrow> bool" where
  "is_error_state c = cst_error_state c"

text \<open>What the tests use besides the backend: the HMAC crate, by digest mechanism, and two outputs of
  a new generator.\<close>

record kat_env =
  ke_hmac :: "ck_ulong \<Rightarrow> bytes \<Rightarrow> bytes \<Rightarrow> bytes"
  ke_drbg :: "(bytes \<times> bytes) hsm_result"

section \<open>The tests\<close>

definition require :: "bool \<Rightarrow> unit hsm_result" where
  "require b = (if b then Inr () else Inl GeneralError)"

definition kat_digest :: "(nat \<Rightarrow> crypto_backend) \<Rightarrow> ck_ulong \<Rightarrow> unit hsm_result" where
  "kat_digest B mechanism =
    (let test_data = ascii ''FIPS 140-3 conditional self-test'' in
     res_bind (cb_compute_digest (B 0) mechanism test_data) (\<lambda>digest.
     res_bind (require (digest \<noteq> [])) (\<lambda>_.
     res_bind (cb_compute_digest (B 1) mechanism test_data) (\<lambda>digest2. require (digest = digest2)))))"

definition kat_aes_gcm :: "(nat \<Rightarrow> crypto_backend) \<Rightarrow> cipher_state \<Rightarrow> unit hsm_result \<times> cipher_state" where
  "kat_aes_gcm B s =
    (let key = replicate 32 0x42; plaintext = ascii ''CST AES-GCM test data'';
         (r, s') = cb_aes_256_gcm_encrypt (B 0) key plaintext s
     in (res_bind r (\<lambda>ciphertext.
         res_bind (cb_aes_256_gcm_decrypt (B 1) key ciphertext) (\<lambda>decrypted. require (decrypted = plaintext))), s'))"

definition kat_aes_cbc :: "(nat \<Rightarrow> crypto_backend) \<Rightarrow> cipher_state \<Rightarrow> unit hsm_result \<times> cipher_state" where
  "kat_aes_cbc B s =
    (let key = replicate 32 0x42; iv = replicate 16 0x01; plaintext = ascii ''CST AES-CBC data'';
         (r, s') = cb_aes_cbc_encrypt (B 0) key iv plaintext s
     in (res_bind r (\<lambda>ciphertext.
         res_bind (cb_aes_cbc_decrypt (B 1) key iv ciphertext) (\<lambda>decrypted. require (decrypted = plaintext))), s'))"

definition kat_aes_ctr :: "(nat \<Rightarrow> crypto_backend) \<Rightarrow> cipher_state \<Rightarrow> unit hsm_result \<times> cipher_state" where
  "kat_aes_ctr B s =
    (let key = replicate 32 0x42; iv = replicate 16 0x02; plaintext = ascii ''CST AES-CTR data'';
         (r, s') = cb_aes_ctr_encrypt (B 0) key iv plaintext s
     in (res_bind r (\<lambda>ciphertext.
         res_bind (cb_aes_ctr_decrypt (B 1) key iv ciphertext) (\<lambda>decrypted. require (decrypted = plaintext))), s'))"

definition kat_rsa :: "(nat \<Rightarrow> crypto_backend) \<Rightarrow> unit hsm_result" where
  "kat_rsa B =
    (let test_data = ascii ''FIPS 140-3 RSA conditional self-test'' in
     res_bind (cb_generate_rsa_key_pair (B 0) 2048 False) (\<lambda>(priv_key, modulus, pub_exp).
     res_bind (sg_rsa_pkcs1v15_sign (cb_signing (B 1)) priv_key test_data (Some Sha256)) (\<lambda>signature.
     res_bind (sg_rsa_pkcs1v15_verify (cb_signing (B 2)) modulus pub_exp test_data signature (Some Sha256)) require)))"

definition kat_ecdsa_p256 :: "(nat \<Rightarrow> crypto_backend) \<Rightarrow> unit hsm_result" where
  "kat_ecdsa_p256 B =
    (let test_data = ascii ''FIPS 140-3 ECDSA P-256 CST'' in
     res_bind (cb_generate_ec_p256_key_pair (B 0)) (\<lambda>(priv_key, pub_key).
     res_bind (sg_ecdsa_p256_sign (cb_signing (B 1)) priv_key test_data) (\<lambda>signature.
     res_bind (sg_ecdsa_p256_verify (cb_signing (B 2)) pub_key test_data signature) require)))"

definition kat_ecdsa_p384 :: "(nat \<Rightarrow> crypto_backend) \<Rightarrow> unit hsm_result" where
  "kat_ecdsa_p384 B =
    (let test_data = ascii ''FIPS 140-3 ECDSA P-384 CST'' in
     res_bind (cb_generate_ec_p384_key_pair (B 0)) (\<lambda>(priv_key, pub_key).
     res_bind (sg_ecdsa_p384_sign (cb_signing (B 1)) priv_key test_data) (\<lambda>signature.
     res_bind (sg_ecdsa_p384_verify (cb_signing (B 2)) pub_key test_data signature) require)))"

definition kat_ed25519 :: "(nat \<Rightarrow> crypto_backend) \<Rightarrow> unit hsm_result" where
  "kat_ed25519 B =
    (let test_data = ascii ''FIPS 140-3 Ed25519 CST'' in
     res_bind (cb_generate_ed25519_key_pair (B 0)) (\<lambda>(priv_key, pub_key).
     res_bind (sg_ed25519_sign (cb_signing (B 1)) priv_key test_data) (\<lambda>signature.
     res_bind (sg_ed25519_verify (cb_signing (B 2)) pub_key test_data signature) require)))"

definition kat_aes_key_wrap :: "(nat \<Rightarrow> crypto_backend) \<Rightarrow> unit hsm_result" where
  "kat_aes_key_wrap B =
    (let wrapping_key = replicate 32 0x42; key_to_wrap = replicate 32 0x55 in
     res_bind (cb_aes_key_wrap (B 0) wrapping_key key_to_wrap False) (\<lambda>wrapped.
     res_bind (cb_aes_key_unwrap (B 1) wrapping_key wrapped False) (\<lambda>unwrapped. require (unwrapped = key_to_wrap))))"

definition kat_ecdh :: "(nat \<Rightarrow> crypto_backend) \<Rightarrow> bool \<Rightarrow> unit hsm_result" where
  "kat_ecdh B is_p384 =
    (if is_p384 then
       res_bind (cb_generate_ec_p384_key_pair (B 0)) (\<lambda>(sk_a, pk_a).
       res_bind (cb_generate_ec_p384_key_pair (B 1)) (\<lambda>(sk_b, pk_b).
       res_bind (cb_ecdh_p384 (B 2) sk_a pk_b None) (\<lambda>ss_a.
       res_bind (cb_ecdh_p384 (B 3) sk_b pk_a None) (\<lambda>ss_b. require (ss_a = ss_b)))))
     else
       res_bind (cb_generate_ec_p256_key_pair (B 0)) (\<lambda>(sk_a, pk_a).
       res_bind (cb_generate_ec_p256_key_pair (B 1)) (\<lambda>(sk_b, pk_b).
       res_bind (cb_ecdh_p256 (B 2) sk_a pk_b None) (\<lambda>ss_a.
       res_bind (cb_ecdh_p256 (B 3) sk_b pk_a None) (\<lambda>ss_b. require (ss_a = ss_b))))))"

definition kat_ml_dsa :: "(nat \<Rightarrow> crypto_backend) \<Rightarrow> ml_dsa_variant \<Rightarrow> unit hsm_result" where
  "kat_ml_dsa B variant =
    (let test_data = ascii ''FIPS 140-3 ML-DSA CST'' in
     res_bind (cb_ml_dsa_keygen (B 0) variant) (\<lambda>(sk, vk).
     res_bind (sg_ml_dsa_sign (cb_signing (B 1)) sk test_data variant) (\<lambda>signature.
     res_bind (sg_ml_dsa_verify (cb_signing (B 2)) vk test_data signature variant) require)))"

definition kat_ml_kem :: "(nat \<Rightarrow> crypto_backend) \<Rightarrow> ml_kem_variant \<Rightarrow> unit hsm_result" where
  "kat_ml_kem B variant =
    res_bind (cb_ml_kem_keygen (B 0) variant) (\<lambda>(dk, ek).
    res_bind (cb_ml_kem_encapsulate (B 1) ek variant) (\<lambda>(ct, ss_enc).
    res_bind (cb_ml_kem_decapsulate (B 2) dk ct variant) (\<lambda>ss_dec. require (ss_enc = ss_dec))))"

definition kat_slh_dsa :: "(nat \<Rightarrow> crypto_backend) \<Rightarrow> slh_dsa_variant \<Rightarrow> unit hsm_result" where
  "kat_slh_dsa B variant =
    (let test_data = ascii ''FIPS 140-3 SLH-DSA CST'' in
     res_bind (cb_slh_dsa_keygen (B 0) variant) (\<lambda>(sk, vk).
     res_bind (sg_slh_dsa_sign (cb_signing (B 1)) sk test_data variant) (\<lambda>signature.
     res_bind (sg_slh_dsa_verify (cb_signing (B 2)) vk test_data signature variant) require)))"

definition kat_hmac :: "kat_env \<Rightarrow> (nat \<Rightarrow> crypto_backend) \<Rightarrow> ck_ulong \<Rightarrow> unit hsm_result" where
  "kat_hmac E B digest_mechanism =
    (let key = replicate 32 0x42; data = ascii ''FIPS 140-3 HMAC conditional self-test'' in
     if digest_mechanism \<notin> {CKM_SHA256, CKM_SHA384, CKM_SHA512} then Inl MechanismInvalid
     else
       (let tag = ke_hmac E digest_mechanism key data in
        res_bind (require (tag \<noteq> [])) (\<lambda>_.
        (let tag2 = ke_hmac E digest_mechanism key data in
         res_bind (require (tag = tag2)) (\<lambda>_.
         res_map (\<lambda>_. ()) (cb_compute_digest (B 0) digest_mechanism data))))))"

definition kat_drbg :: "kat_env \<Rightarrow> unit hsm_result" where
  "kat_drbg E = res_bind (ke_drbg E) (\<lambda>(a, b). require (a \<noteq> b))"

definition run_kat ::
  "kat_env \<Rightarrow> (nat \<Rightarrow> crypto_backend) \<Rightarrow> algorithm_family \<Rightarrow> cipher_state \<Rightarrow> unit hsm_result \<times> cipher_state" where
  "run_kat E B family s =
    (case family of
       FamSha256 \<Rightarrow> (kat_digest B CKM_SHA256, s)
     | FamSha384 \<Rightarrow> (kat_digest B CKM_SHA384, s)
     | FamSha512 \<Rightarrow> (kat_digest B CKM_SHA512, s)
     | FamSha1 \<Rightarrow> (kat_digest B CKM_SHA_1, s)
     | FamSha3_256 \<Rightarrow> (kat_digest B CKM_SHA3_256, s)
     | FamSha3_384 \<Rightarrow> (kat_digest B CKM_SHA3_384, s)
     | FamSha3_512 \<Rightarrow> (kat_digest B CKM_SHA3_512, s)
     | FamAesGcm \<Rightarrow> kat_aes_gcm B s
     | FamAesCbc \<Rightarrow> kat_aes_cbc B s
     | FamAesCtr \<Rightarrow> kat_aes_ctr B s
     | FamRsaPkcs1 \<Rightarrow> (kat_rsa B, s)
     | FamRsaPss \<Rightarrow> (kat_rsa B, s)
     | FamRsaOaep \<Rightarrow> (kat_rsa B, s)
     | FamEcdsaP256 \<Rightarrow> (kat_ecdsa_p256 B, s)
     | FamEcdsaP384 \<Rightarrow> (kat_ecdsa_p384 B, s)
     | FamEd25519 \<Rightarrow> (kat_ed25519 B, s)
     | FamAesKeyWrap \<Rightarrow> (kat_aes_key_wrap B, s)
     | FamEcdhP256 \<Rightarrow> (kat_ecdh B False, s)
     | FamEcdhP384 \<Rightarrow> (kat_ecdh B True, s)
     | FamMlDsa44 \<Rightarrow> (kat_ml_dsa B MlDsa44, s)
     | FamMlDsa65 \<Rightarrow> (kat_ml_dsa B MlDsa65, s)
     | FamMlDsa87 \<Rightarrow> (kat_ml_dsa B MlDsa87, s)
     | FamMlKem512 \<Rightarrow> (kat_ml_kem B MlKem512, s)
     | FamMlKem768 \<Rightarrow> (kat_ml_kem B MlKem768, s)
     | FamMlKem1024 \<Rightarrow> (kat_ml_kem B MlKem1024, s)
     | FamSlhDsaSha2_128s \<Rightarrow> (kat_slh_dsa B Sha2_128s, s)
     | FamSlhDsaSha2_256s \<Rightarrow> (kat_slh_dsa B Sha2_256s, s)
     | FamHybridMlDsaEcdsa \<Rightarrow> (res_bind (kat_ml_dsa B MlDsa65) (\<lambda>_. kat_ecdsa_p256 (\<lambda>i. B (i + 3))), s)
     | FamHmacSha256 \<Rightarrow> (kat_hmac E B CKM_SHA256, s)
     | FamHmacSha384 \<Rightarrow> (kat_hmac E B CKM_SHA384, s)
     | FamHmacSha512 \<Rightarrow> (kat_hmac E B CKM_SHA512, s)
     | FamDrbg \<Rightarrow> (kat_drbg E, s))"

text \<open>Testing a family. Another thread may fail the test of another family while this one runs; the
  argument \<open>raced\<close> says whether one does.\<close>

definition ensure_tested ::
  "kat_env \<Rightarrow> (nat \<Rightarrow> crypto_backend) \<Rightarrow> bool \<Rightarrow> algorithm_family \<Rightarrow> conditional_self_test \<times> cipher_state \<Rightarrow>
   unit hsm_result \<times> conditional_self_test \<times> cipher_state" where
  "ensure_tested E B raced family st =
    (case st of (c, s) \<Rightarrow>
      if cst_error_state c then (Inl GeneralError, c, s)
      else if family \<in> set (cst_passed c) then (Inr (), c, s)
      else
        (let (result, s') = run_kat E B family s; c1 = c\<lparr>cst_error_state := raced\<rparr> in
         case result of
           Inr _ \<Rightarrow> if cst_error_state c1 then (Inl GeneralError, c1, s') else (Inr (), c1\<lparr>cst_passed := family # cst_passed c1\<rparr>, s')
         | Inl e \<Rightarrow> (Inl e, c1\<lparr>cst_error_state := True\<rparr>, s')))"

definition mechanism_to_family :: "ck_ulong \<Rightarrow> bytes option \<Rightarrow> algorithm_family option" where
  "mechanism_to_family mechanism ec_params =
    (let is_p384 = (case ec_params of None \<Rightarrow> False
        | Some params \<Rightarrow> length params \<ge> 7 \<and> 0x22 \<in> set params \<and> 0x04 \<in> set params \<and> 0x81 \<in> set params) in
     if mechanism \<in> {CKM_SHA256, CKM_SHA256_RSA_PKCS, CKM_SHA256_RSA_PKCS_PSS, CKM_ECDSA_SHA256} then Some FamSha256
     else if mechanism \<in> {CKM_SHA384, CKM_SHA384_RSA_PKCS, CKM_SHA384_RSA_PKCS_PSS, CKM_ECDSA_SHA384} then Some FamSha384
     else if mechanism \<in> {CKM_SHA512, CKM_SHA512_RSA_PKCS, CKM_SHA512_RSA_PKCS_PSS, CKM_ECDSA_SHA512} then Some FamSha512
     else if mechanism = CKM_SHA_1 then Some FamSha1
     else if mechanism = CKM_SHA3_256 then Some FamSha3_256
     else if mechanism = CKM_SHA3_384 then Some FamSha3_384
     else if mechanism = CKM_SHA3_512 then Some FamSha3_512
     else if mechanism = CKM_AES_GCM then Some FamAesGcm
     else if mechanism \<in> {CKM_AES_CBC, CKM_AES_CBC_PAD} then Some FamAesCbc
     else if mechanism = CKM_AES_CTR then Some FamAesCtr
     else if mechanism = CKM_RSA_PKCS then Some FamRsaPkcs1
     else if mechanism = CKM_RSA_PKCS_PSS then Some FamRsaPss
     else if mechanism = CKM_RSA_PKCS_OAEP then Some FamRsaOaep
     else if mechanism = CKM_ECDSA then Some (if is_p384 then FamEcdsaP384 else FamEcdsaP256)
     else if mechanism = CKM_EDDSA then Some FamEd25519
     else if mechanism \<in> {CKM_AES_KEY_WRAP, CKM_AES_KEY_WRAP_KWP} then Some FamAesKeyWrap
     else if mechanism = CKM_ECDH1_DERIVE then Some (if is_p384 then FamEcdhP384 else FamEcdhP256)
     else if mechanism = CKM_ML_DSA_44 then Some FamMlDsa44
     else if mechanism = CKM_ML_DSA_65 then Some FamMlDsa65
     else if mechanism = CKM_ML_DSA_87 then Some FamMlDsa87
     else if mechanism = CKM_ML_KEM_512 then Some FamMlKem512
     else if mechanism = CKM_ML_KEM_768 then Some FamMlKem768
     else if mechanism = CKM_ML_KEM_1024 then Some FamMlKem1024
     else if mechanism = CKM_SLH_DSA_SHA2_128S then Some FamSlhDsaSha2_128s
     else if mechanism = CKM_SLH_DSA_SHA2_256S then Some FamSlhDsaSha2_256s
     else if mechanism = CKM_HYBRID_ML_DSA_ECDSA then Some FamHybridMlDsaEcdsa
     else None)"

section \<open>The state of the framework\<close>

lemma error_state_final:
  "cst_error_state c \<Longrightarrow> ensure_tested E B raced family (c, s) = (Inl GeneralError, c, s)"
  by (simp add: ensure_tested_def)

lemma ensure_tested_failure:
  assumes "\<not> cst_error_state c" "family \<notin> set (cst_passed c)" "run_kat E B family s = (Inl e, s')"
  shows "ensure_tested E B raced family (c, s) = (Inl e, c\<lparr>cst_error_state := True\<rparr>, s')"
  using assms by (simp add: ensure_tested_def)

text \<open>A family is recorded as passed only by a test that succeeded.\<close>

lemma ensure_tested_passed:
  assumes "ensure_tested E B raced family (c, s) = (r, c', s')"
  shows "set (cst_passed c') \<subseteq> insert family (set (cst_passed c)) \<and>
    (family \<in> set (cst_passed c') \<longrightarrow> family \<in> set (cst_passed c) \<or> is_ok (fst (run_kat E B family s)))"
  using assms by (auto simp: ensure_tested_def Let_def split: prod.splits sum.splits if_splits)

section \<open>The self-test of the key agreement\<close>

text \<open>A random secret key parses to itself.\<close>

definition keygen_law :: "curve_crate \<Rightarrow> bool" where
  "keygen_law E \<longleftrightarrow> (\<forall>stream. cv_secret_key E (cv_random E stream) = Some (cv_random E stream))"

definition test_curve :: "crates \<Rightarrow> bool \<Rightarrow> curve_crate" where
  "test_curve K is_p384 = (if is_p384 then cr_curve_p384 K else cr_curve_p256 K)"

definition test_key :: "crates \<Rightarrow> bool \<Rightarrow> bytes \<Rightarrow> bytes \<Rightarrow> bytes \<Rightarrow> bytes option" where
  "test_key K is_p384 z A B =
    (if is_p384 then cr_hkdf K HKDF_SALT z (ecdh_info P384_OID 48 A B) 48
     else cr_hkdf K HKDF_SALT z (ecdh_info P256_OID 32 A B) 32)"

lemma kat_ecdh_eq:
  fixes K :: crates and is_p384 :: bool
  defines "E \<equiv> test_curve K is_p384"
  assumes "dw_rng (w 0) = Inr s0" "dw_rng (w 1) = Inr s1"
  shows "kat_ecdh (\<lambda>i. rustcrypto_backend K (w i)) is_p384 =
    (let a = cv_random E s0; b = cv_random E s1; oid = (if is_p384 then P384_OID else P256_OID);
         n = (if is_p384 then 48 else 32) in
     res_bind (ecdh_on E (cr_hkdf K) oid a (cv_point E b) n) (\<lambda>ss_a.
     res_bind (ecdh_on E (cr_hkdf K) oid b (cv_point E a) n) (\<lambda>ss_b. require (ss_a = ss_b))))"
  using assms
  by (simp add: kat_ecdh_def rustcrypto_backend_def generate_ec_p256_key_pair_def generate_ec_p384_key_pair_def
      generate_ec_key_pair_on_def ecdh_p256_def ecdh_p384_def test_curve_def Let_def)

text \<open>HKDF does not collide on the two contexts of one exchange.\<close>

definition no_collision :: "crates \<Rightarrow> bool \<Rightarrow> bytes \<Rightarrow> bytes \<Rightarrow> bool" where
  "no_collision K is_p384 a b \<longleftrightarrow>
    (let E = test_curve K is_p384; A = cv_point E a; B = cv_point E b in
     case cv_public_key E B of None \<Rightarrow> True
     | Some PB \<Rightarrow> test_key K is_p384 (cv_diffie_hellman E a PB) A B \<noteq> test_key K is_p384 (cv_diffie_hellman E a PB) B A)"

lemma kat_ecdh_fails:
  fixes K :: crates and is_p384 :: bool
  defines "E \<equiv> test_curve K is_p384"
  assumes "agreement_law E" "keygen_law E" "hkdf_law (cr_hkdf K)"
    and "dw_rng (w 0) = Inr s0" "dw_rng (w 1) = Inr s1"
    and "no_collision K is_p384 (cv_random E s0) (cv_random E s1)"
  shows "kat_ecdh (\<lambda>i. rustcrypto_backend K (w i)) is_p384 = Inl GeneralError"
proof -
  define oid where "oid = (if is_p384 then P384_OID else P256_OID)"
  define n :: nat where "n = (if is_p384 then 48 else 32)"
  define A B where "A = cv_point E (cv_random E s0)" and "B = cv_point E (cv_random E s1)"
  have keys: "cv_secret_key E (cv_random E s0) = Some (cv_random E s0)" "cv_secret_key E (cv_random E s1) = Some (cv_random E s1)"
    using assms(3) by (simp_all add: keygen_law_def)
  have n: "0 < n" "n \<le> 64" by (simp_all add: n_def)
  obtain PB da db where d: "cv_public_key E B = Some PB" "ecdh_on E (cr_hkdf K) oid (cv_random E s0) B n = Inr da"
      "ecdh_on E (cr_hkdf K) oid (cv_random E s1) A n = Inr db"
      "cr_hkdf K HKDF_SALT (cv_diffie_hellman E (cv_random E s0) PB) (ecdh_info oid n A B) n = Some da"
      "cr_hkdf K HKDF_SALT (cv_diffie_hellman E (cv_random E s0) PB) (ecdh_info oid n B A) n = Some db"
    using ecdh_on_both [OF assms(2,4) n keys, of oid] unfolding A_def B_def by blast
  have "test_key K is_p384 z X Y = cr_hkdf K HKDF_SALT z (ecdh_info oid n X Y) n" for z X Y
    by (simp add: test_key_def oid_def n_def)
  then have "da \<noteq> db" using assms(7) d(1,4,5) by (auto simp: no_collision_def Let_def E_def A_def B_def)
  then show ?thesis
    using kat_ecdh_eq [OF assms(5,6), of K is_p384] d(2,3)
    by (simp add: require_def E_def A_def B_def oid_def n_def)
qed

text \<open>\<^bold>\<open>C35\<close> With the default backend the conditional self-test of the key agreement fails: the test
  requires that two generated key pairs derive the same key from each other's public key, which the key derivation
  does not give unless HKDF collides on the two contexts of this exchange. The failure puts the framework into the
  error state, in which the test of every family is refused from then on.\<close>

theorem ecdh_self_test_fails:
  assumes "agreement_law (test_curve K is_p384)" "keygen_law (test_curve K is_p384)" "hkdf_law (cr_hkdf K)"
    and "dw_rng (w 0) = Inr s0" "dw_rng (w 1) = Inr s1"
    and "no_collision K is_p384 (cv_random (test_curve K is_p384) s0) (cv_random (test_curve K is_p384) s1)"
    and "family = (if is_p384 then FamEcdhP384 else FamEcdhP256)" "\<not> cst_error_state c" "family \<notin> set (cst_passed c)"
  shows "\<exists>c'. ensure_tested E (\<lambda>i. rustcrypto_backend K (w i)) raced family (c, s) = (Inl GeneralError, c', s) \<and>
    is_error_state c' \<and>
    (\<forall>E' B' raced' family' s'. ensure_tested E' B' raced' family' (c', s') = (Inl GeneralError, c', s'))"
proof -
  have "run_kat E (\<lambda>i. rustcrypto_backend K (w i)) family s = (Inl GeneralError, s)"
    using kat_ecdh_fails [OF assms(1-6)] assms(7) by (cases is_p384) (simp_all add: run_kat_def)
  from ensure_tested_failure [OF assms(8,9) this] show ?thesis
    by (auto simp: is_error_state_def error_state_final)
qed

definition sample_crates :: crates where
  "sample_crates =
    \<lparr>cr_rsa = sample_rsa,
     cr_rsa_keygen = \<lparr>rk_new = (\<lambda>stream n. Some [1]), rk_modulus = (\<lambda>_. replicate 256 255), rk_exponent = (\<lambda>_. [1, 0, 1]),
       rk_to_pkcs8_der = Some\<rparr>,
     cr_ecdsa_p256 = sample_ecdsa, cr_ecdsa_p384 = sample_ecdsa, cr_curve_p256 = sample_curve, cr_curve_p384 = sample_curve,
     cr_ed25519 = \<lparr>ed_sign = (\<lambda>k data. replicate 64 0), ed_verifying_key = Some, ed_verify = (\<lambda>vk data sig. True)\<rparr>,
     cr_ed25519_generate = (\<lambda>stream. replicate 32 0), cr_ed25519_public = (\<lambda>sk. sk), cr_aes = plain_aes,
     cr_key_wrap = \<lparr>kw_wrap = (\<lambda>kek key. Some (replicate 8 0 @ key)), kw_unwrap = (\<lambda>kek w. Some (drop 8 w))\<rparr>,
     cr_hkdf = sample_hkdf, cr_digest = (\<lambda>m data. [0]), cr_pqc = sample_pqc\<rparr>"

definition sample_draws :: "nat \<Rightarrow> draws" where
  "sample_draws i = \<lparr>dw_rng = Inr [word_of_nat i], dw_bytes = (\<lambda>n. Inr (replicate n (word_of_nat i))), dw_nonce_prefix = Inr [1, 2, 3, 4]\<rparr>"

definition sample_kat_env :: kat_env where
  "sample_kat_env = \<lparr>ke_hmac = (\<lambda>m k d. [1]), ke_drbg = Inr ([1], [2])\<rparr>"

definition empty_ciphers :: cipher_state where
  "empty_ciphers = \<lparr>cs_gcm_counters = [], cs_gcm_prefixes = [], cs_iv_tracker = []\<rparr>"

lemma sample_keygen_law: "keygen_law sample_curve"
proof -
  have "length (take 1 (stream @ [0])) = 1" for stream :: bytes by (cases stream) simp_all
  then show ?thesis by (simp add: keygen_law_def sample_curve_def del: take_append length_take)
qed

theorem ecdh_self_test_fails_witness:
  "\<exists>c'. ensure_tested sample_kat_env (\<lambda>i. rustcrypto_backend sample_crates (sample_draws i)) False FamEcdhP256
      (conditional_self_test_new, empty_ciphers) = (Inl GeneralError, c', empty_ciphers) \<and> is_error_state c'"
proof -
  have laws: "agreement_law (test_curve sample_crates False)" "keygen_law (test_curve sample_crates False)"
      "hkdf_law (cr_hkdf sample_crates)"
    using sample_hkdf_law sample_curve_law sample_keygen_law by (simp_all add: test_curve_def sample_crates_def)
  have draws: "dw_rng (sample_draws 0) = Inr [0]" "dw_rng (sample_draws 1) = Inr [1]" by (simp_all add: sample_draws_def)
  have "no_collision sample_crates False (cv_random (test_curve sample_crates False) [0]) (cv_random (test_curve sample_crates False) [1])"
    by code_simp
  from ecdh_self_test_fails [OF laws draws this refl, of conditional_self_test_new sample_kat_env False empty_ciphers]
  show ?thesis by (simp add: conditional_self_test_new_def) blast
qed

end
