(* ===== verification/Abi_Scenario.thy ===== *)
theory Abi_Scenario
  imports Abi_Protection Conditional_Test Audit_Log_Properties Object_Store_Properties
begin

text \<open>
  A concrete run of the library: a context with simple third-party code, and a process that is initialised,
  opens a session and generates a key. With it, the two properties of the library as a whole: the tokens agree with the
  sessions, and a sealed key stays sealed.
\<close>

definition demo_boot :: boot_env where
  "demo_boot =
    \<lparr>be_post_ok = True, be_config = Inr (default_config\<lparr>cfg_token := (cfg_token default_config)\<lparr>cfg_persist_objects := False\<rparr>,
        cfg_audit := (cfg_audit default_config)\<lparr>cfg_audit_enabled := False\<rparr>\<rparr>),
     be_drbg_ok = True, be_session_keys = [1, 2, 3, 4], be_object_keys = [5, 6, 7, 8], be_store = Inr \<lparr>es_db = None\<rparr>,
     be_lockout = (\<lambda>_. LockoutAbsent), be_token_state = (\<lambda>_. StateAbsent),
     be_audit_path = sample_path, be_audit_read = sample_read, be_audit_files = [], be_state_hmac_key = replicate 32 1\<rparr>"

definition demo_ctx :: abi_ctx where
  "demo_ctx =
    \<lparr>x_pid = 42, x_tid = 1, x_now = 0, x_pin = plain_crypto, x_codec = one_object_codec (stored_object_new 0 1 CKO_DATA),
     x_tok = sample_env, x_store = sample_store_env, x_audit = sample_prims, x_audit_io = (\<lambda>_. sample_io),
     x_backend = rustcrypto_backend sample_crates (sample_draws 3), x_aes = plain_aes, x_hmac = flat_hmac,
     x_size_of = 100, x_random = (\<lambda>n. replicate n 7), x_boot = demo_boot\<rparr>"

section \<open>Initialising\<close>

definition demo_token :: token where
  "demo_token = new_with_config_for_slot plain_crypto (Some (case be_config demo_boot of Inr config \<Rightarrow> config)) LockoutAbsent StateAbsent"

definition demo_core :: hsm_core where
  "demo_core =
    \<lparr>co_tokens = [(0, demo_token)], co_sessions = session_manager_new [1, 2, 3, 4], co_objects = object_store_new [5, 6, 7, 8],
     co_audit = snd (record_event 0 AuInitialize AuSuccess None (audit_log_new [])), co_algorithm_config = default_algorithm_config,
     co_serial_number = ascii ''0000000000000001'', co_state_hmac_key = replicate 32 1, co_persist_objects = False\<rparr>"

definition demo_process :: process where
  "demo_process = process_new\<lparr>pr_ciphers := reset_gcm_counters (pr_ciphers process_new), pr_post_failed := False, pr_init_pid := 42,
     pr_hsm := Some demo_core\<rparr>"

lemma demo_initialize: "C_Initialize demo_ctx process_new = ((CKR_OK, None), demo_process)"
proof -
  have "try_new demo_ctx (case be_config demo_boot of Inr config \<Rightarrow> config) =
      Inr (demo_core\<lparr>co_audit := audit_log_new []\<rparr>)"
    by (simp add: try_new_def demo_ctx_def demo_boot_def build_object_store_def default_config_def default_token_config_def
        default_audit_config_def slot_manager_new_with_config_def demo_core_def demo_token_def make_serial_def ascii_def Let_def)
  then show ?thesis
    by (simp add: C_Initialize_def catch_unwind_def process_new_def demo_process_def demo_ctx_def demo_boot_def demo_core_def Let_def)
qed

section \<open>Opening a session and generating a key\<close>

lemma demo_token_counts: "tk_session_count demo_token = 0" "tk_rw_session_count demo_token = 0" "tk_max_sessions demo_token = 100"
    "tk_max_rw_sessions demo_token = 10" "au_login (tk_auth demo_token) = Public"
  by (simp_all add: demo_token_def demo_boot_def new_with_config_for_slot_def default_config_def default_token_config_def Let_def
      auth_state_new_def token_of_auth_def restore_lockout_def)

definition opened :: "u64 \<Rightarrow> process \<Rightarrow> bool" where
  "opened h p \<longleftrightarrow>
     (\<exists>t sm. p = demo_process\<lparr>pr_hsm := Some (demo_core\<lparr>co_tokens := [(0, t)], co_sessions := sm\<rparr>)\<rparr> \<and>
        sm_sessions sm = [(h, session_new h 0 6 0)])"

lemma demo_open_session: "\<exists>h q. C_OpenSession demo_ctx 0 6 False demo_process = ((CKR_OK, Some h), q) \<and> opened h q"
proof -
  obtain h alloc where n: "session_next ULong64 (sm_handle_alloc (co_sessions demo_core)) = (h, alloc)"
    by (cases "session_next ULong64 (sm_handle_alloc (co_sessions demo_core))")
  define t where "t = demo_token\<lparr>tk_session_count := 1, tk_rw_session_count := 1\<rparr>"
  define sm where "sm = (co_sessions demo_core)\<lparr>sm_handle_alloc := alloc, sm_sessions := [(h, session_new h 0 6 0)]\<rparr>"
  have "open_session 0 0 6 demo_token (co_sessions demo_core) = (Inr h, t, sm)"
    using n demo_token_counts
    by (simp add: open_session_def increment_session_count_def inherit_login_def t_def sm_def demo_core_def session_manager_new_def Let_def)
  moreover have "pr_hsm demo_process = Some demo_core" "map_of (co_tokens demo_core) 0 = Some demo_token"
    "\<not> pr_post_failed demo_process" "pr_init_pid demo_process = 42" "x_pid demo_ctx = 42" "x_now demo_ctx = 0"
    by (simp_all add: demo_process_def demo_core_def demo_ctx_def)
  ultimately have "C_OpenSession demo_ctx 0 6 False demo_process =
      ((CKR_OK, Some h), demo_process\<lparr>pr_hsm := Some (demo_core\<lparr>co_tokens := AList.update 0 t (co_tokens demo_core), co_sessions := sm\<rparr>)\<rparr>)"
    by (simp add: C_OpenSession_def catch_unwind_def act_run)
  moreover have "AList.update 0 t (co_tokens demo_core) = [(0, t)]" by (simp add: demo_core_def)
  moreover have "sm_sessions sm = [(h, session_new h 0 6 0)]" by (simp add: sm_def)
  ultimately show ?thesis unfolding opened_def by metis
qed

lemma demo_generate_key:
  assumes "opened s p"
  shows "\<exists>h q c obj a. C_GenerateKey demo_ctx s (Some \<lparr>mech_type = CKM_AES_KEY_GEN, mech_param = None\<rparr>) None False p = ((CKR_OK, Some h), q) \<and>
    pr_hsm q = Some c \<and> map_of (os_objects (co_objects c)) h = Some a \<and> obj_at a (co_objects c) = Some obj \<and> sealed obj \<and>
    ob_key_material obj = Some (replicate 32 3)"
proof -
  obtain t sm where p: "p = demo_process\<lparr>pr_hsm := Some (demo_core\<lparr>co_tokens := [(0, t)], co_sessions := sm\<rparr>)\<rparr>"
      "sm_sessions sm = [(s, session_new s 0 6 0)]" using assms by (auto simp: opened_def)
  have inv: "os_wf (object_store_new [5, 6, 7, 8])" "handles_ok (object_store_new [5, 6, 7, 8])"
    using store_inv_new(1) by (simp_all add: store_inv_def)
  obtain h os1 where n: "next_handle (object_store_new [5, 6, 7, 8]) = (Inr h, os1)" "os_objects os1 = []"
    using next_handle_fresh_object [OF inv store_inv_new(2)] by (auto simp: object_store_new_def)
  define c where "c = demo_core\<lparr>co_tokens := [(0, t)], co_sessions := sm\<rparr>"
  define obj where "obj = (new_secret_key demo_ctx h (replicate 32 3) 32)\<lparr>ob_private := True\<rparr>"
  have st: "pr_hsm p = Some c" "\<not> pr_post_failed p" "pr_init_pid p = 42" "co_objects c = object_store_new [5, 6, 7, 8]"
      "co_algorithm_config c = default_algorithm_config" "sm_sessions (co_sessions c) = [(s, session_new s 0 6 0)]"
    using p by (simp_all add: c_def demo_process_def demo_core_def)
  have x: "x_pid demo_ctx = 42" "cb_generate_aes_key (x_backend demo_ctx) 32 False = Inr (replicate 32 3)"
    by (simp_all add: demo_ctx_def rustcrypto_backend_def generate_aes_key_def sample_draws_def)
  have rw: "session_is_rw (session_new s 0 6 0)" by (simp add: session_is_rw_def session_new_def)
  have ins: "insert_object (x_pin demo_ctx) (x_codec demo_ctx) (x_store demo_ctx) obj os1 = (Inr h, map_insert h obj os1)"
    using n(2) by (simp add: insert_object_def obj_def new_secret_key_def stored_object_new_def persist_object_def)
  have "\<exists>c'. C_GenerateKey demo_ctx s (Some \<lparr>mech_type = CKM_AES_KEY_GEN, mech_param = None\<rparr>) None False p =
      ((CKR_OK, Some h), p\<lparr>pr_hsm := Some c'\<rparr>) \<and> co_objects c' = map_insert h obj os1"
    using st x n(1) rw ins
    by (simp add: C_GenerateKey_def catch_unwind_def act_run policy_check_def validate_mechanism_for_policy_def
        default_algorithm_config_def parse_optional_def read_ulong_attr_def enforce_def new_handle_def add_object_def
        flip: obj_def) (rule exI, rule conjI, rule refl, simp)
  then show ?thesis
    by (auto simp: map_insert_def obj_at_def sealed_def obj_def new_secret_key_def)
qed

lemma demo_reaches:
  obtains s p h q c a obj where "opened s p" "abi_reach 1 p"
    "C_GenerateKey demo_ctx s (Some \<lparr>mech_type = CKM_AES_KEY_GEN, mech_param = None\<rparr>) None False p = ((CKR_OK, Some h), q)"
    "abi_reach 2 q" "pr_hsm q = Some c" "map_of (os_objects (co_objects c)) h = Some a"
    "obj_at a (co_objects c) = Some obj" "sealed obj"
proof -
  obtain s p where s: "C_OpenSession demo_ctx 0 6 False demo_process = ((CKR_OK, Some s), p)" "opened s p"
    using demo_open_session by auto
  obtain h q c obj a where h: "C_GenerateKey demo_ctx s (Some \<lparr>mech_type = CKM_AES_KEY_GEN, mech_param = None\<rparr>) None False p =
      ((CKR_OK, Some h), q)" "pr_hsm q = Some c" "map_of (os_objects (co_objects c)) h = Some a"
      "obj_at a (co_objects c) = Some obj" "sealed obj"
    using demo_generate_key [OF s(2)] by blast
  have "abi_reach 1 p"
    using abi_reach.reach_call [OF abi_reach.reach_initialize [OF abi_reach.reach_new demo_initialize], of "CallOpenSession 0 6 False" demo_ctx] s(1)
    by (simp add: code_of_def)
  moreover from abi_reach.reach_call [OF this, of "CallGenerateKey s (Some \<lparr>mech_type = CKM_AES_KEY_GEN, mech_param = None\<rparr>) None False" demo_ctx]
  have "abi_reach 2 q" using h(1) by (simp add: code_of_def numeral_2_eq_2)
  ultimately show thesis using that s h by blast
qed

section \<open>The library as a whole\<close>

text \<open>\<^bold>\<open>C1\<close> Once a key is sealed it stays sealed: in every state reachable from a state where a key
  object is sensitive and not extractable, by any sequence of calls of any sessions, the value of
  the key is not delivered by reading its attributes, it cannot be wrapped or digested, and a copy of it is
  sealed and has the same key material.\<close>

theorem sealed_key_stays_sealed:
  assumes "abi_reach n p" "pr_hsm p = Some c" "obj_at a (co_objects c) = Some obj" "sealed obj"
    and "abi_run p q" "pr_hsm q = Some c'" "map_of (os_objects (co_objects c')) h = Some a"
  shows "(\<forall>attrs rv answers i. fst (C_GetAttributeValue X session h (Some attrs) q) = (rv, Some answers) \<longrightarrow>
      i < length attrs \<longrightarrow> fst (attrs ! i) = CKA_VALUE \<longrightarrow> answers ! i = (None, CK_UNAVAILABLE_INFORMATION)) \<and>
    snd (fst (C_WrapKey X session m wrapping_key h out_null pul_len q)) = None \<and>
    fst (fst (C_DigestKey X session h q)) \<noteq> CKR_OK \<and>
    (\<forall>h' q'. C_CopyObject X session h tmpl new_null q = ((CKR_OK, Some h'), q') \<longrightarrow>
      (\<exists>c'' obj'. pr_hsm q' = Some c'' \<and> os_lookup (co_objects c'') h' = Some obj' \<and> sealed obj' \<and>
         ob_key_material obj' = ob_key_material obj))"
proof -
  obtain obj' where obj': "obj_at a (co_objects c') = Some obj'" "same_protection obj obj'"
    using run_guards [OF assms(5,2) reach_heap_bounded [OF assms(1,2)] assms(3)] assms(6) by auto
  then have "sealed obj'" and km: "ob_key_material obj' = ob_key_material obj"
    using assms(4) by (simp_all add: sealed_def same_protection_def)
  note at = assms(6,7) obj'(1) this(1)
  show ?thesis using get_value_refused [OF at] wrap_refused [OF at] digest_refused [OF at] copy_sealed [OF at] km by auto
qed

theorem sealed_key_stays_sealed_witness:
  "\<exists>p c a obj s h. abi_reach 2 p \<and> pr_hsm p = Some c \<and> obj_at a (co_objects c) = Some obj \<and> sealed obj \<and> abi_run p p \<and>
     map_of (os_objects (co_objects c)) h = Some a \<and>
     snd (fst (C_WrapKey demo_ctx s (Some \<lparr>mech_type = CKM_AES_KEY_WRAP, mech_param = None\<rparr>) h h False (Some 100) p)) = None \<and>
     fst (fst (C_DigestKey demo_ctx s h p)) \<noteq> CKR_OK"
proof -
  obtain s p h q c a obj where d: "opened s p" "abi_reach 2 q" "pr_hsm q = Some c"
      "map_of (os_objects (co_objects c)) h = Some a" "obj_at a (co_objects c) = Some obj" "sealed obj"
    by (rule demo_reaches)
  show ?thesis
    using sealed_key_stays_sealed [OF d(2,3,5,6) run_nil d(3,4), of demo_ctx s
        "Some \<lparr>mech_type = CKM_AES_KEY_WRAP, mech_param = None\<rparr>" h False "Some 100"] d run_nil
    by blast
qed

text \<open>\<^bold>\<open>C2\<close> In every state of the library that calls can reach, in any order and by any sessions, the
  tokens and the session table agree: the handles of the open sessions are distinct, a token counts
  exactly the open sessions of its slot and the read-write ones among them, and every session of the slot is in the
  state of the token's login. The bound excludes a session handle that comes around.\<close>

theorem tokens_and_sessions_agree:
  assumes "abi_reach n p" "n < 2 ^ 64" "pr_hsm p = Some c" "map_of (co_tokens c) sl = Some t"
  shows "distinct (map fst (sm_sessions (co_sessions c))) \<and>
    session_total t = length (filter (in_slot sl) (sm_sessions (co_sessions c))) \<and>
    rw_session_total t = length (filter (\<lambda>e. in_slot sl e \<and> session_is_rw (snd e)) (sm_sessions (co_sessions c))) \<and>
    list_all (\<lambda>e. in_slot sl e \<longrightarrow> login_matches (au_login (tk_auth t)) (ss_state (snd e))) (sm_sessions (co_sessions c))"
  using reach_ok [OF assms(1,2)] assms(3,4)
  by (auto simp: process_ok_def core_ok_def slot_inv_def slot_counted_def slot_logins_def table_wf_def list_all_iff)

theorem tokens_and_sessions_agree_witness:
  "\<exists>p c t. abi_reach 1 p \<and> pr_hsm p = Some c \<and> map_of (co_tokens c) 0 = Some t \<and> length (sm_sessions (co_sessions c)) = 1 \<and>
     session_total t = 1 \<and> rw_session_total t = 1"
proof -
  obtain s p where p: "opened s p" "abi_reach 1 p" by (rule demo_reaches)
  then obtain c t where c: "pr_hsm p = Some c" "map_of (co_tokens c) 0 = Some t"
      "sm_sessions (co_sessions c) = [(s, session_new s 0 6 0)]"
    by (auto simp: opened_def)
  show ?thesis
    using tokens_and_sessions_agree [OF p(2) _ c(1,2)] p(2) c
    by (auto simp: in_slot_def session_new_def session_is_rw_def)
qed

end
