(* ===== verification/Abi_Search.thy ===== *)
theory Abi_Search
  imports Abi_Scenario
begin

text \<open>
  A search of a session through the entry points: \<open>C_FindObjectsInit\<close>, any number of calls of
  \<open>C_FindObjects\<close>, \<open>C_FindObjectsFinal\<close>. Every call delivers the next piece of the result the search started
  with, so that a caller who asks for at least one handle each time sees all of it.
\<close>

section \<open>Sequences of calls\<close>

text \<open>Calls with the given maximal counts, one after the other, and the handles they deliver together.\<close>

fun find_calls :: "abi_ctx \<Rightarrow> u64 \<Rightarrow> ck_ulong list \<Rightarrow> process \<Rightarrow> u64 list \<times> process" where
  "find_calls X s [] p = ([], p)"
| "find_calls X s (m # ms) p =
    (case C_FindObjects X s False m False p of
       ((rv, Some (handles, n)), q) \<Rightarrow> (case find_calls X s ms q of (rest, r) \<Rightarrow> (handles @ rest, r))
     | ((rv, None), q) \<Rightarrow> find_calls X s ms q)"

text \<open>A session in the middle of a search.\<close>

definition searching :: "abi_ctx \<Rightarrow> u64 \<Rightarrow> find_context \<Rightarrow> process \<Rightarrow> bool" where
  "searching X s ctx p \<longleftrightarrow>
     \<not> pr_post_failed p \<and> (pr_init_pid p = 0 \<or> pr_init_pid p = x_pid X) \<and>
     (\<exists>c sess. pr_hsm p = Some c \<and> map_of (sm_sessions (co_sessions c)) s = Some sess \<and> ss_find_context sess = Some ctx)"

section \<open>The calls of a search\<close>

lemma find_init_searching:
  assumes "C_FindObjectsInit X s p_template p = ((CKR_OK, r), q)" "parse_optional p_template = Inr tmpl"
  obtains c sess where "pr_hsm p = Some c" "map_of (sm_sessions (co_sessions c)) s = Some sess"
    "searching X s \<lparr>fc_results = find_objects tmpl (state_is_logged_in (ss_state sess)) (co_objects c), fc_position = 0\<rparr> q"
proof -
  have pre: "\<not> pr_post_failed p" "pr_init_pid p = 0 \<or> pr_init_pid p = x_pid X" "pr_hsm p \<noteq> None"
    using assms(1) by (auto simp: C_FindObjectsInit_def catch_unwind_def act_run split: if_splits)
  then obtain c where c: "pr_hsm p = Some c" by blast
  then obtain sess where sess: "map_of (sm_sessions (co_sessions c)) s = Some sess" "ss_find_context sess = None"
    using assms(1) pre by (cases "map_of (sm_sessions (co_sessions c)) s")
      (auto simp: C_FindObjectsInit_def catch_unwind_def act_run split: if_splits)
  show thesis
    using assms pre c sess that
    by (auto simp: C_FindObjectsInit_def catch_unwind_def act_run searching_def put_sess_def)
qed

lemma find_step:
  fixes m :: ck_ulong
  assumes "searching X s ctx p"
  defines "k \<equiv> min (length (fc_results ctx) - fc_position ctx) (min (unat m) MAX_FIND_OBJECTS_PER_CALL)"
  obtains q where "C_FindObjects X s False m False p = ((CKR_OK, Some (take k (drop (fc_position ctx) (fc_results ctx)), word_of_nat k)), q)"
    "searching X s (ctx\<lparr>fc_position := fc_position ctx + k\<rparr>) q"
proof -
  obtain c sess where c: "\<not> pr_post_failed p" "pr_init_pid p = 0 \<or> pr_init_pid p = x_pid X" "pr_hsm p = Some c"
      "map_of (sm_sessions (co_sessions c)) s = Some sess" "ss_find_context sess = Some ctx"
    using assms(1) by (auto simp: searching_def)
  then show thesis
    using that
    by (auto simp: C_FindObjects_def catch_unwind_def act_run Let_def k_def searching_def put_sess_def)
qed

lemma find_final:
  assumes "searching X s ctx p"
  shows "fst (C_FindObjectsFinal X s p) = (CKR_OK, None) \<and> fst (C_FindObjects X s False m False (snd (C_FindObjectsFinal X s p))) = (CKR_OPERATION_NOT_INITIALIZED, None)"
  using assms
  by (auto simp: searching_def C_FindObjectsFinal_def C_FindObjects_def catch_unwind_def act_run put_sess_def)

lemma find_calls_deliver:
  assumes "searching X s ctx p" "list_all (\<lambda>m. 0 < m) sizes" "fc_position ctx \<le> length (fc_results ctx)"
    and "length (fc_results ctx) - fc_position ctx \<le> length sizes"
  shows "\<exists>q ctx'. find_calls X s sizes p = (drop (fc_position ctx) (fc_results ctx), q) \<and> searching X s ctx' q"
  using assms
proof (induction sizes arbitrary: ctx p)
  case (Cons m sizes)
  let ?left = "length (fc_results ctx) - fc_position ctx"
  define k where "k = min ?left (min (unat m) MAX_FIND_OBJECTS_PER_CALL)"
  obtain p1 where p1: "C_FindObjects X s False m False p = ((CKR_OK, Some (take k (drop (fc_position ctx) (fc_results ctx)), word_of_nat k)), p1)"
      "searching X s (ctx\<lparr>fc_position := fc_position ctx + k\<rparr>) p1"
    using find_step [OF Cons.prems(1), of m] unfolding k_def by blast
  have "0 < unat m" using Cons.prems(2) by (auto simp: unat_gt_0)
  then have k: "k \<le> ?left" "?left = 0 \<or> 0 < k" by (auto simp: k_def)
  have "\<exists>q ctx'. find_calls X s sizes p1 = (drop (fc_position ctx + k) (fc_results ctx), q) \<and> searching X s ctx' q"
    using Cons.IH [OF p1(2)] Cons.prems k by auto
  then show ?case using p1(1) by (auto simp: append_take_drop_id add.commute simp flip: drop_drop)
qed auto

text \<open>\<^bold>\<open>C14\<close> A search always ends with everything delivered: once \<open>C_FindObjectsInit\<close> has succeeded, calls of
  \<open>C_FindObjects\<close> that each ask for at least one handle, as many as there are matching objects, return together
  exactly the objects that matched when the search began, in their order. Further calls return nothing more, and \<open>C_FindObjectsFinal\<close> then succeeds and closes the search.\<close>

theorem search_delivers_everything:
  assumes "C_FindObjectsInit X s p_template p = ((CKR_OK, r), q)"
    and "pr_hsm p = Some c" "get_session s (co_sessions c) = Inr sess" "parse_optional p_template = Inr tmpl"
    and "list_all (\<lambda>m. 0 < m) sizes"
    and "length (find_objects tmpl (state_is_logged_in (ss_state sess)) (co_objects c)) \<le> length sizes"
  shows "\<exists>q1. find_calls X s sizes q = (find_objects tmpl (state_is_logged_in (ss_state sess)) (co_objects c), q1) \<and>
    fst (C_FindObjectsFinal X s q1) = (CKR_OK, None) \<and>
    fst (C_FindObjects X s False m False (snd (C_FindObjectsFinal X s q1))) = (CKR_OPERATION_NOT_INITIALIZED, None)"
proof -
  let ?found = "find_objects tmpl (state_is_logged_in (ss_state sess)) (co_objects c)"
  have "map_of (sm_sessions (co_sessions c)) s = Some sess"
    using assms(3) by (auto simp: get_session_def ok_or_def split: option.splits)
  then have start: "searching X s \<lparr>fc_results = ?found, fc_position = 0\<rparr> q"
    using find_init_searching [OF assms(1,4)] assms(2) by (metis option.inject)
  then show ?thesis
    using find_calls_deliver [OF start assms(5)] assms(6) find_final by auto
qed

text \<open>A process with one session and one public object.\<close>

definition search_process :: process where
  "search_process = demo_process\<lparr>pr_hsm := Some (demo_core\<lparr>
     co_objects := map_insert 5 ((stored_object_new 0 5 CKO_DATA)\<lparr>ob_private := False\<rparr>) (object_store_new [5, 6, 7, 8]),
     co_sessions := (co_sessions demo_core)\<lparr>sm_sessions := [(9, session_new 9 0 6 0)]\<rparr>\<rparr>)\<rparr>"

theorem search_delivers_everything_witness:
  "\<exists>q q1. C_FindObjectsInit demo_ctx 9 None search_process = ((CKR_OK, None), q) \<and>
     find_calls demo_ctx 9 [1, 7] q = ([5], q1) \<and> fst (C_FindObjectsFinal demo_ctx 9 q1) = (CKR_OK, None)"
proof -
  let ?os = "map_insert 5 ((stored_object_new 0 5 CKO_DATA)\<lparr>ob_private := False\<rparr>) (object_store_new [5, 6, 7, 8])"
  obtain c where c: "pr_hsm search_process = Some c" "get_session 9 (co_sessions c) = Inr (session_new 9 0 6 0)" "co_objects c = ?os"
    by (simp add: search_process_def get_session_def)
  have found: "find_objects [] b (co_objects c) = [5]" for b
    by (simp add: c(3) find_objects_def find_objects_for_slot_def map_insert_def object_store_new_def map_filter_simps obj_at_def
        matches_template_def)
  have "\<exists>q. C_FindObjectsInit demo_ctx 9 None search_process = ((CKR_OK, None), q)"
    by (simp add: C_FindObjectsInit_def catch_unwind_def act_run search_process_def demo_process_def demo_ctx_def parse_optional_def
        session_new_def)
  then obtain q where q: "C_FindObjectsInit demo_ctx 9 None search_process = ((CKR_OK, None), q)" by blast
  show ?thesis
    using search_delivers_everything [OF q c(1,2), of "[]" "[1, 7]" 1] q by (auto simp: found parse_optional_def)
qed

end
