(* ===== verification/Backup.thy ===== *)
theory Backup
  imports Hsm_Config Object_Store_Properties Audit_Log_Properties
begin

text \<open>
  Encrypted backups of the objects (\<open>src/src/store/backup.rs\<close>): the format of a backup, the guard
  against restoring a backup twice, and the file of the guard.

  The passphrase is a list of code points, other text its UTF-8 bytes. The JSON text of the payload is
  third-party code and a field of a record. The clock, the random bytes and the outcome of every file
  operation are arguments.
\<close>

section \<open>The format\<close>

definition BACKUP_MAGIC :: bytes where
  "BACKUP_MAGIC = ascii ''RHBK''"

abbreviation (input) BACKUP_VERSION :: u32 where "BACKUP_VERSION \<equiv> 1"
abbreviation (input) HEADER_LEN :: nat where "HEADER_LEN \<equiv> 4 + 4 + SALT_LEN + NONCE_LEN"
abbreviation (input) MIN_PASSPHRASE_LEN :: nat where "MIN_PASSPHRASE_LEN \<equiv> 16"
abbreviation (input) DEFAULT_MAX_BACKUP_AGE_SECS :: u64 where "DEFAULT_MAX_BACKUP_AGE_SECS \<equiv> 2592000"
abbreviation (input) PBKDF2_ITERATIONS :: u32 where "PBKDF2_ITERATIONS \<equiv> 600000"

record backup_payload =
  bp_version :: u32
  bp_created :: bytes
  bp_created_epoch :: u64
  bp_backup_id :: bytes
  bp_token_serial :: bytes
  bp_object_count :: nat
  bp_objects :: "stored_object list"

record payload_codec =
  payload_to_json :: "backup_payload \<Rightarrow> bytes option"
  payload_from_json :: "bytes \<Rightarrow> backup_payload option"

text \<open>The random bytes and the two readings of the clock of one backup.\<close>

record backup_draws =
  bd_uuid :: bytes
  bd_now :: u64
  bd_now_text :: u64
  bd_salt :: bytes
  bd_nonce :: bytes

definition utf8_char :: "nat \<Rightarrow> bytes" where
  "utf8_char c =
    (if c < 0x80 then [of_nat c]
     else if c < 0x800 then [of_nat (0xC0 + c div 64), of_nat (0x80 + c mod 64)]
     else if c < 0x10000 then [of_nat (0xE0 + c div 4096), of_nat (0x80 + c div 64 mod 64), of_nat (0x80 + c mod 64)]
     else [of_nat (0xF0 + c div 262144), of_nat (0x80 + c div 4096 mod 64), of_nat (0x80 + c div 64 mod 64), of_nat (0x80 + c mod 64)])"

definition utf8_bytes :: "rust_text \<Rightarrow> bytes" where
  "utf8_bytes s = concat (map utf8_char s)"

fun decimal :: "nat \<Rightarrow> bytes" where
  "decimal n = (if n < 10 then [of_nat (48 + n)] else decimal (n div 10) @ [of_nat (48 + n mod 10)])"

definition chrono_timestamp :: "u64 \<Rightarrow> bytes" where
  "chrono_timestamp now = decimal (unat now) @ ascii ''s-since-epoch''"

definition check_passphrase_complexity :: "rust_text \<Rightarrow> bool" where
  "check_passphrase_complexity passphrase =
    (let lower = (\<lambda>c. 97 \<le> c \<and> c \<le> 122);
         upper = (\<lambda>c. 65 \<le> c \<and> c \<le> 90);
         digit = (\<lambda>c. 48 \<le> c \<and> c \<le> 57);
         class_count = of_bool (list_ex lower passphrase) + of_bool (list_ex upper passphrase) + of_bool (list_ex digit passphrase) +
           of_bool (list_ex (\<lambda>c. \<not> lower c \<and> \<not> upper c \<and> \<not> digit c) passphrase) :: nat;
         unique_count = length (remdups passphrase);
         policy_a = (3 \<le> class_count \<and> 6 \<le> unique_count);
         policy_b = (24 \<le> length passphrase \<and> 12 \<le> unique_count)
     in policy_a \<or> policy_b)"

definition create_backup ::
  "pin_crypto \<Rightarrow> payload_codec \<Rightarrow> backup_draws \<Rightarrow> stored_object list \<Rightarrow> rust_text \<Rightarrow> bytes \<Rightarrow> u32 option \<Rightarrow> bytes hsm_result" where
  "create_backup C J d objects passphrase token_serial pbkdf2_iterations =
    (if length passphrase < MIN_PASSPHRASE_LEN then Inl PinLenRange
     else if \<not> check_passphrase_complexity passphrase then Inl PinInvalid
     else
       (let backup_id = ascii (hex_encode C (bd_uuid d));
            payload = \<lparr>bp_version = BACKUP_VERSION, bp_created = chrono_timestamp (bd_now_text d), bp_created_epoch = bd_now d,
              bp_backup_id = backup_id, bp_token_serial = token_serial, bp_object_count = length objects, bp_objects = objects\<rparr>
        in res_bind (ok_or GeneralError (payload_to_json J payload)) (\<lambda>json.
           (let (key, salt) = derive_key_from_pin C (bd_salt d) (utf8_bytes passphrase) None
                  (case pbkdf2_iterations of Some n \<Rightarrow> n | None \<Rightarrow> PBKDF2_ITERATIONS)
            in res_map (\<lambda>ciphertext. BACKUP_MAGIC @ u32_le BACKUP_VERSION @ salt @ bd_nonce d @ ciphertext)
                 (ok_or GeneralError (gcm_encrypt C key (bd_nonce d) json))))))"

text \<open>The checks on a decrypted payload, in their order.\<close>

definition check_payload :: "u64 \<Rightarrow> bytes \<Rightarrow> u64 option \<Rightarrow> bytes list option \<Rightarrow> backup_payload \<Rightarrow> unit hsm_result" where
  "check_payload now expected_serial max_age_secs consumed_ids payload =
    (if bp_object_count payload \<noteq> length (bp_objects payload) then Inl DataInvalid
     else if bp_token_serial payload \<noteq> expected_serial then Inl DataInvalid
     else if (case consumed_ids of Some ids \<Rightarrow> bp_backup_id payload \<in> set ids | None \<Rightarrow> False) then Inl DataInvalid
     else
       (let max_age = (case max_age_secs of
              Some age \<Rightarrow> if age = 0 then None else Some age
            | None \<Rightarrow> Some DEFAULT_MAX_BACKUP_AGE_SECS) in
        case max_age of
          None \<Rightarrow> Inr ()
        | Some max_secs \<Rightarrow>
            if bp_created_epoch payload > now + 300 then Inl DataInvalid
            else if (if now < bp_created_epoch payload then 0 else now - bp_created_epoch payload) > max_secs then Inl DataInvalid
            else Inr ()))"

definition restore_backup ::
  "pin_crypto \<Rightarrow> payload_codec \<Rightarrow> u64 \<Rightarrow> bytes \<Rightarrow> rust_text \<Rightarrow> bytes \<Rightarrow> u64 option \<Rightarrow> u32 option \<Rightarrow> bytes list option \<Rightarrow>
   stored_object list hsm_result \<times> bytes list option" where
  "restore_backup C J now data passphrase expected_serial max_age_secs pbkdf2_iterations consumed_ids =
    (let result =
       (if length data < HEADER_LEN then Inl DataInvalid
        else if take 4 data \<noteq> BACKUP_MAGIC then Inl DataInvalid
        else if le_word (take 4 (drop 4 data)) \<noteq> BACKUP_VERSION then Inl DataInvalid
        else
          (let salt = take SALT_LEN (drop 8 data);
               nonce_bytes = take NONCE_LEN (drop (8 + SALT_LEN) data);
               ciphertext = drop HEADER_LEN data;
               (key, _) = derive_key_from_pin C [] (utf8_bytes passphrase) (Some salt)
                 (case pbkdf2_iterations of Some n \<Rightarrow> n | None \<Rightarrow> PBKDF2_ITERATIONS)
           in res_bind (ok_or PinIncorrect (gcm_decrypt C key nonce_bytes ciphertext)) (\<lambda>plaintext.
              res_bind (ok_or DataInvalid (payload_from_json J plaintext)) (\<lambda>payload.
              res_map (\<lambda>_. payload) (check_payload now expected_serial max_age_secs consumed_ids payload)))))
     in case result of
          Inl e \<Rightarrow> (Inl e, consumed_ids)
        | Inr payload \<Rightarrow> (Inr (bp_objects payload), map_option (List.insert (bp_backup_id payload)) consumed_ids))"

section \<open>The replay guard\<close>

text \<open>The guard's file is absent, unreadable, or has some content. A guard in memory has no file.\<close>

datatype guard_file = GuardAbsent | GuardUnreadable | GuardContent bytes

record replay_guard =
  rg_ids :: "bytes list"
  rg_path :: bool

definition load_ids :: "bytes \<Rightarrow> bytes list" where
  "load_ids content = filter (\<lambda>l. l \<noteq> []) (map str_trim (split_lines [] content))"

definition replay_guard_new :: "guard_file \<Rightarrow> replay_guard" where
  "replay_guard_new f =
    \<lparr>rg_ids = (case f of GuardContent content \<Rightarrow> if utf8_valid content then remdups (load_ids content) else [] | _ \<Rightarrow> []),
     rg_path = True\<rparr>"

definition replay_guard_in_memory :: replay_guard where
  "replay_guard_in_memory = \<lparr>rg_ids = [], rg_path = False\<rparr>"

definition is_consumed :: "bytes \<Rightarrow> replay_guard \<Rightarrow> bool" where
  "is_consumed backup_id g \<longleftrightarrow> backup_id \<in> set (rg_ids g)"

text \<open>Whether opening, restricting, locking succeed; and after how many bytes writing fails, if it does.\<close>

record guard_io =
  gi_open_ok :: bool
  gi_permissions_ok :: bool
  gi_lock_ok :: bool
  gi_write_fails :: "nat option"

definition guard_append :: "bytes \<Rightarrow> guard_file \<Rightarrow> guard_file" where
  "guard_append bs f = (case f of GuardContent content \<Rightarrow> GuardContent (content @ bs) | GuardAbsent \<Rightarrow> GuardContent bs | GuardUnreadable \<Rightarrow> GuardUnreadable)"

definition guard_record :: "guard_io \<Rightarrow> bytes \<Rightarrow> replay_guard \<Rightarrow> guard_file \<Rightarrow> unit hsm_result \<times> replay_guard \<times> guard_file" where
  "guard_record io backup_id g f =
    (if \<not> rg_path g then (Inr (), g\<lparr>rg_ids := List.insert backup_id (rg_ids g)\<rparr>, f)
     else if \<not> gi_open_ok io then (Inl GeneralError, g, f)
     else
       (let f1 = guard_append [] f in
        if \<not> gi_permissions_ok io then (Inl GeneralError, g, f1)
        else if \<not> gi_lock_ok io then (Inl GeneralError, g, f1)
        else
          (case gi_write_fails io of
             Some k \<Rightarrow> (Inl GeneralError, g, guard_append (take k (backup_id @ [10])) f1)
           | None \<Rightarrow> (Inr (), g\<lparr>rg_ids := List.insert backup_id (rg_ids g)\<rparr>, guard_append (backup_id @ [10]) f1))))"

section \<open>A backup is restored once\<close>

text \<open>The JSON text of a payload is read back as the payload.\<close>

definition payload_law :: "payload_codec \<Rightarrow> bool" where
  "payload_law J \<longleftrightarrow> (\<forall>p json. payload_to_json J p = Some json \<longrightarrow> payload_from_json J json = Some p)"

definition backup_of :: "pin_crypto \<Rightarrow> backup_draws \<Rightarrow> stored_object list \<Rightarrow> bytes \<Rightarrow> backup_payload" where
  "backup_of C d objects token_serial =
    \<lparr>bp_version = BACKUP_VERSION, bp_created = chrono_timestamp (bd_now_text d), bp_created_epoch = bd_now d,
     bp_backup_id = ascii (hex_encode C (bd_uuid d)), bp_token_serial = token_serial, bp_object_count = length objects,
     bp_objects = objects\<rparr>"

lemma restore_of_created:
  assumes "gcm_roundtrips C" "payload_law J" "length (bd_salt d) = SALT_LEN" "length (bd_nonce d) = NONCE_LEN"
    and "create_backup C J d objects passphrase token_serial iterations = Inr data"
  shows "restore_backup C J now data passphrase serial max_age iterations ids =
    (case check_payload now serial max_age ids (backup_of C d objects token_serial) of
       Inl e \<Rightarrow> (Inl e, ids)
     | Inr _ \<Rightarrow> (Inr objects, map_option (List.insert (ascii (hex_encode C (bd_uuid d)))) ids))"
proof -
  define iters where "iters = (case iterations of Some n \<Rightarrow> n | None \<Rightarrow> PBKDF2_ITERATIONS)"
  define key where "key = pbkdf2_hmac C (utf8_bytes passphrase) (bd_salt d) iters"
  obtain json ct where j: "payload_to_json J (backup_of C d objects token_serial) = Some json"
      "gcm_encrypt C key (bd_nonce d) json = Some ct"
      "data = BACKUP_MAGIC @ u32_le BACKUP_VERSION @ bd_salt d @ bd_nonce d @ ct"
    using assms(5)
    by (auto simp: create_backup_def backup_of_def derive_key_from_pin_def key_def iters_def Let_def ok_or_def
        split: if_splits option.splits)
  have "payload_from_json J json = Some (backup_of C d objects token_serial)" "gcm_decrypt C key (bd_nonce d) ct = Some json"
    using assms(1,2) j by (auto simp: payload_law_def gcm_roundtrips_def)
  moreover have "length BACKUP_MAGIC = 4" by (simp add: BACKUP_MAGIC_def ascii_def)
  ultimately show ?thesis
    using assms(3,4)
    by (auto simp: restore_backup_def j(3) derive_key_from_pin_def key_def iters_def backup_of_def split: sum.splits)
qed

text \<open>\<^bold>\<open>C13\<close> A backup is restored exactly once: reading it with the passphrase and the iteration count it was created
  with, for the same token and within its age, returns the objects that were saved and records its identifier, and
  every later attempt with that record is refused, at any time and with any age limit. For another token it is
  always refused.\<close>

theorem backup_restored_once:
  assumes "gcm_roundtrips C" "payload_law J" "length (bd_salt d) = SALT_LEN" "length (bd_nonce d) = NONCE_LEN"
    and "create_backup C J d objects passphrase serial iterations = Inr data"
    and "unat (bd_now d) \<le> unat now" "unat now + 300 < 2 ^ 64" "unat now - unat (bd_now d) \<le> 2592000"
    and "ascii (hex_encode C (bd_uuid d)) \<notin> set ids"
  shows "\<exists>ids'. restore_backup C J now data passphrase serial None iterations (Some ids) = (Inr objects, Some ids') \<and>
      set ids' = insert (ascii (hex_encode C (bd_uuid d))) (set ids) \<and>
      (\<forall>later limit. restore_backup C J later data passphrase serial limit iterations (Some ids') = (Inl DataInvalid, Some ids')) \<and>
      (\<forall>other later limit seen. other \<noteq> serial \<longrightarrow>
        restore_backup C J later data passphrase other limit iterations seen = (Inl DataInvalid, seen))"
proof -
  let ?b = "ascii (hex_encode C (bd_uuid d))" and ?p = "backup_of C d objects serial"
  note restore = restore_of_created [OF assms(1-5)]
  have "unat (now + 300) = unat now + 300"
    using assms(7) by (simp add: unat_word_ariths)
  then have "bd_now d \<le> now" "bd_now d \<le> now + 300" "now - bd_now d \<le> 2592000"
    using assms(6,8) by (simp_all add: word_le_nat_alt unat_sub)
  then have "check_payload now serial None (Some ids) ?p = Inr ()"
    using assms(9) by (auto simp: check_payload_def backup_of_def not_less)
  moreover have "check_payload later serial limit (Some (List.insert ?b ids)) ?p = Inl DataInvalid" for later limit
    by (simp add: check_payload_def backup_of_def)
  moreover have "check_payload later other limit seen ?p = Inl DataInvalid" if "other \<noteq> serial" for other later limit seen
    using that by (simp add: check_payload_def backup_of_def)
  ultimately show ?thesis by (auto simp: restore)
qed

text \<open>Concrete third-party code: hexadecimal digits, and a codec for one payload.\<close>

definition hex_digit :: "nat \<Rightarrow> char" where
  "hex_digit n = ''0123456789abcdef'' ! (n mod 16)"

definition hex_crypto :: pin_crypto where
  "hex_crypto = plain_crypto\<lparr>hex_encode := (\<lambda>bs. concat (map (\<lambda>b. [hex_digit (unat b div 16), hex_digit (unat b)]) bs))\<rparr>"

definition one_payload_codec :: "backup_payload \<Rightarrow> payload_codec" where
  "one_payload_codec p = \<lparr>payload_to_json = (\<lambda>q. if q = p then Some [123, 125] else None), payload_from_json = (\<lambda>_. Some p)\<rparr>"

definition sample_backup_draws :: backup_draws where
  "sample_backup_draws =
    \<lparr>bd_uuid = replicate 16 0x2F, bd_now = 1000, bd_now_text = 1000, bd_salt = replicate 32 1, bd_nonce = replicate 12 2\<rparr>"

definition sample_passphrase :: rust_text where
  "sample_passphrase = map of_char ''Correct-Horse-42''"

definition sample_saved :: "stored_object list" where
  "sample_saved = [stored_object_new 0 7 CKO_DATA]"

definition sample_payload_codec :: payload_codec where
  "sample_payload_codec = one_payload_codec (backup_of hex_crypto sample_backup_draws sample_saved [49])"

lemma sample_backup_laws:
  "gcm_roundtrips hex_crypto" "payload_law sample_payload_codec"
  "length (bd_salt sample_backup_draws) = SALT_LEN" "length (bd_nonce sample_backup_draws) = NONCE_LEN"
  "payload_to_json sample_payload_codec (backup_of hex_crypto sample_backup_draws sample_saved [49]) = Some [123, 125]"
  by (auto simp: gcm_roundtrips_def hex_crypto_def plain_crypto_def payload_law_def sample_payload_codec_def one_payload_codec_def
      sample_backup_draws_def split: if_splits)

lemma sample_passphrase_ok:
  "length sample_passphrase = 16" "check_passphrase_complexity sample_passphrase"
  by code_simp+

lemma sample_backup_created:
  "\<exists>data. create_backup hex_crypto sample_payload_codec sample_backup_draws sample_saved sample_passphrase [49] (Some 600000) = Inr data"
proof -
  have "gcm_encrypt hex_crypto k n p = Some (k @ n @ p)" for k n p by (simp add: hex_crypto_def plain_crypto_def)
  then show ?thesis
    using sample_passphrase_ok sample_backup_laws(5)
    by (simp add: create_backup_def derive_key_from_pin_def backup_of_def Let_def)
qed

theorem backup_restored_once_witness:
  "\<exists>data ids. create_backup hex_crypto sample_payload_codec sample_backup_draws sample_saved sample_passphrase [49] (Some 600000) = Inr data \<and>
     restore_backup hex_crypto sample_payload_codec 2000 data sample_passphrase [49] None (Some 600000) (Some []) = (Inr sample_saved, Some ids) \<and>
     restore_backup hex_crypto sample_payload_codec 3000 data sample_passphrase [49] (Some 0) (Some 600000) (Some ids) = (Inl DataInvalid, Some ids) \<and>
     restore_backup hex_crypto sample_payload_codec 2000 data sample_passphrase [50] None (Some 600000) (Some []) = (Inl DataInvalid, Some [])"
proof -
  obtain data where data: "create_backup hex_crypto sample_payload_codec sample_backup_draws sample_saved sample_passphrase [49] (Some 600000) = Inr data"
    using sample_backup_created by blast
  show ?thesis
    using backup_restored_once [OF sample_backup_laws(1-4) data, of 2000 "[]"] data
    by (auto simp: sample_backup_draws_def)
qed

section \<open>The guard across restarts\<close>

text \<open>A guard file holds printable identifiers, each on a line of its own.\<close>

definition printable_id :: "bytes \<Rightarrow> bool" where
  "printable_id i \<longleftrightarrow> i \<noteq> [] \<and> (\<forall>b \<in> set i. 33 \<le> b \<and> b < 127)"

definition guard_text :: "bytes list \<Rightarrow> bytes" where
  "guard_text ids = concat (map (\<lambda>i. i @ [10]) ids)"

definition guard_holds :: "bytes list \<Rightarrow> guard_file \<Rightarrow> bool" where
  "guard_holds ids f \<longleftrightarrow> (\<forall>i \<in> set ids. printable_id i) \<and> (f = GuardContent (guard_text ids) \<or> ids = [] \<and> f = GuardAbsent)"

lemma printable_not_ws: "33 \<le> b \<Longrightarrow> b < 127 \<Longrightarrow> \<not> ascii_ws b \<and> b \<noteq> 0xC2 \<and> b \<noteq> 0xE1 \<and> b \<noteq> 0xE2 \<and> b \<noteq> 0xE3"
  for b :: byte
  by (auto simp: ascii_ws_def dest: order_trans)

lemma trim_start_printable: "printable_id l \<Longrightarrow> trim_start l = l"
  by (cases l rule: trim_start.cases) (auto simp: printable_id_def printable_not_ws wide_ws_def)

lemma trim_rev_printable: "printable_id l \<Longrightarrow> trim_rev l = l"
  by (cases l rule: trim_rev.cases) (auto simp: printable_id_def printable_not_ws wide_ws_def)

lemma str_trim_printable: "printable_id l \<Longrightarrow> str_trim l = l"
  using trim_rev_printable [of "rev l"] by (simp add: str_trim_def trim_start_printable printable_id_def)

lemma utf8_valid_ascii: "\<forall>b \<in> set l. b < 0x80 \<Longrightarrow> utf8_valid l"
  by (induction l) auto

lemma printable_line: "printable_id i \<Longrightarrow> 10 \<notin> set i \<and> strip_cr i = i"
  by (auto simp: printable_id_def strip_cr_def dest!: last_in_set)

lemma guard_text_lines:
  assumes "\<forall>i \<in> set ids. printable_id i"
  shows "split_lines [] (guard_text ids) = ids"
  using assms by (induction ids) (auto simp: guard_text_def split_lines_line printable_line)

lemma guard_loaded:
  assumes "guard_holds ids f"
  shows "set (rg_ids (replay_guard_new f)) = set ids \<and> rg_path (replay_guard_new f)"
proof -
  have p: "\<forall>i \<in> set ids. printable_id i" using assms by (simp add: guard_holds_def)
  have "load_ids (guard_text ids) = ids"
    using p by (simp add: load_ids_def guard_text_lines map_idI str_trim_printable) (auto simp: printable_id_def intro: filter_True)
  moreover have "b < 128" if b: "b \<in> set (guard_text ids)" for b
  proof (cases "b = 10")
    case False
    then obtain i where "i \<in> set ids" "b \<in> set i" using b by (auto simp: guard_text_def split: if_splits)
    then have "b < 127" using p by (simp add: printable_id_def)
    then show ?thesis by (rule less_trans) simp
  qed simp
  then have "utf8_valid (guard_text ids)" by (intro utf8_valid_ascii) blast
  ultimately show ?thesis using assms by (auto simp: guard_holds_def replay_guard_new_def)
qed

lemma guard_record_holds:
  assumes "guard_holds ids f" "printable_id i" "rg_path g" "guard_record io i g f = (Inr (), g', f')"
  shows "guard_holds (ids @ [i]) f' \<and> set (rg_ids g') = insert i (set (rg_ids g))"
  using assms
  by (auto simp: guard_record_def guard_holds_def guard_text_def guard_append_def Let_def split: if_splits option.splits)

end
