(* ===== verification/Admin_Backup.thy ===== *)
theory Admin_Backup
  imports Backup Abi_Scenario
begin

text \<open>
  The administrator's commands on backups (\<open>src/tools/craton-hsm-admin/src/commands/backup.rs\<close> and
  \<open>mod.rs\<close>): the prompts, the authentication of the security officer, creating a backup of the objects of a
  core, and restoring one with its staging of the objects and its use of the replay guard. The prompts, the clock and the
  outcome of every file operation are arguments; messages are constructors, and the pauses between attempts are
  left out.
\<close>

section \<open>The administrator's commands\<close>

datatype admin_error =
    PromptFailed
  | PassphraseEmpty
  | PassphraseShort
  | PassphrasesDiffer
  | SlotUnavailable
  | TokenUnready
  | AuthenticationFailed
  | BackupFailed hsm_error
  | BackupFileFailed
  | RestoreFailed hsm_error
  | GuardFailed hsm_error
  | DuplicateHandle u64
  | InsertFailed u64 nat hsm_error

type_synonym 'a admin_result = "admin_error + 'a"

text \<open>A prompt returns the line typed, or fails.\<close>

definition prompt_passphrase :: "bool \<Rightarrow> rust_text option \<Rightarrow> rust_text option \<Rightarrow> rust_text admin_result" where
  "prompt_passphrase confirm typed again =
    (case typed of
       None \<Rightarrow> Inl PromptFailed
     | Some passphrase \<Rightarrow>
         if passphrase = [] then Inl PassphraseEmpty
         else if confirm \<and> length (utf8_bytes passphrase) < 12 then Inl PassphraseShort
         else if \<not> confirm then Inr passphrase
         else
           (case again of
              None \<Rightarrow> Inl PromptFailed
            | Some second \<Rightarrow> if passphrase \<noteq> second then Inl PassphrasesDiffer else Inr passphrase))"

text \<open>The file of a new backup must not exist; \<open>out\<close> is its content before and after.\<close>

definition admin_create_backup ::
  "pin_crypto \<Rightarrow> payload_codec \<Rightarrow> backup_draws \<Rightarrow> bytes \<Rightarrow> u32 \<Rightarrow> rust_text option \<Rightarrow> rust_text option \<Rightarrow> bool \<Rightarrow> nat option \<Rightarrow>
   hsm_core \<Rightarrow> bytes option \<Rightarrow> unit admin_result \<times> bytes option" where
  "admin_create_backup C PJ d token_serial iterations typed again open_ok write_fails hsm out =
    (case prompt_passphrase True typed again of
       Inl e \<Rightarrow> (Inl e, out)
     | Inr passphrase \<Rightarrow>
        (case create_backup C PJ d (export_all_objects (co_objects hsm)) passphrase token_serial (Some iterations) of
           Inl e \<Rightarrow> (Inl (BackupFailed e), out)
         | Inr backup_data \<Rightarrow>
            if out \<noteq> None \<or> \<not> open_ok then (Inl BackupFileFailed, out)
            else
              (case write_fails of
                 Some k \<Rightarrow> (Inl BackupFileFailed, Some (take k backup_data))
               | None \<Rightarrow> (Inr (), Some backup_data))))"

text \<open>Authentication: at most three prompts for the security officer's PIN.\<close>

fun so_attempts ::
  "pin_crypto \<Rightarrow> (nat \<Rightarrow> tok_env) \<Rightarrow> (nat \<Rightarrow> bytes option) \<Rightarrow> nat \<Rightarrow> nat \<Rightarrow> token \<Rightarrow> unit admin_result \<times> token" where
  "so_attempts C env prompts attempt 0 t = (Inl AuthenticationFailed, t)"
| "so_attempts C env prompts attempt (Suc remaining) t =
    (case prompts attempt of
       None \<Rightarrow> (Inl PromptFailed, t)
     | Some pin \<Rightarrow>
        (case login C (env attempt) CKU_SO pin t of
           (Inr _, t') \<Rightarrow> (Inr (), t')
         | (Inl _, t') \<Rightarrow> so_attempts C env prompts (Suc attempt) remaining t'))"

definition authenticate_so ::
  "pin_crypto \<Rightarrow> (nat \<Rightarrow> tok_env) \<Rightarrow> (nat \<Rightarrow> bytes option) \<Rightarrow> u64 \<Rightarrow> hsm_core \<Rightarrow> unit admin_result \<times> hsm_core" where
  "authenticate_so C env prompts slot_id hsm =
    (case map_of (co_tokens hsm) slot_id of
       None \<Rightarrow> (Inl SlotUnavailable, hsm)
     | Some t \<Rightarrow>
        if \<not> au_initialized (tk_auth t) then (Inl TokenUnready, hsm)
        else
          (case so_attempts C env prompts 1 3 t of
             (r, t') \<Rightarrow> (r, hsm\<lparr>co_tokens := AList.update slot_id t' (co_tokens hsm)\<rparr>)))"

definition admin_logout :: "tok_env \<Rightarrow> u64 \<Rightarrow> hsm_core \<Rightarrow> hsm_core" where
  "admin_logout env slot_id hsm =
    (case map_of (co_tokens hsm) slot_id of
       None \<Rightarrow> hsm
     | Some t \<Rightarrow> hsm\<lparr>co_tokens := AList.update slot_id (snd (logout env t)) (co_tokens hsm)\<rparr>)"

record restore_outcome =
  ro_restored :: nat
  ro_skipped :: nat

fun stage_objects ::
  "object_store \<Rightarrow> stored_object list \<Rightarrow> stored_object list \<Rightarrow> nat \<Rightarrow> (stored_object list \<times> nat) admin_result" where
  "stage_objects os [] staged skipped = Inr (staged, skipped)"
| "stage_objects os (obj # objs) staged skipped =
    (if is_ok (get_object (ob_handle obj) os) then stage_objects os objs staged (skipped + 1)
     else if ob_handle obj \<in> ob_handle ` set staged then Inl (DuplicateHandle (ob_handle obj))
     else stage_objects os objs (staged @ [obj]) skipped)"

fun commit_objects ::
  "pin_crypto \<Rightarrow> object_codec \<Rightarrow> store_env \<Rightarrow> stored_object list \<Rightarrow> nat \<Rightarrow> object_store \<Rightarrow> nat admin_result \<times> object_store" where
  "commit_objects C J env [] restored os = (Inr restored, os)"
| "commit_objects C J env (obj # objs) restored os =
    (case insert_object C J env obj os of
       (Inr _, os') \<Rightarrow> commit_objects C J env objs (restored + 1) os'
     | (Inl e, os') \<Rightarrow> (Inl (InsertFailed (ob_handle obj) restored e), os'))"

definition stage_and_commit_objects ::
  "pin_crypto \<Rightarrow> object_codec \<Rightarrow> store_env \<Rightarrow> stored_object list \<Rightarrow> object_store \<Rightarrow> restore_outcome admin_result \<times> object_store" where
  "stage_and_commit_objects C J env objects os =
    (case stage_objects os objects [] 0 of
       Inl e \<Rightarrow> (Inl e, os)
     | Inr (staged, skipped) \<Rightarrow>
        (case commit_objects C J env staged 0 os of
           (r, os') \<Rightarrow> (case r of Inl e \<Rightarrow> Inl e | Inr restored \<Rightarrow> Inr \<lparr>ro_restored = restored, ro_skipped = skipped\<rparr>, os')))"

fun record_new ::
  "(bytes \<Rightarrow> guard_io) \<Rightarrow> bytes list \<Rightarrow> replay_guard \<Rightarrow> guard_file \<Rightarrow> unit hsm_result \<times> replay_guard \<times> guard_file" where
  "record_new io [] g f = (Inr (), g, f)"
| "record_new io (backup_id # ids) g f =
    (if is_consumed backup_id g then record_new io ids g f
     else
       (case guard_record (io backup_id) backup_id g f of
          (Inl e, g', f') \<Rightarrow> (Inl e, g', f')
        | (Inr _, g', f') \<Rightarrow> record_new io ids g' f'))"

text \<open>What a command finds around it: the third-party code, the clock and the outcomes of file operations.\<close>

record admin_env =
  ae_pin :: pin_crypto
  ae_payload :: payload_codec
  ae_codec :: object_codec
  ae_store :: store_env
  ae_guard_io :: "bytes \<Rightarrow> guard_io"
  ae_logout :: tok_env
  ae_now :: u64

definition restore_backup_authenticated ::
  "admin_env \<Rightarrow> bytes \<Rightarrow> rust_text \<Rightarrow> bytes \<Rightarrow> u32 \<Rightarrow> replay_guard \<Rightarrow> hsm_core \<times> guard_file \<Rightarrow>
   restore_outcome admin_result \<times> hsm_core \<times> guard_file" where
  "restore_backup_authenticated E backup_data passphrase token_serial iterations g st =
    (case st of (hsm, f) \<Rightarrow>
     case restore_backup (ae_pin E) (ae_payload E) (ae_now E) backup_data passphrase token_serial None (Some iterations) (Some (rg_ids g)) of
       (Inl e, _) \<Rightarrow> (Inl (RestoreFailed e), hsm, f)
     | (Inr objects, consumed_ids) \<Rightarrow>
        (case record_new (ae_guard_io E) (case consumed_ids of Some ids \<Rightarrow> ids | None \<Rightarrow> []) g f of
           (Inl e, _, f') \<Rightarrow> (Inl (GuardFailed e), hsm, f')
         | (Inr _, _, f') \<Rightarrow>
            (case stage_and_commit_objects (ae_pin E) (ae_codec E) (ae_store E) objects (co_objects hsm) of
               (r, os') \<Rightarrow> (r, hsm\<lparr>co_objects := os'\<rparr>, f'))))"

definition restore_backup_core ::
  "admin_env \<Rightarrow> bytes \<Rightarrow> u32 \<Rightarrow> bytes \<Rightarrow> rust_text \<Rightarrow> replay_guard option \<Rightarrow> (hsm_core \<Rightarrow> unit admin_result \<times> hsm_core) \<Rightarrow>
   hsm_core \<times> guard_file \<Rightarrow> restore_outcome admin_result \<times> hsm_core \<times> guard_file" where
  "restore_backup_core E token_serial iterations backup_data passphrase guard authenticate st =
    (case st of (hsm, f) \<Rightarrow>
     case authenticate hsm of
       (Inl e, hsm1) \<Rightarrow> (Inl e, hsm1, f)
     | (Inr _, hsm1) \<Rightarrow>
        (let g = (case guard of Some g \<Rightarrow> g | None \<Rightarrow> replay_guard_new f) in
         case restore_backup_authenticated E backup_data passphrase token_serial iterations g (hsm1, f) of
           (r, hsm2, f') \<Rightarrow> (r, admin_logout (ae_logout E) 0 hsm2, f')))"

text \<open>The command itself: the file is looked up and read, then the passphrase is asked for once.\<close>

definition admin_restore_backup ::
  "admin_env \<Rightarrow> (nat \<Rightarrow> tok_env) \<Rightarrow> (nat \<Rightarrow> bytes option) \<Rightarrow> bytes \<Rightarrow> u32 \<Rightarrow> bool \<Rightarrow> bytes option \<Rightarrow> rust_text option \<Rightarrow>
   hsm_core \<times> guard_file \<Rightarrow> restore_outcome admin_result \<times> hsm_core \<times> guard_file" where
  "admin_restore_backup E env prompts token_serial iterations file_exists content typed st =
    (if \<not> file_exists then (Inl BackupFileFailed, st)
     else
       (case content of
          None \<Rightarrow> (Inl BackupFileFailed, st)
        | Some backup_data \<Rightarrow>
           (case prompt_passphrase False typed None of
              Inl e \<Rightarrow> (Inl e, st)
            | Inr passphrase \<Rightarrow>
               restore_backup_core E token_serial iterations backup_data passphrase None (authenticate_so (ae_pin E) env prompts 0) st)))"

section \<open>Authentication comes first\<close>

lemma authenticate_so_objects [simp]: "co_objects (snd (authenticate_so C env prompts slot_id hsm)) = co_objects hsm"
  by (auto simp: authenticate_so_def split: option.splits prod.splits)

lemma admin_logout_objects [simp]: "co_objects (admin_logout env slot_id hsm) = co_objects hsm"
  by (auto simp: admin_logout_def split: option.splits)

lemma record_new_consumed: "\<forall>i \<in> set ids. is_consumed i g \<Longrightarrow> record_new io ids g f = (Inr (), g, f)"
  by (induction ids) auto

text \<open>A run of the command that succeeds, taken apart.\<close>

lemma restore_core_succeeds:
  assumes "restore_backup_core E serial iterations data passphrase guard auth (hsm, f) = (Inr r, hsm', f')"
  obtains hsm1 objects ids g' where "auth hsm = (Inr (), hsm1)"
    "restore_backup (ae_pin E) (ae_payload E) (ae_now E) data passphrase serial None (Some iterations)
       (Some (rg_ids (case guard of Some g \<Rightarrow> g | None \<Rightarrow> replay_guard_new f))) = (Inr objects, Some ids)"
    "record_new (ae_guard_io E) ids (case guard of Some g \<Rightarrow> g | None \<Rightarrow> replay_guard_new f) f = (Inr (), g', f')"
proof -
  obtain hsm1 where a: "auth hsm = (Inr (), hsm1)"
    using assms by (auto simp: restore_backup_core_def split: prod.splits sum.splits)
  define g where "g = (case guard of Some g \<Rightarrow> g | None \<Rightarrow> replay_guard_new f)"
  obtain objects ids where r: "restore_backup (ae_pin E) (ae_payload E) (ae_now E) data passphrase serial None (Some iterations) (Some (rg_ids g)) =
      (Inr objects, Some ids)"
    using assms a
    by (auto simp: restore_backup_core_def restore_backup_authenticated_def restore_backup_def Let_def g_def split: prod.splits sum.splits)
  moreover obtain g' where "record_new (ae_guard_io E) ids g f = (Inr (), g', f')"
    using assms a r
    by (auto simp: restore_backup_core_def restore_backup_authenticated_def Let_def g_def split: prod.splits sum.splits)
  ultimately show thesis using that a by (simp add: g_def)
qed

section \<open>A restored backup is spent\<close>

text \<open>Hexadecimal text consists of the sixteen digits, two for each byte.\<close>

definition hex_law :: "pin_crypto \<Rightarrow> bool" where
  "hex_law C \<longleftrightarrow> (\<forall>bs. length (hex_encode C bs) = 2 * length bs \<and> set (hex_encode C bs) \<subseteq> set ''0123456789abcdef'')"

lemma hex_printable: "hex_law C \<Longrightarrow> bs \<noteq> [] \<Longrightarrow> printable_id (ascii (hex_encode C bs))"
proof -
  assume h: "hex_law C" "bs \<noteq> []"
  have "33 \<le> (of_char c :: byte) \<and> (of_char c :: byte) < 127" if "c \<in> set ''0123456789abcdef''" for c
    using that by auto
  then have "\<forall>b \<in> set (ascii (hex_encode C bs)). 33 \<le> b \<and> b < 127" using h(1) by (fastforce simp: hex_law_def ascii_def)
  moreover have "hex_encode C bs \<noteq> []" using h by (metis hex_law_def length_0_conv mult_is_0 zero_neq_numeral)
  ultimately show ?thesis by (simp add: printable_id_def ascii_def)
qed

lemma restored_id_recorded:
  assumes "gcm_roundtrips (ae_pin E)" "payload_law (ae_payload E)" "hex_law (ae_pin E)"
    and "length (bd_salt d) = SALT_LEN" "length (bd_nonce d) = NONCE_LEN" "bd_uuid d \<noteq> []"
    and "create_backup (ae_pin E) (ae_payload E) d objects passphrase serial (Some iterations) = Inr data"
    and "guard_holds ids f"
    and "restore_backup_core E serial iterations data passphrase None auth (hsm, f) = (Inr r, hsm', f')"
  shows "guard_holds (ids @ [ascii (hex_encode (ae_pin E) (bd_uuid d))]) f'"
proof -
  let ?b = "ascii (hex_encode (ae_pin E) (bd_uuid d))" and ?g = "replay_guard_new f"
  obtain objs ids' g' where r: "restore_backup (ae_pin E) (ae_payload E) (ae_now E) data passphrase serial None (Some iterations) (Some (rg_ids ?g)) =
      (Inr objs, Some ids')" "record_new (ae_guard_io E) ids' ?g f = (Inr (), g', f')"
    using restore_core_succeeds [OF assms(9)] by (metis option.case(1))
  have "check_payload (ae_now E) serial None (Some (rg_ids ?g)) (backup_of (ae_pin E) d objects serial) \<noteq> Inl DataInvalid"
    and ids': "ids' = List.insert ?b (rg_ids ?g)"
    using r(1) by (auto simp: restore_of_created [OF assms(1,2,4,5,7)] split: sum.splits)
  then have new: "?b \<notin> set (rg_ids ?g)" by (auto simp: check_payload_def backup_of_def)
  then obtain g1 f1 where g1: "guard_record (ae_guard_io E ?b) ?b ?g f = (Inr (), g1, f1)"
      "record_new (ae_guard_io E) (rg_ids ?g) g1 f1 = (Inr (), g', f')"
    using r(2) ids' by (auto simp: is_consumed_def split: prod.splits sum.splits)
  have held: "guard_holds (ids @ [?b]) f1" "set (rg_ids g1) = insert ?b (set (rg_ids ?g))"
    using guard_record_holds [OF assms(8) hex_printable [OF assms(3,6)] _ g1(1)] guard_loaded [OF assms(8)] by auto
  then have "f' = f1" using g1(2) record_new_consumed [of "rg_ids ?g" g1 "ae_guard_io E" f1] by (auto simp: is_consumed_def)
  then show ?thesis using held(1) by simp
qed

text \<open>\<^bold>\<open>C12\<close> A backup that was restored is spent, also for a later run of the command: after a restore that succeeded,
  a new process that reads the guard file refuses the same backup, and leaves the objects and the guard file as they are,
  whoever authenticates, whatever the clock says and however its file operations end.\<close>

theorem restored_backup_is_spent:
  assumes "gcm_roundtrips (ae_pin E)" "payload_law (ae_payload E)" "hex_law (ae_pin E)"
    and "length (bd_salt d) = SALT_LEN" "length (bd_nonce d) = NONCE_LEN" "bd_uuid d \<noteq> []"
    and "create_backup (ae_pin E) (ae_payload E) d objects passphrase serial (Some iterations) = Inr data"
    and "guard_holds ids f"
    and "restore_backup_core E serial iterations data passphrase None (authenticate_so (ae_pin E) env prompts 0) (hsm, f) = (Inr r, hsm', f')"
    and "ae_pin E' = ae_pin E" "ae_payload E' = ae_payload E"
    and "restore_backup_core E' serial iterations data passphrase None (authenticate_so (ae_pin E) env' prompts' 0) (hsm2, f') = (r', hsm2', f'')"
  shows "\<not> is_ok r' \<and> co_objects hsm2' = co_objects hsm2 \<and> f'' = f'"
proof -
  let ?b = "ascii (hex_encode (ae_pin E) (bd_uuid d))"
  obtain a hsm3 where a: "authenticate_so (ae_pin E) env' prompts' 0 hsm2 = (a, hsm3)" "co_objects hsm3 = co_objects hsm2"
    using authenticate_so_objects [of "ae_pin E" env' prompts' 0 hsm2] by (metis surj_pair snd_conv)
  have "?b \<in> set (rg_ids (replay_guard_new f'))" using guard_loaded [OF restored_id_recorded [OF assms(1-9)]] by simp
  then have "check_payload (ae_now E') serial None (Some (rg_ids (replay_guard_new f'))) (backup_of (ae_pin E) d objects serial) = Inl DataInvalid"
    by (simp add: check_payload_def backup_of_def)
  then have "restore_backup_authenticated E' data passphrase serial iterations (replay_guard_new f') (hsm3, f') = (Inl (RestoreFailed DataInvalid), hsm3, f')"
    by (simp add: restore_backup_authenticated_def assms(10,11) restore_of_created [OF assms(1,2,4,5,7)])
  then show ?thesis using assms(12) a by (auto simp: restore_backup_core_def split: sum.splits)
qed

text \<open>A core with an initialised token and no objects.\<close>

definition admin_core :: hsm_core where
  "admin_core = demo_core\<lparr>co_tokens := [(0, ready_token)]\<rparr>"

definition sample_admin_env :: admin_env where
  "sample_admin_env =
    \<lparr>ae_pin = hex_crypto, ae_payload = sample_payload_codec, ae_codec = one_object_codec (stored_object_new 0 7 CKO_DATA),
     ae_store = sample_store_env, ae_guard_io = (\<lambda>_. \<lparr>gi_open_ok = True, gi_permissions_ok = True, gi_lock_ok = True, gi_write_fails = None\<rparr>),
     ae_logout = sample_env, ae_now = 2000\<rparr>"

abbreviation sample_authenticate :: "hsm_core \<Rightarrow> unit admin_result \<times> hsm_core" where
  "sample_authenticate \<equiv> authenticate_so hex_crypto (\<lambda>_. sample_env) (\<lambda>_. Some (ascii ''sopin-01'')) 0"

lemma so_login_accepted: "fst (login hex_crypto sample_env CKU_SO (ascii ''sopin-01'') ready_token) = Inr ()" "au_initialized (tk_auth ready_token)"
  by code_simp+

lemma sample_authenticated: "\<exists>hsm. sample_authenticate admin_core = (Inr (), hsm) \<and> co_objects hsm = object_store_new [5, 6, 7, 8]"
proof -
  obtain t where "login hex_crypto sample_env CKU_SO (ascii ''sopin-01'') ready_token = (Inr (), t)"
    using so_login_accepted(1) by (metis prod.collapse)
  then show ?thesis
    using so_login_accepted(2) by (simp add: authenticate_so_def admin_core_def demo_core_def numeral_3_eq_3)
qed

lemma sample_restored:
  assumes "create_backup hex_crypto sample_payload_codec sample_backup_draws sample_saved sample_passphrase [49] (Some 600000) = Inr data"
  shows "\<exists>r hsm f. restore_backup_core sample_admin_env [49] 600000 data sample_passphrase None sample_authenticate (admin_core, GuardAbsent) =
    (Inr r, hsm, f) \<and> ro_restored r = 1"
proof -
  obtain hsm where a: "sample_authenticate admin_core = (Inr (), hsm)" "co_objects hsm = object_store_new [5, 6, 7, 8]"
    using sample_authenticated by blast
  have "check_payload 2000 [49] None (Some []) (backup_of hex_crypto sample_backup_draws sample_saved [49]) = Inr ()"
    by (simp add: check_payload_def backup_of_def sample_backup_draws_def)
  then have r: "restore_backup hex_crypto sample_payload_codec 2000 data sample_passphrase [49] None (Some 600000) (Some []) =
      (Inr sample_saved, Some [ascii (hex_encode hex_crypto (bd_uuid sample_backup_draws))])"
    by (simp add: restore_of_created [OF sample_backup_laws(1-4) assms])
  show ?thesis
    using a r
    by (simp add: restore_backup_core_def restore_backup_authenticated_def sample_admin_env_def replay_guard_new_def is_consumed_def
        guard_record_def stage_and_commit_objects_def sample_saved_def insert_object_def get_object_def object_store_new_def
        persist_object_def stored_object_new_def Let_def)
qed

theorem restored_backup_is_spent_witness:
  "\<exists>data r hsm f r2 hsm2.
     create_backup hex_crypto sample_payload_codec sample_backup_draws sample_saved sample_passphrase [49] (Some 600000) = Inr data \<and>
     restore_backup_core sample_admin_env [49] 600000 data sample_passphrase None sample_authenticate (admin_core, GuardAbsent) = (Inr r, hsm, f) \<and>
     restore_backup_core sample_admin_env [49] 600000 data sample_passphrase None sample_authenticate (admin_core, f) = (r2, hsm2, f) \<and> \<not> is_ok r2"
proof -
  obtain data where data: "create_backup hex_crypto sample_payload_codec sample_backup_draws sample_saved sample_passphrase [49] (Some 600000) = Inr data"
    using sample_backup_created by blast
  obtain r hsm f where first: "restore_backup_core sample_admin_env [49] 600000 data sample_passphrase None sample_authenticate (admin_core, GuardAbsent) = (Inr r, hsm, f)"
    using sample_restored [OF data] by blast
  obtain r2 hsm2 f2 where again: "restore_backup_core sample_admin_env [49] 600000 data sample_passphrase None sample_authenticate (admin_core, f) = (r2, hsm2, f2)"
    by (metis surj_pair)
  have e: "ae_pin sample_admin_env = hex_crypto" "ae_payload sample_admin_env = sample_payload_codec" by (simp_all add: sample_admin_env_def)
  have "hex_digit n \<in> set ''0123456789abcdef''" for n unfolding hex_digit_def by (rule nth_mem) simp
  then have "hex_law hex_crypto"
    by (auto simp: hex_law_def hex_crypto_def length_concat comp_def sum_list_triv)
  moreover have "guard_holds [] GuardAbsent" "bd_uuid sample_backup_draws \<noteq> []" by (simp_all add: guard_holds_def sample_backup_draws_def)
  ultimately have "\<not> is_ok r2 \<and> f2 = f"
    using restored_backup_is_spent [of sample_admin_env sample_backup_draws sample_saved sample_passphrase "[49]" 600000 data "[]" GuardAbsent
        "\<lambda>_. sample_env" "\<lambda>_. Some (ascii ''sopin-01'')" admin_core r hsm f sample_admin_env "\<lambda>_. sample_env"
        "\<lambda>_. Some (ascii ''sopin-01'')" admin_core r2 hsm2 f2] sample_backup_laws data first again
    unfolding e by blast
  then show ?thesis using data first again by blast
qed

section \<open>The commands and the encrypted store\<close>

lemma commit_objects_unpersisted:
  "os_persist_key os = None \<Longrightarrow> commit_objects C J env objs n os = (r, os') \<Longrightarrow> os_persist_store os' = os_persist_store os"
proof (induction objs arbitrary: n os)
  case (Cons obj objs)
  have "persist_object C J env obj os = os" using Cons.prems(1) by (simp add: persist_object_def split: option.splits)
  moreover have "os_persist_store (map_insert h obj os) = os_persist_store os" "os_persist_key (map_insert h obj os) = None" for h
    using Cons.prems(1) by (simp_all add: map_insert_def)
  ultimately show ?case
    using Cons.prems(2) Cons.IH [of "map_insert (ob_handle obj) obj os" "n + 1"] by (auto simp: insert_object_def split: if_splits)
qed simp

lemma restore_core_unpersisted:
  assumes "os_persist_key (co_objects hsm) = None"
    and "restore_backup_core E serial iterations data passphrase guard (authenticate_so C env prompts 0) (hsm, f) = (r, hsm', f')"
  shows "os_persist_store (co_objects hsm') = os_persist_store (co_objects hsm)"
proof -
  obtain a hsm1 where a: "authenticate_so C env prompts 0 hsm = (a, hsm1)" "co_objects hsm1 = co_objects hsm"
    using authenticate_so_objects [of C env prompts 0 hsm] by (metis surj_pair snd_conv)
  then show ?thesis
    using assms
    by (auto simp: restore_backup_core_def restore_backup_authenticated_def stage_and_commit_objects_def Let_def
        dest: commit_objects_unpersisted split: sum.splits prod.splits)
qed

lemma fresh_object_store:
  assumes "build_object_store env config = Inr os"
  shows "os_objects os = []" "os_persist_key os = None"
proof -
  have "os = object_store_new (be_object_keys env) \<or> (\<exists>store. os = with_persistence (be_object_keys env) store)"
    using assms by (cases "be_store env") (auto simp: build_object_store_def split: if_splits)
  then show "os_objects os = []" "os_persist_key os = None"
    by (auto simp: with_persistence_def object_store_new_def)
qed

text \<open>\<^bold>\<open>C34\<close> The commands do not reach the encrypted store: the core a command starts with has loaded no object from it
  and holds no key for it, so that the backup the command writes is a backup of no objects, whatever the store
  contains, and what a restore inserts is not written to the store.\<close>

theorem admin_backup_misses_store:
  assumes "try_new X config = Inr hsm"
  shows "(admin_create_backup C PJ d serial iterations typed again open_ok write_fails hsm out = (Inr (), Some data) \<longrightarrow>
      (\<exists>passphrase. typed = Some passphrase \<and> create_backup C PJ d [] passphrase serial (Some iterations) = Inr data)) \<and>
    os_persist_store (co_objects (fst (snd (restore_backup_core E serial iterations data passphrase guard
      (authenticate_so C env prompts 0) (hsm, f))))) = os_persist_store (co_objects hsm)"
proof -
  have "build_object_store (x_boot X) config = Inr (co_objects hsm)"
    using assms by (auto simp: try_new_def Let_def res_bind_eq_Inr split: if_splits)
  then have new: "os_objects (co_objects hsm) = []" "os_persist_key (co_objects hsm) = None"
    by (rule fresh_object_store)+
  moreover have "typed = Some passphrase" if "prompt_passphrase True typed again = Inr passphrase" for passphrase
    using that by (auto simp: prompt_passphrase_def split: option.splits if_splits)
  ultimately have "admin_create_backup C PJ d serial iterations typed again open_ok write_fails hsm out = (Inr (), Some data) \<longrightarrow>
      (\<exists>passphrase. typed = Some passphrase \<and> create_backup C PJ d [] passphrase serial (Some iterations) = Inr data)"
    by (auto simp: admin_create_backup_def export_all_objects_def map_filter_simps split: sum.splits option.splits if_splits)
  moreover obtain r hsm' f' where "restore_backup_core E serial iterations data passphrase guard (authenticate_so C env prompts 0) (hsm, f) = (r, hsm', f')"
    by (metis surj_pair)
  ultimately show ?thesis using restore_core_unpersisted [OF new(2)] by simp
qed

text \<open>A configuration with an encrypted store that holds an entry.\<close>

definition stored_boot :: boot_env where
  "stored_boot = demo_boot\<lparr>be_store := Inr \<lparr>es_db = Some [(''obj_01'', [1, 2, 3])]\<rparr>\<rparr>"

theorem admin_backup_misses_store_witness:
  "\<exists>hsm data. try_new (demo_ctx\<lparr>x_boot := stored_boot\<rparr>) (default_config\<lparr>cfg_audit := (cfg_audit default_config)\<lparr>cfg_audit_enabled := False\<rparr>,
       cfg_token := (cfg_token default_config)\<lparr>cfg_persist_objects := True\<rparr>\<rparr>) = Inr hsm \<and>
     os_persist_store (co_objects hsm) = Some \<lparr>es_db = Some [(''obj_01'', [1, 2, 3])]\<rparr> \<and>
     admin_create_backup hex_crypto (one_payload_codec (backup_of hex_crypto sample_backup_draws [] [49])) sample_backup_draws [49] 600000
       (Some sample_passphrase) (Some sample_passphrase) True None hsm None = (Inr (), Some data) \<and>
     create_backup hex_crypto (one_payload_codec (backup_of hex_crypto sample_backup_draws [] [49])) sample_backup_draws [] sample_passphrase [49] (Some 600000) = Inr data"
proof -
  let ?config = "default_config\<lparr>cfg_audit := (cfg_audit default_config)\<lparr>cfg_audit_enabled := False\<rparr>,
       cfg_token := (cfg_token default_config)\<lparr>cfg_persist_objects := True\<rparr>\<rparr>"
    and ?PJ = "one_payload_codec (backup_of hex_crypto sample_backup_draws [] [49])"
  obtain hsm where hsm: "try_new (demo_ctx\<lparr>x_boot := stored_boot\<rparr>) ?config = Inr hsm"
      "os_persist_store (co_objects hsm) = Some \<lparr>es_db = Some [(''obj_01'', [1, 2, 3])]\<rparr>" "os_objects (co_objects hsm) = []"
    by (simp add: try_new_def demo_ctx_def stored_boot_def demo_boot_def build_object_store_def default_config_def default_audit_config_def
        default_token_config_def with_persistence_def object_store_new_def)
  have "gcm_encrypt hex_crypto k n p = Some (k @ n @ p)" for k n p by (simp add: hex_crypto_def plain_crypto_def)
  moreover have "payload_to_json ?PJ (backup_of hex_crypto sample_backup_draws [] [49]) = Some [123, 125]" by (simp add: one_payload_codec_def)
  ultimately obtain data where created: "create_backup hex_crypto ?PJ sample_backup_draws [] sample_passphrase [49] (Some 600000) = Inr data"
    using sample_passphrase_ok by (simp add: create_backup_def derive_key_from_pin_def backup_of_def Let_def)
  have "prompt_passphrase True (Some sample_passphrase) (Some sample_passphrase) = Inr sample_passphrase" by code_simp
  then have "admin_create_backup hex_crypto ?PJ sample_backup_draws [49] 600000 (Some sample_passphrase) (Some sample_passphrase) True None hsm None =
      (Inr (), Some data)"
    using created hsm(3) by (simp add: admin_create_backup_def export_all_objects_def map_filter_simps)
  then show ?thesis
    using admin_backup_misses_store [OF hsm(1), of hex_crypto ?PJ sample_backup_draws "[49]" 600000 "Some sample_passphrase" "Some sample_passphrase"
        True None None data] hsm by auto
qed

end
