(* ===== verification/Spec2Isabelle.thy ===== *)
theory Spec2Isabelle
  imports Token_Persistence Object_Store_Properties Object_Persistence Audit_Log_Properties Rate_Limit Abi_Search Admin_Backup
begin

text \<open>
  A verification development for craton-hsm-core, a hardware security module in software with a PKCS#11 interface.
  Paths are relative to \<open>src/\<close>.

  \<^bold>\<open>The program.\<close> An application loads the library and calls its entry points
  (\<open>src/pkcs11_abi/functions.rs\<close>). An entry point runs on one core (\<open>src/core.rs\<close>): a token for each slot
  (\<open>src/token\<close>) with PINs, lockout and the wrapped key of the object store; a table of sessions
  (\<open>src/session\<close>) with their active operations; a store of objects (\<open>src/store\<close>) with an encrypted database behind
  it; a hash-chained audit log (\<open>src/audit/log.rs\<close>); and a cryptographic backend (\<open>src/crypto\<close>) over
  third-party packages. An administrator's tool (\<open>tools/craton-hsm-admin\<close>) works on a core of its own.

  \<^bold>\<open>Conventions.\<close> A structure is a record, an enumeration a datatype, a machine integer a word of its width. A fallible
  function returns \<open>hsm_error + 'a\<close>; a function with a mutable receiver takes and returns it. A hash map is
  an association list; shared objects live in a heap of the object store and are reached through addresses. A panic or the
  end of the process is a value of its own. Third-party code (ciphers, hashes, curves, JSON and hexadecimal text,
  the database) is a record of functions, and what the code relies on is a named predicate on such a record. Random bytes,
  clock readings, answers to prompts and outcomes of file operations are arguments. Entry points run one after the
  other in any order; interleavings of threads are modelled where the source deals with them, in the session cache.

  \<^bold>\<open>Theories and parts.\<close>
  \<^item> \<open>Hsm_Prelude\<close>: results, association lists, little-endian bytes. \<open>Pkcs11_Constants\<close>, \<open>Hsm_Error\<close>,
    \<open>Hsm_Config\<close>: the constants, the errors with their return codes, the configuration with its defaults.
  \<^item> \<open>Handles\<close> (\<open>session/handle.rs\<close>): the Feistel scrambler as a permutation, distinct session handles, an object
    handle is found whenever one is free.
  \<^item> \<open>Pin_Crypto\<close>, \<open>Token\<close> (\<open>token/token.rs\<close>, the two state files): all operations of a token.
    \<open>Token_Properties\<close>: reachable tokens are well formed, a locked PIN and the bound on guesses.
    \<open>Token_Persistence\<close>: what a PIN change and a restart keep, and two defects.
  \<^item> \<open>Session\<close>, \<open>Op_State\<close>, \<open>Session_Manager\<close> (\<open>session/\<close>): session states, the saved operation state
    (round trip, binding to its session), the session table, its cache and its counters.
  \<^item> \<open>Calendar\<close>, \<open>Objects\<close>, \<open>Encrypted_Store\<close>, \<open>Object_Store\<close> (\<open>store/\<close>): dates, attributes and life
    cycle, the database, the store. \<open>Object_Store_Properties\<close>: the store refines a map from handles to objects.
    \<open>Object_Persistence\<close>: token objects survive restarts.
  \<^item> \<open>Audit_Log\<close>, \<open>Audit_Log_Properties\<close> (\<open>audit/log.rs\<close>): recording, chain, rotation and recovery; the bound and
    order in memory, evidence of tampering, and two defects of recovery.
  \<^item> \<open>Mechanisms\<close>, \<open>Symmetric_Ciphers\<close>, \<open>Signing\<close>, \<open>Key_Ops\<close>, \<open>Pqc\<close>, \<open>Entropy_Health\<close>,
    \<open>Hmac_Drbg\<close>, \<open>Crypto_Backend\<close>, \<open>Rustcrypto_Backend\<close>, \<open>Conditional_Test\<close>, \<open>Rate_Limit\<close>
    (\<open>crypto/\<close>): policy tables, nonces that never repeat, the key caches that change no result, key agreement,
    hybrid schemes, the entropy monitor and the generator, the interface of the backends with its default instance, the
    self-tests and the limiter.
  \<^item> \<open>Hsm_Core\<close>, \<open>Abi_Session\<close>, \<open>Abi_Objects\<close>, \<open>Abi_Cipher\<close>, \<open>Abi_Sign\<close>, \<open>Abi_Keys\<close>
    (\<open>core.rs\<close>, \<open>pkcs11_abi/functions.rs\<close>): the core and every entry point, as actions that may exit with a code
    or panic. \<open>Abi_Relations\<close> and \<open>Abi_System\<close> lift relations on states from elementary steps to entry points and
    to sequences of calls; \<open>Abi_Consistency\<close> and \<open>Abi_Protection\<close> are the two uses, \<open>Abi_Scenario\<close>
    states them as properties of the library and runs it, \<open>Abi_Search\<close> follows a search from start to end.
  \<^item> \<open>Backup\<close> (\<open>store/backup.rs\<close>) and \<open>Admin_Backup\<close> (\<open>tools/craton-hsm-admin/src/commands\<close>): the backup format,
    the guard against a second restore across runs of the command, and why a backup of a persistent token is empty.

  \<^bold>\<open>Interfaces.\<close> \<open>handle_permutation\<close> (a scrambler that can be undone), \<open>session_counter\<close> (the counts a token
  keeps), \<open>object_table\<close> (lookup after insertion and removal) and \<open>act_relation\<close>, \<open>abi_frame\<close>,
  \<open>abi_full\<close> (a relation kept by the steps of entry points) are locales, each interpreted on the definitions of the
  model in the theory that provides them.

  \<^bold>\<open>Loops.\<close> No definition uses fuel. \<open>session_next\<close> and \<open>generate_loop\<close> come with termination proofs;
  \<open>object_next\<close>, which loops forever when no handle is free, is a partial function whose result is shown to exist when one
  is. Properties over sequences of calls count them where a 64-bit counter would wrap.

  \<^bold>\<open>Not modelled.\<close> The memory behind pointers and the erasing and locking of key memory
  (\<open>store/key_material.rs\<close>, \<open>crypto/mlock.rs\<close>), since model values have no address; the power-on self-test and the integrity
  check (\<open>crypto/self_test.rs\<close>, \<open>crypto/integrity.rs\<close>), whose outcome is an argument; parsing and validation of the
  configuration file, metrics, platform access control, the aws-lc backend (calls of one library per method), the
  daemon (generated message types and asynchronous tasks), the logging proxy, and the administrator's other commands
  (prompts and output, and parsers of other packages).
\<close>

end
